(* ===== verification/Orbit_Prelude.thy ===== *)
theory Orbit_Prelude
  imports Complex_Main
begin

text \<open>
  Shared vocabulary of the development: the exception-and-state actions in which the
  services of \<^verbatim>\<open>apps/server\<close> are written (a TypeScript \<^verbatim>\<open>async\<close> method that may
  throw and that mutates a store), the two program logics used on them (\<open>keeps\<close> for
  invariants that hold whatever the outcome, \<open>yields\<close> for what a normal return
  guarantees), JavaScript's insertion-ordered \<^verbatim>\<open>Map\<close>, dates, UUID text and a few
  lemmas on lists that several components use.
\<close>

named_theorems act_simps \<open>unfolding rules of the action combinators\<close>
named_theorems keeps_intros \<open>introduction rules for the invariant logic\<close>
named_theorems jm_simps \<open>laws of the insertion-ordered map\<close>

section \<open>Actions: state and exceptions\<close>

text \<open>
  An action runs on a state and either throws (\<open>Inl\<close>) or returns (\<open>Inr\<close>); the state it
  leaves is visible in both cases, since a JavaScript exception does not undo assignments
  made before it. Undoing is what a database transaction does, and is written out where
  the code opens one.
\<close>

type_synonym ('s, 'e, 'a) act = "'s \<Rightarrow> ('e + 'a) \<times> 's"

definition ret :: "'a \<Rightarrow> ('s, 'e, 'a) act" where
  "ret a = (\<lambda>s. (Inr a, s))"

definition raise :: "'e \<Rightarrow> ('s, 'e, 'a) act" where
  "raise e = (\<lambda>s. (Inl e, s))"

definition act_bind :: "('s, 'e, 'a) act \<Rightarrow> ('a \<Rightarrow> ('s, 'e, 'b) act) \<Rightarrow> ('s, 'e, 'b) act" where
  "act_bind m f = (\<lambda>s. case m s of (Inl e, s') \<Rightarrow> (Inl e, s') | (Inr a, s') \<Rightarrow> f a s')"

definition act_then :: "('s, 'e, 'a) act \<Rightarrow> ('s, 'e, 'b) act \<Rightarrow> ('s, 'e, 'b) act" where
  "act_then m n = act_bind m (\<lambda>_. n)"

definition require :: "bool \<Rightarrow> 'e \<Rightarrow> ('s, 'e, unit) act" where
  "require b e = (if b then ret () else raise e)"

definition gets :: "('s \<Rightarrow> 'a) \<Rightarrow> ('s, 'e, 'a) act" where
  "gets f = (\<lambda>s. (Inr (f s), s))"

definition modify :: "('s \<Rightarrow> 's) \<Rightarrow> ('s, 'e, unit) act" where
  "modify f = (\<lambda>s. (Inr (), f s))"

definition lift_result :: "'e + 'a \<Rightarrow> ('s, 'e, 'a) act" where
  "lift_result r = (\<lambda>s. (r, s))"

lemma ret_app [act_simps, simp]: "ret a s = (Inr a, s)"
  by (simp add: ret_def)

lemma raise_app [act_simps, simp]: "raise e s = (Inl e, s)"
  by (simp add: raise_def)

lemma gets_app [act_simps, simp]: "gets f s = (Inr (f s), s)"
  by (simp add: gets_def)

lemma modify_app [act_simps, simp]: "modify f s = (Inr (), f s)"
  by (simp add: modify_def)

lemma lift_result_app [act_simps, simp]: "lift_result r s = (r, s)"
  by (simp add: lift_result_def)

lemma require_app [act_simps]: "require b e s = (if b then (Inr (), s) else (Inl e, s))"
  by (simp add: require_def)

lemma act_bind_app [act_simps]:
  "act_bind m f s = (case m s of (Inl e, s') \<Rightarrow> (Inl e, s') | (Inr a, s') \<Rightarrow> f a s')"
  by (simp add: act_bind_def)

lemma act_then_app [act_simps]:
  "act_then m n s = (case m s of (Inl e, s') \<Rightarrow> (Inl e, s') | (Inr _, s') \<Rightarrow> n s')"
  by (simp add: act_then_def act_bind_def)

lemma act_bind_Inr_iff:
  "act_bind m f s = (Inr b, t) \<longleftrightarrow> (\<exists>a u. m s = (Inr a, u) \<and> f a u = (Inr b, t))"
  by (cases "m s") (auto simp: act_bind_def split: sum.splits)

lemma act_then_Inr_iff:
  "act_then m n s = (Inr b, t) \<longleftrightarrow> (\<exists>a u. m s = (Inr a, u) \<and> n u = (Inr b, t))"
  by (simp add: act_then_def act_bind_Inr_iff)

lemma require_Inr_iff: "require b e s = (Inr u, t) \<longleftrightarrow> b \<and> t = s"
  by (auto simp: require_def)

lemma ret_Inr_iff: "ret a s = (Inr b, t) \<longleftrightarrow> b = a \<and> t = s"
  by auto

lemma gets_Inr_iff: "gets f s = (Inr b, t) \<longleftrightarrow> b = f s \<and> t = s"
  by auto

lemma modify_Inr_iff: "modify f s = (Inr b, t) \<longleftrightarrow> t = f s"
  by auto

lemma raise_Inr_iff: "raise e s = (Inr b, t) \<longleftrightarrow> False"
  by simp

lemma lift_result_Inr_iff: "lift_result r s = (Inr b, t) \<longleftrightarrow> r = Inr b \<and> t = s"
  by auto

lemmas act_iffs = act_bind_Inr_iff act_then_Inr_iff require_Inr_iff ret_Inr_iff gets_Inr_iff
  modify_Inr_iff raise_Inr_iff lift_result_Inr_iff

subsection \<open>Invariants: what every outcome keeps\<close>

definition keeps :: "('s \<Rightarrow> bool) \<Rightarrow> ('s, 'e, 'a) act \<Rightarrow> bool" where
  "keeps I m \<longleftrightarrow> (\<forall>s. I s \<longrightarrow> I (snd (m s)))"

lemma keepsI: "(\<And>s. I s \<Longrightarrow> I (snd (m s))) \<Longrightarrow> keeps I m"
  by (simp add: keeps_def)

lemma keepsD: "keeps I m \<Longrightarrow> m s = (r, t) \<Longrightarrow> I s \<Longrightarrow> I t"
  unfolding keeps_def by (metis snd_conv)

lemma keeps_ret [keeps_intros]: "keeps I (ret a)"
  by (simp add: keeps_def)

lemma keeps_raise [keeps_intros]: "keeps I (raise e)"
  by (simp add: keeps_def)

lemma keeps_gets [keeps_intros]: "keeps I (gets f)"
  by (simp add: keeps_def)

lemma keeps_lift_result [keeps_intros]: "keeps I (lift_result r)"
  by (simp add: keeps_def)

lemma keeps_require [keeps_intros]: "keeps I (require b e)"
  by (simp add: keeps_def require_def)

lemma keeps_bind [keeps_intros]:
  "keeps I m \<Longrightarrow> (\<And>a. keeps I (f a)) \<Longrightarrow> keeps I (act_bind m f)"
  unfolding keeps_def act_bind_def by (fastforce split: prod.split sum.split)

lemma keeps_then [keeps_intros]: "keeps I m \<Longrightarrow> keeps I n \<Longrightarrow> keeps I (act_then m n)"
  by (simp add: act_then_def keeps_bind)

lemma keeps_if [keeps_intros]: "keeps I m \<Longrightarrow> keeps I n \<Longrightarrow> keeps I (if b then m else n)"
  by simp

lemma keeps_case_option [keeps_intros]:
  "keeps I m \<Longrightarrow> (\<And>x. keeps I (f x)) \<Longrightarrow> keeps I (case v of None \<Rightarrow> m | Some x \<Rightarrow> f x)"
  by (cases v) simp_all

subsection \<open>Normal returns\<close>

definition yields :: "('s \<Rightarrow> bool) \<Rightarrow> ('s, 'e, 'a) act \<Rightarrow> ('a \<Rightarrow> 's \<Rightarrow> bool) \<Rightarrow> bool" where
  "yields P m Q \<longleftrightarrow> (\<forall>s a t. P s \<longrightarrow> m s = (Inr a, t) \<longrightarrow> Q a t)"

lemma yieldsI: "(\<And>s a t. P s \<Longrightarrow> m s = (Inr a, t) \<Longrightarrow> Q a t) \<Longrightarrow> yields P m Q"
  by (simp add: yields_def)

lemma yieldsD: "yields P m Q \<Longrightarrow> P s \<Longrightarrow> m s = (Inr a, t) \<Longrightarrow> Q a t"
  by (auto simp: yields_def)

lemma yields_bind:
  "yields P m R \<Longrightarrow> (\<And>a. yields (R a) (f a) Q) \<Longrightarrow> yields P (act_bind m f) Q"
  unfolding yields_def act_bind_Inr_iff by blast

section \<open>JavaScript's Map\<close>

text \<open>
  \<^verbatim>\<open>Map.prototype.set\<close> keeps the position of a key that is present and appends a new
  one; iteration is in that order. An association list without repeated keys represents
  it, with \<^const>\<open>map_of\<close> as \<^verbatim>\<open>get\<close>.
\<close>

type_synonym ('k, 'v) jsmap = "('k \<times> 'v) list"

definition jm_get :: "('k, 'v) jsmap \<Rightarrow> 'k \<Rightarrow> 'v option" where
  "jm_get m k = map_of m k"

fun jm_set :: "'k \<Rightarrow> 'v \<Rightarrow> ('k, 'v) jsmap \<Rightarrow> ('k, 'v) jsmap" where
  "jm_set k v [] = [(k, v)]"
| "jm_set k v ((k', v') # m) = (if k' = k then (k, v) # m else (k', v') # jm_set k v m)"

definition jm_delete :: "'k \<Rightarrow> ('k, 'v) jsmap \<Rightarrow> ('k, 'v) jsmap" where
  "jm_delete k m = filter (\<lambda>(k', _). k' \<noteq> k) m"

definition jm_has :: "('k, 'v) jsmap \<Rightarrow> 'k \<Rightarrow> bool" where
  "jm_has m k = (jm_get m k \<noteq> None)"

definition jm_keys :: "('k, 'v) jsmap \<Rightarrow> 'k list" where
  "jm_keys m = map fst m"

definition jm_values :: "('k, 'v) jsmap \<Rightarrow> 'v list" where
  "jm_values m = map snd m"

definition jm_ok :: "('k, 'v) jsmap \<Rightarrow> bool" where
  "jm_ok m \<longleftrightarrow> distinct (map fst m)"

text \<open>The contract of a keyed store, as its clients use it.\<close>

locale keyed_store =
  fixes empty :: 'm
    and get :: "'m \<Rightarrow> 'k \<Rightarrow> 'v option"
    and put :: "'k \<Rightarrow> 'v \<Rightarrow> 'm \<Rightarrow> 'm"
    and del :: "'k \<Rightarrow> 'm \<Rightarrow> 'm"
    and ok :: "'m \<Rightarrow> bool"
  assumes get_empty: "get empty k = None"
    and get_put: "get (put k v m) k' = (if k' = k then Some v else get m k')"
    and get_del: "ok m \<Longrightarrow> get (del k m) k' = (if k' = k then None else get m k')"
    and ok_empty: "ok empty"
    and ok_put: "ok m \<Longrightarrow> ok (put k v m)"
    and ok_del: "ok m \<Longrightarrow> ok (del k m)"
begin

lemma get_put_same: "get (put k v m) k = Some v"
  by (simp add: get_put)

lemma get_put_other: "k' \<noteq> k \<Longrightarrow> get (put k v m) k' = get m k'"
  by (simp add: get_put)

lemma put_frame_pred: "(\<forall>x. get m j = Some x \<longrightarrow> P x) \<Longrightarrow> P v \<Longrightarrow> get (put k v m) j = Some x \<Longrightarrow> P x"
  by (auto simp: get_put split: if_splits)

lemma get_fold_put:
  "get (fold (\<lambda>(k, v). put k v) kvs m) k =
     (case map_of (rev kvs) k of None \<Rightarrow> get m k | Some v \<Rightarrow> Some v)"
proof (induction kvs arbitrary: m)
  case Nil
  then show ?case by simp
next
  case (Cons kv kvs)
  obtain a b where kv: "kv = (a, b)" by (cases kv)
  show ?case
    by (simp add: kv Cons.IH get_put map_add_def split: option.splits)
qed

lemma ok_fold_put: "ok m \<Longrightarrow> ok (fold (\<lambda>(k, v). put k v) kvs m)"
  by (induction kvs arbitrary: m) (auto simp: ok_put)

end

lemma jm_get_Nil [jm_simps, simp]: "jm_get [] k = None"
  by (simp add: jm_get_def)

lemma jm_get_set [jm_simps, simp]:
  "jm_get (jm_set k v m) k' = (if k' = k then Some v else jm_get m k')"
  by (induction m) (auto simp: jm_get_def)

lemma map_of_filter_key:
  "map_of (filter (\<lambda>(k', _). k' \<noteq> k) m) k'' = (if k'' = k then None else map_of m k'')"
  by (induction m) auto

lemma jm_get_delete [jm_simps, simp]:
  "jm_get (jm_delete k m) k' = (if k' = k then None else jm_get m k')"
  by (simp add: jm_get_def jm_delete_def map_of_filter_key)

lemma jm_keys_set: "map fst (jm_set k v m) = (if k \<in> fst ` set m then map fst m else map fst m @ [k])"
  by (induction m) (auto simp: image_iff split: if_splits)

lemma jm_ok_Nil [simp]: "jm_ok []"
  by (simp add: jm_ok_def)

lemma jm_ok_set [simp]: "jm_ok m \<Longrightarrow> jm_ok (jm_set k v m)"
  by (auto simp: jm_ok_def jm_keys_set)

lemma jm_ok_delete [simp]: "jm_ok m \<Longrightarrow> jm_ok (jm_delete k m)"
  by (simp add: jm_ok_def jm_delete_def distinct_map_filter)

lemma jm_set_length: "length (jm_set k v m) = (if jm_has m k then length m else Suc (length m))"
  by (induction m) (auto simp: jm_has_def jm_get_def)

lemma jm_delete_length_le: "length (jm_delete k m) \<le> length m"
  by (simp add: jm_delete_def)

lemma jm_get_SomeD: "jm_get m k = Some v \<Longrightarrow> v \<in> set (jm_values m)"
  by (force simp: jm_get_def jm_values_def dest: map_of_SomeD)

lemma jm_values_get: "jm_ok m \<Longrightarrow> v \<in> set (jm_values m) \<Longrightarrow> \<exists>k. jm_get m k = Some v"
  by (fastforce simp: jm_ok_def jm_values_def jm_get_def)

lemma jm_set_values: "set (jm_values (jm_set k v m)) \<subseteq> insert v (set (jm_values m))"
  unfolding jm_values_def by (induction m) (fastforce split: if_splits)+

interpretation jsm: keyed_store "[]" jm_get jm_set jm_delete jm_ok
  by unfold_locales simp_all

end
