(* ===== verification/Js_Data.thy ===== *)
theory Js_Data
  imports Orbit_Prelude
begin

text \<open>
  JavaScript data as the server meets it: dates, UUID text, plain JSON and the value a
  caller passes where the code says \<^verbatim>\<open>unknown\<close>; and \<^verbatim>\<open>clonePlainJsonData\<close> of
  \<^verbatim>\<open>apps/server/src/modules/rooms/room-event-repository.ts\<close>, which copies such a value
  into plain JSON under a depth and a size budget or refuses it.
\<close>

section \<open>Dates, identifiers\<close>

text \<open>
  A \<^verbatim>\<open>Date\<close> holds a time value in milliseconds or is an Invalid Date. The text of
  \<^verbatim>\<open>toISOString\<close> is represented by the time value it denotes, since the two determine
  each other for a valid date.
\<close>

datatype date = InvalidDate | At int

fun validDate :: "date \<Rightarrow> bool" where
  "validDate InvalidDate = False"
| "validDate (At _) = True"

fun date_time :: "date \<Rightarrow> int" where
  "date_time (At t) = t"
| "date_time InvalidDate = 0"

definition max_safe_integer :: int where
  "max_safe_integer = 9007199254740991"

text \<open>A JavaScript number that may not be an integer.\<close>

datatype js_number = Whole int | NotWhole

fun safe_natural :: "js_number \<Rightarrow> bool" where
  "safe_natural (Whole n) = (\<bar>n\<bar> \<le> max_safe_integer \<and> \<not> n < 0)"
| "safe_natural NotWhole = False"

fun whole :: "js_number \<Rightarrow> int" where
  "whole (Whole n) = n"
| "whole NotWhole = 0"

definition is_hex :: "char \<Rightarrow> bool" where
  "is_hex c \<longleftrightarrow> c \<in> set ''0123456789abcdefABCDEF''"

definition uuid_char_ok :: "nat \<Rightarrow> char \<Rightarrow> bool" where
  "uuid_char_ok i c =
     (if i \<in> {8, 13, 18, 23} then c = CHR ''-''
      else if i = 14 then c \<in> set ''12345678''
      else if i = 19 then c \<in> set ''89abAB''
      else is_hex c)"

text \<open>The pattern \<^verbatim>\<open>UUID_PATTERN\<close>, which carries the flag \<^verbatim>\<open>i\<close>: it accepts both cases.\<close>

definition uuid_ok :: "string \<Rightarrow> bool" where
  "uuid_ok s \<longleftrightarrow> length s = 36 \<and> list_all (\<lambda>(i, c). uuid_char_ok i c) (zip [0..<36] s)"

definition lower_char :: "char \<Rightarrow> char" where
  "lower_char c = (let n = (of_char c :: nat) in if 65 \<le> n \<and> n \<le> 90 then char_of (n + 32) else c)"

text \<open>
  What a \<^verbatim>\<open>uuid\<close> column of PostgreSQL stores and returns for a UUID text: its lower-case
  form. Comparing a column with a text parameter compares these forms.
\<close>

definition pg_uuid :: "string \<Rightarrow> string" where
  "pg_uuid s = map lower_char s"

section \<open>Values\<close>

text \<open>
  Plain JSON. \<open>JTime\<close> is the ISO text of an instant; objects list their members in
  insertion order.
\<close>

datatype json =
    JNull
  | JBool bool
  | JNum rat
  | JStr string
  | JTime int
  | JArr "json list"
  | JObj "(string \<times> json) list"

definition jmember :: "json \<Rightarrow> string \<Rightarrow> json option" where
  "jmember j k = (case j of JObj kvs \<Rightarrow> map_of kvs k | _ \<Rightarrow> None)"

text \<open>
  \<^verbatim>\<open>isDeepStrictEqual\<close> on plain JSON: arrays element by element, objects as keyed
  collections, whatever the order of their members.
\<close>

lemma size_member_json: "(k, v) \<in> set kvs \<Longrightarrow> size (v :: json) < Suc (size_list (size_prod (\<lambda>_. 0) size) kvs)"
  by (induction kvs) auto

lemma size_element_json: "x \<in> set xs \<Longrightarrow> size (x :: json) < Suc (size_list size xs)"
  by (induction xs) auto

function json_eq :: "json \<Rightarrow> json \<Rightarrow> bool" where
  "json_eq a b = (case (a, b) of
     (JArr xs, JArr ys) \<Rightarrow> length xs = length ys \<and> list_all (\<lambda>(x, y). json_eq x y) (zip xs ys)
   | (JObj xs, JObj ys) \<Rightarrow>
       list_all (\<lambda>k. case map_of xs k of None \<Rightarrow> False | Some v \<Rightarrow>
         (case map_of ys k of None \<Rightarrow> False | Some w \<Rightarrow> json_eq v w)) (map fst xs @ map fst ys)
   | _ \<Rightarrow> a = b)"
  by pat_completeness auto
termination
proof (relation "measure (\<lambda>(a, b). size a)", goal_cases)
  case 1 then show ?case by simp
next
  case 2 then show ?case by (auto dest!: set_zip_leftD intro: size_element_json)
next
  case 3 then show ?case by (auto dest!: map_of_SomeD intro: size_member_json)
qed

declare json_eq.simps [simp del]

lemma json_eq_refl [simp]: "json_eq j j"
proof (induction j)
  case (JArr xs)
  then show ?case by (subst json_eq.simps) (auto simp: list_all_iff zip_same)
next
  case (JObj kvs)
  then show ?case
    by (subst json_eq.simps) (auto simp: list_all_iff map_of_eq_None_iff split: option.split dest!: map_of_SomeD)
qed (subst json_eq.simps, simp)+

text \<open>
  A JavaScript value as \<^verbatim>\<open>clonePlainJsonData\<close> inspects it. Arrays and objects carry
  their identity, whether their prototype is the plain one and, for arrays, whether their
  own keys are exactly \<^verbatim>\<open>length\<close> and the indices; every slot says whether it is an own
  enumerable data property; an object key that is not a string (a symbol) is \<open>None\<close>.
  \<open>VOther\<close> is a value whose \<^verbatim>\<open>typeof\<close> is none of string, boolean, number, object.
\<close>

datatype jsnum = Finite rat | NonFinite

datatype jsval =
    VNull
  | VBool bool
  | VNum jsnum
  | VStr string
  | VTime int
  | VOther
  | VArr nat bool bool "(bool \<times> jsval) list"
  | VObj nat bool "(string option \<times> bool \<times> jsval) list"

section \<open>clonePlainJsonData\<close>

definition MAX_JSON_DEPTH :: nat where "MAX_JSON_DEPTH = 32"

definition MAX_JSON_UNITS :: nat where "MAX_JSON_UNITS = 10000"

record JsonCloneState =
  seen :: "nat list"
  units :: nat

datatype clone_error = INVALID_PLAIN_JSON

type_synonym 'a clone_act = "(JsonCloneState, clone_error, 'a) act"

definition consumeJsonBudget :: "unit clone_act" where
  "consumeJsonBudget =
     act_then (modify (\<lambda>s. s\<lparr>units := units s + 1\<rparr>))
       (act_bind (gets units) (\<lambda>u. require (u \<le> MAX_JSON_UNITS) INVALID_PLAIN_JSON))"

definition mark_seen :: "nat \<Rightarrow> nat \<Rightarrow> unit clone_act" where
  "mark_seen oid depth =
     act_then (act_bind (gets seen) (\<lambda>os. require (depth \<le> MAX_JSON_DEPTH \<and> oid \<notin> set os) INVALID_PLAIN_JSON))
       (modify (\<lambda>s. s\<lparr>seen := oid # seen s\<rparr>))"

fun clonePlainJsonData :: "jsval \<Rightarrow> nat \<Rightarrow> json clone_act"
  and clone_elements :: "(bool \<times> jsval) list \<Rightarrow> nat \<Rightarrow> json list clone_act"
  and clone_members :: "(string option \<times> bool \<times> jsval) list \<Rightarrow> nat \<Rightarrow> (string \<times> json) list clone_act"
where
  "clonePlainJsonData VNull d = act_then consumeJsonBudget (ret JNull)"
| "clonePlainJsonData (VBool b) d = act_then consumeJsonBudget (ret (JBool b))"
| "clonePlainJsonData (VStr s) d = act_then consumeJsonBudget (ret (JStr s))"
| "clonePlainJsonData (VTime t) d = act_then consumeJsonBudget (ret (JTime t))"
| "clonePlainJsonData (VNum (Finite q)) d = act_then consumeJsonBudget (ret (JNum q))"
| "clonePlainJsonData (VNum NonFinite) d = act_then consumeJsonBudget (raise INVALID_PLAIN_JSON)"
| "clonePlainJsonData VOther d = act_then consumeJsonBudget (raise INVALID_PLAIN_JSON)"
| "clonePlainJsonData (VArr oid proto keys es) d =
     act_then consumeJsonBudget (act_then (mark_seen oid d)
       (act_then (require (proto \<and> length es \<le> MAX_JSON_UNITS \<and> keys) INVALID_PLAIN_JSON)
         (act_bind (clone_elements es (d + 1)) (\<lambda>js. ret (JArr js)))))"
| "clonePlainJsonData (VObj oid proto ms) d =
     act_then consumeJsonBudget (act_then (mark_seen oid d)
       (act_then (require (proto \<and> length ms \<le> MAX_JSON_UNITS) INVALID_PLAIN_JSON)
         (act_bind (clone_members ms (d + 1)) (\<lambda>js. ret (JObj js)))))"
| "clone_elements [] d = ret []"
| "clone_elements ((data, v) # es) d =
     act_then (require data INVALID_PLAIN_JSON) (act_then consumeJsonBudget
       (act_bind (clonePlainJsonData v d) (\<lambda>j.
        act_bind (clone_elements es d) (\<lambda>js. ret (j # js)))))"
| "clone_members [] d = ret []"
| "clone_members ((key, data, v) # ms) d =
     (case key of
        None \<Rightarrow> raise INVALID_PLAIN_JSON
      | Some k \<Rightarrow>
          act_then (require data INVALID_PLAIN_JSON) (act_then consumeJsonBudget
            (act_bind (clonePlainJsonData v d) (\<lambda>j.
             act_bind (clone_members ms d) (\<lambda>js. ret ((k, j) # js))))))"

text \<open>The call \<^verbatim>\<open>clonePlainJsonData(draft.payload)\<close> with its default arguments.\<close>

definition clone_payload :: "jsval \<Rightarrow> clone_error + json" where
  "clone_payload v = fst (clonePlainJsonData v 0 \<lparr>seen = [], units = 0\<rparr>)"


section \<open>What the copy accepts and returns\<close>

text \<open>
  The reference: the JSON a value denotes (\<open>content\<close>, undefined where a slot is not plain
  data), the identities of its arrays and objects in visiting order, the number of budget
  units it takes and whether its nesting stays within the limit.
\<close>

fun content :: "jsval \<Rightarrow> json option"
  and content_elements :: "(bool \<times> jsval) list \<Rightarrow> json list option"
  and content_members :: "(string option \<times> bool \<times> jsval) list \<Rightarrow> (string \<times> json) list option"
where
  "content VNull = Some JNull"
| "content (VBool b) = Some (JBool b)"
| "content (VStr s) = Some (JStr s)"
| "content (VTime t) = Some (JTime t)"
| "content (VNum (Finite q)) = Some (JNum q)"
| "content (VNum NonFinite) = None"
| "content VOther = None"
| "content (VArr _ proto keys es) =
     (if proto \<and> keys then map_option JArr (content_elements es) else None)"
| "content (VObj _ proto ms) = (if proto then map_option JObj (content_members ms) else None)"
| "content_elements [] = Some []"
| "content_elements ((data, v) # es) =
     (if data then (case (content v, content_elements es) of
        (Some j, Some js) \<Rightarrow> Some (j # js) | _ \<Rightarrow> None) else None)"
| "content_members [] = Some []"
| "content_members ((key, data, v) # ms) =
     (if data then (case (key, content v, content_members ms) of
        (Some k, Some j, Some js) \<Rightarrow> Some ((k, j) # js) | _ \<Rightarrow> None) else None)"

fun idents :: "jsval \<Rightarrow> nat list" where
  "idents (VArr oid _ _ es) = oid # concat (map (\<lambda>(_, v). idents v) es)"
| "idents (VObj oid _ ms) = oid # concat (map (\<lambda>(_, _, v). idents v) ms)"
| "idents _ = []"

fun json_cost :: "jsval \<Rightarrow> nat" where
  "json_cost (VArr _ _ _ es) = 1 + sum_list (map (\<lambda>(_, v). 1 + json_cost v) es)"
| "json_cost (VObj _ _ ms) = 1 + sum_list (map (\<lambda>(_, _, v). 1 + json_cost v) ms)"
| "json_cost _ = 1"

fun depth_fits :: "jsval \<Rightarrow> nat \<Rightarrow> bool" where
  "depth_fits (VArr _ _ _ es) d = (d \<le> MAX_JSON_DEPTH \<and> list_all (\<lambda>(_, v). depth_fits v (d + 1)) es)"
| "depth_fits (VObj _ _ ms) d = (d \<le> MAX_JSON_DEPTH \<and> list_all (\<lambda>(_, _, v). depth_fits v (d + 1)) ms)"
| "depth_fits _ d = True"

text \<open>Acceptance of a list of identities with a total cost from a given clone state.\<close>

definition budget_ok :: "JsonCloneState \<Rightarrow> nat list \<Rightarrow> nat \<Rightarrow> bool" where
  "budget_ok s ids c \<longleftrightarrow> distinct ids \<and> set ids \<inter> set (seen s) = {} \<and> units s + c \<le> MAX_JSON_UNITS"

definition spend :: "JsonCloneState \<Rightarrow> nat list \<Rightarrow> nat \<Rightarrow> JsonCloneState" where
  "spend s ids c = \<lparr>seen = rev ids @ seen s, units = units s + c\<rparr>"

lemma spend_append: "spend (spend s xs c) ys d = spend s (xs @ ys) (c + d)"
  by (simp add: spend_def)

lemma budget_ok_append:
  "budget_ok s (xs @ ys) (c + d) \<longleftrightarrow> budget_ok s xs c \<and> budget_ok (spend s xs c) ys d"
  by (auto simp: budget_ok_def spend_def)

lemma consume_iff:
  "consumeJsonBudget s = (Inr u, t) \<longleftrightarrow> budget_ok s [] 1 \<and> t = spend s [] 1"
  by (auto simp: consumeJsonBudget_def act_iffs budget_ok_def spend_def)

lemma mark_seen_iff:
  "mark_seen oid d s = (Inr u, t) \<longleftrightarrow> d \<le> MAX_JSON_DEPTH \<and> oid \<notin> set (seen s) \<and> t = s\<lparr>seen := oid # seen s\<rparr>"
  by (auto simp: mark_seen_def act_iffs)

lemma sum_list_ge_length:
  fixes f :: "'x \<Rightarrow> nat"
  assumes "\<And>x. x \<in> set xs \<Longrightarrow> 1 \<le> f x"
  shows "length xs \<le> sum_list (map f xs)"
  using assms
proof (induction xs)
  case (Cons a xs)
  have "1 \<le> f a" "length xs \<le> sum_list (map f xs)" using Cons by simp_all
  then show ?case by simp
qed simp

lemma elements_cost_ge: "length es \<le> sum_list (map (\<lambda>(_, v). 1 + json_cost v) es)"
  by (rule sum_list_ge_length) auto

lemma members_cost_ge: "length ms \<le> sum_list (map (\<lambda>(_, _, v). 1 + json_cost v) ms)"
  by (rule sum_list_ge_length) auto

lemma budget_ok_length:
  "budget_ok s ids c \<Longrightarrow> n \<le> c \<Longrightarrow> n \<le> MAX_JSON_UNITS"
  by (simp add: budget_ok_def)

lemma budget_ok_Nil_0: "units s \<le> MAX_JSON_UNITS \<Longrightarrow> budget_ok s [] 0"
  by (simp add: budget_ok_def)

lemma budget_ok_units: "budget_ok s ids c \<Longrightarrow> units (spend s ids c) \<le> MAX_JSON_UNITS"
  by (simp add: budget_ok_def spend_def)

lemma spend_Nil_0: "spend s [] 0 = s"
  by (simp add: spend_def)

lemma clone_iff_aux:
  "units s \<le> MAX_JSON_UNITS \<Longrightarrow> clonePlainJsonData v d s = (Inr j, t) \<longleftrightarrow>
     content v = Some j \<and> depth_fits v d \<and> budget_ok s (idents v) (json_cost v) \<and> t = spend s (idents v) (json_cost v)"
  "units s \<le> MAX_JSON_UNITS \<Longrightarrow> clone_elements es d s = (Inr js, t) \<longleftrightarrow>
     content_elements es = Some js \<and> list_all (\<lambda>(_, v). depth_fits v d) es \<and>
     budget_ok s (concat (map (\<lambda>(_, v). idents v) es)) (sum_list (map (\<lambda>(_, v). 1 + json_cost v) es)) \<and>
     t = spend s (concat (map (\<lambda>(_, v). idents v) es)) (sum_list (map (\<lambda>(_, v). 1 + json_cost v) es))"
  "units s \<le> MAX_JSON_UNITS \<Longrightarrow> clone_members ms d s = (Inr kjs, t) \<longleftrightarrow>
     content_members ms = Some kjs \<and> list_all (\<lambda>(_, _, v). depth_fits v d) ms \<and>
     budget_ok s (concat (map (\<lambda>(_, _, v). idents v) ms)) (sum_list (map (\<lambda>(_, _, v). 1 + json_cost v) ms)) \<and>
     t = spend s (concat (map (\<lambda>(_, _, v). idents v) ms)) (sum_list (map (\<lambda>(_, _, v). 1 + json_cost v) ms))"
proof (induction v d and es d and ms d arbitrary: s j t and s js t and s kjs t
    rule: clonePlainJsonData_clone_elements_clone_members.induct)
  case (8 oid proto keys es d)
  let ?ids = "concat (map (\<lambda>(_, v). idents v) es)" and ?c = "sum_list (map (\<lambda>(_, v). 1 + json_cost v) es)"
  have "clonePlainJsonData (VArr oid proto keys es) d s = (Inr j, t) \<longleftrightarrow>
     (d \<le> MAX_JSON_DEPTH \<and> budget_ok s [oid] 1 \<and> proto \<and> keys \<and> length es \<le> MAX_JSON_UNITS \<and>
       (\<exists>js. clone_elements es (d + 1) (spend s [oid] 1) = (Inr js, t) \<and> j = JArr js))"
    by (auto simp: act_iffs consume_iff mark_seen_iff budget_ok_def spend_def)
  also have "\<dots> \<longleftrightarrow> content (VArr oid proto keys es) = Some j \<and> depth_fits (VArr oid proto keys es) d \<and>
     budget_ok s ([oid] @ ?ids) (1 + ?c) \<and> t = spend s ([oid] @ ?ids) (1 + ?c)"
    unfolding budget_ok_append spend_append [symmetric]
    using 8 budget_ok_units [of s "[oid]" 1] budget_ok_length [OF _ elements_cost_ge]
    by (auto)
  finally show ?case by simp
next
  case (9 oid proto ms d)
  let ?ids = "concat (map (\<lambda>(_, _, v). idents v) ms)" and ?c = "sum_list (map (\<lambda>(_, _, v). 1 + json_cost v) ms)"
  have "clonePlainJsonData (VObj oid proto ms) d s = (Inr j, t) \<longleftrightarrow>
     (d \<le> MAX_JSON_DEPTH \<and> budget_ok s [oid] 1 \<and> proto \<and> length ms \<le> MAX_JSON_UNITS \<and>
       (\<exists>js. clone_members ms (d + 1) (spend s [oid] 1) = (Inr js, t) \<and> j = JObj js))"
    by (auto simp: act_iffs consume_iff mark_seen_iff budget_ok_def spend_def)
  also have "\<dots> \<longleftrightarrow> content (VObj oid proto ms) = Some j \<and> depth_fits (VObj oid proto ms) d \<and>
     budget_ok s ([oid] @ ?ids) (1 + ?c) \<and> t = spend s ([oid] @ ?ids) (1 + ?c)"
    unfolding budget_ok_append spend_append [symmetric]
    using 9 budget_ok_units [of s "[oid]" 1] budget_ok_length [OF _ members_cost_ge]
    by (auto)
  finally show ?case by simp
next
  case (11 data v es d)
  let ?ids = "concat (map (\<lambda>(_, v). idents v) es)" and ?c = "sum_list (map (\<lambda>(_, v). 1 + json_cost v) es)"
  have "clone_elements ((data, v) # es) d s = (Inr js, t) \<longleftrightarrow>
     (\<exists>j js'. data \<and> budget_ok s [] 1 \<and> js = j # js' \<and>
       (\<exists>u. clonePlainJsonData v d (spend s [] 1) = (Inr j, u) \<and> clone_elements es d u = (Inr js', t)))"
    by (auto simp: act_iffs consume_iff)
  also have "\<dots> \<longleftrightarrow> content_elements ((data, v) # es) = Some js \<and>
     list_all (\<lambda>(_, v). depth_fits v d) ((data, v) # es) \<and>
     budget_ok s ([] @ idents v @ ?ids) (1 + (json_cost v + ?c)) \<and> t = spend s ([] @ idents v @ ?ids) (1 + (json_cost v + ?c))"
    unfolding budget_ok_append spend_append [symmetric]
    using 11 budget_ok_units [of s "[]" 1] budget_ok_units [of "spend s [] 1" "idents v" "json_cost v"]
    by (auto split: option.splits)
  finally show ?case by (simp add: add.assoc)
next
  case (13 key data v ms d)
  let ?ids = "concat (map (\<lambda>(_, _, v). idents v) ms)" and ?c = "sum_list (map (\<lambda>(_, _, v). 1 + json_cost v) ms)"
  have "clone_members ((key, data, v) # ms) d s = (Inr kjs, t) \<longleftrightarrow>
     (\<exists>k j js'. key = Some k \<and> data \<and> budget_ok s [] 1 \<and> kjs = (k, j) # js' \<and>
       (\<exists>u. clonePlainJsonData v d (spend s [] 1) = (Inr j, u) \<and> clone_members ms d u = (Inr js', t)))"
    by (cases key) (auto simp: act_iffs consume_iff)
  also have "\<dots> \<longleftrightarrow> content_members ((key, data, v) # ms) = Some kjs \<and>
     list_all (\<lambda>(_, _, v). depth_fits v d) ((key, data, v) # ms) \<and>
     budget_ok s ([] @ idents v @ ?ids) (1 + (json_cost v + ?c)) \<and> t = spend s ([] @ idents v @ ?ids) (1 + (json_cost v + ?c))"
    unfolding budget_ok_append spend_append [symmetric]
    using 13 budget_ok_units [of s "[]" 1] budget_ok_units [of "spend s [] 1" "idents v" "json_cost v"]
    by (cases key) (auto split: option.splits)
  finally show ?case by (simp add: add.assoc)
qed (auto simp: act_iffs consume_iff budget_ok_Nil_0 spend_Nil_0)

text \<open>
  The copy succeeds exactly on plain data that is free of shared and cyclic references,
  nests no deeper than the limit and fits the budget; and it returns the same data.
\<close>

lemma clone_payload_iff:
  "clone_payload v = Inr j \<longleftrightarrow>
     content v = Some j \<and> depth_fits v 0 \<and> distinct (idents v) \<and> json_cost v \<le> MAX_JSON_UNITS"
proof -
  have "clone_payload v = Inr j \<longleftrightarrow> (\<exists>t. clonePlainJsonData v 0 \<lparr>seen = [], units = 0\<rparr> = (Inr j, t))"
    unfolding clone_payload_def by (metis fst_conv surj_pair)
  then show ?thesis
    by (simp add: clone_iff_aux budget_ok_def)
qed

end
