(* ===== verification/Room_Store.thy ===== *)
theory Room_Store
  imports Js_Data
begin

text \<open>
  The PostgreSQL tables the room services work on, as lists of rows in insertion order,
  and the statements of \<^verbatim>\<open>apps/server/src/modules/rooms\<close> that write them. An
  \<^verbatim>\<open>INSERT\<close> is partial: \<open>None\<close> is a violated uniqueness constraint of
  \<^verbatim>\<open>infra/postgres/migrations\<close>, which the driver reports as an exception.
\<close>

section \<open>Errors\<close>

datatype RoomErrorCode =
    FORBIDDEN
  | INVALID_COMMAND
  | ROOM_DELETION_IN_PROGRESS
  | ROOM_NOT_OPEN
  | MESSAGE_NOT_FOUND
  | REVISION_CONFLICT

text \<open>A thrown \<^verbatim>\<open>RoomError\<close> with its optional current revision, or a plain \<^verbatim>\<open>Error\<close>.\<close>

datatype failure = RoomError RoomErrorCode "int option" | Failure string

abbreviation room_error :: "RoomErrorCode \<Rightarrow> failure" where
  "room_error c \<equiv> RoomError c None"

section \<open>Rows\<close>

datatype room_status = Scheduled | Open | Paused | Closed

datatype job_status = Queued | Running | Succeeded | Retryable | Dead | Cancelled

datatype principal_kind = TeacherKind | StudentKind

record room_row =
  r_id :: string
  r_code_hash :: "nat list"
  r_nova :: string
  r_teacher :: string
  r_topic :: string
  r_status :: room_status
  r_duration :: int
  r_starts :: "date option"
  r_closes :: "date option"
  r_closed :: "date option"
  r_next :: int
  r_created :: date
  r_policy :: string

record event_row =
  e_id :: string
  e_room :: string
  e_seq :: int
  e_schema :: int
  e_type :: string
  e_actor :: string
  e_kind :: string
  e_role :: string
  e_revision :: int
  e_operation :: string
  e_time :: date
  e_ingest :: date
  e_causation :: string
  e_correlation :: string
  e_payload :: json

text \<open>\<^verbatim>\<open>RoomEventEnvelope\<close> of \<^verbatim>\<open>packages/contracts\<close>; the two times are ISO texts.\<close>

record envelope =
  eventId :: string
  schemaVersion :: int
  roomId :: string
  roomSeq :: int
  ev_type :: string
  actorId :: string
  actorKind :: string
  actorRole :: string
  revision :: int
  operation :: string
  eventTime :: int
  ingestTime :: int
  causationId :: string
  correlationId :: string
  payload :: json

record outbox_row =
  o_event :: string
  o_room :: string
  o_seq :: int
  o_topic :: string
  o_envelope :: envelope

record job_row =
  j_id :: string
  j_type :: string
  j_room :: "string option"
  j_source :: "string option"
  j_dedupe :: string
  j_correlation :: string
  j_payload :: json
  j_status :: job_status
  j_run_after :: date
  j_token :: "string option"
  j_locked_at :: "int option"
  j_locked_by :: "string option"
  j_created :: int
  j_updated :: int
  j_order_seq :: "int option"
  j_order_kind :: "int option"

record member_row =
  m_id :: string
  m_actor :: string
  m_room :: string
  m_seat :: nat
  m_pseudonym :: string
  m_code_hash :: "nat list"

record session_row =
  s_id :: string
  s_token_hash :: "nat list"
  s_kind :: principal_kind
  s_teacher :: "string option"
  s_member :: "string option"
  s_expires :: int
  s_revoked :: "int option"
  s_created :: int

record deletion_row =
  d_room :: string
  d_status :: string

record media_row =
  md_id :: string
  md_room :: string
  md_owner :: string
  md_state :: string

record binding_row =
  b_media :: string
  b_room :: string
  b_message :: string
  b_event :: string

record policy_row =
  p_id :: string
  p_approved :: int
  p_expires :: int

record db =
  rooms :: "room_row list"
  events :: "event_row list"
  outbox :: "outbox_row list"
  jobs :: "job_row list"
  members :: "member_row list"
  sessions :: "session_row list"
  deletions :: "deletion_row list"
  medias :: "media_row list"
  bindings :: "binding_row list"
  policies :: "policy_row list"

text \<open>
  What an operation takes from outside the repository's code: the JSON-Schema validators
  compiled by Ajv, the server clock (its successive readings), the UUID generator (its
  successive draws) and PostgreSQL's \<^verbatim>\<open>transaction_timestamp()\<close>.
\<close>

record world =
  envelope_valid :: "envelope \<Rightarrow> bool"
  payload_valid :: "string \<Rightarrow> json \<Rightarrow> bool"
  clock :: "nat \<Rightarrow> date"
  fresh :: "nat \<Rightarrow> string"
  tx_now :: int

section \<open>Statements\<close>

definition find_room :: "db \<Rightarrow> string \<Rightarrow> room_row option" where
  "find_room d rid = find (\<lambda>r. r_id r = pg_uuid rid) (rooms d)"

definition update_room :: "string \<Rightarrow> (room_row \<Rightarrow> room_row) \<Rightarrow> db \<Rightarrow> db" where
  "update_room rid f d = d\<lparr>rooms := map (\<lambda>r. if r_id r = pg_uuid rid then f r else r) (rooms d)\<rparr>"

definition deletion_active :: "db \<Rightarrow> string \<Rightarrow> bool" where
  "deletion_active d rid \<longleftrightarrow>
     list_ex (\<lambda>x. d_room x = pg_uuid rid \<and> d_status x \<in> {''queued'', ''running'', ''retryable'', ''dead''}) (deletions d)"

definition insert_event :: "event_row \<Rightarrow> db \<Rightarrow> db option" where
  "insert_event e d =
     (if list_ex (\<lambda>x. e_id x = e_id e \<or> (e_room x = e_room e \<and> (e_seq x = e_seq e \<or> e_causation x = e_causation e))) (events d)
      then None else Some (d\<lparr>events := events d @ [e]\<rparr>))"

definition insert_outbox :: "outbox_row \<Rightarrow> db \<Rightarrow> db option" where
  "insert_outbox x d =
     (if list_ex (\<lambda>y. o_event y = o_event x) (outbox d) then None else Some (d\<lparr>outbox := outbox d @ [x]\<rparr>))"

definition insert_job :: "job_row \<Rightarrow> db \<Rightarrow> db option" where
  "insert_job j d =
     (if list_ex (\<lambda>y. j_id y = j_id j \<or> j_dedupe y = j_dedupe j) (jobs d) then None else Some (d\<lparr>jobs := jobs d @ [j]\<rparr>))"

lemma update_room_other [simp]:
  "events (update_room rid f d) = events d" "outbox (update_room rid f d) = outbox d"
  "jobs (update_room rid f d) = jobs d" "members (update_room rid f d) = members d"
  "sessions (update_room rid f d) = sessions d" "deletions (update_room rid f d) = deletions d"
  "medias (update_room rid f d) = medias d" "bindings (update_room rid f d) = bindings d"
  "policies (update_room rid f d) = policies d"
  by (simp_all add: update_room_def)

lemma find_room_SomeD: "find_room d rid = Some r \<Longrightarrow> r \<in> set (rooms d) \<and> r_id r = pg_uuid rid"
  by (auto simp: find_room_def find_Some_iff)

lemma find_map_update:
  assumes "\<And>r. key (f r) = key r"
  shows "find (\<lambda>r. key r = k) (map (\<lambda>r. if key r = k then f r else r) rs) = map_option f (find (\<lambda>r. key r = k) rs)"
  using assms by (induction rs) auto

lemma find_room_update_same:
  "(\<And>r. r_id (f r) = r_id r) \<Longrightarrow> pg_uuid rid' = pg_uuid rid \<Longrightarrow>
     find_room (update_room rid f d) rid' = map_option f (find_room d rid')"
  by (simp add: find_room_def update_room_def find_map_update [where key = r_id])

lemma map_update_keys:
  "(\<And>r. r_id (f r) = r_id r) \<Longrightarrow> map r_id (rooms (update_room rid f d)) = map r_id (rooms d)"
  by (simp add: update_room_def)

end
