(* ===== verification/Room_Ledger.thy ===== *)
theory Room_Ledger
  imports Room_Store
begin

text \<open>
  \<^verbatim>\<open>RoomEventRepository\<close> of \<^verbatim>\<open>apps/server/src/modules/rooms/room-event-repository.ts\<close>:
  the append-only ledger of a room, its transactional outbox and analytics queue, the
  room transaction that every service runs in, and the page read \<^verbatim>\<open>eventsAfter\<close>.
\<close>

section \<open>Reading rows\<close>

definition CANONICAL_OUTBOX_TOPIC :: string where
  "CANONICAL_OUTBOX_TOPIC = ''learning_orbit.room_event.v1''"

record LockedRoomSnapshot =
  room_id :: string
  nova_actor_id :: string
  teacher_id :: string
  topic :: string
  status :: room_status
  duration_seconds :: int
  starts_at :: "int option"
  closes_at :: "int option"
  closed_at :: "int option"
  next_room_seq :: int
  created_at :: int

definition safePositiveInteger :: "int \<Rightarrow> string \<Rightarrow> failure + int" where
  "safePositiveInteger n code = (if 1 \<le> n \<and> n \<le> max_safe_integer then Inr n else Inl (Failure code))"

definition dateText :: "date option \<Rightarrow> string \<Rightarrow> failure + int option" where
  "dateText v code = (case v of
     None \<Rightarrow> Inr None
   | Some dt \<Rightarrow> if validDate dt then Inr (Some (date_time dt)) else Inl (Failure code))"

definition roomSnapshot :: "room_row \<Rightarrow> failure + LockedRoomSnapshot" where
  "roomSnapshot r =
     (if \<not> validDate (r_created r) then Inl (Failure ''INVALID_STORED_ROOM'') else
      case dateText (r_starts r) ''INVALID_STORED_ROOM'' of Inl e \<Rightarrow> Inl e | Inr st \<Rightarrow>
      (case dateText (r_closes r) ''INVALID_STORED_ROOM'' of Inl e \<Rightarrow> Inl e | Inr cl \<Rightarrow>
      (case dateText (r_closed r) ''INVALID_STORED_ROOM'' of Inl e \<Rightarrow> Inl e | Inr cd \<Rightarrow>
      (case safePositiveInteger (r_next r) ''ROOM_SEQUENCE_OUT_OF_RANGE'' of Inl e \<Rightarrow> Inl e | Inr n \<Rightarrow>
       Inr \<lparr>room_id = r_id r, nova_actor_id = r_nova r, teacher_id = r_teacher r, topic = r_topic r,
            status = r_status r, duration_seconds = r_duration r, starts_at = st, closes_at = cl,
            closed_at = cd, next_room_seq = n, created_at = date_time (r_created r)\<rparr>))))"

text \<open>The rows of \<^verbatim>\<open>storedEventSelect\<close>: an event left-joined with its outbox row.\<close>

type_synonym StoredEventRow = "event_row \<times> outbox_row option"

definition storedEventSelect :: "db \<Rightarrow> (event_row \<Rightarrow> bool) \<Rightarrow> StoredEventRow list" where
  "storedEventSelect d p = map (\<lambda>e. (e, find (\<lambda>x. o_event x = e_id e) (outbox d))) (filter p (events d))"

definition relationalEnvelope :: "event_row \<Rightarrow> envelope" where
  "relationalEnvelope e =
     \<lparr>eventId = e_id e, schemaVersion = e_schema e, roomId = e_room e, roomSeq = e_seq e,
      ev_type = e_type e, actorId = e_actor e, actorKind = e_kind e, actorRole = e_role e,
      revision = e_revision e, operation = e_operation e, eventTime = date_time (e_time e),
      ingestTime = date_time (e_ingest e), causationId = e_causation e,
      correlationId = e_correlation e, payload = e_payload e\<rparr>"

text \<open>\<^verbatim>\<open>isDeepStrictEqual\<close> on two envelopes.\<close>

definition envelope_eq :: "envelope \<Rightarrow> envelope \<Rightarrow> bool" where
  "envelope_eq a b \<longleftrightarrow> a\<lparr>payload := JNull\<rparr> = b\<lparr>payload := JNull\<rparr> \<and> json_eq (payload a) (payload b)"

definition parseStoredEvent :: "world \<Rightarrow> StoredEventRow \<Rightarrow> failure + envelope" where
  "parseStoredEvent w row = (case row of (e, ob) \<Rightarrow>
     (case ob of None \<Rightarrow> Inl (Failure ''INVALID_STORED_ROOM_EVENT'') | Some x \<Rightarrow>
      if o_topic x \<noteq> CANONICAL_OUTBOX_TOPIC \<or> \<not> validDate (e_time e) \<or> \<not> validDate (e_ingest e) \<or> o_room x \<noteq> e_room e
      then Inl (Failure ''INVALID_STORED_ROOM_EVENT'') else
      (case safePositiveInteger (e_seq e) ''INVALID_STORED_ROOM_EVENT'' of Inl err \<Rightarrow> Inl err | Inr seq \<Rightarrow>
      (case safePositiveInteger (o_seq x) ''INVALID_STORED_ROOM_EVENT'' of Inl err \<Rightarrow> Inl err | Inr oseq \<Rightarrow>
       if oseq \<noteq> seq then Inl (Failure ''INVALID_STORED_ROOM_EVENT'')
       else if \<not> envelope_valid w (o_envelope x) \<or> \<not> payload_valid w (ev_type (o_envelope x)) (payload (o_envelope x))
       then Inl (Failure ''INVALID_STORED_ROOM_EVENT'')
       else if \<not> envelope_eq (o_envelope x) (relationalEnvelope e) then Inl (Failure ''INVALID_STORED_ROOM_EVENT'')
       else Inr (o_envelope x)))))"

definition immutableDraftMatches :: "envelope \<Rightarrow> envelope \<Rightarrow> bool" where
  "immutableDraftMatches stored candidate \<longleftrightarrow>
     ev_type stored = ev_type candidate \<and> actorId stored = actorId candidate \<and>
     actorKind stored = actorKind candidate \<and> actorRole stored = actorRole candidate \<and>
     revision stored = revision candidate \<and> operation stored = operation candidate \<and>
     eventTime stored = eventTime candidate \<and> causationId stored = causationId candidate \<and>
     correlationId stored = correlationId candidate \<and> json_eq (payload stored) (payload candidate)"

section \<open>Drafts\<close>

record RoomEventDraft =
  d_type :: string
  d_actorId :: string
  d_actorKind :: string
  d_actorRole :: string
  d_revision :: int
  d_operation :: string
  d_eventTime :: date
  d_causationId :: string
  d_correlationId :: string
  d_payload :: jsval

text \<open>
  \<^verbatim>\<open>append\<close> takes \<^verbatim>\<open>unknown\<close>: a value that is not a plain record with exactly the ten
  data properties of \<^verbatim>\<open>DRAFT_KEYS\<close> (or whose \<^verbatim>\<open>type\<close> is not a string) is \<open>NotADraft\<close>.
\<close>

datatype raw_draft = NotADraft | Draft RoomEventDraft

definition validateDraft :: "world \<Rightarrow> string \<Rightarrow> date \<Rightarrow> string \<Rightarrow> int \<Rightarrow> raw_draft \<Rightarrow> failure + envelope" where
  "validateDraft w eid now rid seq draft = (case draft of
     NotADraft \<Rightarrow> Inl (room_error INVALID_COMMAND)
   | Draft x \<Rightarrow>
     (case clone_payload (d_payload x) of Inl _ \<Rightarrow> Inl (room_error INVALID_COMMAND) | Inr p \<Rightarrow>
      if \<not> validDate (d_eventTime x) then Inl (room_error INVALID_COMMAND)
      else if \<not> validDate now then Inl (Failure ''INVALID_CLOCK'')
      else let env = \<lparr>eventId = eid, schemaVersion = 1, roomId = rid, roomSeq = seq, ev_type = d_type x,
             actorId = d_actorId x, actorKind = d_actorKind x, actorRole = d_actorRole x,
             revision = d_revision x, operation = d_operation x, eventTime = date_time (d_eventTime x),
             ingestTime = date_time now, causationId = d_causationId x,
             correlationId = d_correlationId x, payload = p\<rparr>
        in if envelope_valid w env \<and> payload_valid w (ev_type env) (payload env) then Inr env
           else Inl (room_error INVALID_COMMAND)))"

section \<open>The room transaction\<close>

record ctx =
  ctx_db :: db
  ctx_room :: LockedRoomSnapshot
  ctx_next :: int
  ctx_failure :: "failure option"

type_synonym 'a tx = "(ctx, failure, 'a) act"

type_synonym 'a op = "(db, failure, 'a) act"

text \<open>
  A statement that may violate a constraint. Once one does, PostgreSQL refuses every
  further statement of the transaction: the failure is recorded like that of a scheduled
  operation and the transaction cannot commit.
\<close>

definition exec_insert :: "failure \<Rightarrow> (db \<Rightarrow> db option) \<Rightarrow> unit tx" where
  "exec_insert err st = (\<lambda>c. case st (ctx_db c) of
     None \<Rightarrow> (Inl err, c\<lparr>ctx_failure := Some err\<rparr>)
   | Some d \<Rightarrow> (Inr (), c\<lparr>ctx_db := d\<rparr>))"

definition exec :: "(db \<Rightarrow> db) \<Rightarrow> unit tx" where
  "exec f = modify (\<lambda>c. c\<lparr>ctx_db := f (ctx_db c)\<rparr>)"

definition findOneByCausation :: "world \<Rightarrow> string \<Rightarrow> envelope option tx" where
  "findOneByCausation w cid =
     act_then (require (uuid_ok cid) (room_error INVALID_COMMAND))
      (act_bind (gets (\<lambda>c. storedEventSelect (ctx_db c) (\<lambda>e. e_room e = room_id (ctx_room c) \<and> e_causation e = pg_uuid cid)))
        (\<lambda>rows. case rows of
           [] \<Rightarrow> ret None
         | row # _ \<Rightarrow> act_bind (lift_result (parseStoredEvent w row)) (\<lambda>e. ret (Some e))))"

definition event_row_of :: "envelope \<Rightarrow> event_row" where
  "event_row_of v =
     \<lparr>e_id = pg_uuid (eventId v), e_room = pg_uuid (roomId v), e_seq = roomSeq v, e_schema = schemaVersion v,
      e_type = ev_type v, e_actor = pg_uuid (actorId v), e_kind = actorKind v, e_role = actorRole v,
      e_revision = revision v, e_operation = operation v, e_time = At (eventTime v),
      e_ingest = At (ingestTime v), e_causation = pg_uuid (causationId v),
      e_correlation = pg_uuid (correlationId v), e_payload = payload v\<rparr>"

definition outbox_row_of :: "envelope \<Rightarrow> outbox_row" where
  "outbox_row_of v = \<lparr>o_event = pg_uuid (eventId v), o_room = pg_uuid (roomId v), o_seq = roomSeq v,
     o_topic = CANONICAL_OUTBOX_TOPIC, o_envelope = v\<rparr>"

fun dec_digits :: "nat \<Rightarrow> string" where
  "dec_digits n = (if n < 10 then [char_of (48 + n)] else dec_digits (n div 10) @ [char_of (48 + n mod 10)])"

declare dec_digits.simps [simp del]

definition int_text :: "int \<Rightarrow> string" where
  "int_text i = (if i < 0 then ''-'' @ dec_digits (nat (- i)) else dec_digits (nat i))"

definition analytics_job_of :: "world \<Rightarrow> string \<Rightarrow> envelope \<Rightarrow> job_row" where
  "analytics_job_of w jid v =
     \<lparr>j_id = jid, j_type = ''analytics.consume.v1'', j_room = Some (pg_uuid (roomId v)),
      j_source = Some (pg_uuid (eventId v)),
      j_dedupe = ''analytics.consume.v1:'' @ roomId v @ '':'' @ int_text (roomSeq v),
      j_correlation = pg_uuid (correlationId v),
      j_payload = JObj [(''eventId'', JStr (eventId v)), (''roomSeq'', JNum (of_int (roomSeq v))), (''eventType'', JStr (ev_type v))],
      j_status = Queued, j_run_after = At (tx_now w), j_token = None, j_locked_at = None, j_locked_by = None,
      j_created = tx_now w, j_updated = tx_now w,
      j_order_seq = Some (roomSeq v), j_order_kind = Some 0\<rparr>"

definition advance_room_seq :: "string \<Rightarrow> int \<Rightarrow> db \<Rightarrow> db option" where
  "advance_room_seq rid n d =
     (if length (filter (\<lambda>r. r_id r = pg_uuid rid \<and> r_next r = n) (rooms d)) \<noteq> 1 then None
      else Some (d\<lparr>rooms := map (\<lambda>r. if r_id r = pg_uuid rid \<and> r_next r = n then r\<lparr>r_next := n + 1\<rparr> else r) (rooms d)\<rparr>))"

text \<open>
  \<^verbatim>\<open>appendOne\<close>; the event id and the job id are two draws of the generator, the
  ingest time a reading of the clock.
\<close>

definition appendOne :: "world \<Rightarrow> string \<Rightarrow> string \<Rightarrow> date \<Rightarrow> raw_draft \<Rightarrow> envelope tx" where
  "appendOne w eid jid now draft =
     act_bind (gets ctx_failure) (\<lambda>f. case f of Some e \<Rightarrow> raise e | None \<Rightarrow>
     act_bind (gets (\<lambda>c. (room_id (ctx_room c), ctx_next c))) (\<lambda>(rid, seq).
     act_bind (lift_result (validateDraft w eid now rid seq draft)) (\<lambda>candidate.
     act_bind (findOneByCausation w (causationId candidate)) (\<lambda>prior. case prior of
       Some p \<Rightarrow> if immutableDraftMatches p candidate then ret p else raise (room_error INVALID_COMMAND)
     | None \<Rightarrow>
       act_then (exec_insert (Failure ''ROOM_EVENT_APPEND_FAILED'') (insert_event (event_row_of candidate)))
       (act_then (exec_insert (Failure ''ROOM_EVENT_APPEND_FAILED'') (insert_outbox (outbox_row_of candidate)))
       (act_then (exec_insert (Failure ''ROOM_EVENT_APPEND_FAILED'') (insert_job (analytics_job_of w jid candidate)))
       (act_then (exec_insert (Failure ''ROOM_EVENT_APPEND_FAILED'') (advance_room_seq rid seq))
       (act_then (modify (\<lambda>c. c\<lparr>ctx_next := ctx_next c + 1\<rparr>))
        (ret candidate)))))))))"

text \<open>\<^verbatim>\<open>schedule\<close>: a rejected operation is remembered until the transaction ends.\<close>

definition schedule :: "'a tx \<Rightarrow> 'a tx" where
  "schedule m = (\<lambda>c. case m c of
     (Inl e, c') \<Rightarrow> (Inl e, c'\<lparr>ctx_failure := Some e\<rparr>)
   | (Inr a, c') \<Rightarrow> (Inr a, c'))"

definition append_event :: "world \<Rightarrow> string \<Rightarrow> string \<Rightarrow> date \<Rightarrow> raw_draft \<Rightarrow> envelope tx" where
  "append_event w eid jid now draft = schedule (appendOne w eid jid now draft)"

definition findByCausation :: "world \<Rightarrow> string \<Rightarrow> envelope option tx" where
  "findByCausation w cid = schedule (findOneByCausation w cid)"

definition transact :: "string \<Rightarrow> 'a tx \<Rightarrow> 'a op" where
  "transact rid work = (\<lambda>d.
     if \<not> uuid_ok rid then (Inl (room_error FORBIDDEN), d) else
     (case find_room d rid of None \<Rightarrow> (Inl (room_error FORBIDDEN), d) | Some r \<Rightarrow>
      if \<not> uuid_ok (r_id r) then (Inl (Failure ''INVALID_STORED_ROOM''), d)
      else if deletion_active d (r_id r) then (Inl (room_error ROOM_DELETION_IN_PROGRESS), d)
      else (case roomSnapshot r of Inl e \<Rightarrow> (Inl e, d) | Inr snap \<Rightarrow>
        (case work \<lparr>ctx_db = d, ctx_room = snap, ctx_next = next_room_seq snap, ctx_failure = None\<rparr> of
           (Inl e, _) \<Rightarrow> (Inl e, d)
         | (Inr v, c) \<Rightarrow> (case ctx_failure c of Some e \<Rightarrow> (Inl e, d) | None \<Rightarrow> (Inr v, ctx_db c))))))"

section \<open>Pages\<close>

fun parse_all :: "world \<Rightarrow> StoredEventRow list \<Rightarrow> failure + envelope list" where
  "parse_all w [] = Inr []"
| "parse_all w (row # rows) = (case parseStoredEvent w row of Inl e \<Rightarrow> Inl e | Inr v \<Rightarrow>
     (case parse_all w rows of Inl e \<Rightarrow> Inl e | Inr vs \<Rightarrow> Inr (v # vs)))"

definition eventsAfter :: "world \<Rightarrow> string \<Rightarrow> int \<Rightarrow> int \<Rightarrow> envelope list op" where
  "eventsAfter w rid afterSeq limit = (\<lambda>d.
     if \<not> uuid_ok rid \<or> \<bar>afterSeq\<bar> > max_safe_integer \<or> afterSeq < 0 \<or> \<bar>limit\<bar> > max_safe_integer \<or> limit < 1 \<or> limit > 500
     then (Inl (room_error INVALID_COMMAND), d)
     else (parse_all w (take (nat limit)
             (sort_key (\<lambda>(e, _). e_seq e) (storedEventSelect d (\<lambda>e. e_room e = pg_uuid rid \<and> e_seq e > afterSeq)))), d))"

end
