(* ===== verification/Ledger_Invariant.thy ===== *)
theory Ledger_Invariant
  imports Room_Ledger
begin

text \<open>
  The invariant of the stored ledger and its preservation by the room transaction: every
  room's events are numbered 1, 2, 3, \<open>\<dots>\<close> without a gap and its \<^verbatim>\<open>next_room_seq\<close> is the
  next number; no command is recorded twice; outbox and analytics queue mirror the ledger
  row by row.
\<close>

section \<open>Canonical identifiers\<close>

lemma lower_char_idem [simp]: "lower_char (lower_char c) = lower_char c"
  by (simp add: lower_char_def Let_def)

lemma pg_uuid_idem [simp]: "pg_uuid (pg_uuid s) = pg_uuid s"
  by (simp add: pg_uuid_def)

definition canonical :: "string \<Rightarrow> bool" where
  "canonical s \<longleftrightarrow> pg_uuid s = s"

lemma canonical_pg_uuid [simp]: "canonical (pg_uuid s)"
  by (simp add: canonical_def)

section \<open>The invariant\<close>

definition room_events :: "db \<Rightarrow> string \<Rightarrow> event_row list" where
  "room_events d rid = filter (\<lambda>e. e_room e = rid) (events d)"

definition is_consume :: "job_row \<Rightarrow> bool" where
  "is_consume j \<longleftrightarrow> j_type j = ''analytics.consume.v1''"

definition job_key :: "job_row \<Rightarrow> string option \<times> string option \<times> int option" where
  "job_key j = (j_source j, j_room j, j_order_seq j)"

definition event_key :: "event_row \<Rightarrow> string option \<times> string option \<times> int option" where
  "event_key e = (Some (e_id e), Some (e_room e), Some (e_seq e))"

definition gapless :: "int \<Rightarrow> event_row list \<Rightarrow> bool" where
  "gapless n es \<longleftrightarrow> map e_seq es = map int [1..<Suc (length es)] \<and> n = int (length es) + 1"

definition mirrored :: "db \<Rightarrow> bool" where
  "mirrored d \<longleftrightarrow>
     events d = map (\<lambda>x. event_row_of (o_envelope x)) (outbox d) \<and>
     outbox d = map (\<lambda>x. outbox_row_of (o_envelope x)) (outbox d) \<and>
     map job_key (filter is_consume (jobs d)) = map event_key (events d)"

definition ledger_inv :: "db \<Rightarrow> bool" where
  "ledger_inv d \<longleftrightarrow>
     distinct (map r_id (rooms d)) \<and> (\<forall>r \<in> set (rooms d). canonical (r_id r)) \<and>
     distinct (map e_id (events d)) \<and>
     (\<forall>e \<in> set (events d). e_room e \<in> r_id ` set (rooms d)) \<and>
     (\<forall>r \<in> set (rooms d). gapless (r_next r) (room_events d (r_id r)) \<and>
        distinct (map e_causation (room_events d (r_id r)))) \<and>
     mirrored d"

lemma ledger_invD:
  assumes "ledger_inv d"
  shows "distinct (map r_id (rooms d))" "\<And>r. r \<in> set (rooms d) \<Longrightarrow> canonical (r_id r)"
    "distinct (map e_id (events d))" "\<And>e. e \<in> set (events d) \<Longrightarrow> e_room e \<in> r_id ` set (rooms d)"
    "\<And>r. r \<in> set (rooms d) \<Longrightarrow> gapless (r_next r) (room_events d (r_id r))"
    "\<And>r. r \<in> set (rooms d) \<Longrightarrow> distinct (map e_causation (room_events d (r_id r)))"
    "mirrored d"
  using assms by (auto simp: ledger_inv_def)

text \<open>Statements that leave numbering, events, outbox and the analytics jobs alone.\<close>

lemma ledger_inv_frame:
  assumes "ledger_inv d" "events d' = events d" "outbox d' = outbox d"
    "map job_key (filter is_consume (jobs d')) = map job_key (filter is_consume (jobs d))"
    "map (\<lambda>r. (r_id r, r_next r)) (rooms d') = map (\<lambda>r. (r_id r, r_next r)) (rooms d)"
  shows "ledger_inv d'"
proof -
  have ids: "map r_id (rooms d') = map r_id (rooms d)"
    using arg_cong [OF assms(5), of "map fst"] by (simp add: comp_def)
  have img: "(\<lambda>r. (r_id r, r_next r)) ` set (rooms d') = (\<lambda>r. (r_id r, r_next r)) ` set (rooms d)"
    using arg_cong [OF assms(5), of set] by simp
  have ex: "\<exists>r' \<in> set (rooms d). r_id r' = r_id r \<and> r_next r' = r_next r" if "r \<in> set (rooms d')" for r
  proof -
    have "(r_id r, r_next r) \<in> (\<lambda>r. (r_id r, r_next r)) ` set (rooms d)"
      unfolding img [symmetric] using that by (rule imageI)
    then show ?thesis by auto
  qed
  have "gapless (r_next r) (room_events d' (r_id r)) \<and> distinct (map e_causation (room_events d' (r_id r))) \<and> canonical (r_id r)"
    if "r \<in> set (rooms d')" for r
    using ex [OF that] assms(1,2) by (auto simp: ledger_inv_def room_events_def)
  moreover have "r_id ` set (rooms d') = r_id ` set (rooms d)"
    using ids by (metis list.set_map)
  ultimately show ?thesis
    using assms(1-4) ids by (auto simp: ledger_inv_def mirrored_def)
qed

lemma ledger_inv_update_room:
  assumes "ledger_inv d" "\<And>r. r_id (f r) = r_id r" "\<And>r. r_next (f r) = r_next r"
  shows "ledger_inv (update_room rid f d)"
  by (rule ledger_inv_frame [OF assms(1)]) (simp_all add: update_room_def assms(2,3))

section \<open>Appending\<close>

text \<open>The database after a new event, as one update.\<close>

definition append_db :: "world \<Rightarrow> string \<Rightarrow> envelope \<Rightarrow> db \<Rightarrow> db" where
  "append_db w jid v d = d\<lparr>
     rooms := map (\<lambda>r. if r_id r = pg_uuid (roomId v) \<and> r_next r = roomSeq v then r\<lparr>r_next := roomSeq v + 1\<rparr> else r) (rooms d),
     events := events d @ [event_row_of v],
     outbox := outbox d @ [outbox_row_of v],
     jobs := jobs d @ [analytics_job_of w jid v]\<rparr>"

definition appendable :: "world \<Rightarrow> string \<Rightarrow> envelope \<Rightarrow> db \<Rightarrow> bool" where
  "appendable w jid v d \<longleftrightarrow>
     insert_event (event_row_of v) d \<noteq> None \<and> insert_outbox (outbox_row_of v) d \<noteq> None \<and>
     insert_job (analytics_job_of w jid v) d \<noteq> None \<and> advance_room_seq (roomId v) (roomSeq v) d \<noteq> None"

lemma insert_chain:
  "(\<exists>d1 d2 d3. insert_event (event_row_of v) d = Some d1 \<and> insert_outbox (outbox_row_of v) d1 = Some d2 \<and>
     insert_job (analytics_job_of w jid v) d2 = Some d3 \<and> advance_room_seq (roomId v) (roomSeq v) d3 = Some d4) \<longleftrightarrow>
   appendable w jid v d \<and> d4 = append_db w jid v d"
  by (auto simp: appendable_def append_db_def insert_event_def insert_outbox_def insert_job_def
      advance_room_seq_def split: if_splits)

lemma exec_insert_Inr_iff:
  "exec_insert err st c = (Inr u, c') \<longleftrightarrow> (\<exists>d. st (ctx_db c) = Some d \<and> c' = c\<lparr>ctx_db := d\<rparr>)"
  by (auto simp: exec_insert_def split: option.splits)

lemma exec_Inr_iff: "exec f c = (Inr u, c') \<longleftrightarrow> c' = c\<lparr>ctx_db := f (ctx_db c)\<rparr>"
  by (auto simp: exec_def)

lemma schedule_Inr_iff: "schedule m c = (Inr a, c') \<longleftrightarrow> m c = (Inr a, c')"
  by (auto simp: schedule_def split: prod.splits sum.splits)

lemma findOneByCausation_state: "findOneByCausation w cid c = (Inr r, c') \<Longrightarrow> c' = c"
  by (auto simp: findOneByCausation_def act_iffs split: list.splits)

lemma findByCausation_state: "findByCausation w cid c = (Inr r, c') \<Longrightarrow> c' = c"
  by (auto simp: findByCausation_def schedule_Inr_iff dest: findOneByCausation_state)

lemma findOneByCausation_None_iff:
  "findOneByCausation w cid c = (Inr None, c') \<longleftrightarrow>
     uuid_ok cid \<and> c' = c \<and>
     (\<forall>e \<in> set (events (ctx_db c)). \<not> (e_room e = room_id (ctx_room c) \<and> e_causation e = pg_uuid cid))"
  by (auto simp: findOneByCausation_def act_iffs storedEventSelect_def filter_empty_conv filter_eq_Cons_iff split: list.splits)

lemma validateDraft_fields:
  assumes "validateDraft w eid now rid seq dr = Inr v"
  shows "\<exists>x p. dr = Draft x \<and> clone_payload (d_payload x) = Inr p \<and> validDate (d_eventTime x) \<and> validDate now \<and>
     v = \<lparr>eventId = eid, schemaVersion = 1, roomId = rid, roomSeq = seq, ev_type = d_type x,
             actorId = d_actorId x, actorKind = d_actorKind x, actorRole = d_actorRole x,
             revision = d_revision x, operation = d_operation x, eventTime = date_time (d_eventTime x),
             ingestTime = date_time now, causationId = d_causationId x,
             correlationId = d_correlationId x, payload = p\<rparr> \<and>
     envelope_valid w v \<and> payload_valid w (ev_type v) (payload v)"
  using assms unfolding validateDraft_def
  by (cases dr; cases "clone_payload (d_payload (case dr of Draft x \<Rightarrow> x))")
     (auto simp: Let_def split: sum.splits if_splits)

lemma appendOne_Inr:
  assumes "appendOne w eid jid now dr c = (Inr v, c')"
  shows "ctx_failure c = None \<and> ctx_room c' = ctx_room c \<and> ctx_failure c' = None \<and>
    ((c' = c \<and> (\<exists>cand. validateDraft w eid now (room_id (ctx_room c)) (ctx_next c) dr = Inr cand \<and>
        findOneByCausation w (causationId cand) c = (Inr (Some v), c) \<and> immutableDraftMatches v cand))
     \<or> (validateDraft w eid now (room_id (ctx_room c)) (ctx_next c) dr = Inr v \<and>
        findOneByCausation w (causationId v) c = (Inr None, c) \<and>
        appendable w jid v (ctx_db c) \<and>
        ctx_db c' = append_db w jid v (ctx_db c) \<and> ctx_next c' = ctx_next c + 1))"
proof -
  from assms obtain cand prior u where f: "ctx_failure c = None"
    and cand: "validateDraft w eid now (room_id (ctx_room c)) (ctx_next c) dr = Inr cand"
    and prior: "findOneByCausation w (causationId cand) c = (Inr prior, u)"
    and rest: "(case prior of
       Some p \<Rightarrow> if immutableDraftMatches p cand then ret p else raise (room_error INVALID_COMMAND)
     | None \<Rightarrow>
       act_then (exec_insert (Failure ''ROOM_EVENT_APPEND_FAILED'') (insert_event (event_row_of cand)))
       (act_then (exec_insert (Failure ''ROOM_EVENT_APPEND_FAILED'') (insert_outbox (outbox_row_of cand)))
       (act_then (exec_insert (Failure ''ROOM_EVENT_APPEND_FAILED'') (insert_job (analytics_job_of w jid cand)))
       (act_then (exec_insert (Failure ''ROOM_EVENT_APPEND_FAILED'') (advance_room_seq (room_id (ctx_room c)) (ctx_next c)))
       (act_then (modify (\<lambda>c. c\<lparr>ctx_next := ctx_next c + 1\<rparr>))
        (ret cand)))))) u = (Inr v, c')"
    unfolding appendOne_def act_bind_Inr_iff gets_Inr_iff
    by (auto simp: act_bind_Inr_iff lift_result_Inr_iff split: option.splits)
  from prior have u: "u = c" by (rule findOneByCausation_state)
  from validateDraft_fields [OF cand] have ids: "roomId cand = room_id (ctx_room c)" "roomSeq cand = ctx_next c" by auto
  show ?thesis
  proof (cases prior)
    case (Some p)
    with rest u f prior cand show ?thesis by (auto split: if_splits)
  next
    case None
    with rest u have "v = cand" and db: "(\<exists>d1 d2 d3. insert_event (event_row_of cand) (ctx_db c) = Some d1 \<and> insert_outbox (outbox_row_of cand) d1 = Some d2 \<and>
       insert_job (analytics_job_of w jid cand) d2 = Some d3 \<and> advance_room_seq (roomId cand) (roomSeq cand) d3 = Some (ctx_db c'))"
      and c': "c' = c\<lparr>ctx_db := ctx_db c', ctx_next := ctx_next c + 1\<rparr>"
      by (auto simp: act_iffs exec_insert_Inr_iff ids)
    from db have "appendable w jid cand (ctx_db c)" "ctx_db c' = append_db w jid cand (ctx_db c)"
      unfolding insert_chain by auto
    moreover from c' have "ctx_next c' = ctx_next c + 1" "ctx_room c' = ctx_room c" "ctx_failure c' = ctx_failure c"
      by (metis ctx.select_convs ctx.surjective ctx.update_convs)+
    ultimately show ?thesis
      using f cand prior u None \<open>v = cand\<close> by auto
  qed
qed


lemma room_events_append_db:
  "room_events (append_db w jid v d) rid =
     room_events d rid @ (if rid = pg_uuid (roomId v) then [event_row_of v] else [])"
  by (auto simp: room_events_def append_db_def event_row_of_def)

lemma append_db_simps [simp]:
  "map r_id (rooms (append_db w jid v d)) = map r_id (rooms d)"
  "events (append_db w jid v d) = events d @ [event_row_of v]"
  "outbox (append_db w jid v d) = outbox d @ [outbox_row_of v]"
  "jobs (append_db w jid v d) = jobs d @ [analytics_job_of w jid v]"
  "members (append_db w jid v d) = members d" "sessions (append_db w jid v d) = sessions d"
  "deletions (append_db w jid v d) = deletions d" "medias (append_db w jid v d) = medias d"
  "bindings (append_db w jid v d) = bindings d" "policies (append_db w jid v d) = policies d"
  by (simp_all add: append_db_def)

lemma gapless_snoc:
  "gapless n es \<Longrightarrow> e_seq e = n \<Longrightarrow> gapless (n + 1) (es @ [e])"
  by (simp add: gapless_def)

lemma gapless_length: "gapless n es \<Longrightarrow> int (length es) = n - 1"
  by (simp add: gapless_def)

lemma mirrored_append: "mirrored d \<Longrightarrow> mirrored (append_db w jid v d)"
  by (simp add: mirrored_def outbox_row_of_def is_consume_def analytics_job_of_def job_key_def event_key_def event_row_of_def)

lemma appendable_fresh:
  assumes "appendable w jid v d"
  shows "pg_uuid (eventId v) \<notin> e_id ` set (events d)"
    "\<And>e. e \<in> set (events d) \<Longrightarrow> e_room e = pg_uuid (roomId v) \<Longrightarrow> e_causation e \<noteq> pg_uuid (causationId v)"
  using assms by (auto simp: appendable_def insert_event_def event_row_of_def list_ex_iff split: if_splits)

lemma distinct_r_id_eq:
  "distinct (map r_id rs) \<Longrightarrow> r \<in> set rs \<Longrightarrow> r' \<in> set rs \<Longrightarrow> r_id r = r_id r' \<Longrightarrow> r = r'"
  by (auto simp: distinct_map inj_on_def)

lemma append_db_inv:
  assumes inv: "ledger_inv d" and r: "r \<in> set (rooms d)" "r_id r = pg_uuid (roomId v)" "r_next r = roomSeq v"
    and ok: "appendable w jid v d"
  shows "ledger_inv (append_db w jid v d)"
proof -
  note inv' = ledger_invD [OF inv]
  have room_ok: "gapless (r_next r') (room_events (append_db w jid v d) (r_id r')) \<and>
      distinct (map e_causation (room_events (append_db w jid v d) (r_id r'))) \<and> canonical (r_id r')"
    if "r' \<in> set (rooms (append_db w jid v d))" for r'
  proof -
    from that obtain q where q: "q \<in> set (rooms d)"
      and r': "r' = (if r_id q = pg_uuid (roomId v) \<and> r_next q = roomSeq v then q\<lparr>r_next := roomSeq v + 1\<rparr> else q)"
      by (auto simp: append_db_def)
    then have id: "r_id r' = r_id q" by auto
    show ?thesis
    proof (cases "r_id q = pg_uuid (roomId v)")
      case True
      with q r inv'(1) have "q = r" by (metis distinct_r_id_eq)
      with r r' have nx: "r_next r' = r_next r + 1" "r_id r' = r_id r" by auto
      have "e_seq (event_row_of v) = r_next r" using r by (simp add: event_row_of_def)
      then have "gapless (r_next r + 1) (room_events d (r_id r) @ [event_row_of v])"
        by (rule gapless_snoc [OF inv'(5) [OF r(1)]])
      moreover have "pg_uuid (causationId v) \<notin> e_causation ` set (room_events d (r_id r))"
        using appendable_fresh(2) [OF ok] r(2) by (force simp: room_events_def)
      ultimately show ?thesis
        using nx r(2) inv'(2,6) [OF r(1)] by (simp add: room_events_append_db event_row_of_def)
    next
      case False
      then show ?thesis using r' inv'(2,5,6) [OF q] by (simp add: room_events_append_db)
    qed
  qed
  have imgs: "r_id ` set (rooms (append_db w jid v d)) = r_id ` set (rooms d)"
    by (metis append_db_simps(1) list.set_map)
  have "\<forall>e \<in> set (events (append_db w jid v d)). e_room e \<in> r_id ` set (rooms (append_db w jid v d))"
    using inv'(4) r(1) unfolding imgs by (auto simp: event_row_of_def simp flip: r(2))
  moreover have "distinct (map e_id (events (append_db w jid v d)))"
    using inv'(3) appendable_fresh(1) [OF ok] by (simp add: event_row_of_def)
  ultimately show ?thesis
    using room_ok inv'(1) mirrored_append [OF inv'(7)] by (auto simp: ledger_inv_def)
qed

section \<open>Transactions keep it\<close>

text \<open>A transaction context that may still commit: its database satisfies the invariant and
  its counter is that of its room.\<close>

definition ctx_inv :: "ctx \<Rightarrow> bool" where
  "ctx_inv c \<longleftrightarrow> (ctx_failure c = None \<longrightarrow> ledger_inv (ctx_db c) \<and>
     (\<exists>r \<in> set (rooms (ctx_db c)). r_id r = room_id (ctx_room c) \<and> r_next r = ctx_next c))"

lemma roomSnapshot_fields:
  "roomSnapshot r = Inr snap \<Longrightarrow>
     room_id snap = r_id r \<and> teacher_id snap = r_teacher r \<and> status snap = r_status r \<and> next_room_seq snap = r_next r \<and>
     nova_actor_id snap = r_nova r \<and> closes_at snap = map_option date_time (r_closes r) \<and>
     1 \<le> r_next r \<and> r_next r \<le> max_safe_integer"
  by (auto simp: roomSnapshot_def safePositiveInteger_def dateText_def split: if_splits sum.splits option.splits)

definition start_ctx :: "db \<Rightarrow> LockedRoomSnapshot \<Rightarrow> ctx" where
  "start_ctx d snap = \<lparr>ctx_db = d, ctx_room = snap, ctx_next = next_room_seq snap, ctx_failure = None\<rparr>"

lemma transact_Inr_iff:
  "transact rid work d = (Inr v, d') \<longleftrightarrow>
     (\<exists>r snap c. uuid_ok rid \<and> find_room d rid = Some r \<and> uuid_ok (r_id r) \<and> \<not> deletion_active d (r_id r) \<and>
        roomSnapshot r = Inr snap \<and> work (start_ctx d snap) = (Inr v, c) \<and> ctx_failure c = None \<and> d' = ctx_db c)"
  by (auto simp: transact_def start_ctx_def split: option.splits sum.splits prod.splits if_splits)

lemma transact_Inl: "transact rid work d = (Inl e, d') \<Longrightarrow> d' = d"
  by (auto simp: transact_def split: option.splits sum.splits prod.splits if_splits)

lemma start_ctx_inv:
  "ledger_inv d \<Longrightarrow> find_room d rid = Some r \<Longrightarrow> roomSnapshot r = Inr snap \<Longrightarrow> ctx_inv (start_ctx d snap)"
  using find_room_SomeD [of d rid r] roomSnapshot_fields [of r snap]
  by (auto simp: ctx_inv_def start_ctx_def)

lemma transact_commits:
  assumes I: "I d" and work: "\<And>snap r v c. find_room d rid = Some r \<Longrightarrow> roomSnapshot r = Inr snap \<Longrightarrow>
     work (start_ctx d snap) = (Inr v, c) \<Longrightarrow> ctx_failure c = None \<Longrightarrow> I (ctx_db c)"
  shows "I (snd (transact rid work d))"
proof -
  obtain res d' where t: "transact rid work d = (res, d')" by fastforce
  show ?thesis
  proof (cases res)
    case (Inl e)
    with t have "d' = d" by (auto dest: transact_Inl)
    with t I show ?thesis by simp
  next
    case (Inr v)
    with t have "transact rid work d = (Inr v, d')" by simp
    then have "I d'" using work unfolding transact_Inr_iff by blast
    with t show ?thesis by simp
  qed
qed

lemma transact_keeps:
  assumes "\<And>d snap r v c. I d \<Longrightarrow> find_room d rid = Some r \<Longrightarrow> roomSnapshot r = Inr snap \<Longrightarrow>
     work (start_ctx d snap) = (Inr v, c) \<Longrightarrow> ctx_failure c = None \<Longrightarrow> I (ctx_db c)"
  shows "keeps I (transact rid work)"
  by (rule keepsI) (rule transact_commits, assumption, rule assms)

lemma append_ctx_inv:
  assumes "append_event w eid jid now dr c = (Inr v, c')" "ctx_inv c"
  shows "ctx_inv c'"
proof -
  from assms(1) have a: "appendOne w eid jid now dr c = (Inr v, c')"
    by (simp add: append_event_def schedule_Inr_iff)
  note cases = appendOne_Inr [OF a]
  show ?thesis
  proof (cases "c' = c")
    case True with assms(2) show ?thesis by simp
  next
    case False
    with cases have f: "ctx_failure c = None" "ctx_room c' = ctx_room c" "ctx_failure c' = None"
      and v: "validateDraft w eid now (room_id (ctx_room c)) (ctx_next c) dr = Inr v"
      and ok: "appendable w jid v (ctx_db c)"
      and db: "ctx_db c' = append_db w jid v (ctx_db c)" "ctx_next c' = ctx_next c + 1" by auto
    from validateDraft_fields [OF v] have ids: "roomId v = room_id (ctx_room c)" "roomSeq v = ctx_next c" by auto
    from assms(2) f(1) obtain r where inv: "ledger_inv (ctx_db c)" and r: "r \<in> set (rooms (ctx_db c))"
      "r_id r = room_id (ctx_room c)" "r_next r = ctx_next c" by (auto simp: ctx_inv_def)
    have can: "pg_uuid (roomId v) = roomId v"
      using ledger_invD(2) [OF inv r(1)] r(2) ids by (simp add: canonical_def)
    have "ledger_inv (ctx_db c')"
      unfolding db by (rule append_db_inv [OF inv r(1) _ _ ok]) (use r ids can in auto)
    moreover have "\<exists>r \<in> set (rooms (ctx_db c')). r_id r = room_id (ctx_room c') \<and> r_next r = ctx_next c'"
      unfolding db append_db_def using r ids can f(2)
      by (auto intro!: bexI [of _ "r\<lparr>r_next := roomSeq v + 1\<rparr>"] image_eqI [of _ _ r])
    ultimately show ?thesis by (simp add: ctx_inv_def)
  qed
qed


section \<open>Pages of the ledger\<close>

text \<open>The abstract ledger of a room: the envelopes in commit order.\<close>

definition ledger_log :: "db \<Rightarrow> string \<Rightarrow> envelope list" where
  "ledger_log d rid = map o_envelope (filter (\<lambda>x. o_room x = rid) (outbox d))"

text \<open>An envelope whose identifiers are in the form a \<^verbatim>\<open>uuid\<close> column returns.\<close>

definition canonical_envelope :: "envelope \<Rightarrow> bool" where
  "canonical_envelope v \<longleftrightarrow> canonical (eventId v) \<and> canonical (roomId v) \<and> canonical (actorId v) \<and>
     canonical (causationId v) \<and> canonical (correlationId v)"

definition readable :: "world \<Rightarrow> envelope \<Rightarrow> bool" where
  "readable w v \<longleftrightarrow> envelope_valid w v \<and> payload_valid w (ev_type v) (payload v) \<and> canonical_envelope v \<and>
     1 \<le> roomSeq v \<and> roomSeq v \<le> max_safe_integer"

definition stored_pair :: "envelope \<Rightarrow> StoredEventRow" where
  "stored_pair v = (event_row_of v, Some (outbox_row_of v))"

lemma relational_event_row:
  "relationalEnvelope (event_row_of v) = v\<lparr>eventId := pg_uuid (eventId v), roomId := pg_uuid (roomId v),
     actorId := pg_uuid (actorId v), causationId := pg_uuid (causationId v), correlationId := pg_uuid (correlationId v)\<rparr>"
  by (simp add: relationalEnvelope_def event_row_of_def)

lemma envelope_eq_relational: "envelope_eq v (relationalEnvelope (event_row_of v)) \<longleftrightarrow> canonical_envelope v"
proof -
  have "v\<lparr>payload := JNull\<rparr> = (relationalEnvelope (event_row_of v))\<lparr>payload := JNull\<rparr> \<longleftrightarrow> canonical_envelope v"
    by (cases v) (auto simp: relational_event_row canonical_envelope_def canonical_def)
  moreover have "payload (relationalEnvelope (event_row_of v)) = payload v"
    by (simp add: relational_event_row)
  ultimately show ?thesis by (simp add: envelope_eq_def)
qed

lemma parseStoredEvent_pair:
  "parseStoredEvent w (stored_pair v) = (if readable w v then Inr v else Inl (Failure ''INVALID_STORED_ROOM_EVENT''))"
proof -
  have "o_topic (outbox_row_of v) = CANONICAL_OUTBOX_TOPIC" "o_room (outbox_row_of v) = e_room (event_row_of v)"
    "validDate (e_time (event_row_of v))" "validDate (e_ingest (event_row_of v))"
    "e_seq (event_row_of v) = roomSeq v" "o_seq (outbox_row_of v) = roomSeq v" "o_envelope (outbox_row_of v) = v"
    by (simp_all add: outbox_row_of_def event_row_of_def)
  then show ?thesis
    by (simp add: parseStoredEvent_def stored_pair_def readable_def envelope_eq_relational safePositiveInteger_def)
qed

lemma parse_all_pairs:
  "parse_all w (map stored_pair vs) =
     (if list_all (readable w) vs then Inr vs else Inl (Failure ''INVALID_STORED_ROOM_EVENT''))"
  by (induction vs) (simp_all add: parseStoredEvent_pair)

lemma find_outbox_of:
  "distinct (map (\<lambda>v. pg_uuid (eventId v)) vs) \<Longrightarrow> v \<in> set vs \<Longrightarrow>
     find (\<lambda>x. o_event x = pg_uuid (eventId v)) (map outbox_row_of vs) = Some (outbox_row_of v)"
  by (induction vs) (auto simp: outbox_row_of_def)

lemma storedEventSelect_pairs:
  assumes "ledger_inv d"
  shows "storedEventSelect d p = map stored_pair (filter (\<lambda>v. p (event_row_of v)) (map o_envelope (outbox d)))"
proof -
  let ?vs = "map o_envelope (outbox d)"
  from ledger_invD(7) [OF assms] have ev: "events d = map event_row_of ?vs" and ob: "outbox d = map outbox_row_of ?vs"
    by (simp_all add: mirrored_def comp_def)
  have "map e_id (events d) = map (\<lambda>v. pg_uuid (eventId v)) ?vs"
    unfolding ev by (simp add: event_row_of_def)
  with ledger_invD(3) [OF assms] have dist: "distinct (map (\<lambda>v. pg_uuid (eventId v)) ?vs)" by simp
  have "storedEventSelect d p = map (\<lambda>v. (event_row_of v, find (\<lambda>x. o_event x = pg_uuid (eventId v)) (outbox d)))
      (filter (\<lambda>v. p (event_row_of v)) ?vs)"
    unfolding storedEventSelect_def ev by (simp add: filter_map comp_def event_row_of_def)
  also have "\<dots> = map stored_pair (filter (\<lambda>v. p (event_row_of v)) ?vs)"
  proof (rule map_cong [OF refl])
    fix v assume "v \<in> set (filter (\<lambda>v. p (event_row_of v)) ?vs)"
    then have "v \<in> set ?vs" by simp
    then have "find (\<lambda>x. o_event x = pg_uuid (eventId v)) (outbox d) = Some (outbox_row_of v)"
      by (subst ob) (rule find_outbox_of [OF dist])
    then show "(event_row_of v, find (\<lambda>x. o_event x = pg_uuid (eventId v)) (outbox d)) = stored_pair v"
      by (simp add: stored_pair_def)
  qed
  finally show ?thesis .
qed

lemma filter_above_numbered:
  "map f xs = map int [k..<k + length xs] \<Longrightarrow> filter (\<lambda>x. f x > int a) xs = drop (Suc a - k) xs"
proof (induction xs arbitrary: k)
  case (Cons x xs)
  from Cons.prems have fx: "f x = int k" and xs: "map f xs = map int [Suc k..<Suc k + length xs]"
    by (simp_all add: upt_conv_Cons del: upt_Suc)
  note ih = Cons.IH [OF xs]
  show ?case
  proof (cases "a < k")
    case True
    then show ?thesis using fx ih by simp
  next
    case False
    then have "Suc a - k = Suc (Suc a - Suc k)" by simp
    then show ?thesis using fx ih False by simp
  qed
qed simp

lemma outbox_mirrors:
  assumes "ledger_inv d"
  shows "events d = map event_row_of (map o_envelope (outbox d))" "x \<in> set (outbox d) \<Longrightarrow> o_room x = pg_uuid (roomId (o_envelope x))"
proof -
  from ledger_invD(7) [OF assms] show "events d = map event_row_of (map o_envelope (outbox d))" by (simp add: mirrored_def comp_def)
  from ledger_invD(7) [OF assms] have "outbox d = map outbox_row_of (map o_envelope (outbox d))" by (simp add: mirrored_def comp_def)
  moreover assume "x \<in> set (outbox d)"
  ultimately have "x \<in> set (map outbox_row_of (map o_envelope (outbox d)))" by simp
  then show "o_room x = pg_uuid (roomId (o_envelope x))" by (auto simp: outbox_row_of_def)
qed

lemma ledger_log_filter:
  assumes "ledger_inv d"
  shows "filter (\<lambda>v. pg_uuid (roomId v) = rid) (map o_envelope (outbox d)) = ledger_log d rid"
  unfolding ledger_log_def filter_map comp_def
  by (rule arg_cong [where f = "map o_envelope"], rule filter_cong [OF refl]) (simp add: outbox_mirrors(2) [OF assms])

lemma room_events_log:
  assumes "ledger_inv d"
  shows "room_events d rid = map event_row_of (ledger_log d rid)"
proof -
  have "e_room (event_row_of v) = pg_uuid (roomId v)" for v by (simp add: event_row_of_def)
  then show ?thesis
    unfolding room_events_def outbox_mirrors(1) [OF assms] ledger_log_filter [OF assms, symmetric] filter_map comp_def by simp
qed

lemma ledger_log_numbered:
  assumes "ledger_inv d" "rid \<in> r_id ` set (rooms d)"
  shows "map roomSeq (ledger_log d rid) = map int [1..<Suc (length (ledger_log d rid))]"
proof -
  from assms ledger_invD(5) [OF assms(1)] obtain n where "gapless n (room_events d rid)" by auto
  then show ?thesis by (simp add: room_events_log [OF assms(1)] gapless_def event_row_of_def comp_def)
qed

lemma sort_key_numbered:
  "map f xs = map int [k..<k + length xs] \<Longrightarrow> sort_key f xs = xs"
  by (rule sort_key_id_if_sorted) (simp add: sorted_map sorted_wrt_map del: upt_Suc)

definition page :: "db \<Rightarrow> string \<Rightarrow> nat \<Rightarrow> nat \<Rightarrow> envelope list" where
  "page d rid a n = take n (drop a (ledger_log d rid))"

lemma eventsAfter_page:
  assumes inv: "ledger_inv d" and room: "find_room d rid = Some r" and id: "uuid_ok rid"
    and rng: "int a \<le> max_safe_integer" "1 \<le> n" "n \<le> 500"
  shows "eventsAfter w rid (int a) n d =
     (if list_all (readable w) (page d (r_id r) a (nat n)) then Inr (page d (r_id r) a (nat n))
      else Inl (Failure ''INVALID_STORED_ROOM_EVENT''), d)"
proof -
  let ?log = "ledger_log d (r_id r)"
  from find_room_SomeD [OF room] have r: "r \<in> set (rooms d)" "r_id r = pg_uuid rid" by auto
  from r(1) have "r_id r \<in> r_id ` set (rooms d)" by (rule imageI)
  then have num: "map roomSeq ?log = map int [1..<1 + length ?log]"
    unfolding plus_1_eq_Suc by (rule ledger_log_numbered [OF inv])
  have ob: "x = outbox_row_of (o_envelope x)" if "x \<in> set (outbox d)" for x
    using ledger_invD(7) [OF inv] that
    by (auto simp: mirrored_def map_eq_conv [symmetric] list_eq_iff_nth_eq in_set_conv_nth)
  have log: "?log = filter (\<lambda>v. pg_uuid (roomId v) = pg_uuid rid) (map o_envelope (outbox d))"
    unfolding ledger_log_def filter_map comp_def r(2)
    by (rule arg_cong [where f = "map o_envelope"], rule filter_cong [OF refl])
       (metis ob outbox_row.select_convs(2) outbox_row_of_def)
  have sel: "storedEventSelect d (\<lambda>e. e_room e = pg_uuid rid \<and> e_seq e > int a) = map stored_pair (drop a ?log)"
  proof -
    have "filter (\<lambda>v. roomSeq v > int a) ?log = drop a ?log"
      using filter_above_numbered [OF num, of a] by simp
    moreover have "filter (\<lambda>v. e_room (event_row_of v) = pg_uuid rid \<and> e_seq (event_row_of v) > int a) (map o_envelope (outbox d))
        = filter (\<lambda>v. roomSeq v > int a) ?log"
      unfolding log filter_filter by (rule filter_cong [OF refl]) (auto simp: event_row_of_def)
    ultimately show ?thesis by (simp only: storedEventSelect_pairs [OF inv])
  qed
  have "map roomSeq (drop a ?log) = map int [1 + a..<1 + a + length (drop a ?log)]"
    using arg_cong [OF num, of "drop a"] by (cases "a \<le> length ?log") (simp_all add: drop_map del: upt_Suc)
  then have srt: "sort_key (\<lambda>(e, _). e_seq e) (map stored_pair (drop a ?log)) = map stored_pair (drop a ?log)"
    by (intro sort_key_numbered [of _ _ "1 + a"]) (simp add: stored_pair_def event_row_of_def comp_def)
  have "max_safe_integer > 500" by (simp add: max_safe_integer_def)
  then show ?thesis
    using id rng by (simp add: eventsAfter_def sel srt take_map parse_all_pairs page_def max_safe_integer_def)
qed

end
