(* ===== verification/Room_Lifecycle.thy ===== *)
theory Room_Lifecycle
  imports Ledger_Invariant "HOL-Library.List_Lexorder" "HOL-Library.Char_ord" "HOL-Library.Product_Lexorder"
begin

text \<open>
  \<^verbatim>\<open>RoomLifecycleService\<close> of \<^verbatim>\<open>apps/server/src/modules/rooms/lifecycle-service.ts\<close>: a
  teacher opens, pauses, resumes and closes a room; an expired room is closed by its
  canonical auto-close job. Every public operation is a sequence of room transactions;
  \<open>ws k\<close> is the world (clock, generator, transaction time) of the \<open>k\<close>-th one.
\<close>

section \<open>Drafts and retries\<close>

definition ROOM_DURATION_MS :: int where
  "ROOM_DURATION_MS = 45 * 60 * 1000"

definition plain_obj :: "(string \<times> jsval) list \<Rightarrow> jsval" where
  "plain_obj kvs = VObj 0 True (map (\<lambda>(k, v). (Some k, True, v)) kvs)"

definition validNow :: "date \<Rightarrow> date tx" where
  "validNow now = act_then (require (validDate now) (Failure ''INVALID_CLOCK'')) (ret now)"

definition assertManualRetry :: "envelope \<Rightarrow> string \<Rightarrow> string \<Rightarrow> string \<Rightarrow> envelope tx" where
  "assertManualRetry event expectedType rid teacherId =
     (if roomId event \<noteq> rid \<or> ev_type event \<noteq> expectedType \<or> actorId event \<noteq> teacherId \<or>
         actorKind event \<noteq> ''human'' \<or> actorRole event \<noteq> ''teacher'' \<or> revision event \<noteq> 1 \<or>
         operation event \<noteq> ''add''
      then raise (room_error INVALID_COMMAND) else ret event)"

definition existingManualRetry :: "world \<Rightarrow> string \<Rightarrow> string \<Rightarrow> string \<Rightarrow> string \<Rightarrow> envelope option tx" where
  "existingManualRetry w cid expectedType rid teacherId =
     act_bind (findByCausation w cid) (\<lambda>existing. case existing of
       None \<Rightarrow> ret None
     | Some e \<Rightarrow> act_bind (assertManualRetry e expectedType rid teacherId) (\<lambda>r. ret (Some r)))"

definition cancelled_job :: "int \<Rightarrow> job_row \<Rightarrow> job_row" where
  "cancelled_job now j = j\<lparr>j_status := Cancelled, j_token := None, j_locked_at := None, j_locked_by := None, j_updated := now\<rparr>"

definition cancelRoomJobs :: "string \<Rightarrow> int \<Rightarrow> string option \<Rightarrow> db \<Rightarrow> db" where
  "cancelRoomJobs rid now preserve d = d\<lparr>jobs := map (\<lambda>j.
     if j_room j = Some (pg_uuid rid) \<and> j_status j \<in> {Queued, Retryable, Running} \<and>
        j_type j \<notin> {''analytics.consume.v1'', ''analytics.replay-room.v1''} \<and>
        (case preserve of None \<Rightarrow> True | Some p \<Rightarrow> j_id j \<noteq> pg_uuid p)
     then cancelled_job now j else j) (jobs d)\<rparr>"

definition teacher_draft :: "string \<Rightarrow> string \<Rightarrow> date \<Rightarrow> string \<Rightarrow> string \<Rightarrow> jsval \<Rightarrow> raw_draft" where
  "teacher_draft type teacherId now cid corr pl = Draft
     \<lparr>d_type = type, d_actorId = teacherId, d_actorKind = ''human'', d_actorRole = ''teacher'',
      d_revision = 1, d_operation = ''add'', d_eventTime = now, d_causationId = cid,
      d_correlationId = corr, d_payload = pl\<rparr>"

definition appendAutomaticClose :: "world \<Rightarrow> string \<Rightarrow> string \<Rightarrow> int \<Rightarrow> string \<Rightarrow> string option \<Rightarrow> envelope tx" where
  "appendAutomaticClose w rid jobId closesAt corr preserve =
     act_bind (validNow (clock w 1)) (\<lambda>now.
     act_then (exec (update_room rid (\<lambda>r. r\<lparr>r_status := Closed, r_closed := Some (At closesAt)\<rparr>)))
     (act_then (exec (cancelRoomJobs rid (date_time now) preserve))
      (append_event w (fresh w 1) (fresh w 2) (clock w 2) (Draft
        \<lparr>d_type = ''room.closed'', d_actorId = jobId, d_actorKind = ''system'', d_actorRole = ''room_clock'',
         d_revision = 1, d_operation = ''add'', d_eventTime = At closesAt, d_causationId = jobId,
         d_correlationId = corr, d_payload = plain_obj [(''closedAt'', VTime closesAt)]\<rparr>))))"

section \<open>Guards\<close>

definition requireOwner :: "string \<Rightarrow> unit tx" where
  "requireOwner teacherId =
     act_bind (gets (\<lambda>c. teacher_id (ctx_room c))) (\<lambda>t. require (t = teacherId) (room_error FORBIDDEN))"

definition live_teacher_sessions :: "world \<Rightarrow> string \<Rightarrow> string \<Rightarrow> db \<Rightarrow> session_row list" where
  "live_teacher_sessions w sid teacherId d = filter (\<lambda>s. s_id s = pg_uuid sid \<and> s_kind s = TeacherKind \<and>
     s_teacher s = Some (pg_uuid teacherId) \<and> s_revoked s = None \<and> s_expires s > tx_now w) (sessions d)"

definition assertTeacherSession :: "world \<Rightarrow> string \<Rightarrow> string option \<Rightarrow> unit tx" where
  "assertTeacherSession w teacherId sessionId = (case sessionId of
     None \<Rightarrow> ret ()
   | Some sid \<Rightarrow> if sid = '''' then ret () else
       act_bind (gets (\<lambda>c. length (live_teacher_sessions w sid teacherId (ctx_db c))))
         (\<lambda>n. require (n = 1) (room_error FORBIDDEN)))"

definition owner_guard :: "world \<Rightarrow> string \<Rightarrow> string option \<Rightarrow> unit tx" where
  "owner_guard w teacherId sessionId = act_then (requireOwner teacherId) (assertTeacherSession w teacherId sessionId)"

text \<open>
  The opening every owner command shares: owner and session check, then the answer of an
  earlier run of the same command, else the command's own work.
\<close>

definition manual :: "world \<Rightarrow> string \<Rightarrow> string \<Rightarrow> string \<Rightarrow> string \<Rightarrow> string option \<Rightarrow> envelope tx \<Rightarrow> envelope tx" where
  "manual w rid teacherId cid type sessionId body =
     act_then (owner_guard w teacherId sessionId)
     (act_bind (existingManualRetry w cid type rid teacherId) (\<lambda>retry. case retry of
       Some e \<Rightarrow> ret e
     | None \<Rightarrow> body))"

section \<open>Operations\<close>

definition auto_close_job :: "world \<Rightarrow> string \<Rightarrow> string \<Rightarrow> envelope \<Rightarrow> int \<Rightarrow> job_row" where
  "auto_close_job w jid rid event closesAt =
     \<lparr>j_id = jid, j_type = ''room.auto-close.v1'', j_room = Some (pg_uuid rid),
      j_source = Some (pg_uuid (eventId event)), j_dedupe = ''room.auto-close.v1:'' @ rid,
      j_correlation = pg_uuid (correlationId event),
      j_payload = JObj [(''roomId'', JStr rid), (''closesAt'', JTime closesAt)],
      j_status = Queued, j_run_after = At closesAt, j_token = None, j_locked_at = None, j_locked_by = None,
      j_created = tx_now w, j_updated = tx_now w, j_order_seq = None, j_order_kind = None\<rparr>"

definition open_in :: "world \<Rightarrow> string \<Rightarrow> string \<Rightarrow> string \<Rightarrow> string option \<Rightarrow> envelope tx" where
  "open_in w rid teacherId cid sessionId =
     manual w rid teacherId cid ''room.opened'' sessionId (
       act_bind (gets (\<lambda>c. status (ctx_room c))) (\<lambda>st.
       act_then (require (st = Scheduled) (room_error INVALID_COMMAND))
       (act_bind (validNow (clock w 0)) (\<lambda>now.
        let closesAt = date_time now + ROOM_DURATION_MS in
        act_then (exec (update_room rid (\<lambda>r. r\<lparr>r_status := Open, r_starts := Some now, r_closes := Some (At closesAt)\<rparr>)))
        (act_bind (append_event w (fresh w 1) (fresh w 2) (clock w 1)
            (teacher_draft ''room.opened'' teacherId now cid (fresh w 0)
              (plain_obj [(''startsAt'', VTime (date_time now)), (''closesAt'', VTime closesAt)])))
          (\<lambda>event. act_then (exec_insert (Failure ''ROOM_AUTO_CLOSE_ENQUEUE_FAILED'')
              (insert_job (auto_close_job w (fresh w 3) rid event closesAt)))
            (ret event)))))))"

definition open_room :: "world \<Rightarrow> string \<Rightarrow> string \<Rightarrow> string \<Rightarrow> string option \<Rightarrow> envelope op" where
  "open_room w rid teacherId cid sessionId = transact rid (open_in w rid teacherId cid sessionId)"

text \<open>The auto-close job of a room: the first by creation time and id.\<close>

definition auto_close_candidate :: "db \<Rightarrow> string \<Rightarrow> job_row option" where
  "auto_close_candidate d rid =
     (case sort_key (\<lambda>j. (j_created j, j_id j))
        (filter (\<lambda>j. j_room j = Some (pg_uuid rid) \<and> j_type j = ''room.auto-close.v1'') (jobs d)) of
      [] \<Rightarrow> None | j # _ \<Rightarrow> Some j)"

definition source_matches :: "db \<Rightarrow> job_row \<Rightarrow> string \<Rightarrow> int \<Rightarrow> bool" where
  "source_matches d j rid closesAt = (case j_source j of None \<Rightarrow> False | Some sid \<Rightarrow>
     (case find (\<lambda>e. e_id e = sid) (events d) of None \<Rightarrow> False | Some s \<Rightarrow>
       e_room s = rid \<and> e_type s = ''room.opened'' \<and> e_kind s = ''human'' \<and> e_role s = ''teacher'' \<and>
       e_revision s = 1 \<and> e_operation s = ''add'' \<and> e_correlation s = j_correlation j \<and>
       jmember (e_payload s) ''closesAt'' = Some (JTime closesAt)))"

definition closeDueInContext :: "world \<Rightarrow> envelope option tx" where
  "closeDueInContext w =
     act_bind (gets ctx_room) (\<lambda>room.
     if status room \<noteq> Open \<and> status room \<noteq> Paused then ret None else
     (case closes_at room of None \<Rightarrow> ret None | Some closesAt \<Rightarrow>
      act_bind (validNow (clock w 0)) (\<lambda>now.
      if closesAt > date_time now then ret None else
      act_bind (gets (\<lambda>c. auto_close_candidate (ctx_db c) (room_id room))) (\<lambda>cand. case cand of
        None \<Rightarrow> ret None
      | Some j \<Rightarrow>
        act_bind (gets (\<lambda>c. source_matches (ctx_db c) j (room_id room) closesAt)) (\<lambda>src.
        if j_status j \<noteq> Queued \<and> j_status j \<noteq> Running then ret None
        else if j_dedupe j \<noteq> ''room.auto-close.v1:'' @ room_id room then ret None
        else if \<not> validDate (j_run_after j) then raise (Failure ''Invalid time value'')
        else if date_time (j_run_after j) \<noteq> closesAt \<or>
                jmember (j_payload j) ''roomId'' \<noteq> Some (JStr (room_id room)) \<or>
                jmember (j_payload j) ''closesAt'' \<noteq> Some (JTime closesAt) \<or> \<not> src then ret None
        else act_bind (appendAutomaticClose w (room_id room) (j_id j) closesAt (j_correlation j) None)
               (\<lambda>e. ret (Some e)))))))"

definition closeIfDue :: "world \<Rightarrow> string \<Rightarrow> envelope option op" where
  "closeIfDue w rid = transact rid (closeDueInContext w)"

definition closeIfDueForOwner :: "world \<Rightarrow> string \<Rightarrow> string \<Rightarrow> string option \<Rightarrow> envelope option op" where
  "closeIfDueForOwner w rid teacherId sessionId =
     transact rid (act_then (owner_guard w teacherId sessionId) (closeDueInContext w))"

definition ownerRetry :: "world \<Rightarrow> string \<Rightarrow> string \<Rightarrow> string \<Rightarrow> string \<Rightarrow> string option \<Rightarrow> envelope option op" where
  "ownerRetry w rid teacherId cid type sessionId =
     transact rid (act_then (owner_guard w teacherId sessionId) (existingManualRetry w cid type rid teacherId))"

definition simple_in :: "world \<Rightarrow> string \<Rightarrow> string \<Rightarrow> string \<Rightarrow> string \<Rightarrow> room_status \<Rightarrow> room_status \<Rightarrow> string \<Rightarrow> string option \<Rightarrow> envelope tx" where
  "simple_in w rid teacherId cid type required next payloadKey sessionId =
     manual w rid teacherId cid type sessionId (
       act_bind (gets (\<lambda>c. status (ctx_room c))) (\<lambda>st.
       act_then (require (st = required) (room_error ROOM_NOT_OPEN))
       (act_bind (validNow (clock w 0)) (\<lambda>now.
        act_then (exec (update_room rid (\<lambda>r. r\<lparr>r_status := next\<rparr>)))
        (append_event w (fresh w 1) (fresh w 2) (clock w 1)
          (teacher_draft type teacherId now cid (fresh w 0) (plain_obj [(payloadKey, VTime (date_time now))])))))))"

definition simpleTransition :: "world \<Rightarrow> string \<Rightarrow> string \<Rightarrow> string \<Rightarrow> string \<Rightarrow> room_status \<Rightarrow> room_status \<Rightarrow> string \<Rightarrow> string option \<Rightarrow> envelope op" where
  "simpleTransition w rid teacherId cid type required next payloadKey sessionId =
     transact rid (simple_in w rid teacherId cid type required next payloadKey sessionId)"

text \<open>What \<^verbatim>\<open>pause\<close>, \<^verbatim>\<open>resume\<close> and \<^verbatim>\<open>close\<close> do first: a committed retry, then the expiry check.\<close>

definition retry_or_expire :: "(nat \<Rightarrow> world) \<Rightarrow> string \<Rightarrow> string \<Rightarrow> string \<Rightarrow> string \<Rightarrow> string option \<Rightarrow> envelope op \<Rightarrow> envelope op" where
  "retry_or_expire ws rid teacherId cid type sessionId transition =
     act_bind (ownerRetry (ws 0) rid teacherId cid type sessionId) (\<lambda>retry. case retry of
       Some e \<Rightarrow> ret e
     | None \<Rightarrow> act_bind (closeIfDueForOwner (ws 1) rid teacherId sessionId) (\<lambda>due. case due of
         Some _ \<Rightarrow> raise (room_error ROOM_NOT_OPEN)
       | None \<Rightarrow> transition))"

definition pause :: "(nat \<Rightarrow> world) \<Rightarrow> string \<Rightarrow> string \<Rightarrow> string \<Rightarrow> string option \<Rightarrow> envelope op" where
  "pause ws rid teacherId cid sessionId =
     retry_or_expire ws rid teacherId cid ''room.paused'' sessionId
       (simpleTransition (ws 2) rid teacherId cid ''room.paused'' Open Paused ''pausedAt'' sessionId)"

definition resume :: "(nat \<Rightarrow> world) \<Rightarrow> string \<Rightarrow> string \<Rightarrow> string \<Rightarrow> string option \<Rightarrow> envelope op" where
  "resume ws rid teacherId cid sessionId =
     retry_or_expire ws rid teacherId cid ''room.resumed'' sessionId
       (simpleTransition (ws 2) rid teacherId cid ''room.resumed'' Paused Open ''resumedAt'' sessionId)"

definition close_in :: "world \<Rightarrow> string \<Rightarrow> string \<Rightarrow> string \<Rightarrow> string option \<Rightarrow> envelope tx" where
  "close_in w rid teacherId cid sessionId =
     manual w rid teacherId cid ''room.closed'' sessionId (
       act_bind (gets (\<lambda>c. status (ctx_room c))) (\<lambda>st.
       act_then (require (st = Open \<or> st = Paused) (room_error ROOM_NOT_OPEN))
       (act_bind (validNow (clock w 0)) (\<lambda>now.
        act_then (exec (update_room rid (\<lambda>r. r\<lparr>r_status := Closed, r_closed := Some now\<rparr>)))
        (act_then (exec (cancelRoomJobs rid (date_time now) None))
         (append_event w (fresh w 1) (fresh w 2) (clock w 1)
           (teacher_draft ''room.closed'' teacherId now cid (fresh w 0)
             (plain_obj [(''closedAt'', VTime (date_time now))]))))))))"

definition close_room :: "(nat \<Rightarrow> world) \<Rightarrow> string \<Rightarrow> string \<Rightarrow> string \<Rightarrow> string option \<Rightarrow> envelope op" where
  "close_room ws rid teacherId cid sessionId =
     retry_or_expire ws rid teacherId cid ''room.closed'' sessionId
       (transact rid (close_in (ws 2) rid teacherId cid sessionId))"

end
