(* ===== verification/Room_Status.thy ===== *)
theory Room_Status
  imports Room_Lifecycle
begin

text \<open>
  The life of a room as a state machine over its ledger: which event may follow in which
  state, and the invariant that the stored status is the state the ledger leads to. The
  rules hold of every ledger the lifecycle and message operations can write.
\<close>

section \<open>The automaton\<close>

fun lc_step :: "room_status \<Rightarrow> string \<Rightarrow> room_status option" where
  "lc_step st t =
     (if t = ''room.opened'' then (if st = Scheduled then Some Open else None)
      else if t = ''room.paused'' then (if st = Open then Some Paused else None)
      else if t = ''room.resumed'' then (if st = Paused then Some Open else None)
      else if t = ''room.closed'' then (if st = Open \<or> st = Paused then Some Closed else None)
      else if t \<in> {''message.added'', ''message.revised'', ''message.retracted''}
        then (if st = Open then Some Open else None)
      else Some st)"

declare lc_step.simps [simp del]

fun lc_run :: "room_status \<Rightarrow> string list \<Rightarrow> room_status option" where
  "lc_run st [] = Some st"
| "lc_run st (t # ts) = (case lc_step st t of None \<Rightarrow> None | Some st' \<Rightarrow> lc_run st' ts)"

lemma lc_run_append: "lc_run st (xs @ ys) = (case lc_run st xs of None \<Rightarrow> None | Some st' \<Rightarrow> lc_run st' ys)"
  by (induction xs arbitrary: st) (auto split: option.splits)

lemma lc_run_snoc: "lc_run st (xs @ [t]) = (case lc_run st xs of None \<Rightarrow> None | Some st' \<Rightarrow> lc_step st' t)"
  by (auto simp: lc_run_append split: option.splits)

lemma lc_step_closed: "lc_step Closed t = Some st \<Longrightarrow> st = Closed"
  by (auto simp: lc_step.simps split: if_splits)

lemma lc_run_closed: "lc_run Closed ts = Some st \<Longrightarrow> st = Closed"
  by (induction ts) (auto split: option.splits dest: lc_step_closed)

lemma lc_run_closed_mem:
  assumes "lc_run s ts = Some st" "''room.closed'' \<in> set ts"
  shows "st = Closed"
proof -
  from assms(2) obtain xs ys where ts: "ts = xs @ ''room.closed'' # ys" by (meson split_list)
  with assms(1) obtain s1 s2 where "lc_step s1 ''room.closed'' = Some s2" "lc_run s2 ys = Some st"
    by (auto simp: lc_run_append split: option.splits)
  moreover from this(1) have "s2 = Closed" by (auto simp: lc_step.simps split: if_splits)
  ultimately show ?thesis by (auto dest: lc_run_closed)
qed

section \<open>Status invariant\<close>

definition status_inv :: "db \<Rightarrow> bool" where
  "status_inv d \<longleftrightarrow> (\<forall>r \<in> set (rooms d). lc_run Scheduled (map e_type (room_events d (r_id r))) = Some (r_status r))"

section \<open>Message histories\<close>

text \<open>
  The versions of one message, in commit order: it is added at revision 1, every later
  version raises the revision by one, nothing follows a retraction, and only the author
  revises.
\<close>

definition message_rows :: "db \<Rightarrow> string \<Rightarrow> string \<Rightarrow> event_row list" where
  "message_rows d rid mid = filter (\<lambda>e. e_room e = rid \<and> jmember (e_payload e) ''messageId'' = Some (JStr mid)) (events d)"

type_synonym version = "string \<times> int \<times> string \<times> string"

definition version_of :: "event_row \<Rightarrow> version" where
  "version_of e = (e_type e, e_revision e, e_operation e, e_actor e)"

fun next_version :: "version option \<Rightarrow> version \<Rightarrow> bool" where
  "next_version None (t, n, oper, _) = (t = ''message.added'' \<and> n = 1 \<and> oper = ''add'')"
| "next_version (Some (_, m, oper0, a0)) (t, n, oper, a) =
     (oper0 \<noteq> ''retract'' \<and> n = m + 1 \<and>
      (t = ''message.revised'' \<and> oper = ''revise'' \<and> a = a0 \<or> t = ''message.retracted'' \<and> oper = ''retract''))"

fun history_from :: "version option \<Rightarrow> version list \<Rightarrow> bool" where
  "history_from p [] = True"
| "history_from p (v # vs) = (next_version p v \<and> history_from (Some v) vs)"

definition message_inv :: "db \<Rightarrow> bool" where
  "message_inv d \<longleftrightarrow> (\<forall>r \<in> set (rooms d). \<forall>mid. history_from None (map version_of (message_rows d (r_id r) mid)))"

lemma history_from_snoc:
  "history_from p (vs @ [v]) \<longleftrightarrow> history_from p vs \<and> next_version (if vs = [] then p else Some (last vs)) v"
  by (induction vs arbitrary: p) auto

lemma history_revisions_from:
  assumes "history_from (Some (t, m, oper, a)) vs"
  shows "map (\<lambda>v. fst (snd v)) vs = map (\<lambda>i. m + 1 + int i) [0..<length vs]"
  using assms
proof (induction vs arbitrary: t m oper a)
  case (Cons v vs)
  obtain t' n o' a' where v: "v = (t', n, o', a')" by (cases v)
  from Cons.prems have n: "n = m + 1" and h: "history_from (Some v) vs" by (auto simp: v)
  have "map (\<lambda>v. fst (snd v)) vs = map (\<lambda>i. n + 1 + int i) [0..<length vs]"
    by (rule Cons.IH) (use h v in simp)
  then show ?case
    by (simp add: v n upt_conv_Cons map_Suc_upt [symmetric] comp_def algebra_simps del: upt_Suc)
qed simp

lemma history_revisions:
  "history_from None vs \<Longrightarrow> map (\<lambda>v. fst (snd v)) vs = map (\<lambda>i. 1 + int i) [0..<length vs]"
proof (cases vs)
  case (Cons v ws)
  assume h: "history_from None vs"
  obtain t n o' a where v: "v = (t, n, o', a)" by (cases v)
  with h Cons have n: "n = 1" and ws: "history_from (Some (t, 1, o', a)) ws" by auto
  from history_revisions_from [OF ws] show ?thesis
    by (simp add: Cons v n upt_conv_Cons map_Suc_upt [symmetric] comp_def algebra_simps del: upt_Suc)
qed simp

definition room_inv :: "db \<Rightarrow> bool" where
  "room_inv d \<longleftrightarrow> ledger_inv d \<and> status_inv d \<and> message_inv d"

lemma room_inv_history:
  "room_inv d \<Longrightarrow> r \<in> set (rooms d) \<Longrightarrow> history_from None (map version_of (message_rows d (r_id r) mid))"
  by (simp add: room_inv_def message_inv_def)

text \<open>What a draft adds to a message's history.\<close>

definition extends_history :: "db \<Rightarrow> string \<Rightarrow> RoomEventDraft \<Rightarrow> bool" where
  "extends_history d rid x \<longleftrightarrow> (\<forall>p mid. clone_payload (d_payload x) = Inr p \<longrightarrow> jmember p ''messageId'' = Some (JStr mid) \<longrightarrow>
     history_from None (map version_of (message_rows d rid mid) @ [(d_type x, d_revision x, d_operation x, pg_uuid (d_actorId x))]))"

lemma extends_history_plain [simp]:
  assumes keys: "\<forall>kv \<in> set kvs. fst kv \<noteq> ''messageId''"
  shows "extends_history d rid \<lparr>d_type = t, d_actorId = a, d_actorKind = k, d_actorRole = ro, d_revision = n,
      d_operation = oper, d_eventTime = et, d_causationId = cid, d_correlationId = corr, d_payload = plain_obj kvs\<rparr>"
proof -
  have "map_of js ''messageId'' = None" if "content_members (map (\<lambda>(k, v). (Some k, True, v)) kvs) = Some js" for js
    using that keys by (induction kvs arbitrary: js) (auto split: option.splits)
  then show ?thesis
    by (auto simp: extends_history_def plain_obj_def clone_payload_iff jmember_def)
qed

text \<open>A context in which the transaction may prepare a transition: the ledger is that of the
  start, and the room row has been changed by \<open>f\<close> only.\<close>

definition prepared :: "db \<Rightarrow> room_row \<Rightarrow> (room_row \<Rightarrow> room_row) \<Rightarrow> ctx \<Rightarrow> bool" where
  "prepared d r f c \<longleftrightarrow>
     ctx_failure c = None \<and> room_id (ctx_room c) = r_id r \<and> ctx_next c = r_next r \<and>
     events (ctx_db c) = events d \<and> outbox (ctx_db c) = outbox d \<and>
     map job_key (filter is_consume (jobs (ctx_db c))) = map job_key (filter is_consume (jobs d)) \<and>
     rooms (ctx_db c) = map (\<lambda>q. if r_id q = r_id r then f q else q) (rooms d) \<and>
     (\<forall>q. r_id (f q) = r_id q \<and> r_next (f q) = r_next q)"

lemma prepared_ledger:
  assumes "ledger_inv d" "r \<in> set (rooms d)" "prepared d r f c"
  shows "ledger_inv (ctx_db c)" "ctx_inv c"
proof -
  show "ledger_inv (ctx_db c)"
    by (rule ledger_inv_frame [OF assms(1)]) (use assms(3) in \<open>auto simp: prepared_def\<close>)
  moreover have "\<exists>q \<in> set (rooms (ctx_db c)). r_id q = room_id (ctx_room c) \<and> r_next q = ctx_next c"
    using assms(2,3) by (auto simp: prepared_def intro!: bexI [of _ "f r"] image_eqI [of _ _ r])
  ultimately show "ctx_inv c" by (simp add: ctx_inv_def)
qed

lemma append_event_new:
  assumes "append_event w eid jid now (Draft x) c = (Inr v, c')"
    and "findOneByCausation w (d_causationId x) c = (Inr None, c)"
  shows "validateDraft w eid now (room_id (ctx_room c)) (ctx_next c) (Draft x) = Inr v"
    "appendable w jid v (ctx_db c)" "ctx_db c' = append_db w jid v (ctx_db c)"
    "ctx_room c' = ctx_room c" "ctx_failure c' = None" "ctx_next c' = ctx_next c + 1"
    "ev_type v = d_type x" "roomId v = room_id (ctx_room c)" "roomSeq v = ctx_next c" "causationId v = d_causationId x"
proof -
  from assms(1) have a: "appendOne w eid jid now (Draft x) c = (Inr v, c')"
    by (simp add: append_event_def schedule_Inr_iff)
  have cid: "causationId cand = d_causationId x" "ev_type cand = d_type x"
    if "validateDraft w eid now (room_id (ctx_room c)) (ctx_next c) (Draft x) = Inr cand" for cand
    using validateDraft_fields [OF that] by auto
  from appendOne_Inr [OF a] assms(2) show val: "validateDraft w eid now (room_id (ctx_room c)) (ctx_next c) (Draft x) = Inr v"
    "appendable w jid v (ctx_db c)" "ctx_db c' = append_db w jid v (ctx_db c)"
    "ctx_room c' = ctx_room c" "ctx_failure c' = None" "ctx_next c' = ctx_next c + 1"
    by (auto dest: cid(1))
  from validateDraft_fields [OF val(1)] show "ev_type v = d_type x" "roomId v = room_id (ctx_room c)"
    "roomSeq v = ctx_next c" "causationId v = d_causationId x"
    by auto
qed

lemma transition_inv:
  assumes inv: "room_inv d" and r: "r \<in> set (rooms d)" and p: "prepared d r f c"
    and app: "append_event w eid jid now (Draft x) c = (Inr v, c')"
    and none: "findOneByCausation w (d_causationId x) c = (Inr None, c)"
    and step: "lc_step (r_status r) (d_type x) = Some (r_status (f r))"
    and hist: "extends_history d (r_id r) x"
  shows "room_inv (ctx_db c')"
proof -
  from inv have li: "ledger_inv d" and si: "status_inv d" and mi: "message_inv d" by (simp_all add: room_inv_def)
  note new = append_event_new [OF app none]
  have "ctx_inv c'" by (rule append_ctx_inv [OF app prepared_ledger(2) [OF li r p]])
  then have "ledger_inv (ctx_db c')" using new(5) by (simp add: ctx_inv_def)
  moreover have "status_inv (ctx_db c')"
    unfolding status_inv_def
  proof
    fix q' assume q': "q' \<in> set (rooms (ctx_db c'))"
    then obtain q where q: "q \<in> set (rooms d)" and st: "r_status q' = (if r_id q = r_id r then r_status (f q) else r_status q)"
      and id: "r_id q' = r_id q"
      using p unfolding new(3) append_db_def prepared_def by (auto split: if_splits)
    have can: "pg_uuid (roomId v) = r_id r"
      using p ledger_invD(2) [OF li r] new(8) by (simp add: prepared_def canonical_def)
    have ev: "room_events (ctx_db c') (r_id q') = room_events d (r_id q) @ (if r_id q = r_id r then [event_row_of v] else [])"
      using p unfolding new(3) room_events_append_db can id by (simp add: prepared_def room_events_def)
    show "lc_run Scheduled (map e_type (room_events (ctx_db c') (r_id q'))) = Some (r_status q')"
    proof (cases "r_id q = r_id r")
      case True
      with q r ledger_invD(1) [OF li] have "q = r" by (metis distinct_r_id_eq)
      moreover have "e_type (event_row_of v) = d_type x" using new(7) by (simp add: event_row_of_def)
      ultimately show ?thesis
        using si r step ev st by (simp add: status_inv_def lc_run_snoc)
    next
      case False
      then show ?thesis using si q ev st by (simp add: status_inv_def)
    qed
  qed
  moreover have "message_inv (ctx_db c')"
  proof -
    have can: "pg_uuid (roomId v) = r_id r"
      using p ledger_invD(2) [OF li r] new(8) by (simp add: prepared_def canonical_def)
    obtain pl where pl: "clone_payload (d_payload x) = Inr pl" "payload v = pl" "revision v = d_revision x"
      "operation v = d_operation x" "actorId v = d_actorId x"
      using validateDraft_fields [OF new(1)] by auto
    have ver: "version_of (event_row_of v) = (d_type x, d_revision x, d_operation x, pg_uuid (d_actorId x))"
      using new(7) pl by (simp add: version_of_def event_row_of_def)
    have rows: "message_rows (ctx_db c') rid mid = message_rows d rid mid @
        (if r_id r = rid \<and> jmember pl ''messageId'' = Some (JStr mid) then [event_row_of v] else [])" for rid mid
      using p can pl unfolding new(3) message_rows_def by (simp add: prepared_def event_row_of_def)
    have "history_from None (map version_of (message_rows (ctx_db c') (r_id q) mid))" if "q \<in> set (rooms d)" for q mid
      using mi hist pl(1) that by (auto simp: rows ver message_inv_def extends_history_def)
    moreover have "map r_id (rooms (ctx_db c')) = map r_id (rooms d)"
      using p unfolding new(3) append_db_simps prepared_def by simp
    then have "r_id ` set (rooms (ctx_db c')) = r_id ` set (rooms d)" by (metis list.set_map)
    ultimately show ?thesis unfolding message_inv_def by (metis (no_types, lifting) image_iff imageI)
  qed
  ultimately show ?thesis by (simp add: room_inv_def)
qed

lemma prepared_start:
  assumes "find_room d rid = Some r" "roomSnapshot r = Inr snap" "\<And>q. r_id (f q) = r_id q" "\<And>q. r_next (f q) = r_next q"
  shows "prepared d r f ((start_ctx d snap)\<lparr>ctx_db := update_room rid f d\<rparr>)"
  using assms find_room_SomeD [OF assms(1)] roomSnapshot_fields [OF assms(2)]
  by (auto simp: prepared_def start_ctx_def update_room_def)

lemma prepared_same:
  assumes "find_room d rid = Some r" "roomSnapshot r = Inr snap"
  shows "prepared d r (\<lambda>q. q) (start_ctx d snap)"
  using assms roomSnapshot_fields [OF assms(2)] by (auto simp: prepared_def start_ctx_def)

lemma cancel_consume: "map job_key (filter is_consume (jobs (cancelRoomJobs rid now p d))) = map job_key (filter is_consume (jobs d))"
proof -
  have "map job_key (filter is_consume (map (\<lambda>j. if P j \<and> \<not> is_consume j then cancelled_job now j else j) js)) = map job_key (filter is_consume js)"
    for P js by (induction js) (auto simp: is_consume_def cancelled_job_def)
  note gen = this [of "\<lambda>j. j_room j = Some (pg_uuid rid) \<and> j_status j \<in> {Queued, Retryable, Running} \<and>
        j_type j \<notin> {''analytics.consume.v1'', ''analytics.replay-room.v1''} \<and>
        (case p of None \<Rightarrow> True | Some p \<Rightarrow> j_id j \<noteq> pg_uuid p)" "jobs d"]
  have "jobs (cancelRoomJobs rid now p d) = map (\<lambda>j. if (j_room j = Some (pg_uuid rid) \<and> j_status j \<in> {Queued, Retryable, Running} \<and>
        j_type j \<notin> {''analytics.consume.v1'', ''analytics.replay-room.v1''} \<and>
        (case p of None \<Rightarrow> True | Some p \<Rightarrow> j_id j \<noteq> pg_uuid p)) \<and> \<not> is_consume j then cancelled_job now j else j) (jobs d)"
    by (auto simp: cancelRoomJobs_def is_consume_def)
  then show ?thesis using gen by simp
qed

lemma prepared_cancel:
  "prepared d r f c \<Longrightarrow> prepared d r f (c\<lparr>ctx_db := cancelRoomJobs rid now p (ctx_db c)\<rparr>)"
  by (simp add: prepared_def cancel_consume) (simp add: cancelRoomJobs_def)

lemma find_none_frame:
  "findOneByCausation w cid c = (Inr None, c) \<Longrightarrow> events (ctx_db c') = events (ctx_db c) \<Longrightarrow> room_id (ctx_room c') = room_id (ctx_room c) \<Longrightarrow>
     findOneByCausation w cid c' = (Inr None, c')"
  by (simp add: findOneByCausation_None_iff)

lemma room_inv_frame:
  assumes "room_inv d" "events d' = events d" "outbox d' = outbox d"
    "map job_key (filter is_consume (jobs d')) = map job_key (filter is_consume (jobs d))"
    "rooms d' = rooms d"
  shows "room_inv d'"
  using assms ledger_inv_frame [of d d'] by (auto simp: room_inv_def status_inv_def room_events_def message_inv_def message_rows_def)


section \<open>The lifecycle operations keep it\<close>

lemma existingManualRetry_None:
  assumes "existingManualRetry w cid t rid tid c = (Inr None, c')"
  shows "c' = c" "findOneByCausation w cid c = (Inr None, c)"
proof -
  from assms obtain r u where f: "findByCausation w cid c = (Inr r, u)" "r = None" "c' = u"
    by (auto simp: existingManualRetry_def act_iffs split: option.splits)
  moreover from f(1) have "u = c" by (rule findByCausation_state)
  ultimately show "c' = c" "findOneByCausation w cid c = (Inr None, c)"
    by (auto simp: findByCausation_def schedule_Inr_iff)
qed

lemma existingManualRetry_state:
  assumes "existingManualRetry w cid t rid tid c = (Inr r, c')"
  shows "c' = c"
  using assms
  by (auto simp: existingManualRetry_def assertManualRetry_def act_iffs split: option.splits if_splits dest: findByCausation_state)

lemma owner_guard_Inr:
  "owner_guard w t sid c = (Inr u, c') \<Longrightarrow> c' = c \<and> teacher_id (ctx_room c) = t"
  by (auto simp: owner_guard_def requireOwner_def assertTeacherSession_def act_iffs split: option.splits if_splits)

lemma manual_Inr:
  assumes "manual w rid tid cid t sid body c = (Inr v, c')"
  shows "c' = c \<or> (findOneByCausation w cid c = (Inr None, c) \<and> body c = (Inr v, c'))"
    "teacher_id (ctx_room c) = tid"
proof -
  from assms obtain u1 retry u where g: "owner_guard w tid sid c = (Inr (), u1)"
    and e: "existingManualRetry w cid t rid tid u1 = (Inr retry, u)"
    and b: "(case retry of None \<Rightarrow> body | Some e \<Rightarrow> ret e) u = (Inr v, c')"
    by (auto simp: manual_def act_bind_Inr_iff act_then_Inr_iff)
  from owner_guard_Inr [OF g] have u1: "u1 = c" and t: "teacher_id (ctx_room c) = tid" by auto
  from existingManualRetry_state [OF e] u1 have u: "u = c" by simp
  show "c' = c \<or> (findOneByCausation w cid c = (Inr None, c) \<and> body c = (Inr v, c'))"
  proof (cases retry)
    case None
    with e u1 u have "findOneByCausation w cid c = (Inr None, c)" by (auto dest: existingManualRetry_None(2))
    with None b u show ?thesis by simp
  next
    case (Some x)
    with b u show ?thesis by simp
  qed
  show "teacher_id (ctx_room c) = tid" by (fact t)
qed

lemma validNow_Inr_iff: "validNow now c = (Inr n, c') \<longleftrightarrow> validDate now \<and> n = now \<and> c' = c"
  by (auto simp: validNow_def act_iffs)

lemma start_ctx_sel [simp]:
  "ctx_db (start_ctx d snap) = d" "ctx_room (start_ctx d snap) = snap"
  "ctx_next (start_ctx d snap) = next_room_seq snap" "ctx_failure (start_ctx d snap) = None"
  by (simp_all add: start_ctx_def)

lemma insert_job_frame:
  "insert_job j d = Some d' \<Longrightarrow> d' = d\<lparr>jobs := jobs d @ [j]\<rparr>"
  by (auto simp: insert_job_def split: if_splits)

lemma open_in_inv:
  assumes inv: "room_inv d" and room: "find_room d rid = Some r" "roomSnapshot r = Inr snap"
    and run: "open_in w rid tid cid sid (start_ctx d snap) = (Inr v, c)"
  shows "room_inv (ctx_db c)"
proof -
  let ?c0 = "start_ctx d snap"
  let ?f = "\<lambda>now q. q\<lparr>r_status := Open, r_starts := Some now, r_closes := Some (At (date_time now + ROOM_DURATION_MS))\<rparr>"
  show ?thesis
  proof (cases "c = ?c0")
    case True
    with inv show ?thesis by simp
  next
    case False
    with manual_Inr(1) [OF run [unfolded open_in_def]] obtain now c1 d' where none: "findOneByCausation w cid ?c0 = (Inr None, ?c0)"
      and st: "status snap = Scheduled"
      and app: "append_event w (fresh w 1) (fresh w 2) (clock w 1) (teacher_draft ''room.opened'' tid now cid (fresh w 0)
          (plain_obj [(''startsAt'', VTime (date_time now)), (''closesAt'', VTime (date_time now + ROOM_DURATION_MS))]))
        (?c0\<lparr>ctx_db := update_room rid (?f now) d\<rparr>) = (Inr v, c1)"
      and ins: "insert_job (auto_close_job w (fresh w 3) rid v (date_time now + ROOM_DURATION_MS)) (ctx_db c1) = Some d'"
      and c: "c = c1\<lparr>ctx_db := d'\<rparr>"
      by (auto simp: act_iffs validNow_Inr_iff exec_Inr_iff exec_insert_Inr_iff Let_def)
    have p: "prepared d r (?f now) (?c0\<lparr>ctx_db := update_room rid (?f now) d\<rparr>)"
      by (rule prepared_start [OF room]) simp_all
    have "room_inv (ctx_db c1)"
      by (rule transition_inv [OF inv _ p app [unfolded teacher_draft_def]])
         (use none find_room_SomeD [OF room(1)] roomSnapshot_fields [OF room(2)] st
           in \<open>auto intro: find_none_frame simp: lc_step.simps\<close>)
    then show ?thesis
      by (rule room_inv_frame) (simp_all add: c insert_job_frame [OF ins] auto_close_job_def is_consume_def)
  qed
qed

lemma simple_in_inv:
  assumes inv: "room_inv d" and room: "find_room d rid = Some r" "roomSnapshot r = Inr snap"
    and run: "simple_in w rid tid cid t req nxt key sid (start_ctx d snap) = (Inr v, c)"
    and step: "lc_step req t = Some nxt" and key: "key \<noteq> ''messageId''"
  shows "room_inv (ctx_db c)"
proof -
  let ?c0 = "start_ctx d snap" and ?f = "\<lambda>q. q\<lparr>r_status := nxt\<rparr>"
  show ?thesis
  proof (cases "c = ?c0")
    case True
    with inv show ?thesis by simp
  next
    case False
    with manual_Inr(1) [OF run [unfolded simple_in_def]] obtain now where none: "findOneByCausation w cid ?c0 = (Inr None, ?c0)"
      and st: "status snap = req"
      and app: "append_event w (fresh w 1) (fresh w 2) (clock w 1) (teacher_draft t tid now cid (fresh w 0)
          (plain_obj [(key, VTime (date_time now))])) (?c0\<lparr>ctx_db := update_room rid ?f d\<rparr>) = (Inr v, c)"
      by (auto simp: act_iffs validNow_Inr_iff exec_Inr_iff)
    have p: "prepared d r ?f (?c0\<lparr>ctx_db := update_room rid ?f d\<rparr>)"
      by (rule prepared_start [OF room]) simp_all
    show ?thesis
      by (rule transition_inv [OF inv _ p app [unfolded teacher_draft_def]])
         (use none find_room_SomeD [OF room(1)] roomSnapshot_fields [OF room(2)] st step key in \<open>auto intro: find_none_frame\<close>)
  qed
qed

lemma close_in_inv:
  assumes inv: "room_inv d" and room: "find_room d rid = Some r" "roomSnapshot r = Inr snap"
    and run: "close_in w rid tid cid sid (start_ctx d snap) = (Inr v, c)"
  shows "room_inv (ctx_db c)"
proof -
  let ?c0 = "start_ctx d snap" and ?f = "\<lambda>now q. q\<lparr>r_status := Closed, r_closed := Some now\<rparr>"
  let ?c1 = "\<lambda>now. ?c0\<lparr>ctx_db := update_room rid (?f now) d\<rparr>"
  show ?thesis
  proof (cases "c = ?c0")
    case True
    with inv show ?thesis by simp
  next
    case False
    with manual_Inr(1) [OF run [unfolded close_in_def]] obtain now where none: "findOneByCausation w cid ?c0 = (Inr None, ?c0)"
      and st: "status snap = Open \<or> status snap = Paused"
      and app: "append_event w (fresh w 1) (fresh w 2) (clock w 1) (teacher_draft ''room.closed'' tid now cid (fresh w 0)
          (plain_obj [(''closedAt'', VTime (date_time now))]))
          ((?c1 now)\<lparr>ctx_db := cancelRoomJobs rid (date_time now) None (ctx_db (?c1 now))\<rparr>) = (Inr v, c)"
      by (auto simp: act_iffs validNow_Inr_iff exec_Inr_iff)
    have p: "prepared d r (?f now) ((?c1 now)\<lparr>ctx_db := cancelRoomJobs rid (date_time now) None (ctx_db (?c1 now))\<rparr>)"
      by (rule prepared_cancel, rule prepared_start [OF room]) simp_all
    show ?thesis
      by (rule transition_inv [OF inv _ p app [unfolded teacher_draft_def]])
         (use none find_room_SomeD [OF room(1)] roomSnapshot_fields [OF room(2)] st
           in \<open>auto intro: find_none_frame simp: lc_step.simps cancelRoomJobs_def\<close>)
  qed
qed

lemma parseStoredEvent_type:
  "parseStoredEvent w (e, ob) = Inr v \<Longrightarrow> ev_type v = e_type e \<and> roomId v = e_room e \<and> actorId v = e_actor e"
  by (cases v) (auto simp: parseStoredEvent_def envelope_eq_def relationalEnvelope_def split: option.splits if_splits sum.splits)

lemma findOneByCausation_Some:
  assumes "findOneByCausation w cid c = (Inr (Some v), c')"
  obtains e where "e \<in> set (events (ctx_db c))" "e_room e = room_id (ctx_room c)" "e_type e = ev_type v"
    "e_causation e = pg_uuid cid"
proof -
  from assms obtain e ob rest where rows: "storedEventSelect (ctx_db c) (\<lambda>e. e_room e = room_id (ctx_room c) \<and> e_causation e = pg_uuid cid) = (e, ob) # rest"
    and p: "parseStoredEvent w (e, ob) = Inr v"
    by (auto simp: findOneByCausation_def act_iffs split: list.splits)
  have "(e, ob) \<in> set (storedEventSelect (ctx_db c) (\<lambda>e. e_room e = room_id (ctx_room c) \<and> e_causation e = pg_uuid cid))"
    unfolding rows by simp
  with parseStoredEvent_type [OF p] that show thesis by (auto simp: storedEventSelect_def)
qed

lemma closed_event_closes:
  assumes "room_inv d" "r \<in> set (rooms d)" "e \<in> set (events d)" "e_room e = r_id r" "e_type e = ''room.closed''"
  shows "r_status r = Closed"
proof (rule lc_run_closed_mem)
  show "lc_run Scheduled (map e_type (room_events d (r_id r))) = Some (r_status r)"
    using assms(1,2) by (simp add: room_inv_def status_inv_def)
  show "''room.closed'' \<in> set (map e_type (room_events d (r_id r)))"
    using assms(3-5) by (force simp: room_events_def)
qed

lemma append_fresh_close:
  assumes inv: "room_inv d" and r: "r \<in> set (rooms d)" "r_status r \<noteq> Closed" and p: "prepared d r f c"
    and app: "append_event w eid jid now (Draft x) c = (Inr v, c')" and t: "d_type x = ''room.closed''"
  shows "findOneByCausation w (d_causationId x) c = (Inr None, c)"
proof -
  from app have a: "appendOne w eid jid now (Draft x) c = (Inr v, c')"
    by (simp add: append_event_def schedule_Inr_iff)
  have fields: "causationId cand = d_causationId x \<and> ev_type cand = d_type x"
    if "validateDraft w eid now (room_id (ctx_room c)) (ctx_next c) (Draft x) = Inr cand" for cand
    using validateDraft_fields [OF that] by auto
  have False if "findOneByCausation w (d_causationId x) c = (Inr (Some v), c)" "ev_type v = d_type x"
  proof -
    from findOneByCausation_Some [OF that(1)] obtain e where e: "e \<in> set (events (ctx_db c))"
      "e_room e = room_id (ctx_room c)" "e_type e = ev_type v" by blast
    with p t that(2) have "r_status r = Closed"
      by (intro closed_event_closes [OF inv r(1), of e]) (auto simp: prepared_def)
    with r(2) show False by simp
  qed
  with appendOne_Inr [OF a] show ?thesis
    by (auto dest!: fields simp: immutableDraftMatches_def)
qed

lemma appendAutomaticClose_inv:
  assumes inv: "room_inv d" and r: "r \<in> set (rooms d)" "r_status r = Open \<or> r_status r = Paused"
    and snap: "roomSnapshot r = Inr snap" and find: "find_room d rid = Some r"
    and run: "appendAutomaticClose w (room_id snap) jobId closesAt corr preserve (start_ctx d snap) = (Inr v, c)"
  shows "room_inv (ctx_db c)" "ev_type v = ''room.closed''" "actorKind v = ''system''"
    "\<exists>q \<in> set (rooms (ctx_db c)). r_id q = r_id r \<and> r_status q = Closed"
proof -
  let ?f = "\<lambda>q. q\<lparr>r_status := Closed, r_closed := Some (At closesAt)\<rparr>"
  let ?c0 = "start_ctx d snap"
  let ?c1 = "?c0\<lparr>ctx_db := update_room (room_id snap) ?f d\<rparr>"
  from run obtain now where app: "append_event w (fresh w 1) (fresh w 2) (clock w 2) (Draft
        \<lparr>d_type = ''room.closed'', d_actorId = jobId, d_actorKind = ''system'', d_actorRole = ''room_clock'',
         d_revision = 1, d_operation = ''add'', d_eventTime = At closesAt, d_causationId = jobId,
         d_correlationId = corr, d_payload = plain_obj [(''closedAt'', VTime closesAt)]\<rparr>)
      (?c1\<lparr>ctx_db := cancelRoomJobs (room_id snap) (date_time now) preserve (ctx_db ?c1)\<rparr>) = (Inr v, c)"
    by (auto simp: appendAutomaticClose_def act_iffs validNow_Inr_iff exec_Inr_iff)
  have id: "pg_uuid (room_id snap) = r_id r" "pg_uuid rid = r_id r"
    using roomSnapshot_fields [OF snap] find_room_SomeD [OF find] by auto
  have "find_room d (room_id snap) = Some r" using find id by (simp add: find_room_def)
  then have p: "prepared d r ?f (?c1\<lparr>ctx_db := cancelRoomJobs (room_id snap) (date_time now) preserve (ctx_db ?c1)\<rparr>)"
    by (intro prepared_cancel prepared_start [OF _ snap]) simp_all
  have none: "findOneByCausation w jobId (?c1\<lparr>ctx_db := cancelRoomJobs (room_id snap) (date_time now) preserve (ctx_db ?c1)\<rparr>) =
      (Inr None, ?c1\<lparr>ctx_db := cancelRoomJobs (room_id snap) (date_time now) preserve (ctx_db ?c1)\<rparr>)"
    using append_fresh_close [OF inv r(1) _ p app] r(2) by auto
  show "room_inv (ctx_db c)"
    by (rule transition_inv [OF inv r(1) p app]) (use none r(2) in \<open>auto simp: lc_step.simps\<close>)
  note new = append_event_new [OF app]
  from none have new': "ev_type v = ''room.closed''" "ctx_db c = append_db w (fresh w 2) v (cancelRoomJobs (room_id snap) (date_time now) preserve (update_room (room_id snap) ?f d))"
    and val: "validateDraft w (fresh w 1) (clock w 2) (room_id snap) (next_room_seq snap) (Draft
        \<lparr>d_type = ''room.closed'', d_actorId = jobId, d_actorKind = ''system'', d_actorRole = ''room_clock'',
         d_revision = 1, d_operation = ''add'', d_eventTime = At closesAt, d_causationId = jobId,
         d_correlationId = corr, d_payload = plain_obj [(''closedAt'', VTime closesAt)]\<rparr>) = Inr v"
    using new(1,3,7) by simp_all
  from new'(1) show "ev_type v = ''room.closed''" .
  from validateDraft_fields [OF val] show "actorKind v = ''system''" by auto
  show "\<exists>q \<in> set (rooms (ctx_db c)). r_id q = r_id r \<and> r_status q = Closed"
  proof
    let ?q = "if r_id r = pg_uuid (roomId v) \<and> r_next r = roomSeq v then (?f r)\<lparr>r_next := roomSeq v + 1\<rparr> else ?f r"
    show "?q \<in> set (rooms (ctx_db c))"
      unfolding new'(2) append_db_def cancelRoomJobs_def update_room_def using r(1) id
      by (auto simp: image_image intro!: image_eqI [of _ _ r])
    show "r_id ?q = r_id r \<and> r_status ?q = Closed" by simp
  qed
qed

lemma closeDueInContext_None: "closeDueInContext w c = (Inr None, c') \<Longrightarrow> c' = c"
  unfolding closeDueInContext_def
  by (auto simp: act_iffs validNow_Inr_iff split: if_splits option.splits)

lemma closeDueInContext_Some:
  assumes "closeDueInContext w c = (Inr (Some v), c')"
  shows "\<exists>(j :: job_row) closesAt. (status (ctx_room c) = Open \<or> status (ctx_room c) = Paused) \<and>
     closes_at (ctx_room c) = Some closesAt \<and> validDate (clock w 0) \<and> closesAt \<le> date_time (clock w 0) \<and>
     appendAutomaticClose w (room_id (ctx_room c)) (j_id j) closesAt (j_correlation j) None c = (Inr v, c')"
  using assms unfolding closeDueInContext_def
  by (auto simp: act_iffs validNow_Inr_iff not_less split: if_splits option.splits intro!: exI)

lemma closeDue_inv:
  assumes inv: "room_inv d" and room: "find_room d rid = Some r" "roomSnapshot r = Inr snap"
    and run: "closeDueInContext w (start_ctx d snap) = (Inr v, c)"
  shows "room_inv (ctx_db c)"
proof (cases v)
  case None
  with run inv show ?thesis by (auto dest: closeDueInContext_None)
next
  case (Some x)
  with closeDueInContext_Some [of w "start_ctx d snap" x c] run find_room_SomeD [OF room(1)] roomSnapshot_fields [OF room(2)]
    appendAutomaticClose_inv(1) [OF inv _ _ room(2) room(1)]
  show ?thesis by auto
qed

subsection \<open>Public operations\<close>

lemma keeps_closeIfDue [keeps_intros]: "keeps room_inv (closeIfDue w rid)"
  unfolding closeIfDue_def by (rule transact_keeps) (rule closeDue_inv)

lemma keeps_closeIfDueForOwner [keeps_intros]: "keeps room_inv (closeIfDueForOwner w rid t sid)"
  unfolding closeIfDueForOwner_def
  by (rule transact_keeps) (auto simp: act_iffs dest!: owner_guard_Inr intro: closeDue_inv)

lemma keeps_ownerRetry [keeps_intros]: "keeps room_inv (ownerRetry w rid t cid ty sid)"
  unfolding ownerRetry_def
  by (rule transact_keeps) (auto simp: act_iffs dest!: owner_guard_Inr existingManualRetry_state)

lemma keeps_open_room [keeps_intros]: "keeps room_inv (open_room w rid t cid sid)"
  unfolding open_room_def by (rule transact_keeps) (rule open_in_inv)

lemma keeps_simpleTransition:
  "lc_step req ty = Some nxt \<Longrightarrow> key \<noteq> ''messageId'' \<Longrightarrow> keeps room_inv (simpleTransition w rid t cid ty req nxt key sid)"
  unfolding simpleTransition_def by (rule transact_keeps) (rule simple_in_inv)

lemma keeps_retry_or_expire [keeps_intros]:
  "keeps room_inv m \<Longrightarrow> keeps room_inv (retry_or_expire ws rid t cid ty sid m)"
  unfolding retry_or_expire_def by (intro keeps_intros)

lemma keeps_pause [keeps_intros]: "keeps room_inv (pause ws rid t cid sid)"
  unfolding pause_def by (intro keeps_intros keeps_simpleTransition) (simp_all add: lc_step.simps)

lemma keeps_resume [keeps_intros]: "keeps room_inv (resume ws rid t cid sid)"
  unfolding resume_def by (intro keeps_intros keeps_simpleTransition) (simp_all add: lc_step.simps)

lemma keeps_close_room [keeps_intros]: "keeps room_inv (close_room ws rid t cid sid)"
  unfolding close_room_def by (intro keeps_intros transact_keeps) (rule close_in_inv)

end
