(* ===== verification/Seat_Codes.thy ===== *)
theory Seat_Codes
  imports Js_Data
begin

text \<open>
  Room and seat codes and their keyed hashes:
  \<^verbatim>\<open>apps/server/src/modules/rooms/seat-codes.ts\<close>. A hash is two bytes of pepper version
  followed by the HMAC-SHA256 digest of the normalised code; HMAC is a parameter.
\<close>

section \<open>Codes\<close>

definition CODE_ALPHABET :: string where
  "CODE_ALPHABET = ''ABCDEFGHJKLMNPQRSTUVWXYZ23456789''"

text \<open>\<^verbatim>\<open>code\<close>: one draw of \<^verbatim>\<open>randomInt(32)\<close> per character.\<close>

definition code :: "nat list \<Rightarrow> string" where
  "code draws = map (\<lambda>i. CODE_ALPHABET ! i) draws"

definition makeRoomCode :: "(nat \<Rightarrow> nat) \<Rightarrow> string" where
  "makeRoomCode draw = code (map draw [0..<6])"

definition makeSeatCode :: "(nat \<Rightarrow> nat) \<Rightarrow> string" where
  "makeSeatCode draw = code (map draw [0..<10])"

definition js_space :: "char \<Rightarrow> bool" where
  "js_space c \<longleftrightarrow> (let n = (of_char c :: nat) in n \<in> {9, 10, 11, 12, 13, 32, 160})"

definition js_trim :: "string \<Rightarrow> string" where
  "js_trim s = rev (dropWhile js_space (rev (dropWhile js_space s)))"

definition upper_char :: "char \<Rightarrow> char" where
  "upper_char c = (let n = (of_char c :: nat) in if 97 \<le> n \<and> n \<le> 122 then char_of (n - 32) else c)"

text \<open>\<^verbatim>\<open>value.trim().toUpperCase()\<close>\<close>

definition normalize_code :: "string \<Rightarrow> string" where
  "normalize_code s = map upper_char (js_trim s)"

section \<open>CodeHasher\<close>

type_synonym bytes = "nat list"

type_synonym hmac = "bytes \<Rightarrow> string \<Rightarrow> bytes"

definition DIGEST_BYTES :: nat where "DIGEST_BYTES = 32"
definition STORED_HASH_BYTES :: nat where "STORED_HASH_BYTES = 2 + DIGEST_BYTES"
definition MINIMUM_PEPPER_BYTES :: nat where "MINIMUM_PEPPER_BYTES = 32"

datatype code_error =
    CODE_PEPPER_VERSION_INVALID
  | CODE_PEPPER_TOO_SHORT
  | CODE_PEPPER_DUPLICATE
  | CODE_PEPPER_NOT_CONFIGURED

record CodeHasher =
  currentVersion :: int
  peppers :: "(int, bytes) jsmap"
  versions :: "int list"

definition assertVersion :: "int \<Rightarrow> bool" where
  "assertVersion v \<longleftrightarrow> 1 \<le> v \<and> v \<le> 65535"

fun own_peppers :: "(int \<times> bytes) list \<Rightarrow> bytes list \<Rightarrow> (int, bytes) jsmap \<Rightarrow> code_error + (int, bytes) jsmap" where
  "own_peppers [] fps m = Inr m"
| "own_peppers ((v, p) # ps) fps m =
     (if \<not> assertVersion v then Inl CODE_PEPPER_VERSION_INVALID
      else if length p < MINIMUM_PEPPER_BYTES then Inl CODE_PEPPER_TOO_SHORT
      else if p \<in> set fps then Inl CODE_PEPPER_DUPLICATE
      else own_peppers ps (p # fps) (jm_set v p m))"

definition mk_CodeHasher :: "int \<Rightarrow> (int \<times> bytes) list \<Rightarrow> code_error + CodeHasher" where
  "mk_CodeHasher current ps =
     (if \<not> assertVersion current then Inl CODE_PEPPER_VERSION_INVALID else
      case own_peppers ps [] [] of Inl e \<Rightarrow> Inl e | Inr m \<Rightarrow>
      if \<not> jm_has m current then Inl CODE_PEPPER_NOT_CONFIGURED
      else Inr \<lparr>currentVersion = current, peppers = m, versions = sort (jm_keys m)\<rparr>)"

definition writeUInt16BE :: "int \<Rightarrow> bytes" where
  "writeUInt16BE v = [nat (v div 256), nat (v mod 256)]"

definition readUInt16BE :: "bytes \<Rightarrow> int" where
  "readUInt16BE bs = int (bs ! 0) * 256 + int (bs ! 1)"

definition hashWith :: "hmac \<Rightarrow> CodeHasher \<Rightarrow> int \<Rightarrow> string \<Rightarrow> code_error + bytes" where
  "hashWith hm h v s = (case jm_get (peppers h) v of
     None \<Rightarrow> Inl CODE_PEPPER_NOT_CONFIGURED
   | Some p \<Rightarrow> Inr (writeUInt16BE v @ hm p (normalize_code s)))"

definition hash_code :: "hmac \<Rightarrow> CodeHasher \<Rightarrow> string \<Rightarrow> code_error + bytes" where
  "hash_code hm h s = hashWith hm h (currentVersion h) s"

fun sequence_hashes :: "(code_error + bytes) list \<Rightarrow> code_error + bytes list" where
  "sequence_hashes [] = Inr []"
| "sequence_hashes (Inl e # _) = Inl e"
| "sequence_hashes (Inr b # rs) = (case sequence_hashes rs of Inl e \<Rightarrow> Inl e | Inr bs \<Rightarrow> Inr (b # bs))"

definition candidateHashes :: "hmac \<Rightarrow> CodeHasher \<Rightarrow> string \<Rightarrow> code_error + bytes list" where
  "candidateHashes hm h s = sequence_hashes (map (\<lambda>v. hashWith hm h v s) (versions h))"

definition verify :: "hmac \<Rightarrow> CodeHasher \<Rightarrow> string \<Rightarrow> bytes \<Rightarrow> bool" where
  "verify hm h s stored =
     (length stored = STORED_HASH_BYTES \<and> jm_has (peppers h) (readUInt16BE stored) \<and>
      hashWith hm h (readUInt16BE stored) s = Inr stored)"

section \<open>The hasher's contract\<close>

text \<open>Node's HMAC-SHA256 returns 32 bytes.\<close>

definition digest_size :: "hmac \<Rightarrow> bool" where
  "digest_size hm \<longleftrightarrow> (\<forall>p s. length (hm p s) = DIGEST_BYTES)"

definition hasher_ok :: "CodeHasher \<Rightarrow> bool" where
  "hasher_ok h \<longleftrightarrow> jm_ok (peppers h) \<and> set (versions h) = set (jm_keys (peppers h)) \<and> distinct (versions h) \<and>
     currentVersion h \<in> set (versions h) \<and> (\<forall>v \<in> set (versions h). assertVersion v) \<and>
     (\<forall>p \<in> set (jm_values (peppers h)). MINIMUM_PEPPER_BYTES \<le> length p)"

lemma jm_keys_jm_set: "set (jm_keys (jm_set k v m)) = insert k (set (jm_keys m))"
  unfolding jm_keys_def by (simp add: jm_keys_set) (auto simp: image_iff)

lemma own_peppers_ok:
  assumes "own_peppers ps fps m = Inr m'" "jm_ok m" "\<forall>v \<in> set (jm_keys m). assertVersion v"
    "\<forall>p \<in> set (jm_values m). MINIMUM_PEPPER_BYTES \<le> length p"
  shows "jm_ok m' \<and> (\<forall>v \<in> set (jm_keys m'). assertVersion v) \<and> (\<forall>p \<in> set (jm_values m'). MINIMUM_PEPPER_BYTES \<le> length p)"
  using assms
proof (induction ps fps m rule: own_peppers.induct)
  case (2 v p ps fps m)
  from "2.prems"(1) have ok: "assertVersion v" "MINIMUM_PEPPER_BYTES \<le> length p" "p \<notin> set fps"
    and rest: "own_peppers ps (p # fps) (jm_set v p m) = Inr m'" by (auto split: if_splits)
  have vals: "\<forall>q \<in> set (jm_values (jm_set v p m)). MINIMUM_PEPPER_BYTES \<le> length q"
    using jm_set_values [of v p m] "2.prems"(4) ok(2) by auto
  have "\<not> length p < MINIMUM_PEPPER_BYTES" using ok(2) by simp
  then show ?case
    using "2.IH" [OF _ _ _ rest] ok "2.prems"(2,3) vals by (auto simp: jm_keys_jm_set)
qed simp

lemma jm_has_keys: "jm_has m k \<longleftrightarrow> k \<in> set (jm_keys m)"
  by (simp add: jm_has_def jm_get_def jm_keys_def map_of_eq_None_iff)

lemma mk_CodeHasher_ok:
  assumes "mk_CodeHasher current ps = Inr h"
  shows "hasher_ok h"
proof -
  from assms obtain m where m: "own_peppers ps [] [] = Inr m" and cur: "jm_has m current"
    and h: "h = \<lparr>currentVersion = current, peppers = m, versions = sort (jm_keys m)\<rparr>"
    by (auto simp: mk_CodeHasher_def split: if_splits sum.splits)
  from own_peppers_ok [OF m] have "jm_ok m" "\<forall>v \<in> set (jm_keys m). assertVersion v"
    "\<forall>p \<in> set (jm_values m). MINIMUM_PEPPER_BYTES \<le> length p" by (simp_all add: jm_keys_def jm_values_def)
  with cur show ?thesis by (simp add: hasher_ok_def h jm_has_keys) (simp add: jm_ok_def jm_keys_def)
qed

lemma version_roundtrip: "assertVersion v \<Longrightarrow> readUInt16BE (writeUInt16BE v @ bs) = v"
  by (simp add: assertVersion_def readUInt16BE_def writeUInt16BE_def)

lemma hashWith_versions:
  assumes "hasher_ok h" "v \<in> set (versions h)"
  shows "\<exists>p. jm_get (peppers h) v = Some p \<and> hashWith hm h v s = Inr (writeUInt16BE v @ hm p (normalize_code s))"
  using assms jm_has_keys [of "peppers h" v] by (auto simp: hasher_ok_def jm_has_def hashWith_def)

lemma sequence_hashes_Inr:
  "(\<forall>r \<in> set rs. \<exists>b. r = Inr b) \<Longrightarrow> \<exists>bs. sequence_hashes rs = Inr bs \<and> map Inr bs = rs"
proof (induction rs)
  case (Cons r rs)
  then obtain b bs where "r = Inr b" "sequence_hashes rs = Inr bs" "map Inr bs = rs" by auto
  then show ?case by simp
qed simp

lemma candidateHashes_ok:
  assumes "hasher_ok h"
  shows "\<exists>bs. candidateHashes hm h s = Inr bs \<and> map Inr bs = map (\<lambda>v. hashWith hm h v s) (versions h)"
  unfolding candidateHashes_def
  by (rule sequence_hashes_Inr) (use hashWith_versions [OF assms] in \<open>auto; blast\<close>)

lemma verify_iff_candidate:
  assumes h: "hasher_ok h" and hm: "digest_size hm" and c: "candidateHashes hm h s = Inr bs"
  shows "verify hm h s stored \<longleftrightarrow> stored \<in> set bs"
proof -
  have mem: "stored \<in> set bs \<longleftrightarrow> (\<exists>v \<in> set (versions h). hashWith hm h v s = Inr stored)"
  proof -
    from candidateHashes_ok [OF h, of hm s] c have "map Inr bs = map (\<lambda>v. hashWith hm h v s) (versions h)" by auto
    then have "Inr ` set bs = (\<lambda>v. hashWith hm h v s) ` set (versions h)" by (metis list.set_map)
    then show ?thesis by (metis (no_types, lifting) image_iff sum.inject(2))
  qed
  have read: "readUInt16BE stored = v \<and> length stored = STORED_HASH_BYTES"
    if "v \<in> set (versions h)" "hashWith hm h v s = Inr stored" for v
  proof -
    from that h have "assertVersion v" by (simp add: hasher_ok_def)
    moreover from hashWith_versions [OF h that(1), of hm s] that(2) obtain p where "stored = writeUInt16BE v @ hm p (normalize_code s)" by auto
    ultimately show ?thesis
      using hm by (simp add: version_roundtrip digest_size_def STORED_HASH_BYTES_def) (simp add: writeUInt16BE_def)
  qed
  have keys: "jm_has (peppers h) v \<longleftrightarrow> v \<in> set (versions h)" for v
    using h by (simp add: jm_has_keys hasher_ok_def)
  show ?thesis
    unfolding mem verify_def keys using read by blast
qed

lemma hash_code_candidate:
  assumes h: "hasher_ok h" and c: "candidateHashes hm h s = Inr bs"
  shows "\<exists>b. hash_code hm h s = Inr b \<and> b \<in> set bs"
proof -
  from h have cv: "currentVersion h \<in> set (versions h)" unfolding hasher_ok_def by blast
  from candidateHashes_ok [OF h, of hm s] c have eq: "map Inr bs = map (\<lambda>v. hashWith hm h v s) (versions h)" by auto
  obtain b where b: "hash_code hm h s = Inr b"
    unfolding hash_code_def using hashWith_versions [OF h cv, of hm s] by blast
  have img: "Inr ` set bs = (\<lambda>v. hashWith hm h v s) ` set (versions h)"
    using arg_cong [OF eq, of set] by (simp only: set_map)
  have "hash_code hm h s \<in> Inr ` set bs"
    unfolding img hash_code_def using cv by (rule imageI)
  with b show ?thesis by auto
qed

lemma hash_code_normal:
  "normalize_code s = normalize_code t \<Longrightarrow> hashWith hm h v s = hashWith hm h v t"
  by (simp add: hashWith_def split: option.split)

section \<open>Codes are their own normal form\<close>

lemma alphabet_char:
  assumes "c \<in> set CODE_ALPHABET"
  shows "\<not> js_space c" "upper_char c = c"
  using assms by (auto simp: CODE_ALPHABET_def js_space_def upper_char_def)

lemma code_chars:
  assumes "\<forall>i \<in> set draws. i < 32"
  shows "set (code draws) \<subseteq> set CODE_ALPHABET"
proof -
  have "length CODE_ALPHABET = 32" by (simp add: CODE_ALPHABET_def)
  with assms show ?thesis by (auto simp: code_def intro: nth_mem)
qed

lemma js_trim_id: "\<forall>c \<in> set s. \<not> js_space c \<Longrightarrow> js_trim s = s"
  unfolding js_trim_def by (subst (2) dropWhile_eq_self_iff [THEN iffD2], force) (subst dropWhile_eq_self_iff [THEN iffD2], auto simp: hd_rev)

lemma normalize_alphabet:
  assumes "set s \<subseteq> set CODE_ALPHABET"
  shows "normalize_code s = s"
proof -
  have "js_trim s = s" by (rule js_trim_id) (use assms alphabet_char(1) in blast)
  moreover have "map upper_char s = s" by (rule map_idI) (use assms alphabet_char(2) in blast)
  ultimately show ?thesis by (simp add: normalize_code_def)
qed

end
