(* ===== verification/Room_Messages.thy ===== *)
theory Room_Messages
  imports Room_Status Seat_Codes
begin

text \<open>
  \<^verbatim>\<open>MessageService\<close> of \<^verbatim>\<open>apps/server/src/modules/rooms/message-service.ts\<close> (add, revise,
  retract) over the \<^verbatim>\<open>AttachmentValidator\<close> interface of \<^verbatim>\<open>attachment-validator.ts\<close>, with
  its two implementations \<^verbatim>\<open>noAttachments\<close> and \<^verbatim>\<open>MediaAttachmentValidator\<close>
  (\<^verbatim>\<open>apps/server/src/modules/media/media-attachment-validator.ts\<close>).
\<close>

section \<open>Principals and commands\<close>

text \<open>\<^verbatim>\<open>AuthSession\<close>: the fields the services read.\<close>

datatype AuthSession =
    Student (p_roomId: string) (p_roomMemberId: string) (p_actorId: string)
  | Teacher (p_teacherId: string) (p_actorId: string)

text \<open>\<^verbatim>\<open>RoomCommand\<close>; \<open>c_clientTime\<close> is the date that \<^verbatim>\<open>new Date(command.clientTime)\<close> yields.\<close>

record RoomCommand =
  c_commandId :: string
  c_roomId :: string
  c_type :: string
  c_clientTime :: date
  c_baseRevision :: "int option"
  c_payload :: jsval

fun is_record :: "jsval \<Rightarrow> bool" where
  "is_record (VObj _ proto _) = proto"
| "is_record _ = False"

fun vmember :: "jsval \<Rightarrow> string \<Rightarrow> jsval option" where
  "vmember (VObj _ _ ms) k = map_option (\<lambda>(_, _, v). v) (find (\<lambda>(k', _, _). k' = Some k) ms)"
| "vmember _ k = None"

text \<open>\<^verbatim>\<open>record(command.payload) ? command.payload : {}\<close>\<close>

definition payload_record :: "jsval \<Rightarrow> jsval" where
  "payload_record v = (if is_record v then v else VObj 0 True [])"

fun uuid_text :: "jsval \<Rightarrow> string option" where
  "uuid_text (VStr s) = (if uuid_ok s then Some s else None)"
| "uuid_text _ = None"

fun all_some :: "'a option list \<Rightarrow> 'a list option" where
  "all_some [] = Some []"
| "all_some (None # _) = None"
| "all_some (Some x # xs) = map_option ((#) x) (all_some xs)"

text \<open>\<^verbatim>\<open>arrayOfStrings\<close>, returning the strings it has checked.\<close>

fun arrayOfStrings :: "jsval \<Rightarrow> string list option" where
  "arrayOfStrings (VArr _ _ _ es) = all_some (map (\<lambda>(_, v). uuid_text v) es)"
| "arrayOfStrings _ = None"

fun stored_uuid_array :: "json option \<Rightarrow> string list option" where
  "stored_uuid_array (Some (JArr js)) =
     all_some (map (\<lambda>j. case j of JStr s \<Rightarrow> if uuid_ok s then Some s else None | _ \<Rightarrow> None) js)"
| "stored_uuid_array _ = None"

definition readUuidArray :: "jsval \<Rightarrow> string \<Rightarrow> nat \<Rightarrow> string list tx" where
  "readUuidArray p key bound = (case vmember p key of
     None \<Rightarrow> ret []
   | Some v \<Rightarrow> (case arrayOfStrings v of
       None \<Rightarrow> raise (room_error INVALID_COMMAND)
     | Some xs \<Rightarrow> if length xs > bound then raise (room_error INVALID_COMMAND) else ret xs))"


definition trimmed_text :: "jsval \<Rightarrow> string" where
  "trimmed_text p = (case vmember p ''text'' of Some (VStr s) \<Rightarrow> js_trim s | _ \<Rightarrow> '''')"

definition reply_of :: "jsval \<Rightarrow> jsval" where
  "reply_of p = (case vmember p ''replyTo'' of None \<Rightarrow> VNull | Some v \<Rightarrow> v)"

definition message_id_of :: "jsval \<Rightarrow> string" where
  "message_id_of p = (case vmember p ''messageId'' of Some (VStr s) \<Rightarrow> s | _ \<Rightarrow> '''')"

definition commandType :: "RoomCommand \<Rightarrow> string \<Rightarrow> bool" where
  "commandType c expected \<longleftrightarrow> c_type c = expected \<and> uuid_ok (c_commandId c) \<and> uuid_ok (c_roomId c)"

section \<open>Guards\<close>

definition member_rows :: "world \<Rightarrow> string \<Rightarrow> AuthSession \<Rightarrow> string option \<Rightarrow> db \<Rightarrow> nat" where
  "member_rows w rid caller sessionId d =
     (let mine = \<lambda>m. m_room m = pg_uuid rid \<and> m_id m = pg_uuid (p_roomMemberId caller) \<and> m_actor m = pg_uuid (p_actorId caller)
      in case sessionId of
        None \<Rightarrow> length (filter mine (members d))
      | Some sid \<Rightarrow> if sid = '''' then length (filter mine (members d)) else
          length (filter (\<lambda>(s, m). s_member s = Some (m_id m) \<and> s_id s = pg_uuid sid \<and> s_kind s = StudentKind \<and>
            s_revoked s = None \<and> s_expires s > tx_now w \<and> mine m) (List.product (sessions d) (members d))))"

definition authorizeStudent :: "world \<Rightarrow> AuthSession \<Rightarrow> string option \<Rightarrow> unit tx" where
  "authorizeStudent w caller sessionId =
     act_bind (gets (\<lambda>c. room_id (ctx_room c))) (\<lambda>rid.
     case caller of
       Teacher _ _ \<Rightarrow> raise (room_error FORBIDDEN)
     | Student proom _ _ \<Rightarrow>
         if proom \<noteq> rid then raise (room_error FORBIDDEN) else
         act_bind (gets (\<lambda>c. member_rows w rid caller sessionId (ctx_db c)))
           (\<lambda>n. require (n = 1) (room_error FORBIDDEN)))"

definition authorizeTeacher :: "AuthSession \<Rightarrow> unit tx" where
  "authorizeTeacher caller =
     act_bind (gets (\<lambda>c. teacher_id (ctx_room c))) (\<lambda>owner. case caller of
       Student _ _ _ \<Rightarrow> raise (room_error FORBIDDEN)
     | Teacher tid aid \<Rightarrow> require (tid = owner \<and> aid = owner) (room_error FORBIDDEN))"

definition assertMessageTeacher :: "world \<Rightarrow> AuthSession \<Rightarrow> string option \<Rightarrow> unit tx" where
  "assertMessageTeacher w caller sessionId =
     act_then (authorizeTeacher caller) (assertTeacherSession w (p_teacherId caller) sessionId)"

definition authorize :: "world \<Rightarrow> AuthSession \<Rightarrow> string option \<Rightarrow> unit tx" where
  "authorize w caller sessionId = (case caller of
     Student _ _ _ \<Rightarrow> authorizeStudent w caller sessionId
   | Teacher _ _ \<Rightarrow> assertMessageTeacher w caller sessionId)"

text \<open>Greatest revision first, then greatest sequence number.\<close>

definition latest_row :: "event_row list \<Rightarrow> event_row option" where
  "latest_row es = (case sort_key (\<lambda>e. (- e_revision e, - e_seq e)) es of [] \<Rightarrow> None | e # _ \<Rightarrow> Some e)"

definition latestMessage :: "string \<Rightarrow> event_row option tx" where
  "latestMessage mid =
     act_then (require (uuid_ok mid) (room_error MESSAGE_NOT_FOUND))
       (gets (\<lambda>c. latest_row (message_rows (ctx_db c) (room_id (ctx_room c)) mid)))"

definition message_retry :: "world \<Rightarrow> string \<Rightarrow> string \<Rightarrow> string \<Rightarrow> envelope option tx" where
  "message_retry w cid expectedType actor =
     act_bind (findByCausation w cid) (\<lambda>existing. case existing of
       None \<Rightarrow> ret None
     | Some e \<Rightarrow>
         if ev_type e \<noteq> expectedType \<or> actorId e \<noteq> actor \<or> actorKind e \<noteq> ''human'' \<or>
            (actorRole e \<noteq> ''student'' \<and> actorRole e \<noteq> ''teacher'')
         then raise (room_error INVALID_COMMAND) else ret (Some e))"

definition assertWritable :: "date \<Rightarrow> unit tx" where
  "assertWritable now =
     act_then (require (validDate now) (Failure ''INVALID_CLOCK''))
       (act_bind (gets ctx_room) (\<lambda>room. require (status room = Open \<and>
           (case closes_at room of None \<Rightarrow> True | Some t \<Rightarrow> t > date_time now)) (room_error ROOM_NOT_OPEN)))"

definition mentionable :: "db \<Rightarrow> string \<Rightarrow> string list" where
  "mentionable d rid = map m_actor (filter (\<lambda>m. m_room m = rid) (members d)) @
     map r_nova (filter (\<lambda>r. r_id r = rid) (rooms d))"

definition assertMentionsAndReply :: "string list \<Rightarrow> jsval \<Rightarrow> unit tx" where
  "assertMentionsAndReply mentions replyTo =
     act_then (require (list_all uuid_ok mentions \<and> length mentions \<le> 5) (room_error INVALID_COMMAND))
     (act_bind (gets (\<lambda>c. mentionable (ctx_db c) (room_id (ctx_room c)))) (\<lambda>allowed.
      act_then (require (set mentions \<subseteq> set allowed) (room_error INVALID_COMMAND))
      (case replyTo of
         VNull \<Rightarrow> ret ()
       | VStr s \<Rightarrow> if \<not> uuid_ok s then raise (room_error INVALID_COMMAND) else
           act_bind (latestMessage s) (\<lambda>target. case target of
             None \<Rightarrow> raise (room_error INVALID_COMMAND)
           | Some t \<Rightarrow> require (e_operation t \<noteq> ''retract'') (room_error INVALID_COMMAND))
       | _ \<Rightarrow> raise (room_error INVALID_COMMAND))))"

section \<open>Attachments\<close>

record AttachmentValidator =
  assertAttachable :: "AuthSession \<Rightarrow> string \<Rightarrow> string list \<Rightarrow> unit tx"
  bind_media :: "string \<Rightarrow> string \<Rightarrow> string \<Rightarrow> string list \<Rightarrow> unit tx"

definition noAttachments :: AttachmentValidator where
  "noAttachments =
     \<lparr>assertAttachable = (\<lambda>_ _ ids. require (ids = []) (room_error INVALID_COMMAND)),
      bind_media = (\<lambda>_ _ _ ids. require (ids = []) (room_error INVALID_COMMAND))\<rparr>"

definition media_ids_ok :: "string list \<Rightarrow> bool" where
  "media_ids_ok ids \<longleftrightarrow> length ids \<le> 4 \<and> list_all uuid_ok ids \<and> distinct ids"

definition media_assertAttachable :: "AuthSession \<Rightarrow> string \<Rightarrow> string list \<Rightarrow> unit tx" where
  "media_assertAttachable caller rid ids =
     (if ids = [] then ret () else
      case caller of
        Teacher _ _ \<Rightarrow> raise (room_error INVALID_COMMAND)
      | Student proom _ actor \<Rightarrow>
          if proom \<noteq> rid \<or> \<not> uuid_ok actor \<or> \<not> uuid_ok rid \<or> \<not> media_ids_ok ids then raise (room_error INVALID_COMMAND) else
          act_bind (gets (\<lambda>c. filter (\<lambda>m. md_id m \<in> pg_uuid ` set ids) (medias (ctx_db c)))) (\<lambda>rows.
            require (length rows = length ids \<and>
              list_all (\<lambda>m. md_room m = rid \<and> md_owner m = actor \<and> md_state m \<in> {''uploaded'', ''processing'', ''ready''}) rows)
              (room_error INVALID_COMMAND)))"

fun insert_bindings :: "string \<Rightarrow> string \<Rightarrow> string \<Rightarrow> string list \<Rightarrow> binding_row list \<Rightarrow> binding_row list" where
  "insert_bindings rid mid eid [] bs = bs"
| "insert_bindings rid mid eid (i # is) bs = insert_bindings rid mid eid is
     (if list_ex (\<lambda>b. b_media b = pg_uuid i) bs then bs
      else bs @ [\<lparr>b_media = pg_uuid i, b_room = pg_uuid rid, b_message = pg_uuid mid, b_event = pg_uuid eid\<rparr>])"

definition media_bind :: "string \<Rightarrow> string \<Rightarrow> string \<Rightarrow> string list \<Rightarrow> unit tx" where
  "media_bind rid mid eid ids =
     (if ids = [] then ret () else
      if \<not> (uuid_ok rid \<and> uuid_ok mid \<and> uuid_ok eid) \<or> \<not> media_ids_ok ids then raise (room_error INVALID_COMMAND) else
      act_then (exec (\<lambda>d. d\<lparr>bindings := insert_bindings rid mid eid ids (bindings d)\<rparr>))
      (act_bind (gets (\<lambda>c. filter (\<lambda>b. b_media b \<in> pg_uuid ` set ids) (bindings (ctx_db c)))) (\<lambda>bound.
        require (length bound = length ids \<and> list_all (\<lambda>b. b_room b = rid \<and> b_message b = mid \<and> b_event b = eid) bound)
          (room_error INVALID_COMMAND))))"

definition MediaAttachmentValidator :: AttachmentValidator where
  "MediaAttachmentValidator = \<lparr>assertAttachable = media_assertAttachable, bind_media = media_bind\<rparr>"

section \<open>Operations\<close>

definition str_array :: "nat \<Rightarrow> string list \<Rightarrow> jsval" where
  "str_array oid ss = VArr oid True True (map (\<lambda>s. (True, VStr s)) ss)"

definition message_payload :: "string \<Rightarrow> string \<Rightarrow> jsval \<Rightarrow> string list \<Rightarrow> string list \<Rightarrow> jsval" where
  "message_payload mid text replyTo mentions mediaIds = plain_obj
     [(''messageId'', VStr mid), (''text'', VStr text), (''replyTo'', replyTo),
      (''mentions'', str_array 1 mentions), (''mediaIds'', str_array 2 mediaIds)]"

definition message_draft :: "string \<Rightarrow> AuthSession \<Rightarrow> string \<Rightarrow> int \<Rightarrow> string \<Rightarrow> RoomCommand \<Rightarrow> string \<Rightarrow> jsval \<Rightarrow> raw_draft" where
  "message_draft type caller role rv oper c corr pl = Draft
     \<lparr>d_type = type, d_actorId = p_actorId caller, d_actorKind = ''human'', d_actorRole = role,
      d_revision = rv, d_operation = oper, d_eventTime = c_clientTime c, d_causationId = c_commandId c,
      d_correlationId = corr, d_payload = pl\<rparr>"

definition add_new :: "AttachmentValidator \<Rightarrow> world \<Rightarrow> AuthSession \<Rightarrow> RoomCommand \<Rightarrow> envelope tx" where
  "add_new att w caller c =
     act_then (assertWritable (clock w 0))
     (let p = payload_record (c_payload c); text = trimmed_text p; replyTo = reply_of p in
      act_bind (readUuidArray p ''mediaIds'' 4) (\<lambda>mediaIds.
      act_bind (readUuidArray p ''mentions'' 5) (\<lambda>mentions.
      act_then (require (\<not> (text = '''' \<and> mediaIds = [])) (room_error INVALID_COMMAND))
      (act_then (require (length mediaIds \<le> 4) (room_error INVALID_COMMAND))
      (act_then (assertMentionsAndReply mentions replyTo)
      (act_then (assertAttachable att caller (c_roomId c) mediaIds)
      (act_bind (append_event w (fresh w 2) (fresh w 3) (clock w 1)
          (message_draft ''message.added'' caller ''student'' 1 ''add'' c (fresh w 1)
            (message_payload (fresh w 0) text replyTo mentions mediaIds))) (\<lambda>event.
       act_then (bind_media att (c_roomId c) (fresh w 0) (eventId event) mediaIds) (ret event)))))))))"

definition add_in :: "AttachmentValidator \<Rightarrow> world \<Rightarrow> AuthSession \<Rightarrow> RoomCommand \<Rightarrow> string option \<Rightarrow> envelope tx" where
  "add_in att w caller c sessionId =
     act_then (authorizeStudent w caller sessionId)
     (act_bind (message_retry w (c_commandId c) ''message.added'' (p_actorId caller)) (\<lambda>retry. case retry of
        Some e \<Rightarrow> ret e
      | None \<Rightarrow> add_new att w caller c))"

definition add_message :: "AttachmentValidator \<Rightarrow> world \<Rightarrow> AuthSession \<Rightarrow> RoomCommand \<Rightarrow> string option \<Rightarrow> envelope op" where
  "add_message att w caller c sessionId =
     (if \<not> commandType c ''message.add'' then raise (room_error INVALID_COMMAND) else
      case caller of
        Teacher _ _ \<Rightarrow> raise (room_error FORBIDDEN)
      | Student proom _ _ \<Rightarrow> if proom \<noteq> c_roomId c then raise (room_error FORBIDDEN)
          else transact (c_roomId c) (add_in att w caller c sessionId))"

definition base_revision_ok :: "RoomCommand \<Rightarrow> bool" where
  "base_revision_ok c = (case c_baseRevision c of None \<Rightarrow> False | Some n \<Rightarrow> 1 \<le> n \<and> n \<le> max_safe_integer)"

text \<open>The prior version a revision or retraction refers to, with the checks up to the revision.\<close>

definition prior_version :: "string \<Rightarrow> RoomCommand \<Rightarrow> (event_row \<Rightarrow> bool) \<Rightarrow> event_row tx" where
  "prior_version mid c allowed =
     act_bind (latestMessage mid) (\<lambda>prior. case prior of
       None \<Rightarrow> raise (room_error MESSAGE_NOT_FOUND)
     | Some p \<Rightarrow>
         if e_operation p = ''retract'' then raise (room_error MESSAGE_NOT_FOUND)
         else if \<not> allowed p then raise (room_error FORBIDDEN)
         else if Some (e_revision p) \<noteq> c_baseRevision c then raise (RoomError REVISION_CONFLICT (Some (e_revision p)))
         else ret p)"

definition stored_media_ids :: "event_row \<Rightarrow> string list" where
  "stored_media_ids p = (case stored_uuid_array (jmember (e_payload p) ''mediaIds'') of None \<Rightarrow> [] | Some xs \<Rightarrow> xs)"

fun is_student :: "AuthSession \<Rightarrow> bool" where
  "is_student (Student _ _ _) = True"
| "is_student (Teacher _ _) = False"

definition revise_new :: "world \<Rightarrow> AuthSession \<Rightarrow> RoomCommand \<Rightarrow> envelope tx" where
  "revise_new w caller c =
     act_then (assertWritable (clock w 0))
     (act_then (require (base_revision_ok c) (room_error INVALID_COMMAND))
     (let p = payload_record (c_payload c); mid = message_id_of p; text = trimmed_text p; replyTo = reply_of p in
      act_bind (prior_version mid c (\<lambda>prior. is_student caller \<and> e_actor prior = p_actorId caller)) (\<lambda>prior.
      act_bind (readUuidArray p ''mentions'' 5) (\<lambda>mentions.
      act_then (require (text \<noteq> '''' \<and> length mentions \<le> 5) (room_error INVALID_COMMAND))
      (act_then (assertMentionsAndReply mentions replyTo)
       (append_event w (fresh w 1) (fresh w 2) (clock w 1)
          (message_draft ''message.revised'' caller ''student'' (e_revision prior + 1) ''revise'' c (fresh w 0)
            (message_payload mid text replyTo mentions (stored_media_ids prior)))))))))"

definition revise_in :: "world \<Rightarrow> AuthSession \<Rightarrow> RoomCommand \<Rightarrow> string option \<Rightarrow> envelope tx" where
  "revise_in w caller c sessionId =
     act_then (authorize w caller sessionId)
     (act_bind (message_retry w (c_commandId c) ''message.revised'' (p_actorId caller)) (\<lambda>retry. case retry of
        Some e \<Rightarrow> ret e
      | None \<Rightarrow> revise_new w caller c))"

definition revise_message :: "world \<Rightarrow> AuthSession \<Rightarrow> RoomCommand \<Rightarrow> string option \<Rightarrow> envelope op" where
  "revise_message w caller c sessionId =
     (if \<not> commandType c ''message.revise'' then raise (room_error INVALID_COMMAND)
      else transact (c_roomId c) (revise_in w caller c sessionId))"

definition retract_new :: "world \<Rightarrow> AuthSession \<Rightarrow> RoomCommand \<Rightarrow> envelope tx" where
  "retract_new w caller c =
     act_then (assertWritable (clock w 0))
     (act_then (require (base_revision_ok c) (room_error INVALID_COMMAND))
     (let mid = message_id_of (payload_record (c_payload c)) in
      act_bind (prior_version mid c (\<lambda>prior. \<not> is_student caller \<or> e_actor prior = p_actorId caller)) (\<lambda>prior.
       append_event w (fresh w 1) (fresh w 2) (clock w 1)
          (message_draft ''message.retracted'' caller (if is_student caller then ''student'' else ''teacher'')
            (e_revision prior + 1) ''retract'' c (fresh w 0) (plain_obj [(''messageId'', VStr mid)])))))"

definition retract_in :: "world \<Rightarrow> AuthSession \<Rightarrow> RoomCommand \<Rightarrow> string option \<Rightarrow> envelope tx" where
  "retract_in w caller c sessionId =
     act_then (authorize w caller sessionId)
     (act_bind (message_retry w (c_commandId c) ''message.retracted'' (p_actorId caller)) (\<lambda>retry. case retry of
        Some e \<Rightarrow> ret e
      | None \<Rightarrow> retract_new w caller c))"

definition retract_message :: "world \<Rightarrow> AuthSession \<Rightarrow> RoomCommand \<Rightarrow> string option \<Rightarrow> envelope op" where
  "retract_message w caller c sessionId =
     (if \<not> commandType c ''message.retract'' then raise (room_error INVALID_COMMAND)
      else transact (c_roomId c) (retract_in w caller c sessionId))"

end
