(* ===== verification/Message_History.thy ===== *)
theory Message_History
  imports Room_Messages
begin

text \<open>
  What the message operations guarantee: they write only to an open, unexpired room, keep
  the invariant of the ledger, the lifecycle and the message histories, and bind
  attachments only through the validator. The validator is an interface with a contract,
  which both of its implementations satisfy.
\<close>

section \<open>The latest version\<close>

lemma hd_sort_key_le: "sort_key f xs = y # ys \<Longrightarrow> y \<in> set xs \<and> (\<forall>x \<in> set xs. f y \<le> f x)"
proof -
  assume s: "sort_key f xs = y # ys"
  have "sorted (map f (sort_key f xs))" by simp
  with s have "\<forall>x \<in> set (sort_key f xs). f y \<le> f x" by auto
  moreover have "set (sort_key f xs) = set xs" by simp
  ultimately show ?thesis using s by (metis list.set_intros(1))
qed

lemma latest_row_history:
  assumes "history_from None (map version_of es)"
  shows "latest_row es = (if es = [] then None else Some (last es))"
proof (cases "es = []")
  case False
  let ?k = "\<lambda>e. (- e_revision e, - e_seq e)"
  from history_revisions [OF assms] have rev: "map e_revision es = map (\<lambda>i. 1 + int i) [0..<length es]"
    by (simp add: version_of_def comp_def)
  have nth: "e_revision (es ! i) = 1 + int i" if "i < length es" for i
    using arg_cong [OF rev, of "\<lambda>l. l ! i"] that by simp
  from False obtain y ys where s: "sort_key ?k es = y # ys"
    by (metis length_0_conv length_sort neq_Nil_conv)
  from hd_sort_key_le [OF s] False have le: "?k y \<le> ?k (last es)" by (metis last_in_set)
  from hd_sort_key_le [OF s] obtain i where i: "i < length es" "y = es ! i"
    by (metis in_set_conv_nth)
  from False have last: "last es = es ! (length es - 1)" by (rule last_conv_nth)
  have "e_revision y \<ge> e_revision (last es)" using le by (auto simp: less_eq_prod_def)
  then have "int i \<ge> int (length es - 1)" using nth [OF i(1)] nth [of "length es - 1"] False by (simp add: i(2) last)
  then have "i = length es - 1" using i(1) by linarith
  with i(2) last s show ?thesis using False by (simp add: latest_row_def)
qed (simp add: latest_row_def)

section \<open>Guards change nothing\<close>

lemma authorizeStudent_Inr:
  "authorizeStudent w p sid c = (Inr u, c') \<Longrightarrow> c' = c \<and> is_student p \<and> p_roomId p = room_id (ctx_room c)"
  by (auto simp: authorizeStudent_def act_iffs split: AuthSession.splits if_splits)

lemma assertTeacherSession_Inr: "assertTeacherSession w t sid c = (Inr u, c') \<Longrightarrow> c' = c"
  by (auto simp: assertTeacherSession_def act_iffs split: option.splits if_splits)

lemma authorize_Inr:
  "authorize w p sid c = (Inr u, c') \<Longrightarrow> c' = c"
  by (auto simp: authorize_def assertMessageTeacher_def authorizeTeacher_def act_iffs
      split: AuthSession.splits dest!: authorizeStudent_Inr assertTeacherSession_Inr)

lemma message_retry_state: "message_retry w cid t a c = (Inr r, c') \<Longrightarrow> c' = c"
  by (auto simp: message_retry_def act_iffs split: option.splits if_splits dest!: findByCausation_state)

lemma message_retry_None:
  assumes "message_retry w cid t a c = (Inr None, c')"
  shows "findOneByCausation w cid c = (Inr None, c)"
proof -
  from assms obtain r u where f: "findByCausation w cid c = (Inr r, u)"
    and r: "(case r of None \<Rightarrow> ret None | Some e \<Rightarrow>
         if ev_type e \<noteq> t \<or> actorId e \<noteq> a \<or> actorKind e \<noteq> ''human'' \<or>
            (actorRole e \<noteq> ''student'' \<and> actorRole e \<noteq> ''teacher'')
         then raise (room_error INVALID_COMMAND) else ret (Some e)) u = (Inr None, c')"
    unfolding message_retry_def act_bind_Inr_iff by blast
  from r have "r = None" by (auto split: option.splits if_splits)
  moreover from f have "u = c" by (rule findByCausation_state)
  ultimately show ?thesis using f by (auto simp: findByCausation_def schedule_Inr_iff)
qed

lemma assertWritable_Inr:
  "assertWritable now c = (Inr u, c') \<longleftrightarrow> c' = c \<and> validDate now \<and> status (ctx_room c) = Open \<and>
     (\<forall>t. closes_at (ctx_room c) = Some t \<longrightarrow> t > date_time now)"
  by (auto simp: assertWritable_def act_iffs split: option.splits)

lemma readUuidArray_Inr:
  "readUuidArray p k n c = (Inr xs, c') \<Longrightarrow> c' = c \<and> length xs \<le> n"
  by (auto simp: readUuidArray_def act_iffs split: option.splits if_splits)

lemma latestMessage_Inr:
  "latestMessage mid c = (Inr r, c') \<longleftrightarrow>
     c' = c \<and> uuid_ok mid \<and> r = latest_row (message_rows (ctx_db c) (room_id (ctx_room c)) mid)"
  by (auto simp: latestMessage_def act_iffs)

lemma assertMentionsAndReply_Inr:
  "assertMentionsAndReply ms rep c = (Inr u, c') \<Longrightarrow>
     c' = c \<and> set ms \<subseteq> set (mentionable (ctx_db c) (room_id (ctx_room c)))"
  by (auto simp: assertMentionsAndReply_def act_iffs latestMessage_Inr split: jsval.splits option.splits if_splits)

lemma prior_version_Inr:
  "prior_version mid cmd allowed c = (Inr p, c') \<longleftrightarrow>
     c' = c \<and> uuid_ok mid \<and> latest_row (message_rows (ctx_db c) (room_id (ctx_room c)) mid) = Some p \<and>
     e_operation p \<noteq> ''retract'' \<and> allowed p \<and> c_baseRevision cmd = Some (e_revision p)"
  by (auto simp: prior_version_def act_iffs latestMessage_Inr split: option.splits if_splits)

section \<open>The attachment interface\<close>

locale attachment_validator =
  fixes att :: AttachmentValidator
  assumes assert_frame: "assertAttachable att p rid ids c = (Inr u, c') \<Longrightarrow> c' = c"
    and bind_frame: "bind_media att rid mid eid ids c = (Inr u, c') \<Longrightarrow>
      \<exists>bs. c' = c\<lparr>ctx_db := (ctx_db c)\<lparr>bindings := bs\<rparr>\<rparr>"
begin

text \<open>A committed new message: the append it made and what the binding left of it.\<close>

lemma add_new_Inr:
  assumes "add_new att w p cmd c = (Inr v, c')"
  shows "\<exists>text rep ments mids c1 bs. status (ctx_room c) = Open \<and>
     (\<forall>t. closes_at (ctx_room c) = Some t \<longrightarrow> t > date_time (clock w 0)) \<and>
     set ments \<subseteq> set (mentionable (ctx_db c) (room_id (ctx_room c))) \<and>
     assertAttachable att p (c_roomId cmd) mids c = (Inr (), c) \<and>
     append_event w (fresh w 2) (fresh w 3) (clock w 1)
          (message_draft ''message.added'' p ''student'' 1 ''add'' cmd (fresh w 1)
            (message_payload (fresh w 0) text rep ments mids)) c = (Inr v, c1) \<and>
     bind_media att (c_roomId cmd) (fresh w 0) (eventId v) mids c1 = (Inr (), c') \<and>
     c' = c1\<lparr>ctx_db := (ctx_db c1)\<lparr>bindings := bs\<rparr>\<rparr>"
proof -
  let ?p = "payload_record (c_payload cmd)"
  from assms obtain mids u1 ments u2 u3 u4 c1 where w: "status (ctx_room c) = Open"
      "\<forall>t. closes_at (ctx_room c) = Some t \<longrightarrow> t > date_time (clock w 0)"
    and r1: "readUuidArray ?p ''mediaIds'' 4 c = (Inr mids, u1)"
    and r2: "readUuidArray ?p ''mentions'' 5 u1 = (Inr ments, u2)"
    and r3: "assertMentionsAndReply ments (reply_of ?p) u2 = (Inr (), u3)"
    and r4: "assertAttachable att p (c_roomId cmd) mids u3 = (Inr (), u4)"
    and r5: "append_event w (fresh w 2) (fresh w 3) (clock w 1)
          (message_draft ''message.added'' p ''student'' 1 ''add'' cmd (fresh w 1)
            (message_payload (fresh w 0) (trimmed_text ?p) (reply_of ?p) ments mids)) u4 = (Inr v, c1)"
    and r6: "bind_media att (c_roomId cmd) (fresh w 0) (eventId v) mids c1 = (Inr (), c')"
    unfolding add_new_def Let_def act_bind_Inr_iff act_then_Inr_iff require_Inr_iff assertWritable_Inr ret_Inr_iff
    by (elim exE conjE) simp
  from readUuidArray_Inr [OF r1] readUuidArray_Inr [OF r2] assertMentionsAndReply_Inr [OF r3] assert_frame [OF r4]
  have "u1 = c" "u2 = c" "u3 = c" "u4 = c" by auto
  moreover from bind_frame [OF r6] obtain bs where "c' = c1\<lparr>ctx_db := (ctx_db c1)\<lparr>bindings := bs\<rparr>\<rparr>" by blast
  ultimately show ?thesis
    using w r3 r4 r5 r6 assertMentionsAndReply_Inr [OF r3] by (intro exI conjI) auto
qed

end

interpretation no_att: attachment_validator noAttachments
proof
  show "bind_media noAttachments rid mid eid ids c = (Inr u, c') \<Longrightarrow>
      \<exists>bs. c' = c\<lparr>ctx_db := (ctx_db c)\<lparr>bindings := bs\<rparr>\<rparr>" for rid mid eid ids c u c'
    by (auto simp: noAttachments_def act_iffs intro!: exI [of _ "bindings (ctx_db c)"])
qed (auto simp: noAttachments_def act_iffs)

interpretation media_att: attachment_validator MediaAttachmentValidator
proof
  show "bind_media MediaAttachmentValidator rid mid eid ids c = (Inr u, c') \<Longrightarrow>
      \<exists>bs. c' = c\<lparr>ctx_db := (ctx_db c)\<lparr>bindings := bs\<rparr>\<rparr>" for rid mid eid ids c u c'
    by (auto simp: MediaAttachmentValidator_def media_bind_def act_iffs exec_Inr_iff split: if_splits
        intro: exI [of _ "bindings (ctx_db c)"])
qed (auto simp: MediaAttachmentValidator_def media_assertAttachable_def act_iffs split: if_splits AuthSession.splits)

section \<open>Message operations keep the invariant\<close>

lemma clone_message_payload:
  "clone_payload (message_payload mid text rep ments mids) = Inr j \<Longrightarrow> jmember j ''messageId'' = Some (JStr mid)"
  by (auto simp: clone_payload_iff message_payload_def plain_obj_def jmember_def split: option.splits)

lemma clone_retract_payload:
  "clone_payload (plain_obj [(''messageId'', VStr mid)]) = Inr j \<Longrightarrow> jmember j ''messageId'' = Some (JStr mid)"
  by (auto simp: clone_payload_iff plain_obj_def jmember_def)

text \<open>\<^verbatim>\<open>randomUUID\<close> draws a message id that no stored event carries.\<close>

definition fresh_message :: "world \<Rightarrow> db \<Rightarrow> bool" where
  "fresh_message w d \<longleftrightarrow> list_all (\<lambda>e. jmember (e_payload e) ''messageId'' \<noteq> Some (JStr (fresh w 0))) (events d)"

lemma fresh_message_rows: "fresh_message w d \<Longrightarrow> message_rows d rid (fresh w 0) = []"
  by (auto simp: fresh_message_def message_rows_def filter_empty_conv list_all_iff)

lemma stored_actor_canonical:
  "mirrored d \<Longrightarrow> e \<in> set (events d) \<Longrightarrow> pg_uuid (e_actor e) = e_actor e"
  by (auto simp: mirrored_def event_row_of_def)

text \<open>A message event appended in the transaction of an open room.\<close>

lemma message_append_inv:
  assumes inv: "room_inv d" and room: "find_room d rid = Some r" "roomSnapshot r = Inr snap"
    and st: "status snap = Open" and t: "d_type x \<in> {''message.added'', ''message.revised'', ''message.retracted''}"
    and none: "findOneByCausation w (d_causationId x) (start_ctx d snap) = (Inr None, start_ctx d snap)"
    and app: "append_event w eid jid now (Draft x) (start_ctx d snap) = (Inr v, c)"
    and hist: "extends_history d (r_id r) x"
  shows "room_inv (ctx_db c)"
  by (rule transition_inv [OF inv _ prepared_same [OF room] app none _ hist])
     (use find_room_SomeD [OF room(1)] roomSnapshot_fields [OF room(2)] st t in \<open>auto simp: lc_step.simps\<close>)

context attachment_validator
begin

lemma add_in_inv:
  assumes inv: "room_inv d" and fm: "fresh_message w d"
    and room: "find_room d rid = Some r" "roomSnapshot r = Inr snap"
    and run: "add_in att w p cmd sid (start_ctx d snap) = (Inr v, c)"
  shows "room_inv (ctx_db c)"
proof -
  let ?c0 = "start_ctx d snap"
  from run obtain retry u1 u2 where a: "authorizeStudent w p sid ?c0 = (Inr (), u1)"
    and m: "message_retry w (c_commandId cmd) ''message.added'' (p_actorId p) u1 = (Inr retry, u2)"
    and b: "(case retry of None \<Rightarrow> add_new att w p cmd | Some e \<Rightarrow> ret e) u2 = (Inr v, c)"
    by (auto simp: add_in_def act_bind_Inr_iff act_then_Inr_iff)
  from authorizeStudent_Inr [OF a] message_retry_state [OF m] have u: "u1 = ?c0" "u2 = ?c0" by auto
  show ?thesis
  proof (cases retry)
    case (Some e)
    with b u inv show ?thesis by auto
  next
    case None
    with m u have none: "findOneByCausation w (c_commandId cmd) ?c0 = (Inr None, ?c0)"
      by (auto dest: message_retry_None)
    from None b u have "add_new att w p cmd ?c0 = (Inr v, c)" by simp
    from add_new_Inr [OF this] obtain body rep ments mids c1 bs where st: "status snap = Open"
      and app: "append_event w (fresh w 2) (fresh w 3) (clock w 1)
          (message_draft ''message.added'' p ''student'' 1 ''add'' cmd (fresh w 1)
            (message_payload (fresh w 0) body rep ments mids)) ?c0 = (Inr v, c1)"
      and c: "c = c1\<lparr>ctx_db := (ctx_db c1)\<lparr>bindings := bs\<rparr>\<rparr>" by auto
    have "room_inv (ctx_db c1)"
      by (rule message_append_inv [OF inv room st _ _ app [unfolded message_draft_def]])
         (use none fresh_message_rows [OF fm] in \<open>auto simp: extends_history_def dest!: clone_message_payload\<close>)
    then show ?thesis by (rule room_inv_frame) (simp_all add: c)
  qed
qed

lemma add_message_inv:
  assumes "room_inv d" "fresh_message w d"
  shows "room_inv (snd (add_message att w p cmd sid d))"
proof -
  have "room_inv (snd (transact (c_roomId cmd) (add_in att w p cmd sid) d))"
    by (rule transact_commits) (rule assms(1), rule add_in_inv [OF assms])
  then show ?thesis
    using assms by (auto simp: add_message_def split: AuthSession.splits)
qed

end

lemma revise_new_inv:
  assumes inv: "room_inv d" and room: "find_room d rid = Some r" "roomSnapshot r = Inr snap"
    and none: "findOneByCausation w (c_commandId cmd) (start_ctx d snap) = (Inr None, start_ctx d snap)"
    and run: "revise_new w p cmd (start_ctx d snap) = (Inr v, c)"
  shows "room_inv (ctx_db c)"
proof -
  let ?c0 = "start_ctx d snap" and ?p = "payload_record (c_payload cmd)"
  let ?mid = "message_id_of ?p"
  from run obtain prior ments u1 u2 u3 where st: "status snap = Open"
    and r1: "prior_version ?mid cmd (\<lambda>prior. is_student p \<and> e_actor prior = p_actorId p) ?c0 = (Inr prior, u1)"
    and r2: "readUuidArray ?p ''mentions'' 5 u1 = (Inr ments, u2)"
    and r3: "assertMentionsAndReply ments (reply_of ?p) u2 = (Inr (), u3)"
    and app: "append_event w (fresh w 1) (fresh w 2) (clock w 1)
          (message_draft ''message.revised'' p ''student'' (e_revision prior + 1) ''revise'' cmd (fresh w 0)
            (message_payload ?mid (trimmed_text ?p) (reply_of ?p) ments (stored_media_ids prior))) u3 = (Inr v, c)"
    unfolding revise_new_def Let_def act_bind_Inr_iff act_then_Inr_iff require_Inr_iff assertWritable_Inr
    by (elim exE conjE) simp
  from r1 have p1: "latest_row (message_rows d (r_id r) ?mid) = Some prior" "e_operation prior \<noteq> ''retract''"
    "e_actor prior = p_actorId p" "u1 = ?c0"
    using roomSnapshot_fields [OF room(2)] by (auto simp: prior_version_Inr)
  with readUuidArray_Inr [OF r2] assertMentionsAndReply_Inr [OF r3] have u3: "u3 = ?c0" by auto
  have h: "history_from None (map version_of (message_rows d (r_id r) ?mid))"
    using find_room_SomeD [OF room(1)] by (intro room_inv_history [OF inv]) simp
  with p1(1) have ne: "message_rows d (r_id r) ?mid \<noteq> []" and last: "last (message_rows d (r_id r) ?mid) = prior"
    by (auto simp: latest_row_history split: if_splits)
  from last_in_set [OF ne] have "prior \<in> set (events d)" unfolding last by (simp add: message_rows_def)
  then have can: "pg_uuid (p_actorId p) = e_actor prior"
    using inv p1(3) stored_actor_canonical [of d prior] by (simp add: room_inv_def ledger_inv_def)
  show ?thesis
    by (rule message_append_inv [OF inv room st _ _ app [unfolded message_draft_def u3]])
       (use none h ne last p1 can in \<open>auto simp: extends_history_def history_from_snoc last_map version_of_def dest!: clone_message_payload\<close>)
qed

lemma retract_new_inv:
  assumes inv: "room_inv d" and room: "find_room d rid = Some r" "roomSnapshot r = Inr snap"
    and none: "findOneByCausation w (c_commandId cmd) (start_ctx d snap) = (Inr None, start_ctx d snap)"
    and run: "retract_new w p cmd (start_ctx d snap) = (Inr v, c)"
  shows "room_inv (ctx_db c)"
proof -
  let ?c0 = "start_ctx d snap" and ?mid = "message_id_of (payload_record (c_payload cmd))"
  from run obtain prior u1 where st: "status snap = Open"
    and r1: "prior_version ?mid cmd (\<lambda>prior. \<not> is_student p \<or> e_actor prior = p_actorId p) ?c0 = (Inr prior, u1)"
    and app: "append_event w (fresh w 1) (fresh w 2) (clock w 1)
          (message_draft ''message.retracted'' p (if is_student p then ''student'' else ''teacher'')
            (e_revision prior + 1) ''retract'' cmd (fresh w 0) (plain_obj [(''messageId'', VStr ?mid)])) u1 = (Inr v, c)"
    unfolding retract_new_def Let_def act_bind_Inr_iff act_then_Inr_iff require_Inr_iff assertWritable_Inr
    by (elim exE conjE) simp
  from r1 have p1: "latest_row (message_rows d (r_id r) ?mid) = Some prior" "e_operation prior \<noteq> ''retract''" "u1 = ?c0"
    using roomSnapshot_fields [OF room(2)] by (auto simp: prior_version_Inr)
  have h: "history_from None (map version_of (message_rows d (r_id r) ?mid))"
    using find_room_SomeD [OF room(1)] by (intro room_inv_history [OF inv]) simp
  with p1(1) have ne: "message_rows d (r_id r) ?mid \<noteq> []" and last: "last (message_rows d (r_id r) ?mid) = prior"
    by (auto simp: latest_row_history split: if_splits)
  show ?thesis
    by (rule message_append_inv [OF inv room st _ _ app [unfolded message_draft_def p1(3)]])
       (use none h ne last p1 in \<open>auto simp: extends_history_def history_from_snoc last_map version_of_def dest!: clone_retract_payload\<close>)
qed

lemma retry_or_new_inv:
  assumes inv: "room_inv d"
    and new: "findOneByCausation w cid (start_ctx d snap) = (Inr None, start_ctx d snap) \<Longrightarrow>
        m (start_ctx d snap) = (Inr v, c) \<Longrightarrow> room_inv (ctx_db c)"
    and run: "act_then (authorize w p sid) (act_bind (message_retry w cid t a) (\<lambda>retry. case retry of
        Some e \<Rightarrow> ret e | None \<Rightarrow> m)) (start_ctx d snap) = (Inr v, c)"
  shows "room_inv (ctx_db c)"
proof -
  let ?c0 = "start_ctx d snap"
  from run obtain retry u1 u2 where au: "authorize w p sid ?c0 = (Inr (), u1)"
    and mr: "message_retry w cid t a u1 = (Inr retry, u2)"
    and b: "(case retry of None \<Rightarrow> m | Some e \<Rightarrow> ret e) u2 = (Inr v, c)"
    by (auto simp: act_bind_Inr_iff act_then_Inr_iff)
  from authorize_Inr [OF au] message_retry_state [OF mr] have u: "u1 = ?c0" "u2 = ?c0" by auto
  show ?thesis
  proof (cases retry)
    case (Some e)
    with b u inv show ?thesis by auto
  next
    case None
    with mr u b show ?thesis by (auto dest!: message_retry_None intro: new)
  qed
qed

lemma keeps_revise_message [keeps_intros]: "keeps room_inv (revise_message w p cmd sid)"
  unfolding revise_message_def
proof (intro keeps_intros transact_keeps)
  fix d snap r v c
  assume "room_inv d" "find_room d (c_roomId cmd) = Some r" "roomSnapshot r = Inr snap"
    "revise_in w p cmd sid (start_ctx d snap) = (Inr v, c)"
  then show "room_inv (ctx_db c)"
    unfolding revise_in_def by (elim retry_or_new_inv [rotated 2]) (auto intro: revise_new_inv)
qed

lemma keeps_retract_message [keeps_intros]: "keeps room_inv (retract_message w p cmd sid)"
  unfolding retract_message_def
proof (intro keeps_intros transact_keeps)
  fix d snap r v c
  assume "room_inv d" "find_room d (c_roomId cmd) = Some r" "roomSnapshot r = Inr snap"
    "retract_in w p cmd sid (start_ctx d snap) = (Inr v, c)"
  then show "room_inv (ctx_db c)"
    unfolding retract_in_def by (elim retry_or_new_inv [rotated 2]) (auto intro: retract_new_inv)
qed

end
