(* ===== verification/Room_Admission.thy ===== *)
theory Room_Admission
  imports Message_History Seat_Codes
begin

text \<open>
  \<^verbatim>\<open>RoomService\<close> of \<^verbatim>\<open>apps/server/src/modules/rooms/room-service.ts\<close>: a teacher creates a
  room with four seats, a student joins with a room code and a seat code, a participant
  reads the room. Each runs in \<^verbatim>\<open>inTransaction\<close> (\<^verbatim>\<open>apps/server/src/db/transactions.ts\<close>).
\<close>

section \<open>Errors, generators, transactions\<close>

datatype RoomServiceErrorCode =
    ROOM_FORBIDDEN
  | JOIN_FORBIDDEN
  | ROOM_NOT_FOUND
  | DELETION_IN_PROGRESS
  | ROOM_CODE_UNAVAILABLE
  | RETENTION_POLICY_NOT_CONFIGURED

text \<open>
  What a call may end with: a \<^verbatim>\<open>RoomServiceError\<close>, an error of the lifecycle service, of
  the code hasher, of a contract parser or of the database; \<open>Diverges\<close> stands for a
  \<^verbatim>\<open>while\<close> loop over a generator that never draws an unused value.
\<close>

datatype adm_failure =
    RoomServiceError RoomServiceErrorCode
  | LifecycleFailure failure
  | HasherFailure code_error
  | ContractFailure
  | SqlFailure
  | Diverges

text \<open>
  The generators (\<^verbatim>\<open>randomUUID\<close>, the \<^verbatim>\<open>RoomCodeSource\<close>, \<^verbatim>\<open>opaqueToken\<close>) as streams of draws,
  the readings of clock and database time, the hash of a token and the HTTP contract.
\<close>

record participant =
  pt_actorId :: string
  pt_pseudonym :: string

record seat_invite =
  si_member :: string
  si_actor :: string
  si_pseudonym :: string
  si_code :: string

record CreateRoomResponse =
  cr_roomId :: string
  cr_roomCode :: string
  cr_nova :: string
  cr_seats :: "seat_invite list"

record JoinRoomResponse =
  jr_member :: string
  jr_actor :: string
  jr_pseudonym :: string

record RoomDetails =
  rd_roomId :: string
  rd_topic :: string
  rd_status :: room_status
  rd_duration :: int
  rd_starts :: "int option"
  rd_closes :: "int option"
  rd_nova :: string
  rd_participants :: "participant list"

record adm_world =
  aw_uuid :: "nat \<Rightarrow> string"
  aw_roomCode :: "nat \<Rightarrow> string"
  aw_seatCode :: "nat \<Rightarrow> string"
  aw_token :: string
  aw_tokenHash :: "string \<Rightarrow> nat list"
  aw_now :: date
  aw_tx_now :: int
  aw_hmac :: hmac
  parseCreateRoomRequest :: "jsval \<Rightarrow> string option"
  parseJoinRoomRequest :: "jsval \<Rightarrow> (string \<times> string) option"
  create_response_ok :: "CreateRoomResponse \<Rightarrow> bool"
  join_response_ok :: "JoinRoomResponse \<Rightarrow> bool"
  details_ok :: "RoomDetails \<Rightarrow> bool"

record adm =
  a_db :: db
  a_uuid :: nat
  a_code :: nat
  a_seat :: nat

type_synonym 'a adm_tx = "(adm, adm_failure, 'a) act"

type_synonym 'a adm_op = "(db, adm_failure, 'a) act"

definition inTransaction :: "'a adm_tx \<Rightarrow> 'a adm_op" where
  "inTransaction work = (\<lambda>d. case work \<lparr>a_db = d, a_uuid = 0, a_code = 0, a_seat = 0\<rparr> of
     (Inl e, _) \<Rightarrow> (Inl e, d)
   | (Inr v, s) \<Rightarrow> (Inr v, a_db s))"

definition statement :: "(db \<Rightarrow> db option) \<Rightarrow> unit adm_tx" where
  "statement st = (\<lambda>s. case st (a_db s) of None \<Rightarrow> (Inl SqlFailure, s) | Some d \<Rightarrow> (Inr (), s\<lparr>a_db := d\<rparr>))"

definition STUDENT_PSEUDONYMS :: "string list" where
  "STUDENT_PSEUDONYMS = map (\<lambda>c. map char_of [230, 142, 162, 231, 180, 162, 232, 128, 133, 32 :: nat] @ [c]) ''ABCD''"

definition SESSION_DURATION_MS :: int where
  "SESSION_DURATION_MS = 8 * 60 * 60 * 1000"

definition ROOM_CODE_ATTEMPTS :: nat where
  "ROOM_CODE_ATTEMPTS = 8"

definition randomUUID :: "adm_world \<Rightarrow> string adm_tx" where
  "randomUUID w = (\<lambda>s. (Inr (aw_uuid w (a_uuid s)), s\<lparr>a_uuid := a_uuid s + 1\<rparr>))"

text \<open>The loop \<^verbatim>\<open>while (used.has(value)) value = draw()\<close>, from draw number \<open>i\<close> on.\<close>

partial_function (option) first_unused :: "(nat \<Rightarrow> string) \<Rightarrow> string list \<Rightarrow> nat \<Rightarrow> (string \<times> nat) option" where
  "first_unused src used i = (if src i \<in> set used then first_unused src used (i + 1) else Some (src i, i + 1))"

definition uniqueUuid :: "adm_world \<Rightarrow> string list \<Rightarrow> string adm_tx" where
  "uniqueUuid w used = (\<lambda>s. case first_unused (aw_uuid w) used (a_uuid s) of
     None \<Rightarrow> (Inl Diverges, s)
   | Some (v, i) \<Rightarrow> (Inr v, s\<lparr>a_uuid := i\<rparr>))"

definition uniqueSeatCode :: "adm_world \<Rightarrow> string list \<Rightarrow> string adm_tx" where
  "uniqueSeatCode w used = (\<lambda>s. case first_unused (aw_seatCode w) used (a_seat s) of
     None \<Rightarrow> (Inl Diverges, s)
   | Some (v, i) \<Rightarrow> (Inr v, s\<lparr>a_seat := i\<rparr>))"

definition lift_hash :: "code_error + 'a \<Rightarrow> 'a adm_tx" where
  "lift_hash r = (case r of Inl e \<Rightarrow> raise (HasherFailure e) | Inr v \<Rightarrow> ret v)"

section \<open>Creating a room\<close>

definition current_policies :: "adm_world \<Rightarrow> db \<Rightarrow> policy_row list" where
  "current_policies w d = take 2 (sort_key (\<lambda>p. (- p_approved p, p_id p))
     (filter (\<lambda>p. p_approved p \<le> aw_tx_now w \<and> p_expires p > aw_tx_now w) (policies d)))"

definition new_room_row :: "adm_world \<Rightarrow> string \<Rightarrow> bytes \<Rightarrow> string \<Rightarrow> string \<Rightarrow> string \<Rightarrow> string \<Rightarrow> room_row" where
  "new_room_row w rid h nova teacher tp policy =
     \<lparr>r_id = pg_uuid rid, r_code_hash = h, r_nova = pg_uuid nova, r_teacher = pg_uuid teacher, r_topic = tp,
      r_status = Scheduled, r_duration = 2700, r_starts = None, r_closes = None, r_closed = None,
      r_next = 1, r_created = At (aw_tx_now w), r_policy = policy\<rparr>"

text \<open>
  \<^verbatim>\<open>INSERT \<dots> WHERE NOT EXISTS \<dots> ON CONFLICT (room_code_hash) DO NOTHING\<close>: whether a row was
  inserted, or a violated key.
\<close>

definition insert_room :: "room_row \<Rightarrow> bytes list \<Rightarrow> db \<Rightarrow> (bool \<times> db) option" where
  "insert_room r candidates d =
     (if list_ex (\<lambda>q. r_code_hash q \<in> set candidates) (rooms d) then Some (False, d)
      else if list_ex (\<lambda>q. r_code_hash q = r_code_hash r) (rooms d) then Some (False, d)
      else if list_ex (\<lambda>q. r_id q = r_id r \<or> r_nova q = r_nova r) (rooms d) then None
      else Some (True, d\<lparr>rooms := rooms d @ [r]\<rparr>))"

fun insertRoom_attempts :: "nat \<Rightarrow> adm_world \<Rightarrow> CodeHasher \<Rightarrow> string \<Rightarrow> string \<Rightarrow> string \<Rightarrow> string \<Rightarrow> string \<Rightarrow> string adm_tx" where
  "insertRoom_attempts 0 w h rid nova teacher tp policy = raise (RoomServiceError ROOM_CODE_UNAVAILABLE)"
| "insertRoom_attempts (Suc n) w h rid nova teacher tp policy = (\<lambda>s.
     let raw = aw_roomCode w (a_code s) in
     act_bind (lift_hash (hash_code (aw_hmac w) h raw)) (\<lambda>currentHash.
     act_bind (lift_hash (candidateHashes (aw_hmac w) h raw)) (\<lambda>readableHashes.
     (\<lambda>s. case insert_room (new_room_row w rid currentHash nova teacher tp policy) readableHashes (a_db s) of
        None \<Rightarrow> (Inl SqlFailure, s)
      | Some (True, d) \<Rightarrow> (Inr raw, s\<lparr>a_db := d\<rparr>)
      | Some (False, _) \<Rightarrow> insertRoom_attempts n w h rid nova teacher tp policy s)))
     (s\<lparr>a_code := a_code s + 1\<rparr>))"

definition insertRoom :: "adm_world \<Rightarrow> CodeHasher \<Rightarrow> string \<Rightarrow> string \<Rightarrow> string \<Rightarrow> string \<Rightarrow> string adm_tx" where
  "insertRoom w h rid nova teacher tp =
     act_bind (gets (\<lambda>s. current_policies w (a_db s))) (\<lambda>policy. case policy of
       [p] \<Rightarrow> insertRoom_attempts ROOM_CODE_ATTEMPTS w h rid nova teacher tp (p_id p)
     | _ \<Rightarrow> raise (RoomServiceError RETENTION_POLICY_NOT_CONFIGURED))"

definition insert_member :: "member_row \<Rightarrow> db \<Rightarrow> db option" where
  "insert_member m d =
     (if list_ex (\<lambda>q. m_id q = m_id m \<or> m_actor q = m_actor m \<or>
           (m_room q = m_room m \<and> (m_seat q = m_seat m \<or> m_pseudonym q = m_pseudonym m \<or> m_code_hash q = m_code_hash m)))
         (members d)
      then None else Some (d\<lparr>members := members d @ [m]\<rparr>))"

fun create_seats :: "(nat \<times> string) list \<Rightarrow> adm_world \<Rightarrow> CodeHasher \<Rightarrow> string \<Rightarrow> string list \<Rightarrow> string list \<Rightarrow> seat_invite list adm_tx" where
  "create_seats [] w h rid usedActors usedSeatCodes = ret []"
| "create_seats ((i, pseudonym) # rest) w h rid usedActors usedSeatCodes =
     act_bind (randomUUID w) (\<lambda>mid.
     act_bind (uniqueUuid w usedActors) (\<lambda>actor.
     act_bind (uniqueSeatCode w usedSeatCodes) (\<lambda>raw.
     act_bind (lift_hash (hash_code (aw_hmac w) h raw)) (\<lambda>hash.
     act_then (statement (insert_member \<lparr>m_id = pg_uuid mid, m_actor = pg_uuid actor, m_room = pg_uuid rid,
         m_seat = i + 1, m_pseudonym = pseudonym, m_code_hash = hash\<rparr>))
     (act_bind (create_seats rest w h rid (actor # usedActors) (raw # usedSeatCodes)) (\<lambda>invites.
      ret (\<lparr>si_member = mid, si_actor = actor, si_pseudonym = pseudonym, si_code = raw\<rparr> # invites)))))))"

definition createRoom_in :: "adm_world \<Rightarrow> CodeHasher \<Rightarrow> string \<Rightarrow> string \<Rightarrow> CreateRoomResponse adm_tx" where
  "createRoom_in w h teacher tp =
     act_bind (randomUUID w) (\<lambda>rid.
     act_bind (uniqueUuid w []) (\<lambda>nova.
     act_bind (insertRoom w h rid nova teacher tp) (\<lambda>raw.
     act_bind (create_seats (List.enumerate 0 STUDENT_PSEUDONYMS) w h rid [nova] []) (\<lambda>seats.
     let resp = \<lparr>cr_roomId = rid, cr_roomCode = raw, cr_nova = nova, cr_seats = seats\<rparr> in
     act_then (require (create_response_ok w resp) ContractFailure) (ret resp)))))"

definition createRoom :: "adm_world \<Rightarrow> CodeHasher \<Rightarrow> AuthSession \<Rightarrow> jsval \<Rightarrow> CreateRoomResponse adm_op" where
  "createRoom w h identity v = (case identity of
     Student _ _ _ \<Rightarrow> raise (RoomServiceError ROOM_FORBIDDEN)
   | Teacher teacher _ \<Rightarrow> (case parseCreateRoomRequest w v of
       None \<Rightarrow> raise ContractFailure
     | Some tp \<Rightarrow> inTransaction (createRoom_in w h teacher tp)))"

section \<open>Joining\<close>

definition locate_rooms :: "bytes list \<Rightarrow> db \<Rightarrow> string list" where
  "locate_rooms candidates d = take 2 (sort (map r_id (filter (\<lambda>r. r_code_hash r \<in> set candidates) (rooms d))))"

definition lockMembers :: "string \<Rightarrow> db \<Rightarrow> member_row list" where
  "lockMembers rid d = sort_key m_id (filter (\<lambda>m. m_room m = rid) (members d))"

text \<open>
  The four comparisons of the seat loop. A missing member is compared with a dummy hash,
  whose outcome is discarded.
\<close>

definition seat_matches :: "hmac \<Rightarrow> CodeHasher \<Rightarrow> string \<Rightarrow> member_row list \<Rightarrow> member_row list" where
  "seat_matches hm h seat ms = filter (\<lambda>m. verify hm h seat (m_code_hash m)) (take (length STUDENT_PSEUDONYMS) ms)"

definition revoke_sessions :: "string \<Rightarrow> int \<Rightarrow> db \<Rightarrow> db" where
  "revoke_sessions mid now d = d\<lparr>sessions := map (\<lambda>s.
     if s_kind s = StudentKind \<and> s_member s = Some mid \<and> s_revoked s = None then s\<lparr>s_revoked := Some now\<rparr> else s) (sessions d)\<rparr>"

definition insert_session :: "session_row \<Rightarrow> db \<Rightarrow> db option" where
  "insert_session x d =
     (if list_ex (\<lambda>s. s_id s = s_id x \<or> s_token_hash s = s_token_hash x) (sessions d) then None
      else Some (d\<lparr>sessions := sessions d @ [x]\<rparr>))"

text \<open>The writes of an admitted join: earlier sessions of the seat are revoked, a new one is issued.\<close>

definition admit :: "adm_world \<Rightarrow> member_row \<Rightarrow> (JoinRoomResponse \<times> string) adm_tx" where
  "admit w member =
     act_then (require (validDate (aw_now w)) SqlFailure)
     (act_then (statement (\<lambda>d. Some (revoke_sessions (m_id member) (date_time (aw_now w)) d)))
     (act_bind (randomUUID w) (\<lambda>sid.
      act_then (statement (insert_session
        \<lparr>s_id = pg_uuid sid, s_token_hash = aw_tokenHash w (aw_token w), s_kind = StudentKind, s_teacher = None,
         s_member = Some (m_id member), s_expires = date_time (aw_now w) + SESSION_DURATION_MS, s_revoked = None,
         s_created = date_time (aw_now w)\<rparr>))
      (let resp = \<lparr>jr_member = m_id member, jr_actor = m_actor member, jr_pseudonym = m_pseudonym member\<rparr> in
       act_then (require (join_response_ok w resp) ContractFailure) (ret (resp, aw_token w))))))"

definition join_decide :: "adm_world \<Rightarrow> bool \<Rightarrow> room_row option \<Rightarrow> member_row list \<Rightarrow> member_row list \<Rightarrow> (JoinRoomResponse \<times> string) adm_tx" where
  "join_decide w hasUniqueRoom lockedRoom ms matches = (case (lockedRoom, matches) of
       (Some room, [member]) \<Rightarrow>
         if \<not> hasUniqueRoom \<or> length ms \<noteq> length STUDENT_PSEUDONYMS \<or> (r_status room \<noteq> Scheduled \<and> r_status room \<noteq> Open)
         then raise (RoomServiceError JOIN_FORBIDDEN) else admit w member
     | _ \<Rightarrow> raise (RoomServiceError JOIN_FORBIDDEN))"

definition joinRoom_in :: "adm_world \<Rightarrow> CodeHasher \<Rightarrow> bytes list \<Rightarrow> string \<Rightarrow> (JoinRoomResponse \<times> string) adm_tx" where
  "joinRoom_in w h candidates seat =
     act_bind (gets (\<lambda>s. locate_rooms candidates (a_db s))) (\<lambda>located.
     act_bind (if length located = 1 then ret (hd located) else randomUUID w) (\<lambda>rid.
     act_bind (gets (\<lambda>s. find (\<lambda>r. r_id r = pg_uuid rid \<and> r_code_hash r \<in> set candidates) (rooms (a_db s)))) (\<lambda>lockedRoom.
     act_bind (gets (\<lambda>s. lockMembers (pg_uuid rid) (a_db s))) (\<lambda>ms.
      join_decide w (length located = 1) lockedRoom ms (seat_matches (aw_hmac w) h seat ms)))))"

definition joinRoom :: "adm_world \<Rightarrow> CodeHasher \<Rightarrow> jsval \<Rightarrow> (JoinRoomResponse \<times> string) adm_op" where
  "joinRoom w h v = (case parseJoinRoomRequest w v of
     None \<Rightarrow> raise ContractFailure
   | Some (roomCode, seatCode) \<Rightarrow>
       (case candidateHashes (aw_hmac w) h roomCode of
          Inl e \<Rightarrow> raise (HasherFailure e)
        | Inr candidates \<Rightarrow> inTransaction (joinRoom_in w h candidates seatCode)))"

section \<open>Reading a room\<close>

definition allowed_rows :: "AuthSession \<Rightarrow> string \<Rightarrow> db \<Rightarrow> nat" where
  "allowed_rows identity rid d = length (filter (\<lambda>r. r_id r = pg_uuid rid \<and>
     (case identity of Teacher t _ \<Rightarrow> r_teacher r = pg_uuid t | Student _ _ _ \<Rightarrow> True)) (rooms d))"

definition map_lifecycle_error :: "failure \<Rightarrow> adm_failure" where
  "map_lifecycle_error e = (case e of
     RoomError FORBIDDEN _ \<Rightarrow> RoomServiceError ROOM_NOT_FOUND
   | RoomError ROOM_DELETION_IN_PROGRESS _ \<Rightarrow> RoomServiceError DELETION_IN_PROGRESS
   | _ \<Rightarrow> LifecycleFailure e)"

definition close_first :: "world \<Rightarrow> bool \<Rightarrow> string \<Rightarrow> unit adm_op" where
  "close_first lw hasLifecycle rid = (\<lambda>d. if \<not> hasLifecycle then (Inr (), d) else
     (case closeIfDue lw rid d of
        (Inl e, d') \<Rightarrow> (Inl (map_lifecycle_error e), d')
      | (Inr _, d') \<Rightarrow> (Inr (), d')))"

definition room_members :: "db \<Rightarrow> string \<Rightarrow> AuthSession \<Rightarrow> (room_row \<times> member_row) list" where
  "room_members d rid identity = sort_key (\<lambda>(r, m). m_seat m) (filter (\<lambda>(r, m). m_room m = r_id r \<and> r_id r = pg_uuid rid \<and>
     (case identity of Teacher t _ \<Rightarrow> r_teacher r = pg_uuid t | Student rm _ _ \<Rightarrow> r_id r = pg_uuid rm))
     (List.product (rooms d) (members d)))"

definition read_details :: "adm_world \<Rightarrow> AuthSession \<Rightarrow> string \<Rightarrow> RoomDetails adm_tx" where
  "read_details w identity rid =
     act_bind (gets (\<lambda>s. allowed_rows identity rid (a_db s))) (\<lambda>n.
     act_then (require (n = 1) (RoomServiceError ROOM_NOT_FOUND))
     (act_bind (gets (\<lambda>s. deletion_active (a_db s) rid)) (\<lambda>deleting.
      act_then (require (\<not> deleting) (RoomServiceError DELETION_IN_PROGRESS))
      (act_bind (gets (\<lambda>s. room_members (a_db s) rid identity)) (\<lambda>rows.
       if length rows \<noteq> length STUDENT_PSEUDONYMS then raise (RoomServiceError ROOM_NOT_FOUND) else
       let room = fst (hd rows);
           details = \<lparr>rd_roomId = r_id room, rd_topic = r_topic room, rd_status = r_status room,
             rd_duration = r_duration room, rd_starts = map_option date_time (r_starts room),
             rd_closes = map_option date_time (r_closes room), rd_nova = r_nova room,
             rd_participants = map (\<lambda>(_, m). \<lparr>pt_actorId = m_actor m, pt_pseudonym = m_pseudonym m\<rparr>) rows\<rparr>
       in act_then (require (details_ok w details) ContractFailure) (ret details))))))"

definition getRoom :: "adm_world \<Rightarrow> world \<Rightarrow> bool \<Rightarrow> AuthSession \<Rightarrow> string \<Rightarrow> RoomDetails adm_op" where
  "getRoom w lw hasLifecycle identity rid =
     (if \<not> uuid_ok rid then raise (RoomServiceError ROOM_NOT_FOUND) else
      if (case identity of Student rm _ _ \<Rightarrow> rm \<noteq> rid | Teacher _ _ \<Rightarrow> False) then raise (RoomServiceError ROOM_NOT_FOUND) else
      act_bind (gets (allowed_rows identity rid)) (\<lambda>n.
      act_then (require (n = 1) (RoomServiceError ROOM_NOT_FOUND))
      (act_then (close_first lw hasLifecycle rid)
       (inTransaction (read_details w identity rid)))))"

end
