(* ===== verification/Room_Commands.thy ===== *)
theory Room_Commands
  imports Message_History
begin

text \<open>
  \<^verbatim>\<open>CommandService\<close> of \<^verbatim>\<open>apps/server/src/modules/rooms/command-service.ts\<close>: the single entry
  through which commands reach the message and lifecycle services. Telemetry spans carry
  no state of the room and are left out. The frame parser of \<^verbatim>\<open>packages/contracts\<close> is a
  parameter: it yields the command a value denotes, or refuses it.
\<close>

definition route :: "AttachmentValidator \<Rightarrow> (nat \<Rightarrow> world) \<Rightarrow> AuthSession \<Rightarrow> RoomCommand \<Rightarrow> string option \<Rightarrow> envelope op" where
  "route att ws caller c sessionId =
     (if c_type c = ''message.add'' then add_message att (ws 0) caller c sessionId
      else if c_type c = ''message.revise'' then revise_message (ws 0) caller c sessionId
      else if c_type c = ''message.retract'' then retract_message (ws 0) caller c sessionId
      else (case caller of
        Student _ _ _ \<Rightarrow> raise (room_error FORBIDDEN)
      | Teacher tid _ \<Rightarrow>
          if c_type c = ''room.open'' then open_room (ws 0) (c_roomId c) tid (c_commandId c) sessionId
          else if c_type c = ''room.pause'' then pause ws (c_roomId c) tid (c_commandId c) sessionId
          else if c_type c = ''room.resume'' then resume ws (c_roomId c) tid (c_commandId c) sessionId
          else close_room ws (c_roomId c) tid (c_commandId c) sessionId))"

definition dispatch :: "(jsval \<Rightarrow> RoomCommand option) \<Rightarrow> AttachmentValidator \<Rightarrow> (nat \<Rightarrow> world) \<Rightarrow> AuthSession \<Rightarrow> jsval \<Rightarrow> string option \<Rightarrow> envelope op" where
  "dispatch parse att ws caller v sessionId = (case parse v of
     None \<Rightarrow> raise (room_error INVALID_COMMAND)
   | Some c \<Rightarrow>
       if vmember v ''roomId'' \<noteq> Some (VStr (c_roomId c)) then raise (room_error INVALID_COMMAND)
       else route att ws caller c sessionId)"

section \<open>What a command can touch\<close>

text \<open>
  A property of the database that every statement of a command keeps: it survives status
  and time changes of rooms, cancelled jobs, inserted rows of ledger, outbox and queue, the
  advance of a counter and new bindings. Then every command keeps it.
\<close>

definition room_identity :: "room_row \<Rightarrow> string \<times> nat list \<times> string \<times> string \<times> string \<times> int" where
  "room_identity r = (r_id r, r_code_hash r, r_nova r, r_teacher r, r_topic r, r_next r)"

lemma keeps_transact:
  assumes "keeps (\<lambda>c. P (ctx_db c)) work"
  shows "keeps P (transact rid work)"
proof (rule transact_keeps)
  fix d snap r v c
  assume "P d" "work (start_ctx d snap) = (Inr v, c)"
  then show "P (ctx_db c)" using keepsD [OF assms, of "start_ctx d snap" "Inr v" c] by simp
qed

lemma keeps_case_list:
  "keeps I m \<Longrightarrow> (\<And>x xs. keeps I (f x xs)) \<Longrightarrow> keeps I (case v of [] \<Rightarrow> m | x # xs \<Rightarrow> f x xs)"
  by (cases v) simp_all

lemma keeps_case_prod: "(\<And>x y. keeps I (f x y)) \<Longrightarrow> keeps I (case v of (x, y) \<Rightarrow> f x y)"
  by (cases v) simp

lemma keeps_case_jsval:
  assumes "\<And>x. keeps I (f3 x)" "keeps I m" "\<And>x. keeps I (f1 x)" "\<And>x. keeps I (f2 x)" "\<And>x. keeps I (f4 x)" "keeps I m5"
    "\<And>x y z u. keeps I (f6 x y z u)" "\<And>x y z. keeps I (f7 x y z)"
  shows "keeps I (case v of VNull \<Rightarrow> m | VBool x \<Rightarrow> f1 x | VNum x \<Rightarrow> f2 x | VStr x \<Rightarrow> f3 x | VTime x \<Rightarrow> f4 x | VOther \<Rightarrow> m5
     | VArr x y z u \<Rightarrow> f6 x y z u | VObj x y z \<Rightarrow> f7 x y z)"
  using assms by (cases v) simp_all

lemma keeps_case_AuthSession:
  "(\<And>x y z. keeps I (f x y z)) \<Longrightarrow> (\<And>x y. keeps I (g x y)) \<Longrightarrow>
     keeps I (case v of Student x y z \<Rightarrow> f x y z | Teacher x y \<Rightarrow> g x y)"
  by (cases v) simp_all

lemma keeps_schedule: "keeps (\<lambda>c. P (ctx_db c)) m \<Longrightarrow> keeps (\<lambda>c. P (ctx_db c)) (schedule m)"
  unfolding keeps_def schedule_def by (fastforce split: prod.splits sum.splits)

lemma keeps_exec: "(\<And>d. P d \<Longrightarrow> P (f d)) \<Longrightarrow> keeps (\<lambda>c. P (ctx_db c)) (exec f)"
  by (simp add: keeps_def exec_def)

lemma keeps_exec_insert:
  "(\<And>d d'. st d = Some d' \<Longrightarrow> P d \<Longrightarrow> P d') \<Longrightarrow> keeps (\<lambda>c. P (ctx_db c)) (exec_insert e st)"
  by (auto simp: keeps_def exec_insert_def split: option.splits)

lemma keeps_modify_next: "keeps (\<lambda>c. P (ctx_db c)) (modify (\<lambda>c. c\<lparr>ctx_next := f c\<rparr>))"
  by (simp add: keeps_def)

lemmas keeps_frame = keeps_intros keeps_case_list keeps_case_prod keeps_case_AuthSession keeps_case_jsval keeps_schedule
  keeps_modify_next

locale command_frame =
  fixes P :: "db \<Rightarrow> bool"
  assumes on_update: "P d \<Longrightarrow> (\<And>r. room_identity (f r) = room_identity r) \<Longrightarrow> P (update_room rid f d)"
    and on_cancel: "P d \<Longrightarrow> P (cancelRoomJobs rid now p d)"
    and on_event: "insert_event e d = Some d' \<Longrightarrow> P d \<Longrightarrow> P d'"
    and on_outbox: "insert_outbox x d = Some d' \<Longrightarrow> P d \<Longrightarrow> P d'"
    and on_job: "insert_job j d = Some d' \<Longrightarrow> P d \<Longrightarrow> P d'"
    and on_advance: "advance_room_seq rid n d = Some d' \<Longrightarrow> P d \<Longrightarrow> P d'"
    and on_bind: "P d \<Longrightarrow> P (d\<lparr>bindings := bs\<rparr>)"
begin

lemma keeps_findOne: "keeps (\<lambda>c. P (ctx_db c)) (findOneByCausation w cid)"
  unfolding findOneByCausation_def by (intro keeps_frame)

lemma keeps_findBy: "keeps (\<lambda>c. P (ctx_db c)) (findByCausation w cid)"
  unfolding findByCausation_def by (intro keeps_frame keeps_findOne)

lemma keeps_append: "keeps (\<lambda>c. P (ctx_db c)) (append_event w eid jid now dr)"
  unfolding append_event_def appendOne_def
  by (intro keeps_frame keeps_findOne keeps_exec_insert) (auto intro: on_event on_outbox on_job on_advance)

lemmas keeps_tx = keeps_frame keeps_findBy keeps_append

lemma keeps_owner_guard: "keeps (\<lambda>c. P (ctx_db c)) (owner_guard w t sid)"
  unfolding owner_guard_def requireOwner_def assertTeacherSession_def by (intro keeps_tx)

lemma keeps_existingManualRetry: "keeps (\<lambda>c. P (ctx_db c)) (existingManualRetry w cid t rid tid)"
  unfolding existingManualRetry_def assertManualRetry_def by (intro keeps_tx)

lemma keeps_manual: "keeps (\<lambda>c. P (ctx_db c)) m \<Longrightarrow> keeps (\<lambda>c. P (ctx_db c)) (manual w rid tid cid t sid m)"
  unfolding manual_def by (intro keeps_tx keeps_owner_guard keeps_existingManualRetry)

lemma keeps_validNow: "keeps (\<lambda>c. P (ctx_db c)) (validNow n)"
  unfolding validNow_def by (intro keeps_tx)

lemma keeps_appendAutomaticClose: "keeps (\<lambda>c. P (ctx_db c)) (appendAutomaticClose w rid j t corr p)"
  unfolding appendAutomaticClose_def
  by (intro keeps_tx keeps_validNow keeps_exec) (simp_all add: on_cancel on_update room_identity_def)

lemma keeps_closeDue: "keeps (\<lambda>c. P (ctx_db c)) (closeDueInContext w)"
  unfolding closeDueInContext_def by (intro keeps_tx keeps_validNow keeps_appendAutomaticClose)

lemma keeps_open_in: "keeps (\<lambda>c. P (ctx_db c)) (open_in w rid tid cid sid)"
  unfolding open_in_def Let_def
  by (intro keeps_manual keeps_tx keeps_validNow keeps_exec keeps_exec_insert)
     (auto simp: on_update room_identity_def intro: on_job)

lemma keeps_simple_in: "keeps (\<lambda>c. P (ctx_db c)) (simple_in w rid tid cid t a b k sid)"
  unfolding simple_in_def
  by (intro keeps_manual keeps_tx keeps_validNow keeps_exec) (simp add: on_update room_identity_def)

lemma keeps_close_in: "keeps (\<lambda>c. P (ctx_db c)) (close_in w rid tid cid sid)"
  unfolding close_in_def
  by (intro keeps_manual keeps_tx keeps_validNow keeps_exec) (simp_all add: on_update room_identity_def on_cancel)

lemma keeps_close_if_due: "keeps P (closeIfDue w rid)"
  unfolding closeIfDue_def by (intro keeps_transact keeps_closeDue)

lemma keeps_expiry_check:
  "keeps P m \<Longrightarrow> keeps P (retry_or_expire ws rid tid cid t sid m)"
  unfolding retry_or_expire_def ownerRetry_def closeIfDueForOwner_def
  by (intro keeps_tx keeps_transact keeps_owner_guard keeps_existingManualRetry keeps_closeDue)

lemma keeps_lifecycle:
  "keeps P (open_room w rid t cid sid)" "keeps P (pause ws rid t cid sid)"
  "keeps P (resume ws rid t cid sid)" "keeps P (close_room ws rid t cid sid)"
  unfolding open_room_def pause_def resume_def close_room_def simpleTransition_def
  by (intro keeps_transact keeps_expiry_check keeps_open_in keeps_simple_in keeps_close_in)+

lemma keeps_message_guards:
  "keeps (\<lambda>c. P (ctx_db c)) (authorizeStudent w p sid)" "keeps (\<lambda>c. P (ctx_db c)) (authorize w p sid)"
  "keeps (\<lambda>c. P (ctx_db c)) (message_retry w cid t a)" "keeps (\<lambda>c. P (ctx_db c)) (assertWritable n)"
  "keeps (\<lambda>c. P (ctx_db c)) (readUuidArray pl k b)" "keeps (\<lambda>c. P (ctx_db c)) (assertMentionsAndReply ms rep)"
  "keeps (\<lambda>c. P (ctx_db c)) (prior_version mid c al)"
  unfolding authorize_def authorizeStudent_def assertMessageTeacher_def authorizeTeacher_def assertTeacherSession_def
    message_retry_def assertWritable_def readUuidArray_def assertMentionsAndReply_def prior_version_def latestMessage_def
  by (intro keeps_tx)+

lemma keeps_revise: "keeps P (revise_message w p c sid)"
  unfolding revise_message_def revise_in_def revise_new_def Let_def
  by (intro keeps_tx keeps_transact keeps_message_guards)

lemma keeps_retract: "keeps P (retract_message w p c sid)"
  unfolding retract_message_def retract_in_def retract_new_def Let_def
  by (intro keeps_tx keeps_transact keeps_message_guards)

end

text \<open>The same for a validator that satisfies the attachment contract.\<close>

locale command_frame_with_attachments = command_frame + attachment_validator
begin

lemma add_message_keeps:
  assumes "P d"
  shows "P (snd (add_message att w p cmd sid d))"
proof -
  have "P (snd (transact (c_roomId cmd) (add_in att w p cmd sid) d))"
  proof (rule transact_commits [where I = P, OF assms])
    fix snap r v c assume run: "add_in att w p cmd sid (start_ctx d snap) = (Inr v, c)"
    then obtain retry u1 u2 where a: "authorizeStudent w p sid (start_ctx d snap) = (Inr (), u1)"
      and m: "message_retry w (c_commandId cmd) ''message.added'' (p_actorId p) u1 = (Inr retry, u2)"
      and b: "(case retry of None \<Rightarrow> add_new att w p cmd | Some e \<Rightarrow> ret e) u2 = (Inr v, c)"
      by (auto simp: add_in_def act_bind_Inr_iff act_then_Inr_iff)
    from authorizeStudent_Inr [OF a] message_retry_state [OF m] have u: "u2 = start_ctx d snap" by auto
    show "P (ctx_db c)"
    proof (cases retry)
      case None
      with b u have "add_new att w p cmd (start_ctx d snap) = (Inr v, c)" by simp
      from add_new_Inr [OF this] obtain dr c1 bs where app: "append_event w (fresh w 2) (fresh w 3) (clock w 1) dr (start_ctx d snap) = (Inr v, c1)"
        and c: "c = c1\<lparr>ctx_db := (ctx_db c1)\<lparr>bindings := bs\<rparr>\<rparr>" by blast
      have "P (ctx_db c1)" using keepsD [OF keeps_append app] assms by simp
      with c show ?thesis by (simp add: on_bind)
    qed (use b u assms in auto)
  qed
  then show ?thesis using assms by (auto simp: add_message_def split: AuthSession.splits)
qed

lemma dispatch_keeps:
  assumes "P d"
  shows "P (snd (dispatch parse att ws caller v sid d))"
proof -
  have k: "keeps P m \<Longrightarrow> P (snd (m d))" for m :: "envelope op"
    using assms by (simp add: keeps_def)
  have "P (snd (route att ws caller c sid d))" for c
    unfolding route_def using assms
    by (auto simp: add_message_keeps split: AuthSession.splits intro!: k keeps_lifecycle keeps_revise keeps_retract)
  then show ?thesis using assms by (auto simp: dispatch_def split: option.splits)
qed

end

section \<open>The roster and the history are untouched\<close>

text \<open>
  The roster of the school: which rooms exist with their codes, owners and topics, who
  sits in them and who is signed in. No command changes it.
\<close>

definition roster :: "db \<Rightarrow> (string \<times> nat list \<times> string \<times> string \<times> string) list \<times> member_row list \<times> session_row list \<times> policy_row list" where
  "roster d = (map (\<lambda>r. (r_id r, r_code_hash r, r_nova r, r_teacher r, r_topic r)) (rooms d), members d, sessions d, policies d)"

text \<open>The ledger is append-only: what was committed before stays, in place and unchanged.\<close>

definition extends_log :: "event_row list \<Rightarrow> outbox_row list \<Rightarrow> db \<Rightarrow> bool" where
  "extends_log es os d \<longleftrightarrow> take (length es) (events d) = es \<and> take (length os) (outbox d) = os"

lemma take_length_append: "take (length xs) ys = xs \<Longrightarrow> take (length xs) (ys @ zs) = xs"
  by (metis append_eq_conv_conj append_take_drop_id append_assoc)

lemma roster_frame: "command_frame (\<lambda>d. roster d = K)"
proof
  show "roster (update_room rid f d) = K" if "roster d = K" "\<And>r. room_identity (f r) = room_identity r" for d f rid
    using that by (auto simp: roster_def update_room_def room_identity_def)
qed (auto simp: roster_def cancelRoomJobs_def insert_event_def insert_outbox_def insert_job_def advance_room_seq_def split: if_splits)

lemma log_frame: "command_frame (extends_log es os)"
  by unfold_locales
    (auto simp: extends_log_def cancelRoomJobs_def insert_event_def insert_outbox_def insert_job_def advance_room_seq_def
      take_length_append simp del: take_append split: if_splits)

interpretation roster_kept: command_frame "\<lambda>d. roster d = K" for K
  by (rule roster_frame)

interpretation log_kept: command_frame "extends_log es os" for es os
  by (rule log_frame)

interpretation roster_no_att: command_frame_with_attachments "\<lambda>d. roster d = K" noAttachments for K
  by unfold_locales

interpretation roster_media: command_frame_with_attachments "\<lambda>d. roster d = K" MediaAttachmentValidator for K
  by unfold_locales

interpretation log_no_att: command_frame_with_attachments "extends_log es os" noAttachments for es os
  by unfold_locales

interpretation log_media: command_frame_with_attachments "extends_log es os" MediaAttachmentValidator for es os
  by unfold_locales

context attachment_validator
begin

lemma route_inv:
  assumes "room_inv d" "fresh_message (ws 0) d"
  shows "room_inv (snd (route att ws p cmd sid d))"
proof -
  have k: "keeps room_inv m \<Longrightarrow> room_inv (snd (m d))" for m :: "envelope op"
    using assms(1) by (simp add: keeps_def)
  show ?thesis
    unfolding route_def using assms add_message_inv [OF assms]
    by (auto split: AuthSession.splits intro!: k keeps_revise_message keeps_retract_message keeps_open_room keeps_pause
        keeps_resume keeps_close_room)
qed

end

end
