(* ===== verification/Seat_Allocation.thy ===== *)
theory Seat_Allocation
  imports Room_Admission Room_Commands "HOL-Library.Multiset"
begin

text \<open>
  What room creation and joining guarantee: the roster invariant (unique room codes, four
  seats a room with distinct codes), that the generator loops end, that a created room can
  be joined with each of the codes it returned, and that a join leaves its seat with one
  live session.
\<close>

section \<open>The roster invariant\<close>

definition seats_of :: "db \<Rightarrow> string \<Rightarrow> member_row list" where
  "seats_of d rid = filter (\<lambda>m. m_room m = rid) (members d)"

definition seats_inv :: "db \<Rightarrow> bool" where
  "seats_inv d \<longleftrightarrow>
     distinct (map r_code_hash (rooms d)) \<and> distinct (map m_id (members d)) \<and>
     (\<forall>m \<in> set (members d). m_room m \<in> r_id ` set (rooms d)) \<and>
     (\<forall>i \<in> r_id ` set (rooms d). length (seats_of d i) = 4 \<and> distinct (map m_code_hash (seats_of d i)))"

lemma seats_inv_roster:
  assumes "roster d' = roster d" "seats_inv d"
  shows "seats_inv d'"
proof -
  let ?k = "\<lambda>r. (r_id r, r_code_hash r, r_nova r, r_teacher r, r_topic r)"
  from assms(1) have rm: "map ?k (rooms d') = map ?k (rooms d)" and m: "members d' = members d" by (simp_all add: roster_def)
  from arg_cong [OF rm, of "map fst"] have ids: "map r_id (rooms d') = map r_id (rooms d)" by (simp add: comp_def)
  from arg_cong [OF rm, of "map (\<lambda>x. fst (snd x))"] have hs: "map r_code_hash (rooms d') = map r_code_hash (rooms d)" by (simp add: comp_def)
  have sets: "r_id ` set (rooms d') = r_id ` set (rooms d)" using ids by (metis list.set_map)
  show ?thesis using assms(2) by (simp add: seats_inv_def sets hs m seats_of_def)
qed

section \<open>Generator loops end\<close>

text \<open>A source that, from any point on, still draws a value outside any finite set.\<close>

definition productive :: "(nat \<Rightarrow> string) \<Rightarrow> bool" where
  "productive src \<longleftrightarrow> (\<forall>used i. \<exists>j \<ge> i. src j \<notin> set used)"

lemma first_unused_found:
  assumes "i \<le> j" "src j \<notin> set used"
  shows "\<exists>v k. first_unused src used i = Some (v, k)"
  using assms
proof (induction "j - i" arbitrary: i)
  case 0
  then have "i = j" by simp
  with 0 show ?case by (subst first_unused.simps) simp
next
  case (Suc n)
  show ?case
  proof (cases "src i \<in> set used")
    case True
    with Suc.prems have "i \<noteq> j" by auto
    with Suc.prems Suc.hyps(2) Suc.hyps(1) [of "i + 1"] True show ?thesis
      by (subst first_unused.simps) simp
  qed (subst first_unused.simps, simp)
qed

lemma first_unused_fresh:
  "first_unused src used i = Some (v, k) \<Longrightarrow> v \<notin> set used"
proof -
  assume "first_unused src used i = Some (v, k)"
  then have "fst (v, k) \<notin> set used"
    by (rule first_unused.raw_induct [where P = "\<lambda>src used i r. fst r \<notin> set used", rotated]) (auto split: if_splits)
  then show ?thesis by simp
qed

definition terminates :: "'a adm_tx \<Rightarrow> bool" where
  "terminates m \<longleftrightarrow> (\<forall>s. fst (m s) \<noteq> Inl Diverges)"

lemma terminates_bind: "terminates m \<Longrightarrow> (\<And>a. terminates (f a)) \<Longrightarrow> terminates (act_bind m f)"
  unfolding terminates_def act_bind_def by (simp split: prod.split sum.split) (metis fst_conv)

lemma terminates_then: "terminates m \<Longrightarrow> terminates n \<Longrightarrow> terminates (act_then m n)"
  by (simp add: act_then_def terminates_bind)

lemma terminates_basic:
  "terminates (ret a)" "terminates (gets g)" "e \<noteq> Diverges \<Longrightarrow> terminates (raise e)" "e \<noteq> Diverges \<Longrightarrow> terminates (require b e)"
  "terminates (statement st)" "terminates (lift_hash r)" "terminates (randomUUID w)"
  by (auto simp: terminates_def require_def statement_def lift_hash_def randomUUID_def split: option.split sum.split)

lemma terminates_unique:
  assumes "productive (aw_uuid w)" "productive (aw_seatCode w)"
  shows "terminates (uniqueUuid w used)" "terminates (uniqueSeatCode w used)"
proof -
  have ex: "\<exists>v k. first_unused src used i = Some (v, k)" if "productive src" for src used i
    using that first_unused_found by (metis productive_def)
  show "terminates (uniqueUuid w used)" "terminates (uniqueSeatCode w used)"
    using ex [OF assms(1)] ex [OF assms(2)]
    by (auto simp: terminates_def uniqueUuid_def uniqueSeatCode_def split: option.split)
qed

lemma terminates_seats:
  "productive (aw_uuid w) \<Longrightarrow> productive (aw_seatCode w) \<Longrightarrow> terminates (create_seats ps w h rid ua us)"
  by (induction ps w h rid ua us rule: create_seats.induct)
     (auto intro!: terminates_basic terminates_bind terminates_then terminates_unique)

lemma insertRoom_attempts_not_diverges: "fst (insertRoom_attempts n w h rid nova t tp pol s) \<noteq> Inl Diverges"
proof (induction n arbitrary: s)
  case (Suc n)
  then show ?case by (simp add: act_bind_def lift_hash_def Let_def split: sum.split option.split prod.split bool.split)
qed simp

section \<open>What creation writes\<close>

lemma insertRoom_attempts_Inr:
  "insertRoom_attempts n w h rid nova t tp pol s = (Inr raw, s') \<Longrightarrow>
     \<exists>hash cands. hash_code (aw_hmac w) h raw = Inr hash \<and> candidateHashes (aw_hmac w) h raw = Inr cands \<and>
       insert_room (new_room_row w rid hash nova t tp pol) cands (a_db s) = Some (True, a_db s')"
proof (induction n arbitrary: s)
  case (Suc n)
  from Suc.prems show ?case
    by (auto simp: act_bind_def lift_hash_def Let_def split: sum.splits option.splits prod.splits bool.splits dest: Suc.IH)
qed simp

lemma insertRoom_Inr:
  assumes "insertRoom w h rid nova t tp s = (Inr raw, s')"
  shows "\<exists>pol. insertRoom_attempts ROOM_CODE_ATTEMPTS w h rid nova t tp pol s = (Inr raw, s')"
proof (cases "current_policies w (a_db s)")
  case (Cons p ps)
  with assms show ?thesis by (cases ps) (auto simp: insertRoom_def act_bind_Inr_iff)
qed (use assms in \<open>simp add: insertRoom_def act_bind_Inr_iff\<close>)

lemma insert_room_True:
  "insert_room r cands d = Some (True, d') \<longleftrightarrow>
     d' = d\<lparr>rooms := rooms d @ [r]\<rparr> \<and> (\<forall>q \<in> set (rooms d). r_code_hash q \<notin> set cands \<and> r_code_hash q \<noteq> r_code_hash r \<and>
       r_id q \<noteq> r_id r \<and> r_nova q \<noteq> r_nova r)"
  by (auto simp: insert_room_def list_ex_iff)

text \<open>The row a seat invitation stands for.\<close>

definition seat_row :: "adm_world \<Rightarrow> CodeHasher \<Rightarrow> string \<Rightarrow> seat_invite \<Rightarrow> member_row \<Rightarrow> bool" where
  "seat_row w h rid si m \<longleftrightarrow> hash_code (aw_hmac w) h (si_code si) = Inr (m_code_hash m) \<and> m_id m = pg_uuid (si_member si) \<and>
     m_actor m = pg_uuid (si_actor si) \<and> m_pseudonym m = si_pseudonym si \<and> m_room m = pg_uuid rid"

lemma randomUUID_db: "randomUUID w s = (Inr v, s') \<Longrightarrow> a_db s' = a_db s"
  by (auto simp: randomUUID_def)

lemma uniqueUuid_db: "uniqueUuid w used s = (Inr v, s') \<Longrightarrow> a_db s' = a_db s"
  by (auto simp: uniqueUuid_def split: option.splits)

lemma uniqueSeatCode_db: "uniqueSeatCode w used s = (Inr v, s') \<Longrightarrow> a_db s' = a_db s"
  by (auto simp: uniqueSeatCode_def split: option.splits)

lemma lift_hash_Inr: "lift_hash r s = (Inr v, s') \<longleftrightarrow> r = Inr v \<and> s' = s"
  by (auto simp: lift_hash_def split: sum.splits)

lemma statement_Inr: "statement st s = (Inr u, s') \<longleftrightarrow> (\<exists>d. st (a_db s) = Some d \<and> s' = s\<lparr>a_db := d\<rparr>)"
  by (auto simp: statement_def split: option.splits)

lemma insert_member_Some:
  "insert_member m d = Some d' \<longleftrightarrow> d' = d\<lparr>members := members d @ [m]\<rparr> \<and>
     (\<forall>q \<in> set (members d). m_id q \<noteq> m_id m \<and> m_actor q \<noteq> m_actor m \<and>
       (m_room q = m_room m \<longrightarrow> m_seat q \<noteq> m_seat m \<and> m_pseudonym q \<noteq> m_pseudonym m \<and> m_code_hash q \<noteq> m_code_hash m))"
  by (auto simp: insert_member_def list_ex_iff)

lemma create_seats_Inr:
  assumes "create_seats ps w h rid ua us s = (Inr invites, s')"
  shows "\<exists>ms. a_db s' = (a_db s)\<lparr>members := members (a_db s) @ ms\<rparr> \<and> length ms = length ps \<and>
     list_all2 (seat_row w h rid) invites ms \<and>
     (distinct (map m_id (members (a_db s))) \<longrightarrow> distinct (map m_id (members (a_db s) @ ms))) \<and>
     (distinct (map m_code_hash (seats_of (a_db s) (pg_uuid rid))) \<longrightarrow>
        distinct (map m_code_hash (seats_of (a_db s) (pg_uuid rid) @ ms)))"
  using assms
proof (induction ps w h rid ua us arbitrary: s invites s' rule: create_seats.induct)
  case (1 w h rid ua us)
  then show ?case by (auto intro: exI [of _ "[]"])
next
  case (2 i pseudonym rest w h rid ua us)
  from "2.prems" obtain mid s1 actor s2 raw s3 hash d4 inv where
    r1: "randomUUID w s = (Inr mid, s1)" and r2: "uniqueUuid w ua s1 = (Inr actor, s2)"
    and r3: "uniqueSeatCode w us s2 = (Inr raw, s3)" and r4: "hash_code (aw_hmac w) h raw = Inr hash"
    and r5: "insert_member \<lparr>m_id = pg_uuid mid, m_actor = pg_uuid actor, m_room = pg_uuid rid,
         m_seat = i + 1, m_pseudonym = pseudonym, m_code_hash = hash\<rparr> (a_db s3) = Some d4"
    and r6: "create_seats rest w h rid (actor # ua) (raw # us) (s3\<lparr>a_db := d4\<rparr>) = (Inr inv, s')"
    and inv: "invites = \<lparr>si_member = mid, si_actor = actor, si_pseudonym = pseudonym, si_code = raw\<rparr> # inv"
    unfolding create_seats.simps act_bind_Inr_iff act_then_Inr_iff lift_hash_Inr statement_Inr ret_Inr_iff
    by (elim exE conjE) blast
  have db: "a_db s3 = a_db s" using randomUUID_db [OF r1] uniqueUuid_db [OF r2] uniqueSeatCode_db [OF r3] by simp
  let ?m = "\<lparr>m_id = pg_uuid mid, m_actor = pg_uuid actor, m_room = pg_uuid rid, m_seat = i + 1, m_pseudonym = pseudonym, m_code_hash = hash\<rparr>"
  from r5 db have d4: "d4 = (a_db s)\<lparr>members := members (a_db s) @ [?m]\<rparr>"
    and fresh: "\<forall>q \<in> set (members (a_db s)). m_id q \<noteq> pg_uuid mid \<and> (m_room q = pg_uuid rid \<longrightarrow> m_code_hash q \<noteq> hash)"
    by (auto simp: insert_member_Some)
  from "2.IH" [OF r6] obtain ms where ms: "a_db s' = d4\<lparr>members := members d4 @ ms\<rparr>" "length ms = length rest"
    "list_all2 (seat_row w h rid) inv ms"
    "distinct (map m_id (members d4)) \<longrightarrow> distinct (map m_id (members d4 @ ms))"
    "distinct (map m_code_hash (seats_of d4 (pg_uuid rid))) \<longrightarrow> distinct (map m_code_hash (seats_of d4 (pg_uuid rid) @ ms))"
    by auto
  have so: "seats_of d4 (pg_uuid rid) = seats_of (a_db s) (pg_uuid rid) @ [?m]" by (simp add: seats_of_def d4)
  show ?case
  proof (intro exI [of _ "?m # ms"] conjI)
    show "a_db s' = (a_db s)\<lparr>members := members (a_db s) @ ?m # ms\<rparr>" using ms(1) by (simp add: d4)
    show "length (?m # ms) = length ((i, pseudonym) # rest)" using ms(2) by simp
    show "list_all2 (seat_row w h rid) invites (?m # ms)" using ms(3) r4 by (simp add: inv seat_row_def)
    show "distinct (map m_id (members (a_db s))) \<longrightarrow> distinct (map m_id (members (a_db s) @ ?m # ms))"
      using ms(4) fresh by (auto simp: d4)
    show "distinct (map m_code_hash (seats_of (a_db s) (pg_uuid rid))) \<longrightarrow>
        distinct (map m_code_hash (seats_of (a_db s) (pg_uuid rid) @ ?m # ms))"
      using ms(5) fresh unfolding so by (auto simp: seats_of_def)
  qed
qed

lemma inTransaction_Inr:
  "inTransaction work d = (Inr v, d') \<longleftrightarrow> (\<exists>s. work \<lparr>a_db = d, a_uuid = 0, a_code = 0, a_seat = 0\<rparr> = (Inr v, s) \<and> d' = a_db s)"
  by (auto simp: inTransaction_def split: prod.splits sum.splits)

lemma inTransaction_Inl: "inTransaction work d = (Inl e, d') \<Longrightarrow> d' = d"
  by (auto simp: inTransaction_def split: prod.splits sum.splits)

lemma createRoom_Inr:
  assumes "createRoom w h identity v d = (Inr resp, d')"
  obtains r ms hash cands tp tid aid pol where
    "d' = d\<lparr>rooms := rooms d @ [r], members := members d @ ms\<rparr>" "length ms = 4"
    "identity = Teacher tid aid"
    "r = new_room_row w (cr_roomId resp) hash (cr_nova resp) tid tp pol"
    "hash_code (aw_hmac w) h (cr_roomCode resp) = Inr hash" "candidateHashes (aw_hmac w) h (cr_roomCode resp) = Inr cands"
    "\<forall>q \<in> set (rooms d). r_code_hash q \<notin> set cands \<and> r_code_hash q \<noteq> hash \<and> r_id q \<noteq> pg_uuid (cr_roomId resp)"
    "list_all2 (seat_row w h (cr_roomId resp)) (cr_seats resp) ms"
    "distinct (map m_id (members d)) \<longrightarrow> distinct (map m_id (members d @ ms))"
    "distinct (map m_code_hash (seats_of d (pg_uuid (cr_roomId resp)))) \<longrightarrow>
        distinct (map m_code_hash (seats_of d (pg_uuid (cr_roomId resp)) @ ms))"
proof -
  let ?s0 = "\<lparr>a_db = d, a_uuid = 0, a_code = 0, a_seat = 0\<rparr>"
  from assms obtain tid aid tp s' where id: "identity = Teacher tid aid"
    and run: "createRoom_in w h tid tp ?s0 = (Inr resp, s')" and d': "d' = a_db s'"
    by (auto simp: createRoom_def inTransaction_Inr split: AuthSession.splits option.splits)
  from run obtain rid s1 nova s2 raw s3 seats where r1: "randomUUID w ?s0 = (Inr rid, s1)"
    and r2: "uniqueUuid w [] s1 = (Inr nova, s2)"
    and r3': "insertRoom w h rid nova tid tp s2 = (Inr raw, s3)"
    and r4: "create_seats (List.enumerate 0 STUDENT_PSEUDONYMS) w h rid [nova] [] s3 = (Inr seats, s')"
    and resp: "resp = \<lparr>cr_roomId = rid, cr_roomCode = raw, cr_nova = nova, cr_seats = seats\<rparr>"
    by (auto simp: createRoom_in_def Let_def act_iffs)
  from insertRoom_Inr [OF r3'] obtain pol where r3: "insertRoom_attempts ROOM_CODE_ATTEMPTS w h rid nova tid tp pol s2 = (Inr raw, s3)" ..
  have db: "a_db s2 = d" using randomUUID_db [OF r1] uniqueUuid_db [OF r2] by simp
  from insertRoom_attempts_Inr [OF r3] obtain hash cands where h: "hash_code (aw_hmac w) h raw = Inr hash"
      "candidateHashes (aw_hmac w) h raw = Inr cands"
    and ir: "insert_room (new_room_row w rid hash nova tid tp pol) cands d = Some (True, a_db s3)" unfolding db by blast
  let ?r = "new_room_row w rid hash nova tid tp pol"
  from ir have s3: "a_db s3 = d\<lparr>rooms := rooms d @ [?r]\<rparr>"
    and fr: "\<forall>q \<in> set (rooms d). r_code_hash q \<notin> set cands \<and> r_code_hash q \<noteq> hash \<and> r_id q \<noteq> pg_uuid rid"
    by (auto simp: insert_room_True new_room_row_def)
  from create_seats_Inr [OF r4] obtain ms where ms: "a_db s' = (a_db s3)\<lparr>members := members d @ ms\<rparr>"
    "length ms = length (List.enumerate 0 STUDENT_PSEUDONYMS)" "list_all2 (seat_row w h rid) seats ms"
    "distinct (map m_id (members d)) \<longrightarrow> distinct (map m_id (members d @ ms))"
    "distinct (map m_code_hash (seats_of d (pg_uuid rid))) \<longrightarrow> distinct (map m_code_hash (seats_of d (pg_uuid rid) @ ms))"
    unfolding s3 seats_of_def by auto
  show thesis
  proof (rule that)
    show "d' = d\<lparr>rooms := rooms d @ [?r], members := members d @ ms\<rparr>" using d' ms(1) by (simp add: s3)
    show "length ms = 4" using ms(2) by (simp add: STUDENT_PSEUDONYMS_def)
  qed (use id h fr ms in \<open>auto simp: resp\<close>)
qed

section \<open>Creation keeps the invariants\<close>

lemma room_inv_new_room:
  assumes inv: "room_inv d" and fresh: "\<forall>q \<in> set (rooms d). r_id q \<noteq> r_id r"
    and r: "canonical (r_id r)" "r_status r = Scheduled" "r_next r = 1"
    and d': "rooms d' = rooms d @ [r]" "events d' = events d" "outbox d' = outbox d" "jobs d' = jobs d"
  shows "room_inv d'"
proof -
  from inv have li: "ledger_inv d" by (simp add: room_inv_def)
  have none: "filter (\<lambda>e. e_room e = r_id r) (events d) = []"
    using ledger_invD(4) [OF li] fresh by (force simp: filter_empty_conv)
  then have none': "filter (\<lambda>e. e_room e = r_id r \<and> P e) (events d) = []" for P
    by (auto simp: filter_empty_conv)
  note inv' = ledger_invD [OF li]
  have "ledger_inv d'"
    unfolding ledger_inv_def
  proof (intro conjI ballI)
    show "distinct (map r_id (rooms d'))" using inv'(1) fresh by (auto simp: d')
    show "canonical (r_id q)" if "q \<in> set (rooms d')" for q using that inv'(2) r(1) by (auto simp: d')
    show "distinct (map e_id (events d'))" using inv'(3) by (simp add: d')
    show "e_room e \<in> r_id ` set (rooms d')" if "e \<in> set (events d')" for e using that inv'(4) [of e] by (simp add: d')
    show "mirrored d'" using inv'(7) by (simp add: mirrored_def d')
    fix q assume "q \<in> set (rooms d')"
    then have q: "q \<in> set (rooms d) \<or> q = r" by (auto simp: d')
    have "gapless (r_next r) (room_events d (r_id r))" "distinct (map e_causation (room_events d (r_id r)))"
      using r(3) by (simp_all add: room_events_def none gapless_def)
    with q inv'(5,6) show "gapless (r_next q) (room_events d' (r_id q))" "distinct (map e_causation (room_events d' (r_id q)))"
      unfolding room_events_def d' by blast+
  qed
  moreover have "status_inv d'"
    using inv r by (auto simp: room_inv_def status_inv_def d' room_events_def none)
  moreover have "message_inv d'"
    using inv by (auto simp: room_inv_def message_inv_def d' message_rows_def none')
  ultimately show ?thesis by (simp add: room_inv_def)
qed

lemma list_all2_setD: "list_all2 P xs ys \<Longrightarrow> y \<in> set ys \<Longrightarrow> \<exists>x \<in> set xs. P x y"
  by (metis in_set_conv_nth list_all2_conv_all_nth)

lemma list_all2_setD1: "list_all2 P xs ys \<Longrightarrow> x \<in> set xs \<Longrightarrow> \<exists>y \<in> set ys. P x y"
  by (metis in_set_conv_nth list_all2_conv_all_nth)

lemma createRoom_room_inv:
  assumes "room_inv d"
  shows "room_inv (snd (createRoom w h identity v d))"
proof (cases "createRoom w h identity v d")
  case (Pair res d')
  show ?thesis
  proof (cases res)
    case (Inl e)
    with Pair assms show ?thesis
      by (auto simp: createRoom_def split: AuthSession.splits option.splits dest: inTransaction_Inl)
  next
    case (Inr resp)
    with Pair have run: "createRoom w h identity v d = (Inr resp, d')" by simp
    from run have "room_inv d'"
    proof (rule createRoom_Inr)
      fix r ms hash cands tp tid aid pol
      assume d': "d' = d\<lparr>rooms := rooms d @ [r], members := members d @ ms\<rparr>"
        and r: "r = new_room_row w (cr_roomId resp) hash (cr_nova resp) tid tp pol"
        and fresh: "\<forall>q \<in> set (rooms d). r_code_hash q \<notin> set cands \<and> r_code_hash q \<noteq> hash \<and> r_id q \<noteq> pg_uuid (cr_roomId resp)"
      show "room_inv d'"
        by (rule room_inv_new_room [OF assms, of r]) (use fresh in \<open>simp_all add: d' r new_room_row_def\<close>)
    qed
    with Pair show ?thesis by simp
  qed
qed

lemma new_room_seats:
  assumes inv: "seats_inv d" and fresh: "\<forall>q \<in> set (rooms d). r_id q \<noteq> rid"
    and ms: "\<forall>m \<in> set ms. m_room m = rid"
    and d': "members d' = members d @ ms"
  shows "seats_of d rid = []" "seats_of d' rid = ms" "\<And>i. i \<noteq> rid \<Longrightarrow> seats_of d' i = seats_of d i"
proof -
  show none: "seats_of d rid = []" using inv fresh by (force simp: seats_inv_def seats_of_def filter_empty_conv)
  have "filter (\<lambda>m. m_room m = rid) ms = ms" using ms by (simp add: filter_id_conv)
  then show "seats_of d' rid = ms" using none by (simp add: seats_of_def d')
  show "seats_of d' i = seats_of d i" if "i \<noteq> rid" for i
    using ms that by (auto simp: seats_of_def d' filter_empty_conv)
qed

lemma createRoom_seats_inv:
  assumes inv: "seats_inv d" and run: "createRoom w h identity v d = (Inr resp, d')"
  shows "seats_inv d'"
  using run
proof (rule createRoom_Inr)
  fix r ms hash cands tp tid aid pol
  assume d': "d' = d\<lparr>rooms := rooms d @ [r], members := members d @ ms\<rparr>" and len: "length ms = 4"
    and r: "r = new_room_row w (cr_roomId resp) hash (cr_nova resp) tid tp pol"
    and fresh: "\<forall>q \<in> set (rooms d). r_code_hash q \<notin> set cands \<and> r_code_hash q \<noteq> hash \<and> r_id q \<noteq> pg_uuid (cr_roomId resp)"
    and seats: "list_all2 (seat_row w h (cr_roomId resp)) (cr_seats resp) ms"
    and dist: "distinct (map m_id (members d)) \<longrightarrow> distinct (map m_id (members d @ ms))"
      "distinct (map m_code_hash (seats_of d (pg_uuid (cr_roomId resp)))) \<longrightarrow>
        distinct (map m_code_hash (seats_of d (pg_uuid (cr_roomId resp)) @ ms))"
  let ?rid = "pg_uuid (cr_roomId resp)"
  have mr: "\<forall>m \<in> set ms. m_room m = ?rid" using list_all2_setD [OF seats] by (auto simp: seat_row_def)
  have fr: "\<forall>q \<in> set (rooms d). r_id q \<noteq> ?rid" using fresh by auto
  have mem: "members d' = members d @ ms" by (simp add: d')
  note ns = new_room_seats [OF inv fr mr mem]
  have idr: "r_id r = ?rid" "r_code_hash r = hash" by (simp_all add: r new_room_row_def)
  have each: "length (seats_of d' i) = 4 \<and> distinct (map m_code_hash (seats_of d' i))" if "i \<in> r_id ` set (rooms d')" for i
  proof (cases "i = ?rid")
    case True
    then show ?thesis using dist(2) len by (simp add: ns)
  next
    case False
    with that have "i \<in> r_id ` set (rooms d)" by (auto simp: d' idr)
    with inv have "length (seats_of d i) = 4 \<and> distinct (map m_code_hash (seats_of d i))" unfolding seats_inv_def by blast
    with False show ?thesis by (simp add: ns)
  qed
  moreover have "distinct (map r_code_hash (rooms d'))" using inv fresh by (auto simp: seats_inv_def d' idr)
  moreover have "distinct (map m_id (members d'))" using inv dist(1) by (auto simp: seats_inv_def mem)
  moreover have "\<forall>m \<in> set (members d'). m_room m \<in> r_id ` set (rooms d')"
    using inv mr by (auto simp: seats_inv_def d' idr)
  ultimately show "seats_inv d'" by (auto simp: seats_inv_def)
qed

section \<open>Joining\<close>

definition live_seat_sessions :: "db \<Rightarrow> string \<Rightarrow> session_row list" where
  "live_seat_sessions d mid = filter (\<lambda>s. s_kind s = StudentKind \<and> s_member s = Some mid \<and> s_revoked s = None) (sessions d)"

text \<open>A successful join, in one view.\<close>

lemma joinRoom_Inr:
  assumes "joinRoom w h v d = (Inr (resp, tok), d')"
  obtains roomCode seat cands r m sid where
    "parseJoinRoomRequest w v = Some (roomCode, seat)" "candidateHashes (aw_hmac w) h roomCode = Inr cands"
    "r \<in> set (rooms d)" "r_code_hash r \<in> set cands" "r_status r = Scheduled \<or> r_status r = Open"
    "m \<in> set (members d)" "m_room m = r_id r" "verify (aw_hmac w) h seat (m_code_hash m)"
    "resp = \<lparr>jr_member = m_id m, jr_actor = m_actor m, jr_pseudonym = m_pseudonym m\<rparr>" "tok = aw_token w"
    "validDate (aw_now w)"
    "insert_session \<lparr>s_id = pg_uuid sid, s_token_hash = aw_tokenHash w tok, s_kind = StudentKind, s_teacher = None,
        s_member = Some (m_id m), s_expires = date_time (aw_now w) + SESSION_DURATION_MS, s_revoked = None,
        s_created = date_time (aw_now w)\<rparr> (revoke_sessions (m_id m) (date_time (aw_now w)) d) = Some d'"
proof -
  let ?s0 = "\<lparr>a_db = d, a_uuid = 0, a_code = 0, a_seat = 0\<rparr>"
  from assms obtain roomCode seat cands s' where p: "parseJoinRoomRequest w v = Some (roomCode, seat)"
    and c: "candidateHashes (aw_hmac w) h roomCode = Inr cands"
    and run: "joinRoom_in w h cands seat ?s0 = (Inr (resp, tok), s')" and d': "d' = a_db s'"
    by (auto simp: joinRoom_def inTransaction_Inr split: option.splits sum.splits)
  from run obtain rid s1 where loc: "(if length (locate_rooms cands d) = 1 then ret (hd (locate_rooms cands d)) else randomUUID w) ?s0 = (Inr rid, s1)"
    and rest: "join_decide w (length (locate_rooms cands d) = 1)
        (find (\<lambda>r. r_id r = pg_uuid rid \<and> r_code_hash r \<in> set cands) (rooms (a_db s1))) (lockMembers (pg_uuid rid) (a_db s1))
        (seat_matches (aw_hmac w) h seat (lockMembers (pg_uuid rid) (a_db s1))) s1 = (Inr (resp, tok), s')"
    unfolding joinRoom_in_def act_bind_Inr_iff gets_Inr_iff by auto
  have db: "a_db s1 = d" using loc by (auto split: if_splits dest: randomUUID_db)
  from rest obtain room member where f: "find (\<lambda>r. r_id r = pg_uuid rid \<and> r_code_hash r \<in> set cands) (rooms d) = Some room"
    and mt: "seat_matches (aw_hmac w) h seat (lockMembers (pg_uuid rid) d) = [member]"
    and st: "r_status room = Scheduled \<or> r_status room = Open" and ad: "admit w member s1 = (Inr (resp, tok), s')"
    unfolding db join_decide_def by (auto split: option.splits list.splits if_splits)
  from ad obtain sid s2 where vd: "validDate (aw_now w)"
    and u: "randomUUID w (s1\<lparr>a_db := revoke_sessions (m_id member) (date_time (aw_now w)) d\<rparr>) = (Inr sid, s2)"
    and ins: "insert_session \<lparr>s_id = pg_uuid sid, s_token_hash = aw_tokenHash w (aw_token w), s_kind = StudentKind, s_teacher = None,
             s_member = Some (m_id member), s_expires = date_time (aw_now w) + SESSION_DURATION_MS, s_revoked = None,
             s_created = date_time (aw_now w)\<rparr> (a_db s2) = Some (a_db s')"
    and resp: "resp = \<lparr>jr_member = m_id member, jr_actor = m_actor member, jr_pseudonym = m_pseudonym member\<rparr>" "tok = aw_token w"
    by (auto simp: admit_def db act_iffs statement_Inr Let_def)
  have s2: "a_db s2 = revoke_sessions (m_id member) (date_time (aw_now w)) d" using randomUUID_db [OF u] by simp
  have "member \<in> set (seat_matches (aw_hmac w) h seat (lockMembers (pg_uuid rid) d))" by (simp add: mt)
  then have mem: "member \<in> set (members d)" "m_room member = pg_uuid rid" "verify (aw_hmac w) h seat (m_code_hash member)"
    unfolding seat_matches_def lockMembers_def by (auto dest!: in_set_takeD)
  from f have rm: "room \<in> set (rooms d)" "r_id room = pg_uuid rid" "r_code_hash room \<in> set cands" by (auto simp: find_Some_iff)
  show thesis
    by (rule that [of roomCode seat cands room member sid]) (use p c st vd ins s2 resp mem rm d' in simp_all)
qed

lemma joinRoom_room_inv:
  assumes "room_inv d"
  shows "room_inv (snd (joinRoom w h v d))"
proof (cases "joinRoom w h v d")
  case (Pair res d')
  show ?thesis
  proof (cases res)
    case (Inl e)
    with Pair assms show ?thesis
      by (auto simp: joinRoom_def split: option.splits sum.splits dest: inTransaction_Inl)
  next
    case (Inr x)
    with Pair have run: "joinRoom w h v d = (Inr (fst x, snd x), d')" by simp
    from run have "room_inv d'"
      by (rule joinRoom_Inr)
         (auto simp: insert_session_def revoke_sessions_def split: if_splits intro: room_inv_frame [OF assms])
    with Pair show ?thesis by simp
  qed
qed

lemma joinRoom_seats_inv:
  assumes "seats_inv d" "joinRoom w h v d = (Inr (resp, tok), d')"
  shows "seats_inv d'"
  using assms(2)
  by (rule joinRoom_Inr)
     (use assms(1) in \<open>auto simp: insert_session_def revoke_sessions_def seats_inv_def seats_of_def split: if_splits\<close>)

lemma join_single_live:
  assumes "joinRoom w h v d = (Inr (resp, tok), d')"
  shows "\<exists>sid. live_seat_sessions d' (jr_member resp) =
     [\<lparr>s_id = sid, s_token_hash = aw_tokenHash w tok, s_kind = StudentKind, s_teacher = None,
       s_member = Some (jr_member resp), s_expires = date_time (aw_now w) + SESSION_DURATION_MS, s_revoked = None,
       s_created = date_time (aw_now w)\<rparr>]"
proof -
  have none: "filter (\<lambda>s. s_kind s = StudentKind \<and> s_member s = Some mid \<and> s_revoked s = None) (sessions (revoke_sessions mid now d)) = []"
    for mid now by (auto simp: revoke_sessions_def filter_empty_conv)
  from assms show ?thesis
    by (rule joinRoom_Inr) (auto simp: insert_session_def live_seat_sessions_def none split: if_splits)
qed

section \<open>A created room can be joined\<close>

lemma filter_unique:
  "distinct (map f xs) \<Longrightarrow> x \<in> set xs \<Longrightarrow> filter (\<lambda>y. f y = f x) xs = [x]"
  by (induction xs) (auto simp: filter_empty_conv image_iff)

lemma find_filter: "find P xs = (case filter P xs of [] \<Rightarrow> None | x # _ \<Rightarrow> Some x)"
  by (induction xs) auto

lemma seat_matches_unique:
  assumes h: "hasher_ok h" and hm: "digest_size hm" and len: "length ms = 4"
    and dist: "distinct (map m_code_hash ms)" and cur: "\<forall>m \<in> set ms. \<exists>c. hash_code hm h c = Inr (m_code_hash m)"
    and m: "m \<in> set ms" "hash_code hm h seat = Inr (m_code_hash m)"
  shows "seat_matches hm h seat (sort_key m_id ms) = [m]"
proof -
  have vf: "verify hm h seat (m_code_hash q) \<longleftrightarrow> m_code_hash q = m_code_hash m" if "q \<in> set ms" for q
  proof -
    from cur that obtain c where c: "hash_code hm h c = Inr (m_code_hash q)" by blast
    from h have cv: "currentVersion h \<in> set (versions h)" unfolding hasher_ok_def by blast
    from hashWith_versions [OF h cv, of hm c] c obtain p where
      p: "m_code_hash q = writeUInt16BE (currentVersion h) @ hm p (normalize_code c)" by (auto simp: hash_code_def)
    have "assertVersion (currentVersion h)" using h cv unfolding hasher_ok_def by blast
    then have rd: "readUInt16BE (m_code_hash q) = currentVersion h" by (simp add: p version_roundtrip)
    have "length (m_code_hash q) = STORED_HASH_BYTES"
      using hm by (simp add: p digest_size_def STORED_HASH_BYTES_def writeUInt16BE_def)
    moreover have "jm_has (peppers h) (currentVersion h)" using h cv by (auto simp: jm_has_keys hasher_ok_def)
    ultimately show ?thesis
      using m(2) by (auto simp: verify_def rd hash_code_def)
  qed
  have len4: "length (sort_key m_id ms) \<le> length STUDENT_PSEUDONYMS" by (simp add: len STUDENT_PSEUDONYMS_def)
  have "seat_matches hm h seat (sort_key m_id ms) = filter (\<lambda>q. m_code_hash q = m_code_hash m) (sort_key m_id ms)"
    unfolding seat_matches_def using len4 vf [OF m(1)] by (auto intro!: filter_cong simp: vf)
  also have "\<dots> = [m]"
  proof (rule filter_unique)
    have "mset (map m_code_hash (sort_key m_id ms)) = mset (map m_code_hash ms)" by simp
    with dist show "distinct (map m_code_hash (sort_key m_id ms))" by (metis mset_eq_imp_distinct_iff)
    show "m \<in> set (sort_key m_id ms)" using m(1) by simp
  qed
  finally show ?thesis .
qed

text \<open>A join whose session can be issued: a valid clock, an accepted response, unused keys.\<close>

definition can_issue :: "adm_world \<Rightarrow> db \<Rightarrow> JoinRoomResponse \<Rightarrow> bool" where
  "can_issue w d resp \<longleftrightarrow> validDate (aw_now w) \<and> join_response_ok w resp \<and>
     list_all (\<lambda>s. s_id s \<noteq> pg_uuid (aw_uuid w 0) \<and> s_token_hash s \<noteq> aw_tokenHash w (aw_token w)) (sessions d)"

lemma revoke_sessions_keys:
  "map s_id (sessions (revoke_sessions mid now d)) = map s_id (sessions d)"
  "map s_token_hash (sessions (revoke_sessions mid now d)) = map s_token_hash (sessions d)"
  by (simp_all add: revoke_sessions_def)

lemma admit_runs:
  assumes "can_issue w (a_db s) \<lparr>jr_member = m_id m, jr_actor = m_actor m, jr_pseudonym = m_pseudonym m\<rparr>" "a_uuid s = 0"
  shows "\<exists>s'. admit w m s = (Inr (\<lparr>jr_member = m_id m, jr_actor = m_actor m, jr_pseudonym = m_pseudonym m\<rparr>, aw_token w), s')"
proof -
  let ?d = "revoke_sessions (m_id m) (date_time (aw_now w)) (a_db s)"
  have "\<not> list_ex (\<lambda>x. s_id x = pg_uuid (aw_uuid w 0) \<or> s_token_hash x = aw_tokenHash w (aw_token w)) (sessions ?d)"
    using assms(1) by (auto simp: can_issue_def list_ex_iff list_all_iff revoke_sessions_def split: if_splits)
  then show ?thesis
    using assms by (simp add: admit_def act_then_app act_bind_app require_app statement_def randomUUID_def insert_session_def can_issue_def Let_def)
qed

lemma joinRoom_runs:
  assumes p: "parseJoinRoomRequest w v = Some (roomCode, seat)" and c: "candidateHashes (aw_hmac w) h roomCode = Inr cands"
    and loc: "filter (\<lambda>r. r_code_hash r \<in> set cands) (rooms d) = [r]" and can: "canonical (r_id r)"
    and st: "r_status r = Scheduled \<or> r_status r = Open" and len: "length (seats_of d (r_id r)) = 4"
    and mt: "seat_matches (aw_hmac w) h seat (sort_key m_id (seats_of d (r_id r))) = [m]"
    and ok: "can_issue w d \<lparr>jr_member = m_id m, jr_actor = m_actor m, jr_pseudonym = m_pseudonym m\<rparr>"
  shows "\<exists>d'. joinRoom w h v d = (Inr (\<lparr>jr_member = m_id m, jr_actor = m_actor m, jr_pseudonym = m_pseudonym m\<rparr>, aw_token w), d')"
proof -
  let ?s0 = "\<lparr>a_db = d, a_uuid = 0, a_code = 0, a_seat = 0\<rparr>"
  have l: "locate_rooms cands d = [r_id r]" by (simp add: locate_rooms_def loc)
  have pg: "pg_uuid (r_id r) = r_id r" using can by (simp add: canonical_def)
  have f: "find (\<lambda>q. r_id q = r_id r \<and> r_code_hash q \<in> set cands) (rooms d) = Some r"
  proof -
    have "filter (\<lambda>q. r_id q = r_id r \<and> r_code_hash q \<in> set cands) (rooms d) =
        filter (\<lambda>q. r_id q = r_id r) (filter (\<lambda>r. r_code_hash r \<in> set cands) (rooms d))" by (simp add: conj_commute)
    also have "\<dots> = [r]" by (simp add: loc)
    finally show ?thesis by (simp add: find_filter)
  qed
  obtain s' where ad: "admit w m ?s0 = (Inr (\<lparr>jr_member = m_id m, jr_actor = m_actor m, jr_pseudonym = m_pseudonym m\<rparr>, aw_token w), s')"
    using admit_runs [of w ?s0 m] ok by auto
  have lm: "lockMembers (r_id r) d = sort_key m_id (seats_of d (r_id r))" by (simp add: lockMembers_def seats_of_def)
  have "join_decide w True (Some r) (lockMembers (r_id r) d) [m] ?s0 = admit w m ?s0"
    using st by (auto simp: join_decide_def lm len STUDENT_PSEUDONYMS_def)
  then have "joinRoom_in w h cands seat ?s0 = admit w m ?s0"
    by (simp add: joinRoom_in_def act_bind_app l pg f lm mt)
  then show ?thesis by (simp add: joinRoom_def p c inTransaction_def ad)
qed

lemma create_then_join_aux:
  assumes inv: "room_inv d" "seats_inv d" and h: "hasher_ok h" and hm: "digest_size (aw_hmac w)"
    and run: "createRoom w h identity v d = (Inr resp, d')" and si: "si \<in> set (cr_seats resp)"
    and w': "aw_hmac w' = aw_hmac w" and p: "parseJoinRoomRequest w' v' = Some (roomCode, seat)"
    and eq: "normalize_code roomCode = normalize_code (cr_roomCode resp)" "normalize_code seat = normalize_code (si_code si)"
    and ok: "can_issue w' d' \<lparr>jr_member = pg_uuid (si_member si), jr_actor = pg_uuid (si_actor si), jr_pseudonym = si_pseudonym si\<rparr>"
  shows "\<exists>d''. joinRoom w' h v' d' = (Inr (\<lparr>jr_member = pg_uuid (si_member si), jr_actor = pg_uuid (si_actor si), jr_pseudonym = si_pseudonym si\<rparr>, aw_token w'), d'')"
  using run
proof (rule createRoom_Inr)
  fix r ms hash cands tp tid aid pol
  assume d': "d' = d\<lparr>rooms := rooms d @ [r], members := members d @ ms\<rparr>" and len: "length ms = 4"
    and r: "r = new_room_row w (cr_roomId resp) hash (cr_nova resp) tid tp pol"
    and hash: "hash_code (aw_hmac w) h (cr_roomCode resp) = Inr hash" "candidateHashes (aw_hmac w) h (cr_roomCode resp) = Inr cands"
    and fresh: "\<forall>q \<in> set (rooms d). r_code_hash q \<notin> set cands \<and> r_code_hash q \<noteq> hash \<and> r_id q \<noteq> pg_uuid (cr_roomId resp)"
    and seats: "list_all2 (seat_row w h (cr_roomId resp)) (cr_seats resp) ms"
    and dist: "distinct (map m_code_hash (seats_of d (pg_uuid (cr_roomId resp)))) \<longrightarrow>
        distinct (map m_code_hash (seats_of d (pg_uuid (cr_roomId resp)) @ ms))"
  let ?rid = "pg_uuid (cr_roomId resp)"
  have rr: "r_id r = ?rid" "r_code_hash r = hash" "r_status r = Scheduled" by (simp_all add: r new_room_row_def)
  have ns: "seats_of d ?rid = []" "seats_of d' ?rid = ms"
    using new_room_seats [OF inv(2), of ?rid ms d'] fresh list_all2_setD [OF seats] by (auto simp: d' seat_row_def)
  have cands': "candidateHashes (aw_hmac w') h roomCode = Inr cands"
    using hash(2) unfolding candidateHashes_def w' by (simp add: hash_code_normal [OF eq(1)])
  have hin: "hash \<in> set cands" using hash_code_candidate [OF h hash(2)] hash(1) by auto
  have loc: "filter (\<lambda>q. r_code_hash q \<in> set cands) (rooms d') = [r]"
    using fresh hin by (auto simp: d' rr filter_empty_conv)
  from list_all2_setD1 [OF seats si] obtain m where m: "m \<in> set ms" and row: "seat_row w h (cr_roomId resp) si m" by blast
  have mt: "seat_matches (aw_hmac w') h seat (sort_key m_id ms) = [m]"
    unfolding w'
  proof (rule seat_matches_unique [OF h hm len _ _ m])
    show "distinct (map m_code_hash ms)" using dist ns by simp
    show "\<forall>m \<in> set ms. \<exists>c. hash_code (aw_hmac w) h c = Inr (m_code_hash m)"
      using list_all2_setD [OF seats] by (auto simp: seat_row_def)
    show "hash_code (aw_hmac w) h seat = Inr (m_code_hash m)"
      using row hash_code_normal [OF eq(2)] by (simp add: seat_row_def hash_code_def)
  qed
  have jr: "\<lparr>jr_member = m_id m, jr_actor = m_actor m, jr_pseudonym = m_pseudonym m\<rparr> =
      \<lparr>jr_member = pg_uuid (si_member si), jr_actor = pg_uuid (si_actor si), jr_pseudonym = si_pseudonym si\<rparr>"
    using row by (simp add: seat_row_def)
  from joinRoom_runs [OF p cands' loc] show ?thesis
    using rr ns len mt ok by (simp add: jr)
qed

lemma createRoom_not_diverges:
  assumes "productive (aw_uuid w)" "productive (aw_seatCode w)"
  shows "fst (createRoom w h identity v d) \<noteq> Inl Diverges"
proof -
  have "terminates (insertRoom w h rid nova t tp)" for rid nova t tp
    unfolding insertRoom_def
    by (auto intro!: terminates_bind terminates_basic split: list.split) (simp add: terminates_def insertRoom_attempts_not_diverges)
  then have "terminates (createRoom_in w h t tp)" for t tp
    unfolding createRoom_in_def Let_def
    by (intro terminates_bind terminates_then terminates_basic terminates_unique terminates_seats assms) simp_all
  then have "fst (inTransaction (createRoom_in w h t tp) d) \<noteq> Inl Diverges" for t tp
    by (auto simp: inTransaction_def terminates_def split: prod.splits sum.splits) (metis fst_conv)
  then show ?thesis by (auto simp: createRoom_def split: AuthSession.splits option.splits)
qed

end
