(* ===== verification/Reachable_Rooms.thy ===== *)
theory Reachable_Rooms
  imports Seat_Allocation
begin

text \<open>
  The server's rooms as a transition system: the states reachable from an empty school by
  creating, joining and reading rooms and by dispatching commands, while other parts of
  the system rewrite the tables that the room services only read. Every reachable state
  satisfies the invariants of ledger, lifecycle, message histories and roster.
\<close>

definition empty_db :: db where
  "empty_db = \<lparr>rooms = [], events = [], outbox = [], jobs = [], members = [], sessions = [], deletions = [],
     medias = [], bindings = [], policies = []\<rparr>"

inductive room_step :: "db \<Rightarrow> db \<Rightarrow> bool" where
  create: "room_step d (snd (createRoom aw h identity v d))"
| join: "room_step d (snd (joinRoom aw h v d))"
| get: "room_step d (snd (getRoom aw lw hasLifecycle identity rid d))"
| command: "fresh_message (ws 0) d \<Longrightarrow> att \<in> {noAttachments, MediaAttachmentValidator} \<Longrightarrow>
    room_step d (snd (dispatch parse att ws caller v sid d))"
| expire: "room_step d (snd (closeIfDue w rid d))"
| others: "room_step d (d\<lparr>deletions := ds, medias := ms, policies := ps\<rparr>)"

inductive reachable :: "db \<Rightarrow> bool" where
  start: "reachable empty_db"
| step: "reachable d \<Longrightarrow> room_step d d' \<Longrightarrow> reachable d'"

section \<open>Invariants\<close>

lemma empty_inv: "room_inv empty_db \<and> seats_inv empty_db"
  by (simp add: empty_db_def room_inv_def ledger_inv_def mirrored_def status_inv_def message_inv_def seats_inv_def)

lemma keeps_snd: "keeps I m \<Longrightarrow> I d \<Longrightarrow> I (snd (m d))"
  by (simp add: keeps_def)

lemma keeps_read_details: "keeps (\<lambda>s. I (a_db s)) (read_details w identity rid)"
  unfolding read_details_def Let_def by (intro keeps_intros)

lemma keeps_inTransaction:
  assumes "keeps (\<lambda>s. I (a_db s)) work"
  shows "keeps I (inTransaction work)"
proof (rule keepsI)
  fix d assume d: "I d"
  let ?s0 = "\<lparr>a_db = d, a_uuid = 0, a_code = 0, a_seat = 0\<rparr>"
  have "I (a_db (snd (work ?s0)))" using assms d by (simp add: keeps_def)
  then show "I (snd (inTransaction work d))"
    using d by (auto simp: inTransaction_def split: prod.splits sum.splits)
qed

lemma keeps_getRoom:
  assumes "\<And>w. keeps I (closeIfDue w rid)"
  shows "keeps I (getRoom aw lw hl identity rid)"
proof -
  have "keeps I (close_first lw hl rid)"
    using assms [of lw] unfolding keeps_def close_first_def by (fastforce split: prod.splits sum.splits)
  then show ?thesis
    unfolding getRoom_def by (intro keeps_intros keeps_inTransaction keeps_read_details)
qed

lemma dispatch_inv:
  assumes att: "att \<in> {noAttachments, MediaAttachmentValidator}"
  shows "room_inv d \<Longrightarrow> fresh_message (ws 0) d \<Longrightarrow> room_inv (snd (dispatch parse att ws caller v sid d))"
    "roster (snd (dispatch parse att ws caller v sid d)) = roster d"
    "extends_log es os d \<Longrightarrow> extends_log es os (snd (dispatch parse att ws caller v sid d))"
proof -
  show "room_inv (snd (dispatch parse att ws caller v sid d))" if "room_inv d" "fresh_message (ws 0) d"
    using att no_att.route_inv [of d ws] media_att.route_inv [of d ws] that by (auto simp: dispatch_def split: option.splits)
  show "roster (snd (dispatch parse att ws caller v sid d)) = roster d"
    using att roster_no_att.dispatch_keeps [OF refl] roster_media.dispatch_keeps [OF refl] by auto
  show "extends_log es os (snd (dispatch parse att ws caller v sid d))" if "extends_log es os d"
    using att log_no_att.dispatch_keeps [OF that] log_media.dispatch_keeps [OF that] by auto
qed

lemma room_step_inv:
  assumes "room_step d d'" "room_inv d" "seats_inv d"
  shows "room_inv d' \<and> seats_inv d'"
  using assms
proof cases
  case (create aw h identity v)
  then have "room_inv d'" using createRoom_room_inv assms(2) by simp
  moreover have "seats_inv d'"
  proof (cases "createRoom aw h identity v d")
    case (Pair res e)
    with create have e: "e = d'" by simp
    show ?thesis
    proof (cases res)
      case (Inl err)
      with Pair e have "d' = d"
        by (auto simp: createRoom_def split: AuthSession.splits option.splits dest: inTransaction_Inl)
      with assms(3) show ?thesis by simp
    next
      case (Inr resp)
      with Pair e assms(3) show ?thesis by (auto intro: createRoom_seats_inv)
    qed
  qed
  ultimately show ?thesis ..
next
  case (join aw h v)
  then have "room_inv d'" using joinRoom_room_inv assms(2) by simp
  moreover have "seats_inv d'"
  proof (cases "joinRoom aw h v d")
    case (Pair res e)
    with join have e: "e = d'" by simp
    show ?thesis
    proof (cases res)
      case (Inl err)
      with Pair e have "d' = d"
        by (auto simp: joinRoom_def split: option.splits sum.splits dest: inTransaction_Inl)
      with assms(3) show ?thesis by simp
    next
      case (Inr x)
      with Pair e assms(3) show ?thesis by (cases x) (auto intro: joinRoom_seats_inv)
    qed
  qed
  ultimately show ?thesis ..
next
  case (get aw lw hl identity rid)
  have "room_inv d'" unfolding get by (rule keeps_snd [OF keeps_getRoom [OF keeps_closeIfDue] assms(2)])
  moreover have "roster d' = roster d"
    unfolding get by (rule keeps_snd [OF keeps_getRoom [OF roster_kept.keeps_close_if_due] refl])
  ultimately show ?thesis using seats_inv_roster [OF _ assms(3)] by blast
next
  case (command ws att parse caller v sid)
  have "room_inv d'" unfolding command(1) by (rule dispatch_inv(1) [where ws = ws, OF command(3) assms(2) command(2)])
  moreover have "roster d' = roster d" unfolding command(1) by (rule dispatch_inv(2) [OF command(3)])
  ultimately show ?thesis using seats_inv_roster [OF _ assms(3)] by blast
next
  case (expire w rid)
  have "room_inv d'" unfolding expire by (rule keeps_snd [OF keeps_closeIfDue assms(2)])
  moreover have "roster d' = roster d" unfolding expire by (rule keeps_snd [OF roster_kept.keeps_close_if_due refl])
  ultimately show ?thesis using seats_inv_roster [OF _ assms(3)] by blast
next
  case (others ds ms ps)
  then have "room_inv d'" by (intro room_inv_frame [OF assms(2)]) simp_all
  with others assms(3) show ?thesis by (simp add: seats_inv_def seats_of_def)
qed

lemma reachable_invs: "reachable d \<Longrightarrow> room_inv d \<and> seats_inv d"
  by (induction rule: reachable.induct) (auto simp: empty_inv dest: room_step_inv)

section \<open>Append-only\<close>

lemma createRoom_frame:
  "events (snd (createRoom aw h identity v d)) = events d" "outbox (snd (createRoom aw h identity v d)) = outbox d"
  "\<exists>rs. rooms (snd (createRoom aw h identity v d)) = rooms d @ rs"
proof -
  have "events d' = events d \<and> outbox d' = outbox d \<and> (\<exists>rs. rooms d' = rooms d @ rs)"
    if run: "createRoom aw h identity v d = (res, d')" for res d'
  proof (cases res)
    case (Inl e)
    with run have "d' = d" by (auto simp: createRoom_def split: AuthSession.splits option.splits dest: inTransaction_Inl)
    then show ?thesis by simp
  next
    case (Inr resp)
    with run have "createRoom aw h identity v d = (Inr resp, d')" by simp
    then show ?thesis by (rule createRoom_Inr) simp
  qed
  then show "events (snd (createRoom aw h identity v d)) = events d" "outbox (snd (createRoom aw h identity v d)) = outbox d"
    "\<exists>rs. rooms (snd (createRoom aw h identity v d)) = rooms d @ rs" by (metis surjective_pairing)+
qed

lemma joinRoom_frame:
  "events (snd (joinRoom aw h v d)) = events d" "outbox (snd (joinRoom aw h v d)) = outbox d"
  "rooms (snd (joinRoom aw h v d)) = rooms d"
proof -
  have "events d' = events d \<and> outbox d' = outbox d \<and> rooms d' = rooms d"
    if run: "joinRoom aw h v d = (res, d')" for res d'
  proof (cases res)
    case (Inl e)
    with run have "d' = d" by (auto simp: joinRoom_def split: option.splits sum.splits dest: inTransaction_Inl)
    then show ?thesis by simp
  next
    case (Inr x)
    with run have "joinRoom aw h v d = (Inr (fst x, snd x), d')" by simp
    then show ?thesis
      by (rule joinRoom_Inr) (auto simp: insert_session_def revoke_sessions_def split: if_splits)
  qed
  then show "events (snd (joinRoom aw h v d)) = events d" "outbox (snd (joinRoom aw h v d)) = outbox d"
    "rooms (snd (joinRoom aw h v d)) = rooms d" by (metis surjective_pairing)+
qed

lemma room_step_log:
  assumes "room_step d d'" "extends_log es os d"
  shows "extends_log es os d'"
  using assms(1)
proof cases
  case (create aw h identity v)
  with assms(2) show ?thesis by (simp add: extends_log_def createRoom_frame)
next
  case (join aw h v)
  with assms(2) show ?thesis by (simp add: extends_log_def joinRoom_frame)
next
  case (get aw lw hl identity rid)
  show ?thesis unfolding get by (rule keeps_snd [OF keeps_getRoom [OF log_kept.keeps_close_if_due] assms(2)])
next
  case (command ws att parse caller v sid)
  show ?thesis unfolding command(1) by (rule dispatch_inv(3) [OF command(3) assms(2)])
next
  case (expire w rid)
  show ?thesis unfolding expire by (rule keeps_snd [OF log_kept.keeps_close_if_due assms(2)])
next
  case (others ds ms ps)
  with assms(2) show ?thesis by (simp add: extends_log_def)
qed

lemma room_ids_of_roster:
  assumes "roster d' = roster d"
  shows "set (map r_id (rooms d)) \<subseteq> set (map r_id (rooms d'))"
proof -
  have "map r_id (rooms x) = map fst (fst (roster x))" for x by (simp add: roster_def comp_def)
  then show ?thesis using assms by simp
qed

lemma room_step_rooms:
  assumes "room_step d d'"
  shows "set (map r_id (rooms d)) \<subseteq> set (map r_id (rooms d'))"
  using assms
proof cases
  case (create aw h identity v)
  then show ?thesis using createRoom_frame(3) [of aw h identity v d] by auto
next
  case (join aw h v)
  then show ?thesis by (simp add: joinRoom_frame)
next
  case (get aw lw hl identity rid)
  have "roster d' = roster d"
    unfolding get by (rule keeps_snd [OF keeps_getRoom [OF roster_kept.keeps_close_if_due] refl])
  then show ?thesis by (rule room_ids_of_roster)
next
  case (command ws att parse caller v sid)
  have "roster d' = roster d" unfolding command(1) by (rule dispatch_inv(2) [OF command(3)])
  then show ?thesis by (rule room_ids_of_roster)
next
  case (expire w rid)
  have "roster d' = roster d" unfolding expire by (rule keeps_snd [OF roster_kept.keeps_close_if_due refl])
  then show ?thesis by (rule room_ids_of_roster)
qed simp

lemma room_step_closed:
  assumes inv: "room_inv d" "seats_inv d" and step: "room_step d d'" and r: "r \<in> set (rooms d)" "r_status r = Closed"
  shows "\<exists>r' \<in> set (rooms d'). r_id r' = r_id r \<and> r_status r' = Closed"
proof -
  from room_step_rooms [OF step] r(1) obtain r' where r': "r' \<in> set (rooms d')" "r_id r' = r_id r" by auto
  have "extends_log (events d) (outbox d) d'" by (rule room_step_log [OF step]) (simp add: extends_log_def)
  then have "take (length (events d)) (events d') = events d" by (simp add: extends_log_def)
  then obtain es where es: "events d' = events d @ es" by (metis append_take_drop_id)
  have inv': "room_inv d'" using room_step_inv [OF step inv] by blast
  from inv' r' have run: "lc_run Scheduled (map e_type (room_events d' (r_id r))) = Some (r_status r')"
    by (auto simp: room_inv_def status_inv_def)
  from inv(1) r have "lc_run Scheduled (map e_type (room_events d (r_id r))) = Some Closed"
    by (auto simp: room_inv_def status_inv_def)
  with run have "lc_run Closed (map e_type (filter (\<lambda>e. e_room e = r_id r) es)) = Some (r_status r')"
    by (simp add: room_events_def es lc_run_append)
  then have "r_status r' = Closed" by (rule lc_run_closed)
  with r' show ?thesis by blast
qed

end
