(* ===== verification/Demo_School.thy ===== *)
theory Demo_School
  imports Reachable_Rooms
begin

text \<open>
  A small concrete school on which the general theorems are applied: one teacher, one
  retention policy, one pepper, generators that count, and a room that is created and
  joined.
\<close>

definition demo_id :: "char \<Rightarrow> string" where
  "demo_id c = ''00000000-0000-4000-8000-00000000000'' @ [c]"

definition demo_hmac :: hmac where
  "demo_hmac p s = map (\<lambda>i. if i < length s then of_char (s ! i) else 0) [0..<32]"

definition demo_hasher :: CodeHasher where
  "demo_hasher = \<lparr>currentVersion = 1, peppers = [(1, replicate 32 7)], versions = [1]\<rparr>"

definition demo_aw :: adm_world where
  "demo_aw = \<lparr>aw_uuid = (\<lambda>i. [demo_id CHR ''0'', demo_id CHR ''1'', demo_id CHR ''2'', demo_id CHR ''3'', demo_id CHR ''4'', demo_id CHR ''5'', demo_id CHR ''6'', demo_id CHR ''7'', demo_id CHR ''8'', demo_id CHR ''9''] ! i),
     aw_roomCode = (\<lambda>i. ''ROOMAA''), aw_seatCode = (\<lambda>i. [''SA'', ''SB'', ''SC'', ''SD''] ! i),
     aw_token = ''t'', aw_tokenHash = map of_char, aw_now = At 1000, aw_tx_now = 1000, aw_hmac = demo_hmac,
     parseCreateRoomRequest = (\<lambda>_. Some ''Tides''), parseJoinRoomRequest = (\<lambda>_. Some (''roomaa'', ''SC'')),
     create_response_ok = (\<lambda>_. True), join_response_ok = (\<lambda>_. True), details_ok = (\<lambda>_. True)\<rparr>"

definition demo_teacher :: string where
  "demo_teacher = demo_id CHR ''f''"

definition policy_db :: db where
  "policy_db = empty_db\<lparr>policies := [\<lparr>p_id = ''p'', p_approved = 0, p_expires = 5000\<rparr>]\<rparr>"

definition demo_created :: "(adm_failure + CreateRoomResponse) \<times> db" where
  "demo_created = createRoom demo_aw demo_hasher (Teacher demo_teacher demo_teacher) VNull policy_db"

text \<open>The room the demo creates.\<close>

definition demo_invites :: "seat_invite list" where
  "demo_invites = map (\<lambda>(m, a, p, c). \<lparr>si_member = m, si_actor = a, si_pseudonym = p, si_code = c\<rparr>)
     [(demo_id CHR ''2'', demo_id CHR ''3'', STUDENT_PSEUDONYMS ! 0, ''SA''), (demo_id CHR ''4'', demo_id CHR ''5'', STUDENT_PSEUDONYMS ! 1, ''SB''),
      (demo_id CHR ''6'', demo_id CHR ''7'', STUDENT_PSEUDONYMS ! 2, ''SC''), (demo_id CHR ''8'', demo_id CHR ''9'', STUDENT_PSEUDONYMS ! 3, ''SD'')]"

definition demo_response :: CreateRoomResponse where
  "demo_response = \<lparr>cr_roomId = demo_id CHR ''0'', cr_roomCode = ''ROOMAA'', cr_nova = demo_id CHR ''1'', cr_seats = demo_invites\<rparr>"

definition demo_hash :: "string \<Rightarrow> bytes" where
  "demo_hash s = [0, 1] @ demo_hmac [] s"

definition demo_db :: db where
  "demo_db = policy_db\<lparr>
     rooms := [new_room_row demo_aw (demo_id CHR ''0'') (demo_hash ''ROOMAA'') (demo_id CHR ''1'') demo_teacher ''Tides'' ''p''],
     members := map (\<lambda>(i, m, a, c). \<lparr>m_id = m, m_actor = a, m_room = demo_id CHR ''0'', m_seat = i + 1,
        m_pseudonym = STUDENT_PSEUDONYMS ! i, m_code_hash = demo_hash c\<rparr>)
       [(0, demo_id CHR ''2'', demo_id CHR ''3'', ''SA''), (1, demo_id CHR ''4'', demo_id CHR ''5'', ''SB''), (2, demo_id CHR ''6'', demo_id CHR ''7'', ''SC''), (3, demo_id CHR ''8'', demo_id CHR ''9'', ''SD'')]\<rparr>"

lemma demo_normal:
  "normalize_code ''ROOMAA'' = ''ROOMAA''" "normalize_code ''SA'' = ''SA''" "normalize_code ''SB'' = ''SB''"
  "normalize_code ''SC'' = ''SC''" "normalize_code ''SD'' = ''SD''" "normalize_code ''roomaa'' = ''ROOMAA''"
  by code_simp+

lemma demo_id_eq [simp]: "demo_id a = demo_id b \<longleftrightarrow> a = b"
  by (simp add: demo_id_def)

lemma demo_ids: "list_all (\<lambda>c. pg_uuid (demo_id c) = demo_id c \<and> uuid_ok (demo_id c)) ''0123456789abcdef''"
  by code_simp

lemma demo_pg: "c \<in> set ''0123456789abcdef'' \<Longrightarrow> pg_uuid (demo_id c) = demo_id c"
  "c \<in> set ''0123456789abcdef'' \<Longrightarrow> uuid_ok (demo_id c)"
  using demo_ids by (auto simp: list_all_iff)

lemma demo_hash_code: "hash_code demo_hmac demo_hasher s = Inr (demo_hash (normalize_code s))"
  by (simp add: hash_code_def hashWith_def demo_hasher_def jm_get_def writeUInt16BE_def demo_hmac_def demo_hash_def)

lemma demo_candidates: "candidateHashes demo_hmac demo_hasher s = Inr [demo_hash (normalize_code s)]"
  by (simp add: candidateHashes_def hashWith_def demo_hasher_def jm_get_def writeUInt16BE_def demo_hmac_def demo_hash_def)

lemma demo_hash_distinct: "distinct (map demo_hash [''SA'', ''SB'', ''SC'', ''SD''])"
  by (simp add: demo_hash_def demo_hmac_def upt_rec)

lemma demo_pseudonyms: "distinct (map (\<lambda>i. STUDENT_PSEUDONYMS ! i) [0, Suc 0, 2, 3])"
  "List.enumerate 0 STUDENT_PSEUDONYMS = [(0, STUDENT_PSEUDONYMS ! 0), (1, STUDENT_PSEUDONYMS ! Suc 0), (2, STUDENT_PSEUDONYMS ! 2), (3, STUDENT_PSEUDONYMS ! 3)]"
  by (simp_all add: STUDENT_PSEUDONYMS_def)

lemma suc_seven: "Suc 7 = 8"
  by simp

lemmas first_attempt = insertRoom_attempts.simps(2) [of 7, unfolded suc_seven]

lemma demo_creates: "demo_created = (Inr demo_response, demo_db)"
  unfolding demo_created_def createRoom_def createRoom_in_def
  using demo_hash_distinct demo_pseudonyms(1)
  by (simp add: demo_aw_def policy_db_def empty_db_def inTransaction_def act_bind_app act_then_app require_app
    randomUUID_def uniqueUuid_def uniqueSeatCode_def first_unused.simps insertRoom_def current_policies_def
    ROOM_CODE_ATTEMPTS_def first_attempt Let_def lift_hash_def demo_hash_code demo_candidates demo_normal insert_room_def
    new_room_row_def demo_pseudonyms(2) statement_def insert_member_def demo_pg demo_response_def demo_invites_def demo_db_def)

lemma demo_reachable: "reachable policy_db" "reachable demo_db"
proof -
  have "room_step empty_db (empty_db\<lparr>deletions := [], medias := [], policies := [\<lparr>p_id = ''p'', p_approved = 0, p_expires = 5000\<rparr>]\<rparr>)"
    by (rule room_step.others)
  then show p: "reachable policy_db"
    using reachable.step [OF reachable.start] by (simp add: policy_db_def empty_db_def)
  have "room_step policy_db (snd demo_created)" unfolding demo_created_def by (rule room_step.create)
  then show "reachable demo_db" using reachable.step [OF p] by (simp add: demo_creates)
qed

lemma demo_hasher_ok: "hasher_ok demo_hasher" "digest_size demo_hmac"
  by (simp_all add: hasher_ok_def demo_hasher_def jm_ok_def jm_keys_def jm_values_def assertVersion_def MINIMUM_PEPPER_BYTES_def
      digest_size_def demo_hmac_def DIGEST_BYTES_def)

section \<open>The room is opened\<close>

definition demo_ev :: "char \<Rightarrow> char \<Rightarrow> string" where
  "demo_ev a b = ''0000000'' @ [a] @ ''-0000-4000-8000-00000000000'' @ [b]"

lemma demo_ev_eq [simp]: "demo_ev a b = demo_ev a' b' \<longleftrightarrow> a = a' \<and> b = b'"
  by (simp add: demo_ev_def)

lemma demo_evs: "list_all (\<lambda>(a, b). pg_uuid (demo_ev a b) = demo_ev a b \<and> uuid_ok (demo_ev a b)) (List.product ''abcd'' ''0123456789'')"
  by code_simp

lemma demo_ev_pg: "a \<in> set ''abcd'' \<Longrightarrow> b \<in> set ''0123456789'' \<Longrightarrow> pg_uuid (demo_ev a b) = demo_ev a b"
  "a \<in> set ''abcd'' \<Longrightarrow> b \<in> set ''0123456789'' \<Longrightarrow> uuid_ok (demo_ev a b)"
  using demo_evs by (auto simp: list_all_iff)

definition demo_world :: "char \<Rightarrow> world" where
  "demo_world k = \<lparr>envelope_valid = (\<lambda>_. True), payload_valid = (\<lambda>_ _. True), clock = (\<lambda>i. At (2000 + int i)),
     fresh = (\<lambda>i. demo_ev k (''0123456789'' ! i)), tx_now = 2000\<rparr>"

definition opened_event :: envelope where
  "opened_event = \<lparr>eventId = demo_ev CHR ''a'' CHR ''1'', schemaVersion = 1, roomId = demo_id CHR ''0'', roomSeq = 1,
     ev_type = ''room.opened'', actorId = demo_teacher, actorKind = ''human'', actorRole = ''teacher'', revision = 1,
     operation = ''add'', eventTime = 2000, ingestTime = 2001, causationId = demo_ev CHR ''d'' CHR ''0'',
     correlationId = demo_ev CHR ''a'' CHR ''0'', payload = JObj [(''startsAt'', JTime 2000), (''closesAt'', JTime 2702000)]\<rparr>"

definition open_db :: db where
  "open_db = demo_db\<lparr>
     rooms := map (\<lambda>r. r\<lparr>r_status := Open, r_starts := Some (At 2000), r_closes := Some (At 2702000), r_next := 2\<rparr>) (rooms demo_db),
     events := [event_row_of opened_event], outbox := [outbox_row_of opened_event],
     jobs := [analytics_job_of (demo_world CHR ''a'') (demo_ev CHR ''a'' CHR ''2'') opened_event,
       auto_close_job (demo_world CHR ''a'') (demo_ev CHR ''a'' CHR ''3'') (demo_id CHR ''0'') opened_event 2702000]\<rparr>"

lemma demo_db_room:
  "find_room demo_db (demo_id CHR ''0'') = Some (new_room_row demo_aw (demo_id CHR ''0'') (demo_hash ''ROOMAA'') (demo_id CHR ''1'') demo_teacher ''Tides'' ''p'')"
  by (simp add: find_room_def demo_db_def new_room_row_def demo_pg)

lemma demo_clone:
  "clone_payload (plain_obj [(''startsAt'', VTime a), (''closesAt'', VTime b)]) = Inr (JObj [(''startsAt'', JTime a), (''closesAt'', JTime b)])"
  by (simp add: clone_payload_iff plain_obj_def MAX_JSON_DEPTH_def MAX_JSON_UNITS_def)

lemmas demo_ids_pg = demo_pg demo_ev_pg

lemmas run_defs = act_bind_app act_then_app require_app exec_def exec_insert_def schedule_def append_event_def appendOne_def
  findByCausation_def findOneByCausation_def existingManualRetry_def manual_def owner_guard_def requireOwner_def
  assertTeacherSession_def validNow_def teacher_draft_def validateDraft_def

lemmas insert_defs = insert_event_def insert_outbox_def insert_job_def advance_room_seq_def update_room_def storedEventSelect_def

lemma demo_opens:
  "open_room (demo_world CHR ''a'') (demo_id CHR ''0'') demo_teacher (demo_ev CHR ''d'' CHR ''0'') None demo_db = (Inr opened_event, open_db)"
  by (simp add: open_room_def transact_def find_room_def deletion_active_def new_room_row_def demo_pg roomSnapshot_def dateText_def
    safePositiveInteger_def max_safe_integer_def demo_aw_def open_in_def run_defs insert_defs demo_db_def policy_db_def empty_db_def
    demo_teacher_def demo_world_def demo_ids_pg demo_clone Let_def ROOM_DURATION_MS_def event_row_of_def outbox_row_of_def
    analytics_job_of_def auto_close_job_def opened_event_def open_db_def)

definition open_command :: RoomCommand where
  "open_command = \<lparr>c_commandId = demo_ev CHR ''d'' CHR ''0'', c_roomId = demo_id CHR ''0'', c_type = ''room.open'',
     c_clientTime = At 1990, c_baseRevision = None, c_payload = plain_obj []\<rparr>"

lemma demo_dispatch_open:
  "dispatch (\<lambda>_. Some open_command) noAttachments (\<lambda>_. demo_world CHR ''a'') (Teacher demo_teacher demo_teacher)
     (plain_obj [(''roomId'', VStr (demo_id CHR ''0''))]) None demo_db = (Inr opened_event, open_db)"
  by (simp add: dispatch_def route_def open_command_def plain_obj_def demo_opens)

lemma demo_open_reachable: "reachable open_db"
proof -
  have "fresh_message (demo_world CHR ''a'') demo_db" by (simp add: fresh_message_def demo_db_def policy_db_def empty_db_def)
  then have "room_step demo_db (snd (dispatch (\<lambda>_. Some open_command) noAttachments (\<lambda>_. demo_world CHR ''a'') (Teacher demo_teacher demo_teacher)
     (plain_obj [(''roomId'', VStr (demo_id CHR ''0''))]) None demo_db))"
    by (intro room_step.command) simp_all
  then show ?thesis using reachable.step [OF demo_reachable(2)] by (simp add: demo_dispatch_open)
qed

text \<open>The room's row after it is opened.\<close>

definition open_row :: room_row where
  "open_row = (new_room_row demo_aw (demo_id CHR ''0'') (demo_hash ''ROOMAA'') (demo_id CHR ''1'') demo_teacher ''Tides'' ''p'')
     \<lparr>r_status := Open, r_starts := Some (At 2000), r_closes := Some (At 2702000), r_next := 2\<rparr>"

definition open_snap :: LockedRoomSnapshot where
  "open_snap = \<lparr>room_id = demo_id CHR ''0'', nova_actor_id = demo_id CHR ''1'', teacher_id = demo_teacher, topic = ''Tides'',
     status = Open, duration_seconds = 2700, starts_at = Some 2000, closes_at = Some 2702000, closed_at = None,
     next_room_seq = 2, created_at = 1000\<rparr>"

lemma open_db_room: "rooms open_db = [open_row]" "r_id open_row = demo_id CHR ''0''" "r_status open_row = Open"
  by (simp_all add: open_db_def demo_db_def open_row_def new_room_row_def demo_pg)

lemma open_row_fields: "r_teacher open_row = demo_teacher" "r_next open_row = 2" "roomSnapshot open_row = Inr open_snap"
  by (simp_all add: open_row_def new_room_row_def demo_pg demo_teacher_def roomSnapshot_def dateText_def safePositiveInteger_def
      max_safe_integer_def demo_aw_def open_snap_def)

lemma open_db_find: "find_room open_db (demo_id CHR ''0'') = Some open_row"
  by (simp add: find_room_def open_db_room demo_pg)

lemma open_db_log: "ledger_log open_db (demo_id CHR ''0'') = [opened_event]"
  by (simp add: ledger_log_def open_db_def outbox_row_of_def opened_event_def demo_pg)

lemma open_readable: "readable (demo_world k) opened_event"
  by (simp add: readable_def demo_world_def canonical_envelope_def canonical_def opened_event_def demo_teacher_def demo_ids_pg max_safe_integer_def)

section \<open>The room is closed\<close>

definition closed_event :: envelope where
  "closed_event = \<lparr>eventId = demo_ev CHR ''b'' CHR ''1'', schemaVersion = 1, roomId = demo_id CHR ''0'', roomSeq = 2,
     ev_type = ''room.closed'', actorId = demo_teacher, actorKind = ''human'', actorRole = ''teacher'', revision = 1,
     operation = ''add'', eventTime = 2000, ingestTime = 2001, causationId = demo_ev CHR ''d'' CHR ''1'',
     correlationId = demo_ev CHR ''b'' CHR ''0'', payload = JObj [(''closedAt'', JTime 2000)]\<rparr>"

definition closed_row :: room_row where
  "closed_row = open_row\<lparr>r_status := Closed, r_closed := Some (At 2000), r_next := 3\<rparr>"

definition closed_db :: db where
  "closed_db = open_db\<lparr>rooms := [closed_row],
     events := [event_row_of opened_event, event_row_of closed_event], outbox := [outbox_row_of opened_event, outbox_row_of closed_event],
     jobs := [analytics_job_of (demo_world CHR ''a'') (demo_ev CHR ''a'' CHR ''2'') opened_event,
       cancelled_job 2000 (auto_close_job (demo_world CHR ''a'') (demo_ev CHR ''a'' CHR ''3'') (demo_id CHR ''0'') opened_event 2702000),
       analytics_job_of (demo_world CHR ''b'') (demo_ev CHR ''b'' CHR ''2'') closed_event]\<rparr>"

lemma demo_clone_close:
  "clone_payload (plain_obj [(''closedAt'', VTime a)]) = Inr (JObj [(''closedAt'', JTime a)])"
  by (simp add: clone_payload_iff plain_obj_def MAX_JSON_DEPTH_def MAX_JSON_UNITS_def)

lemma demo_transact_open:
  "transact (demo_id CHR ''0'') work open_db =
     (case work \<lparr>ctx_db = open_db, ctx_room = open_snap, ctx_next = 2, ctx_failure = None\<rparr> of (Inl e, _) \<Rightarrow> (Inl e, open_db)
      | (Inr v, c) \<Rightarrow> (case ctx_failure c of Some e \<Rightarrow> (Inl e, open_db) | None \<Rightarrow> (Inr v, ctx_db c)))"
proof -
  have "\<not> deletion_active open_db (demo_id CHR ''0'')"
    by (simp add: deletion_active_def open_db_def demo_db_def policy_db_def empty_db_def)
  moreover have "next_room_seq open_snap = 2" by (simp add: open_snap_def)
  ultimately show ?thesis by (simp add: transact_def open_db_find open_db_room(2) open_row_fields(3) demo_pg)
qed

lemma open_db_no_other:
  "filter (\<lambda>e. e_room e = demo_id CHR ''0'' \<and> e_causation e = demo_ev CHR ''d'' CHR ''1'') (events open_db) = []"
  by (simp add: open_db_def event_row_of_def opened_event_def demo_ids_pg)

lemma demo_int_text: "int_text 1 \<noteq> int_text 2"
  by code_simp

lemma demo_close_commits:
  "transact (demo_id CHR ''0'') (close_in (demo_world CHR ''b'') (demo_id CHR ''0'') demo_teacher (demo_ev CHR ''d'' CHR ''1'') None) open_db = (Inr closed_event, closed_db)"
  by (simp add: close_in_def demo_transact_open run_defs insert_defs open_snap_def demo_ids_pg open_db_no_other demo_world_def
      open_db_room cancelRoomJobs_def demo_clone_close Let_def)
     (simp add: open_db_def open_row_def new_room_row_def demo_db_def policy_db_def empty_db_def closed_row_def event_row_of_def
       outbox_row_of_def analytics_job_of_def auto_close_job_def cancelled_job_def opened_event_def closed_event_def closed_db_def
       demo_world_def demo_ids_pg demo_teacher_def demo_int_text)

lemma demo_closes:
  "close_room (\<lambda>_. demo_world CHR ''b'') (demo_id CHR ''0'') demo_teacher (demo_ev CHR ''d'' CHR ''1'') None open_db = (Inr closed_event, closed_db)"
proof -
  let ?w = "demo_world CHR ''b''"
  have r: "ownerRetry ?w (demo_id CHR ''0'') demo_teacher (demo_ev CHR ''d'' CHR ''1'') ''room.closed'' None open_db = (Inr None, open_db)"
    by (simp add: ownerRetry_def demo_transact_open run_defs storedEventSelect_def open_snap_def demo_ids_pg open_db_no_other)
  have e: "closeIfDueForOwner ?w (demo_id CHR ''0'') demo_teacher None open_db = (Inr None, open_db)"
    by (simp add: closeIfDueForOwner_def demo_transact_open run_defs closeDueInContext_def open_snap_def demo_world_def)
  show ?thesis by (simp add: close_room_def retry_or_expire_def act_bind_app r e demo_close_commits)
qed

definition close_command :: RoomCommand where
  "close_command = open_command\<lparr>c_commandId := demo_ev CHR ''d'' CHR ''1'', c_type := ''room.close''\<rparr>"

lemma demo_dispatch_close:
  "dispatch (\<lambda>_. Some close_command) noAttachments (\<lambda>_. demo_world CHR ''b'') (Teacher demo_teacher demo_teacher)
     (plain_obj [(''roomId'', VStr (demo_id CHR ''0''))]) None open_db = (Inr closed_event, closed_db)"
  by (simp add: dispatch_def route_def open_command_def close_command_def plain_obj_def demo_closes)

lemma demo_close_reachable: "room_step open_db closed_db" "reachable closed_db"
proof -
  have "fresh_message (demo_world CHR ''b'') open_db"
    by (simp add: fresh_message_def open_db_def event_row_of_def opened_event_def jmember_def)
  then have "room_step open_db (snd (dispatch (\<lambda>_. Some close_command) noAttachments (\<lambda>_. demo_world CHR ''b'') (Teacher demo_teacher demo_teacher)
     (plain_obj [(''roomId'', VStr (demo_id CHR ''0''))]) None open_db))"
    by (intro room_step.command) simp_all
  then show s: "room_step open_db closed_db" by (simp add: demo_dispatch_close)
  show "reachable closed_db" by (rule reachable.step [OF demo_open_reachable s])
qed

lemma closed_db_room: "rooms closed_db = [closed_row]" "r_status closed_row = Closed" "r_id closed_row = demo_id CHR ''0''"
  by (simp_all add: closed_db_def closed_row_def open_db_room(2))

section \<open>A student writes\<close>

definition demo_student :: AuthSession where
  "demo_student = Student (demo_id CHR ''0'') (demo_id CHR ''2'') (demo_id CHR ''3'')"

definition add_command :: RoomCommand where
  "add_command = \<lparr>c_commandId = demo_ev CHR ''d'' CHR ''2'', c_roomId = demo_id CHR ''0'', c_type = ''message.add'',
     c_clientTime = At 1995, c_baseRevision = None,
     c_payload = plain_obj [(''text'', VStr ''hi''), (''mentions'', VArr 1 True True [])]\<rparr>"

definition message_event :: envelope where
  "message_event = \<lparr>eventId = demo_ev CHR ''c'' CHR ''2'', schemaVersion = 1, roomId = demo_id CHR ''0'', roomSeq = 2,
     ev_type = ''message.added'', actorId = demo_id CHR ''3'', actorKind = ''human'', actorRole = ''student'', revision = 1,
     operation = ''add'', eventTime = 1995, ingestTime = 2001, causationId = demo_ev CHR ''d'' CHR ''2'',
     correlationId = demo_ev CHR ''c'' CHR ''1'',
     payload = JObj [(''messageId'', JStr (demo_ev CHR ''c'' CHR ''0'')), (''text'', JStr ''hi''), (''replyTo'', JNull),
       (''mentions'', JArr []), (''mediaIds'', JArr [])]\<rparr>"

definition message_row :: room_row where
  "message_row = open_row\<lparr>r_next := 3\<rparr>"

definition message_db :: db where
  "message_db = open_db\<lparr>rooms := [message_row],
     events := [event_row_of opened_event, event_row_of message_event], outbox := [outbox_row_of opened_event, outbox_row_of message_event],
     jobs := jobs open_db @ [analytics_job_of (demo_world CHR ''c'') (demo_ev CHR ''c'' CHR ''3'') message_event]\<rparr>"

lemma demo_clone_message:
  "clone_payload (message_payload mid txt VNull [] []) = Inr (JObj [(''messageId'', JStr mid), (''text'', JStr txt), (''replyTo'', JNull),
       (''mentions'', JArr []), (''mediaIds'', JArr [])])"
  by (simp add: clone_payload_iff message_payload_def plain_obj_def str_array_def MAX_JSON_DEPTH_def MAX_JSON_UNITS_def)

lemma demo_trim: "js_trim ''hi'' = ''hi''"
  by code_simp

lemma open_db_no_message:
  "filter (\<lambda>e. e_room e = demo_id CHR ''0'' \<and> e_causation e = demo_ev CHR ''d'' CHR ''2'') (events open_db) = []"
  by (simp add: open_db_def event_row_of_def opened_event_def demo_ids_pg)

lemma demo_member: "member_rows w (demo_id CHR ''0'') demo_student None open_db = 1"
  by (simp add: member_rows_def demo_student_def open_db_def demo_db_def demo_pg)

lemma demo_adds: "add_message noAttachments (demo_world CHR ''c'') demo_student add_command None open_db = (Inr message_event, message_db)"
proof -
  let ?c = "\<lparr>ctx_db = open_db, ctx_room = open_snap, ctx_next = 2, ctx_failure = None\<rparr>" and ?w = "demo_world CHR ''c''"
  have au: "authorizeStudent ?w demo_student None ?c = (Inr (), ?c)"
    using demo_member [of ?w] by (simp add: authorizeStudent_def act_bind_app require_app open_snap_def demo_student_def)
  have mr: "message_retry ?w (demo_ev CHR ''d'' CHR ''2'') ''message.added'' (demo_id CHR ''3'') ?c = (Inr None, ?c)"
    by (simp add: message_retry_def run_defs storedEventSelect_def open_snap_def demo_ids_pg open_db_no_message)
  have wr: "assertWritable (clock ?w 0) ?c = (Inr (), ?c)"
    by (simp add: assertWritable_Inr open_snap_def demo_world_def)
  have new: "add_new noAttachments ?w demo_student add_command ?c = (Inr message_event, ?c\<lparr>ctx_db := message_db, ctx_next := 3\<rparr>)"
    by (simp add: add_new_def act_then_app act_bind_app wr Let_def)
       (simp add: add_command_def payload_record_def plain_obj_def trimmed_text_def reply_of_def readUuidArray_def run_defs demo_trim
         assertMentionsAndReply_def noAttachments_def message_draft_def demo_clone_message demo_student_def insert_defs demo_world_def
         open_snap_def demo_ids_pg open_db_no_message open_db_room demo_int_text Let_def,
        simp add: open_db_def open_row_def new_room_row_def demo_db_def policy_db_def empty_db_def message_row_def event_row_of_def
         outbox_row_of_def analytics_job_of_def auto_close_job_def opened_event_def message_event_def message_db_def
         demo_world_def demo_ids_pg demo_teacher_def demo_int_text)
  have "commandType add_command ''message.add''" by (simp add: commandType_def add_command_def demo_ids_pg)
  then have "add_message noAttachments ?w demo_student add_command None open_db =
      transact (demo_id CHR ''0'') (add_in noAttachments ?w demo_student add_command None) open_db"
    by (simp add: add_message_def demo_student_def add_command_def)
  also have "\<dots> = (Inr message_event, message_db)"
    unfolding demo_transact_open add_in_def act_then_app act_bind_app au
    using mr new by (simp add: add_command_def demo_student_def)
  finally show ?thesis .
qed

lemma demo_message_reachable: "reachable message_db"
proof -
  have "fresh_message (demo_world CHR ''c'') open_db"
    by (simp add: fresh_message_def open_db_def event_row_of_def opened_event_def jmember_def)
  then have "room_step open_db (snd (dispatch (\<lambda>_. Some add_command) noAttachments (\<lambda>_. demo_world CHR ''c'') demo_student
     (plain_obj [(''roomId'', VStr (demo_id CHR ''0''))]) None open_db))"
    by (intro room_step.command) simp_all
  moreover have "dispatch (\<lambda>_. Some add_command) noAttachments (\<lambda>_. demo_world CHR ''c'') demo_student
     (plain_obj [(''roomId'', VStr (demo_id CHR ''0''))]) None open_db = (Inr message_event, message_db)"
    using demo_adds by (simp add: dispatch_def route_def plain_obj_def) (simp add: add_command_def)
  ultimately show ?thesis using reachable.step [OF demo_open_reachable] by simp
qed

definition message_snap :: LockedRoomSnapshot where
  "message_snap = open_snap\<lparr>next_room_seq := 3\<rparr>"

lemma message_row_fields: "r_id message_row = demo_id CHR ''0''" "roomSnapshot message_row = Inr message_snap"
  by (simp_all add: message_row_def open_row_def new_room_row_def demo_pg demo_teacher_def roomSnapshot_def dateText_def safePositiveInteger_def
      max_safe_integer_def demo_aw_def open_snap_def message_snap_def)

lemma message_db_rows: "message_rows message_db (demo_id CHR ''0'') (demo_ev CHR ''c'' CHR ''0'') = [event_row_of message_event]"
  by (simp add: message_rows_def message_db_def event_row_of_def opened_event_def message_event_def jmember_def demo_ids_pg)

section \<open>A student joins\<close>

lemma demo_join:
  "\<exists>d''. joinRoom demo_aw demo_hasher VNull demo_db =
     (Inr (\<lparr>jr_member = demo_id CHR ''6'', jr_actor = demo_id CHR ''7'', jr_pseudonym = STUDENT_PSEUDONYMS ! 2\<rparr>, ''t''), d'')"
proof -
  let ?si = "\<lparr>si_member = demo_id CHR ''6'', si_actor = demo_id CHR ''7'', si_pseudonym = STUDENT_PSEUDONYMS ! 2, si_code = ''SC''\<rparr>"
  have si: "?si \<in> set (cr_seats demo_response)" by (simp add: demo_response_def demo_invites_def)
  have ci: "can_issue demo_aw demo_db \<lparr>jr_member = pg_uuid (si_member ?si), jr_actor = pg_uuid (si_actor ?si), jr_pseudonym = si_pseudonym ?si\<rparr>"
    by (simp add: can_issue_def demo_aw_def demo_db_def policy_db_def empty_db_def)
  have hm: "digest_size (aw_hmac demo_aw)" using demo_hasher_ok(2) by (simp add: demo_aw_def)
  have pj: "parseJoinRoomRequest demo_aw VNull = Some (''roomaa'', ''SC'')" by (simp add: demo_aw_def)
  have inv: "room_inv policy_db" "seats_inv policy_db" using reachable_invs [OF demo_reachable(1)] by auto
  show ?thesis
    using create_then_join_aux [OF inv demo_hasher_ok(1) hm demo_creates [unfolded demo_created_def] si refl pj _ _ ci]
    by (simp add: demo_normal demo_response_def demo_pg) (simp add: demo_aw_def)
qed

end
