(* ===== verification/Room_Guarantees.thy ===== *)
theory Room_Guarantees
  imports Reachable_Rooms
begin

text \<open>
  Lemmas behind the guarantees a client of the room services relies on: a command that is
  sent twice is answered from the ledger, a failed command leaves no trace except an
  expiry, a closed room has no active work left, concurrent revisions conflict.
\<close>

section \<open>Answers from the ledger\<close>

lemma room_log_causation:
  assumes inv: "ledger_inv d" and r: "r \<in> set (rooms d)"
  shows "distinct (map (\<lambda>v. pg_uuid (causationId v)) (ledger_log d (r_id r)))"
    "filter (\<lambda>v. pg_uuid (roomId v) = r_id r) (map o_envelope (outbox d)) = ledger_log d (r_id r)"
  using ledger_invD(6) [OF inv r] ledger_log_filter [OF inv]
  by (simp_all add: room_events_log [OF inv] event_row_of_def comp_def)

lemma findOne_stored:
  assumes inv: "ledger_inv (ctx_db c)" and r: "r \<in> set (rooms (ctx_db c))" "room_id (ctx_room c) = r_id r"
    and v: "v \<in> set (ledger_log (ctx_db c) (r_id r))" "pg_uuid (causationId v) = pg_uuid cid" and cid: "uuid_ok cid"
  shows "findOneByCausation w cid c =
     (if readable w v then (Inr (Some v), c) else (Inl (Failure ''INVALID_STORED_ROOM_EVENT''), c))"
proof -
  let ?log = "ledger_log (ctx_db c) (r_id r)"
  note log = room_log_causation [OF inv r(1)]
  have "storedEventSelect (ctx_db c) (\<lambda>e. e_room e = r_id r \<and> e_causation e = pg_uuid cid) =
      map stored_pair (filter (\<lambda>v. pg_uuid (causationId v) = pg_uuid cid) ?log)"
    unfolding storedEventSelect_pairs [OF inv] log(2) [symmetric] filter_filter
    by (rule arg_cong [where f = "map stored_pair"], rule filter_cong [OF refl]) (auto simp: event_row_of_def)
  also have "filter (\<lambda>v. pg_uuid (causationId v) = pg_uuid cid) ?log = [v]"
    using filter_unique [OF log(1) v(1)] v(2) by simp
  finally show ?thesis
    by (simp add: findOneByCausation_def act_then_app act_bind_app require_app cid r(2) parseStoredEvent_pair)
qed

text \<open>An event of the room that answers a repeated owner command.\<close>

definition answers :: "envelope \<Rightarrow> string \<Rightarrow> string \<Rightarrow> string \<Rightarrow> string \<Rightarrow> bool" where
  "answers v t rid tid cid \<longleftrightarrow> roomId v = rid \<and> ev_type v = t \<and> actorId v = tid \<and> actorKind v = ''human'' \<and>
     actorRole v = ''teacher'' \<and> revision v = 1 \<and> operation v = ''add'' \<and> causationId v = cid"

lemma manual_answers:
  assumes inv: "ledger_inv (ctx_db c)" and r: "r \<in> set (rooms (ctx_db c))" "room_id (ctx_room c) = r_id r"
    and own: "owner_guard w tid sid c = (Inr (), c)" and cid: "uuid_ok cid"
    and v: "v \<in> set (ledger_log (ctx_db c) (r_id r))" "answers v t rid tid cid" "readable w v"
  shows "manual w rid tid cid t sid body c = (Inr v, c)"
proof -
  from v(2) have "findOneByCausation w cid c = (Inr (Some v), c)"
    using findOne_stored [OF inv r v(1) _ cid] v(3) by (simp add: answers_def)
  then have "findByCausation w cid c = (Inr (Some v), c)" by (simp add: findByCausation_def schedule_def)
  moreover have "assertManualRetry v t rid tid = ret v" using v(2) by (simp add: assertManualRetry_def answers_def)
  ultimately show ?thesis
    by (simp add: manual_def act_then_app act_bind_app own existingManualRetry_def)
qed

text \<open>A room that a transaction can be run on.\<close>

definition serviceable :: "db \<Rightarrow> string \<Rightarrow> room_row \<Rightarrow> LockedRoomSnapshot \<Rightarrow> bool" where
  "serviceable d rid r snap \<longleftrightarrow> uuid_ok rid \<and> find_room d rid = Some r \<and> uuid_ok (r_id r) \<and> \<not> deletion_active d (r_id r) \<and>
     roomSnapshot r = Inr snap"

lemma transact_serviceable:
  "serviceable d rid r snap \<Longrightarrow> transact rid work d =
     (case work (start_ctx d snap) of (Inl e, _) \<Rightarrow> (Inl e, d)
      | (Inr v, c) \<Rightarrow> (case ctx_failure c of Some e \<Rightarrow> (Inl e, d) | None \<Rightarrow> (Inr v, ctx_db c)))"
  by (simp add: transact_def serviceable_def start_ctx_def)

lemma repeated_answer:
  assumes inv: "room_inv d" and sv: "serviceable d rid r snap" and cid: "uuid_ok cid"
    and own: "owner_guard w tid sid (start_ctx d snap) = (Inr (), start_ctx d snap)"
    and v: "v \<in> set (ledger_log d (r_id r))" "answers v t rid tid cid" "readable w v"
  shows "transact rid (manual w rid tid cid t sid body) d = (Inr v, d)"
    "ownerRetry w rid tid cid t sid d = (Inr (Some v), d)"
proof -
  let ?c = "start_ctx d snap"
  from sv have r: "r \<in> set (rooms d)" "room_id snap = r_id r"
    using find_room_SomeD roomSnapshot_fields unfolding serviceable_def by blast+
  from inv have li: "ledger_inv d" by (simp add: room_inv_def)
  have m: "manual w rid tid cid t sid body ?c = (Inr v, ?c)" for body
    by (rule manual_answers [of ?c r]) (use li r own cid v in simp_all)
  show "transact rid (manual w rid tid cid t sid body) d = (Inr v, d)"
    by (simp add: transact_serviceable [OF sv] m)
  have "findOneByCausation w cid ?c = (Inr (Some v), ?c)"
    using findOne_stored [of ?c r v cid w] li r v cid by (simp add: answers_def)
  then have "existingManualRetry w cid t rid tid ?c = (Inr (Some v), ?c)"
    using v(2) by (simp add: existingManualRetry_def findByCausation_def schedule_def act_bind_app assertManualRetry_def answers_def)
  then show "ownerRetry w rid tid cid t sid d = (Inr (Some v), d)"
    by (simp add: ownerRetry_def transact_serviceable [OF sv] act_then_app own)
qed

lemma repeated_owner_command_aux:
  assumes "room_inv d" "serviceable d rid r snap" "uuid_ok cid"
    and "owner_guard (ws 0) tid sid (start_ctx d snap) = (Inr (), start_ctx d snap)"
    and "v \<in> set (ledger_log d (r_id r))" "answers v t rid tid cid" "readable (ws 0) v"
  shows "t = ''room.opened'' \<Longrightarrow> open_room (ws 0) rid tid cid sid d = (Inr v, d)"
    "t = ''room.paused'' \<Longrightarrow> pause ws rid tid cid sid d = (Inr v, d)"
    "t = ''room.resumed'' \<Longrightarrow> resume ws rid tid cid sid d = (Inr v, d)"
    "t = ''room.closed'' \<Longrightarrow> close_room ws rid tid cid sid d = (Inr v, d)"
  using repeated_answer [OF assms]
  by (simp_all add: open_room_def open_in_def pause_def resume_def close_room_def retry_or_expire_def act_bind_app)

section \<open>Failed commands\<close>

lemma ownerRetry_state: "snd (ownerRetry w rid tid cid t sid d) = d"
proof -
  have "keeps (\<lambda>d'. d' = d) (ownerRetry w rid tid cid t sid)"
    unfolding ownerRetry_def
    by (rule transact_keeps) (auto simp: act_iffs dest!: owner_guard_Inr existingManualRetry_state)
  then show ?thesis by (simp add: keeps_def)
qed

definition room_closed_in :: "db \<Rightarrow> string \<Rightarrow> bool" where
  "room_closed_in d rid \<longleftrightarrow> list_ex (\<lambda>r. r_id r = pg_uuid rid \<and> r_status r = Closed) (rooms d)"

lemma closeIfDueForOwner_Inr:
  assumes inv: "room_inv d" and run: "closeIfDueForOwner w rid tid sid d = (Inr due, d')"
  shows "case due of None \<Rightarrow> d' = d | Some v \<Rightarrow> ev_type v = ''room.closed'' \<and> actorKind v = ''system'' \<and> room_closed_in d' rid"
proof -
  from run obtain r snap c u where room: "find_room d rid = Some r" "roomSnapshot r = Inr snap"
    and g: "owner_guard w tid sid (start_ctx d snap) = (Inr (), u)" and cd: "closeDueInContext w u = (Inr due, c)" and d': "d' = ctx_db c"
    by (auto simp: closeIfDueForOwner_def transact_Inr_iff act_then_Inr_iff)
  from owner_guard_Inr [OF g] have u: "u = start_ctx d snap" by simp
  have rr: "r \<in> set (rooms d)" "r_id r = pg_uuid rid" using find_room_SomeD [OF room(1)] by auto
  show ?thesis
  proof (cases due)
    case None
    with cd u d' show ?thesis by (auto dest!: closeDueInContext_None)
  next
    case (Some v)
    with cd u closeDueInContext_Some [of w u v c] roomSnapshot_fields [OF room(2)] obtain jid closesAt corr
      where st: "r_status r = Open \<or> r_status r = Paused"
        and run': "appendAutomaticClose w (room_id snap) jid closesAt corr None (start_ctx d snap) = (Inr v, c)" by auto
    note ac = appendAutomaticClose_inv [OF inv rr(1) st room(2,1) run']
    then show ?thesis using Some rr(2) d' by (auto simp: room_closed_in_def list_ex_iff)
  qed
qed

lemma closeIfDueForOwner_Inl: "closeIfDueForOwner w rid tid sid d = (Inl e, d') \<Longrightarrow> d' = d"
  by (auto simp: closeIfDueForOwner_def dest: transact_Inl)

lemma retry_or_expire_error:
  assumes inv: "room_inv d" and run: "retry_or_expire ws rid tid cid t sid m d = (Inl e, d')"
    and m: "\<And>d e d'. m d = (Inl e, d') \<Longrightarrow> d' = d"
  shows "d' = d \<or> (e = room_error ROOM_NOT_OPEN \<and> room_closed_in d' rid)"
proof -
  obtain r1 d1 where o: "ownerRetry (ws 0) rid tid cid t sid d = (r1, d1)" by fastforce
  have d1: "d1 = d" using ownerRetry_state [of "ws 0" rid tid cid t sid d] o by simp
  obtain r2 d2 where c: "closeIfDueForOwner (ws 1) rid tid sid d = (r2, d2)" by fastforce
  show ?thesis
  proof (cases r1)
    case (Inl x)
    with o d1 run show ?thesis by (simp add: retry_or_expire_def act_bind_app)
  next
    case (Inr retry)
    show ?thesis
    proof (cases retry)
      case (Some v)
      with Inr o d1 run show ?thesis by (simp add: retry_or_expire_def act_bind_app)
    next
      case None
      show ?thesis
      proof (cases r2)
        case (Inl x)
        with None \<open>r1 = Inr retry\<close> o d1 c run show ?thesis
          by (auto simp: retry_or_expire_def act_bind_app dest: closeIfDueForOwner_Inl)
      next
        case (Inr due)
        with None \<open>r1 = Inr retry\<close> o d1 c run closeIfDueForOwner_Inr [OF inv, of "ws 1" rid tid sid due d2] m
        show ?thesis by (cases due) (auto simp: retry_or_expire_def act_bind_app)
      qed
    qed
  qed
qed

lemma route_error:
  assumes inv: "room_inv d" and run: "route att ws caller c sid d = (Inl e, d')"
  shows "d' = d \<or> (e = room_error ROOM_NOT_OPEN \<and> room_closed_in d' (c_roomId c))"
proof -
  have t: "\<And>work. transact (c_roomId c) work x = (Inl e, x') \<Longrightarrow> x' = x" for x x' e
    by (rule transact_Inl)
  note exp = retry_or_expire_error [OF inv]
  have m1: "add_message att w caller c sid d = (Inl e, d') \<Longrightarrow> d' = d" for w
    by (auto simp: add_message_def split: AuthSession.splits if_splits dest: transact_Inl)
  have m2: "revise_message w caller c sid d = (Inl e, d') \<Longrightarrow> d' = d" for w
    by (auto simp: revise_message_def split: if_splits dest: transact_Inl)
  have m3: "retract_message w caller c sid d = (Inl e, d') \<Longrightarrow> d' = d" for w
    by (auto simp: retract_message_def split: if_splits dest: transact_Inl)
  have m4: "open_room w rid tid cid sid d = (Inl e, d') \<Longrightarrow> d' = d" for w rid tid cid
    by (auto simp: open_room_def dest: transact_Inl)
  have m5: "pause ws rid tid cid sid d = (Inl e, d') \<Longrightarrow> d' = d \<or> (e = room_error ROOM_NOT_OPEN \<and> room_closed_in d' rid)"
    "resume ws rid tid cid sid d = (Inl e, d') \<Longrightarrow> d' = d \<or> (e = room_error ROOM_NOT_OPEN \<and> room_closed_in d' rid)"
    "close_room ws rid tid cid sid d = (Inl e, d') \<Longrightarrow> d' = d \<or> (e = room_error ROOM_NOT_OPEN \<and> room_closed_in d' rid)" for rid tid cid
    unfolding pause_def resume_def close_room_def simpleTransition_def by (erule exp, erule transact_Inl)+
  from run show ?thesis
    by (auto simp: route_def split: if_splits AuthSession.splits dest: m1 m2 m3 m4 m5)
qed

section \<open>Closing ends the room's work\<close>

definition active_work :: "db \<Rightarrow> string \<Rightarrow> job_row list" where
  "active_work d rid = filter (\<lambda>j. j_room j = Some (pg_uuid rid) \<and> j_status j \<in> {Queued, Retryable, Running} \<and>
     j_type j \<notin> {''analytics.consume.v1'', ''analytics.replay-room.v1''}) (jobs d)"

lemma active_work_cancel: "active_work (cancelRoomJobs rid now None d) rid = []"
  by (auto simp: active_work_def cancelRoomJobs_def cancelled_job_def filter_empty_conv)

lemma active_work_append: "active_work (append_db w jid v d) rid = active_work d rid"
  by (simp add: active_work_def analytics_job_of_def)

lemma close_in_new:
  assumes run: "close_in w rid tid cid sid (start_ctx d snap) = (Inr v, c)" and new: "ctx_db c \<noteq> d"
  shows "active_work (ctx_db c) rid = []" "ev_type v = ''room.closed''"
proof -
  let ?c0 = "start_ctx d snap" and ?f = "\<lambda>now q. q\<lparr>r_status := Closed, r_closed := Some now\<rparr>"
  from new have "c \<noteq> ?c0" by auto
  with manual_Inr(1) [OF run [unfolded close_in_def]] obtain now where none: "findOneByCausation w cid ?c0 = (Inr None, ?c0)"
    and app: "append_event w (fresh w 1) (fresh w 2) (clock w 1) (teacher_draft ''room.closed'' tid now cid (fresh w 0)
        (plain_obj [(''closedAt'', VTime (date_time now))]))
        (?c0\<lparr>ctx_db := cancelRoomJobs rid (date_time now) None (update_room rid (?f now) d)\<rparr>) = (Inr v, c)"
    by (auto simp: act_iffs validNow_Inr_iff exec_Inr_iff)
  have "findOneByCausation w cid (?c0\<lparr>ctx_db := cancelRoomJobs rid (date_time now) None (update_room rid (?f now) d)\<rparr>) =
      (Inr None, ?c0\<lparr>ctx_db := cancelRoomJobs rid (date_time now) None (update_room rid (?f now) d)\<rparr>)"
    by (rule find_none_frame [OF none]) (simp_all add: cancelRoomJobs_def)
  then have "ctx_db c = append_db w (fresh w 2) v (cancelRoomJobs rid (date_time now) None (update_room rid (?f now) d)) \<and>
      ev_type v = ''room.closed''"
    using append_event_new(3,7) [OF app [unfolded teacher_draft_def]] by simp
  then show "active_work (ctx_db c) rid = []" "ev_type v = ''room.closed''"
    by (simp_all add: active_work_append active_work_cancel)
qed

section \<open>Concurrent revisions\<close>

text \<open>The revision a message has in the ledger: that of its last version.\<close>

definition current_revision :: "db \<Rightarrow> string \<Rightarrow> string \<Rightarrow> int" where
  "current_revision d rid mid = int (length (message_rows d rid mid))"

lemma history_last_revision:
  assumes "history_from None (map version_of es)" "es \<noteq> []"
  shows "e_revision (last es) = int (length es)"
proof -
  from history_revisions [OF assms(1)] have rev: "map e_revision es = map (\<lambda>i. 1 + int i) [0..<length es]"
    by (simp add: version_of_def comp_def)
  have "e_revision (es ! (length es - 1)) = 1 + int (length es - 1)"
    using arg_cong [OF rev, of "\<lambda>l. l ! (length es - 1)"] assms(2) by simp
  moreover have "1 + int (length es - 1) = int (length es)" using assms(2) by (cases es) simp_all
  ultimately show ?thesis using assms(2) by (simp add: last_conv_nth)
qed

lemma prior_version_conflict:
  assumes inv: "room_inv d" and r: "r \<in> set (rooms d)" "room_id snap = r_id r"
    and mid: "uuid_ok mid" and rows: "message_rows d (r_id r) mid \<noteq> []"
    and live: "e_operation (last (message_rows d (r_id r) mid)) \<noteq> ''retract''"
    and al: "allowed (last (message_rows d (r_id r) mid))"
  shows "prior_version mid cmd allowed (start_ctx d snap) =
     (if c_baseRevision cmd = Some (current_revision d (r_id r) mid)
      then Inr (last (message_rows d (r_id r) mid))
      else Inl (RoomError REVISION_CONFLICT (Some (current_revision d (r_id r) mid))), start_ctx d snap)"
proof -
  note h = room_inv_history [OF inv r(1), of mid]
  have "latest_row (message_rows d (r_id r) mid) = Some (last (message_rows d (r_id r) mid))"
    using latest_row_history [OF h] rows by simp
  moreover have "e_revision (last (message_rows d (r_id r) mid)) = current_revision d (r_id r) mid"
    using history_last_revision [OF h rows] by (simp add: current_revision_def)
  ultimately show ?thesis
    using live al by (auto simp: prior_version_def latestMessage_def act_bind_app act_then_app require_app mid r(2))
qed

lemma assertWritable_runs:
  "validDate now \<Longrightarrow> status (ctx_room c) = Open \<Longrightarrow> (\<forall>t. closes_at (ctx_room c) = Some t \<longrightarrow> t > date_time now) \<Longrightarrow>
     assertWritable now c = (Inr (), c)"
  by (simp add: assertWritable_Inr)

lemma revise_conflict_aux:
  assumes inv: "room_inv d" and sv: "serviceable d (c_roomId cmd) r snap" and ct: "commandType cmd ''message.revise''"
    and auth: "authorize w caller sid (start_ctx d snap) = (Inr (), start_ctx d snap)" and st: "is_student caller"
    and new: "\<forall>e \<in> set (room_events d (r_id r)). e_causation e \<noteq> pg_uuid (c_commandId cmd)"
    and wr: "assertWritable (clock w 0) (start_ctx d snap) = (Inr (), start_ctx d snap)" and base: "base_revision_ok cmd"
    and mid: "mid = message_id_of (payload_record (c_payload cmd))" "uuid_ok mid"
    and rows: "message_rows d (r_id r) mid \<noteq> []" "e_operation (last (message_rows d (r_id r) mid)) \<noteq> ''retract''"
    and author: "e_actor (last (message_rows d (r_id r) mid)) = p_actorId caller"
    and stale: "c_baseRevision cmd \<noteq> Some (current_revision d (r_id r) mid)"
  shows "revise_message w caller cmd sid d = (Inl (RoomError REVISION_CONFLICT (Some (current_revision d (r_id r) mid))), d)"
proof -
  let ?c = "start_ctx d snap"
  from sv have r: "r \<in> set (rooms d)" "room_id snap = r_id r"
    using find_room_SomeD roomSnapshot_fields unfolding serviceable_def by blast+
  have "findOneByCausation w (c_commandId cmd) ?c = (Inr None, ?c)"
    using new ct r(2) by (auto simp: findOneByCausation_None_iff commandType_def room_events_def)
  then have mr: "message_retry w (c_commandId cmd) ''message.revised'' (p_actorId caller) ?c = (Inr None, ?c)"
    by (simp add: message_retry_def findByCausation_def schedule_def act_bind_app)
  have pv: "prior_version mid cmd (\<lambda>prior. is_student caller \<and> e_actor prior = p_actorId caller) ?c =
      (Inl (RoomError REVISION_CONFLICT (Some (current_revision d (r_id r) mid))), ?c)"
    using prior_version_conflict [OF inv r mid(2) rows, of "\<lambda>prior. is_student caller \<and> e_actor prior = p_actorId caller" cmd] stale st author
    by simp
  have "revise_in w caller cmd sid ?c = (Inl (RoomError REVISION_CONFLICT (Some (current_revision d (r_id r) mid))), ?c)"
    using pv by (simp add: revise_in_def revise_new_def act_then_app act_bind_app auth mr wr require_app base Let_def mid(1))
  then show ?thesis using ct by (simp add: revise_message_def transact_serviceable [OF sv])
qed

section \<open>Who may write\<close>

lemma authorizeStudent_rows:
  "authorizeStudent w p sid c = (Inr u, c') \<Longrightarrow> member_rows w (room_id (ctx_room c)) p sid (ctx_db c) = 1"
  by (auto simp: authorizeStudent_def act_iffs split: AuthSession.splits if_splits)

context attachment_validator
begin

lemma added_message:
  assumes run: "add_message att w caller cmd sid d = (Inr v, d')" and new: "d' \<noteq> d"
  shows "\<exists>r snap. serviceable d (c_roomId cmd) r snap \<and> r_status r = Open \<and>
     (\<forall>t. r_closes r = Some t \<longrightarrow> date_time (clock w 0) < date_time t) \<and>
     is_student caller \<and> p_roomId caller = r_id r \<and> member_rows w (r_id r) caller sid d = 1 \<and>
     ev_type v = ''message.added'' \<and> roomSeq v = r_next r \<and> actorId v = p_actorId caller \<and> causationId v = c_commandId cmd"
proof -
  from run obtain r snap c where sv: "serviceable d (c_roomId cmd) r snap"
    and in': "add_in att w caller cmd sid (start_ctx d snap) = (Inr v, c)" and d': "d' = ctx_db c"
    by (auto simp: add_message_def transact_Inr_iff serviceable_def split: AuthSession.splits if_splits)
  let ?c0 = "start_ctx d snap"
  note sf = roomSnapshot_fields [of r snap]
  from sv have rs: "roomSnapshot r = Inr snap" by (simp add: serviceable_def)
  from in' obtain retry u1 u2 where a: "authorizeStudent w caller sid ?c0 = (Inr (), u1)"
    and m: "message_retry w (c_commandId cmd) ''message.added'' (p_actorId caller) u1 = (Inr retry, u2)"
    and b: "(case retry of None \<Rightarrow> add_new att w caller cmd | Some e \<Rightarrow> ret e) u2 = (Inr v, c)"
    by (auto simp: add_in_def act_bind_Inr_iff act_then_Inr_iff)
  from authorizeStudent_Inr [OF a] message_retry_state [OF m] have u: "u1 = ?c0" "u2 = ?c0" by auto
  have rn: "retry = None" using b u d' new by (cases retry) auto
  with b u have "add_new att w caller cmd ?c0 = (Inr v, c)" by simp
  from add_new_Inr [OF this] obtain pl c1 where st: "status snap = Open"
    and cl: "\<forall>t. closes_at snap = Some t \<longrightarrow> t > date_time (clock w 0)"
    and app: "append_event w (fresh w 2) (fresh w 3) (clock w 1)
          (message_draft ''message.added'' caller ''student'' 1 ''add'' cmd (fresh w 1) pl) ?c0 = (Inr v, c1)" by auto
  have none: "findOneByCausation w (c_commandId cmd) ?c0 = (Inr None, ?c0)" using m u rn by (auto dest: message_retry_None)
  note new' = append_event_new [OF app [unfolded message_draft_def]]
  have "actorId v = p_actorId caller" using validateDraft_fields [OF new'(1)] none by auto
  then show ?thesis
    using sv st cl new'(7,9,10) none authorizeStudent_Inr [OF a] authorizeStudent_rows [OF a] sf [OF rs]
    by (intro exI [of _ r] exI [of _ snap]) auto
qed

end

end
