(* ===== verification/Room_Properties.thy ===== *)
theory Room_Properties
  imports Demo_School Room_Guarantees
begin

text \<open>
  The guarantees of the room services: each is one theorem over the model's definitions,
  with an instance on the demo school where it has hypotheses.
\<close>

section \<open>Every reachable state\<close>

text \<open>
  C3: in every state the room services can reach, each room's events are numbered
  1, 2, 3, \<open>\<dots>\<close> in commit order, the room's counter is the next number, and no command of
  the room is recorded twice.
\<close>

theorem ledger_gapless:
  assumes "reachable d" "r \<in> set (rooms d)"
  shows "map e_seq (room_events d (r_id r)) = map int [1..<Suc (length (room_events d (r_id r)))] \<and>
     r_next r = int (length (room_events d (r_id r))) + 1 \<and> distinct (map e_causation (room_events d (r_id r)))"
  using reachable_invs [OF assms(1)] ledger_invD(5,6) assms(2) by (auto simp: room_inv_def gapless_def)

theorem ledger_gapless_witness:
  "map e_seq (room_events open_db (r_id open_row)) = map int [1..<Suc (length (room_events open_db (r_id open_row)))] \<and>
     r_next open_row = int (length (room_events open_db (r_id open_row))) + 1 \<and> distinct (map e_causation (room_events open_db (r_id open_row)))"
  by (rule ledger_gapless [OF demo_open_reachable]) (simp add: open_db_room)

text \<open>
  C13: ledger, outbox and analytics queue agree row by row: the event rows are the rows of
  the outbox envelopes, every outbox row carries its own envelope, and there is exactly one
  analytics job per event, in order.
\<close>

theorem outbox_mirrors_ledger:
  assumes "reachable d"
  shows "events d = map (\<lambda>x. event_row_of (o_envelope x)) (outbox d) \<and>
     outbox d = map (\<lambda>x. outbox_row_of (o_envelope x)) (outbox d) \<and>
     map job_key (filter is_consume (jobs d)) = map event_key (events d)"
  using reachable_invs [OF assms] ledger_invD(7) by (auto simp: room_inv_def mirrored_def)

theorem outbox_mirrors_ledger_witness:
  "events open_db = map (\<lambda>x. event_row_of (o_envelope x)) (outbox open_db) \<and>
     outbox open_db = map (\<lambda>x. outbox_row_of (o_envelope x)) (outbox open_db) \<and>
     map job_key (filter is_consume (jobs open_db)) = map event_key (events open_db)"
  by (rule outbox_mirrors_ledger [OF demo_open_reachable])





text \<open>
  C15: the ledger is append-only and rooms stay: a step of the services leaves the events
  and outbox rows of the state before as a prefix of those after it, and removes no room.
\<close>

theorem ledger_append_only:
  assumes "room_step d d'"
  shows "take (length (events d)) (events d') = events d \<and> take (length (outbox d)) (outbox d') = outbox d \<and>
     set (map r_id (rooms d)) \<subseteq> set (map r_id (rooms d'))"
  using room_step_log [OF assms, of "events d" "outbox d"] room_step_rooms [OF assms] by (simp add: extends_log_def)

theorem ledger_append_only_witness:
  "take (length (events demo_db)) (events (snd (closeIfDue (demo_world CHR ''b'') (demo_id CHR ''0'') demo_db))) = events demo_db \<and>
     take (length (outbox demo_db)) (outbox (snd (closeIfDue (demo_world CHR ''b'') (demo_id CHR ''0'') demo_db))) = outbox demo_db \<and>
     set (map r_id (rooms demo_db)) \<subseteq> set (map r_id (rooms (snd (closeIfDue (demo_world CHR ''b'') (demo_id CHR ''0'') demo_db))))"
  by (rule ledger_append_only) (rule room_step.expire)

text \<open>C14: closing is final: once a room is closed, every later state has it closed.\<close>

theorem closed_is_final:
  assumes "reachable d" "room_step d d'" "r \<in> set (rooms d)" "r_status r = Closed"
  shows "\<exists>r' \<in> set (rooms d'). r_id r' = r_id r \<and> r_status r' = Closed"
  using room_step_closed reachable_invs assms by blast

theorem closed_is_final_witness:
  "\<exists>r' \<in> set (rooms (snd (closeIfDue (demo_world CHR ''c'') (demo_id CHR ''0'') closed_db))). r_id r' = r_id closed_row \<and> r_status r' = Closed"
  by (rule closed_is_final [OF demo_close_reachable(2) room_step.expire]) (simp_all add: closed_db_room)

section \<open>Reading the ledger\<close>

text \<open>
  C10: \<^verbatim>\<open>eventsAfter\<close> refines reading a page of the room's abstract log: after sequence
  number \<open>a\<close> it returns the next \<open>n\<close> committed envelopes, in order and without a gap,
  when all of them are readable, and fails as a whole otherwise. It changes nothing.
\<close>

theorem eventsAfter_refines_page:
  assumes "reachable d" "find_room d rid = Some r" "uuid_ok rid" "int a \<le> max_safe_integer" "1 \<le> n" "n \<le> 500"
  shows "eventsAfter w rid (int a) n d =
     (if list_all (readable w) (take (nat n) (drop a (ledger_log d (r_id r))))
      then Inr (take (nat n) (drop a (ledger_log d (r_id r))))
      else Inl (Failure ''INVALID_STORED_ROOM_EVENT''), d)"
  using eventsAfter_page [OF _ assms(2-6)] reachable_invs [OF assms(1)] by (auto simp: room_inv_def page_def)

theorem eventsAfter_refines_page_witness:
  "eventsAfter (demo_world CHR ''a'') (demo_id CHR ''0'') 0 100 open_db = (Inr [opened_event], open_db)"
  using eventsAfter_refines_page [OF demo_open_reachable open_db_find, of 0 100 "demo_world CHR ''a''"]
  by (simp add: demo_pg max_safe_integer_def open_db_room(2) open_db_log open_readable)

text \<open>
  C40: a committed event whose command id, actor or correlation id is not in the canonical
  lower-case form of a \<^verbatim>\<open>uuid\<close> column makes every page that contains it fail: the envelope in
  the outbox keeps the client's spelling, the ledger row does not, and \<^verbatim>\<open>parseStoredEvent\<close>
  compares them. The command schema and \<^verbatim>\<open>UUID_PATTERN\<close> accept upper-case ids.
\<close>

theorem noncanonical_event_poisons_page:
  assumes "reachable d" "find_room d rid = Some r" "uuid_ok rid" "int a \<le> max_safe_integer" "1 \<le> n" "n \<le> 500"
    and "v \<in> set (take (nat n) (drop a (ledger_log d (r_id r))))" "pg_uuid (causationId v) \<noteq> causationId v"
  shows "eventsAfter w rid (int a) n d = (Inl (Failure ''INVALID_STORED_ROOM_EVENT''), d)"
proof -
  have "\<not> readable w v" using assms(8) by (simp add: readable_def canonical_envelope_def canonical_def)
  with assms(7) have "\<not> list_all (readable w) (page d (r_id r) a (nat n))" by (auto simp: list_all_iff page_def)
  then show ?thesis
    using eventsAfter_page [OF _ assms(2-6)] reachable_invs [OF assms(1)] by (simp add: room_inv_def)
qed

definition upper_id :: string where
  "upper_id = ''0000000D-0000-4000-8000-000000000000''"

definition upper_event :: envelope where
  "upper_event = opened_event\<lparr>causationId := upper_id\<rparr>"

definition upper_db :: db where
  "upper_db = open_db\<lparr>events := [event_row_of upper_event], outbox := [outbox_row_of upper_event]\<rparr>"

lemma upper_id_facts: "uuid_ok upper_id" "pg_uuid upper_id = demo_ev CHR ''d'' CHR ''0''" "upper_id \<noteq> demo_ev CHR ''d'' CHR ''0''"
  by code_simp+

lemma upper_opens:
  "open_room (demo_world CHR ''a'') (demo_id CHR ''0'') demo_teacher upper_id None demo_db = (Inr upper_event, upper_db)"
  by (simp add: open_room_def transact_def find_room_def deletion_active_def new_room_row_def demo_pg roomSnapshot_def dateText_def
    safePositiveInteger_def max_safe_integer_def demo_aw_def open_in_def run_defs insert_defs demo_db_def policy_db_def empty_db_def
    demo_teacher_def demo_world_def demo_ids_pg demo_clone Let_def ROOM_DURATION_MS_def event_row_of_def outbox_row_of_def
    analytics_job_of_def auto_close_job_def opened_event_def open_db_def upper_event_def upper_db_def upper_id_facts)

lemma upper_reachable: "reachable upper_db"
proof -
  let ?c = "open_command\<lparr>c_commandId := upper_id\<rparr>"
  have "dispatch (\<lambda>_. Some ?c) noAttachments (\<lambda>_. demo_world CHR ''a'') (Teacher demo_teacher demo_teacher)
     (plain_obj [(''roomId'', VStr (demo_id CHR ''0''))]) None demo_db = (Inr upper_event, upper_db)"
    by (simp add: dispatch_def route_def open_command_def plain_obj_def upper_opens)
  moreover have "fresh_message (demo_world CHR ''a'') demo_db" by (simp add: fresh_message_def demo_db_def policy_db_def empty_db_def)
  then have "room_step demo_db (snd (dispatch (\<lambda>_. Some ?c) noAttachments (\<lambda>_. demo_world CHR ''a'') (Teacher demo_teacher demo_teacher)
     (plain_obj [(''roomId'', VStr (demo_id CHR ''0''))]) None demo_db))"
    by (intro room_step.command) simp_all
  ultimately show ?thesis using reachable.step [OF demo_reachable(2)] by simp
qed

theorem noncanonical_event_poisons_page_witness:
  "eventsAfter (demo_world CHR ''a'') (demo_id CHR ''0'') 0 100 upper_db = (Inl (Failure ''INVALID_STORED_ROOM_EVENT''), upper_db)"
proof -
  have f: "find_room upper_db (demo_id CHR ''0'') = Some open_row" using open_db_find by (simp add: find_room_def upper_db_def)
  have l: "ledger_log upper_db (demo_id CHR ''0'') = [upper_event]"
    by (simp add: ledger_log_def upper_db_def outbox_row_of_def upper_event_def opened_event_def demo_pg)
  have "pg_uuid (causationId upper_event) \<noteq> causationId upper_event"
    using upper_id_facts(2,3) by (simp add: upper_event_def)
  then show ?thesis
    using noncanonical_event_poisons_page [OF upper_reachable f, of 0 100 upper_event "demo_world CHR ''a''"]
    by (simp add: demo_pg max_safe_integer_def open_db_room(2) l)
qed

section \<open>Commands\<close>

text \<open>
  C17: an owner command that is sent again is answered with the event its first run
  committed, and nothing changes: opening, pausing, resuming and closing are idempotent
  under the command id.
\<close>

theorem repeated_owner_command:
  assumes "room_inv d" "serviceable d rid r snap" "uuid_ok cid"
    and "owner_guard (ws 0) tid sid (start_ctx d snap) = (Inr (), start_ctx d snap)"
    and "v \<in> set (ledger_log d (r_id r))" "answers v t rid tid cid" "readable (ws 0) v"
  shows "(t = ''room.opened'' \<longrightarrow> open_room (ws 0) rid tid cid sid d = (Inr v, d)) \<and>
    (t = ''room.paused'' \<longrightarrow> pause ws rid tid cid sid d = (Inr v, d)) \<and>
    (t = ''room.resumed'' \<longrightarrow> resume ws rid tid cid sid d = (Inr v, d)) \<and>
    (t = ''room.closed'' \<longrightarrow> close_room ws rid tid cid sid d = (Inr v, d))"
  using repeated_owner_command_aux [where ws = ws, OF assms] by blast

theorem repeated_owner_command_witness:
  "open_room (demo_world CHR ''c'') (demo_id CHR ''0'') demo_teacher (demo_ev CHR ''d'' CHR ''0'') None open_db = (Inr opened_event, open_db)"
proof -
  have sv: "serviceable open_db (demo_id CHR ''0'') open_row open_snap"
    by (simp add: serviceable_def demo_pg open_db_find open_db_room(2) open_row_fields deletion_active_def)
       (simp add: open_db_def demo_db_def policy_db_def empty_db_def)
  have og: "owner_guard (demo_world CHR ''c'') demo_teacher None (start_ctx open_db open_snap) = (Inr (), start_ctx open_db open_snap)"
    by (simp add: run_defs open_snap_def)
  have an: "answers opened_event ''room.opened'' (demo_id CHR ''0'') demo_teacher (demo_ev CHR ''d'' CHR ''0'')"
    by (simp add: answers_def opened_event_def)
  have inv: "room_inv open_db" using reachable_invs [OF demo_open_reachable] by blast
  show ?thesis
    using repeated_owner_command [where ws = "\<lambda>_. demo_world CHR ''c''", OF inv sv _ og _ an open_readable] by (simp add: demo_ids_pg open_db_room(2) open_db_log)
qed



text \<open>
  C28: a committed close leaves no job of the room queued, retryable or running, except the
  analytics jobs that must still consume its ledger.
\<close>

theorem close_cancels_work:
  assumes "transact rid (close_in w rid tid cid sid) d = (Inr v, d')" "d' \<noteq> d"
  shows "filter (\<lambda>j. j_room j = Some (pg_uuid rid) \<and> j_status j \<in> {Queued, Retryable, Running} \<and>
     j_type j \<notin> {''analytics.consume.v1'', ''analytics.replay-room.v1''}) (jobs d') = []"
  using assms close_in_new(1) by (auto simp: transact_Inr_iff active_work_def)

theorem close_cancels_work_witness:
  "filter (\<lambda>j. j_room j = Some (pg_uuid (demo_id CHR ''0'')) \<and> j_status j \<in> {Queued, Retryable, Running} \<and>
     j_type j \<notin> {''analytics.consume.v1'', ''analytics.replay-room.v1''}) (jobs closed_db) = []"
proof (rule close_cancels_work)
  show "transact (demo_id CHR ''0'') (close_in (demo_world CHR ''b'') (demo_id CHR ''0'') demo_teacher (demo_ev CHR ''d'' CHR ''1'') None) open_db = (Inr closed_event, closed_db)"
    by (rule demo_close_commits)
  show "closed_db \<noteq> open_db" using closed_db_room open_db_room by auto
qed

text \<open>
  C25: concurrent revisions conflict: a student's revision whose base is not the current
  revision of the message is refused with \<^verbatim>\<open>REVISION_CONFLICT\<close> and the current revision,
  which is the number of its versions, and nothing is written.
\<close>

theorem stale_revision_conflicts:
  assumes "room_inv d" "serviceable d (c_roomId cmd) r snap" "commandType cmd ''message.revise''"
    and "authorize w caller sid (start_ctx d snap) = (Inr (), start_ctx d snap)" "is_student caller"
    and "\<forall>e \<in> set (room_events d (r_id r)). e_causation e \<noteq> pg_uuid (c_commandId cmd)"
    and "assertWritable (clock w 0) (start_ctx d snap) = (Inr (), start_ctx d snap)" "base_revision_ok cmd"
    and "mid = message_id_of (payload_record (c_payload cmd))" "uuid_ok mid"
    and "message_rows d (r_id r) mid \<noteq> []" "e_operation (last (message_rows d (r_id r) mid)) \<noteq> ''retract''"
    and "e_actor (last (message_rows d (r_id r) mid)) = p_actorId caller"
    and "c_baseRevision cmd \<noteq> Some (int (length (message_rows d (r_id r) mid)))"
  shows "revise_message w caller cmd sid d = (Inl (RoomError REVISION_CONFLICT (Some (int (length (message_rows d (r_id r) mid))))), d)"
  using revise_conflict_aux [OF assms(1-13)] assms(14) by (simp add: current_revision_def)

definition stale_command :: RoomCommand where
  "stale_command = \<lparr>c_commandId = demo_ev CHR ''d'' CHR ''3'', c_roomId = demo_id CHR ''0'', c_type = ''message.revise'',
     c_clientTime = At 1996, c_baseRevision = Some 5, c_payload = plain_obj [(''messageId'', VStr (demo_ev CHR ''c'' CHR ''0''))]\<rparr>"

theorem stale_revision_conflicts_witness:
  "revise_message (demo_world CHR ''b'') demo_student stale_command None message_db = (Inl (RoomError REVISION_CONFLICT (Some 1)), message_db)"
proof -
  let ?w = "demo_world CHR ''b''" and ?c = "start_ctx message_db message_snap"
  have inv: "room_inv message_db" using reachable_invs [OF demo_message_reachable] by blast
  have rooms: "rooms message_db = [message_row]" by (simp add: message_db_def)
  have sv: "serviceable message_db (c_roomId stale_command) message_row message_snap"
    by (simp add: serviceable_def stale_command_def demo_pg find_room_def rooms message_row_fields deletion_active_def)
       (simp add: message_db_def open_db_def demo_db_def policy_db_def empty_db_def)
  have "member_rows ?w (demo_id CHR ''0'') demo_student None message_db = 1"
    using demo_member [of ?w] by (simp add: member_rows_def message_db_def)
  then have au: "authorize ?w demo_student None ?c = (Inr (), ?c)"
    by (simp add: authorize_def authorizeStudent_def act_bind_app require_app message_snap_def open_snap_def demo_student_def)
  have wr: "assertWritable (clock ?w 0) ?c = (Inr (), ?c)"
    by (simp add: assertWritable_Inr message_snap_def open_snap_def demo_world_def)
  have evs: "\<forall>e \<in> set (room_events message_db (r_id message_row)). e_causation e \<noteq> pg_uuid (c_commandId stale_command)"
    by (simp add: room_events_def message_db_def event_row_of_def opened_event_def message_event_def stale_command_def demo_ids_pg message_row_fields)
  have mid: "message_id_of (payload_record (c_payload stale_command)) = demo_ev CHR ''c'' CHR ''0''"
    by (simp add: stale_command_def message_id_of_def payload_record_def plain_obj_def)
  show ?thesis
    using stale_revision_conflicts [OF inv sv _ au _ evs wr _ refl, unfolded mid]
    by (simp add: message_row_fields message_db_rows commandType_def base_revision_ok_def max_safe_integer_def
        stale_command_def demo_ids_pg demo_student_def event_row_of_def message_event_def)
qed



section \<open>Admission\<close>

text \<open>
  C27: in every reachable state room codes are unique, and every room has exactly four
  seats with pairwise distinct code hashes.
\<close>

theorem rooms_have_four_seats:
  assumes "reachable d"
  shows "distinct (map r_code_hash (rooms d)) \<and>
     (\<forall>r \<in> set (rooms d). length (seats_of d (r_id r)) = 4 \<and> distinct (map m_code_hash (seats_of d (r_id r))))"
  using reachable_invs [OF assms] by (auto simp: seats_inv_def)

theorem rooms_have_four_seats_witness:
  "length (seats_of demo_db (demo_id CHR ''0'')) = 4 \<and> distinct (map m_code_hash (seats_of demo_db (demo_id CHR ''0'')))"
  using rooms_have_four_seats [OF demo_reachable(2)] by (simp add: demo_db_def new_room_row_def demo_pg)

text \<open>
  C11: a created room can be joined: the room code with any of the four seat codes that
  \<^verbatim>\<open>createRoom\<close> returned, in any letter case and with surrounding blanks, admits exactly that
  seat. No assumption on HMAC beyond its length is needed, since the uniqueness
  constraints rule out collisions.
\<close>

theorem created_room_can_be_joined:
  assumes "reachable d" "hasher_ok h" "digest_size (aw_hmac w)"
    and "createRoom w h identity v d = (Inr resp, d')" "si \<in> set (cr_seats resp)"
    and "aw_hmac w' = aw_hmac w" "parseJoinRoomRequest w' v' = Some (roomCode, seat)"
    and "normalize_code roomCode = normalize_code (cr_roomCode resp)" "normalize_code seat = normalize_code (si_code si)"
    and "can_issue w' d' \<lparr>jr_member = pg_uuid (si_member si), jr_actor = pg_uuid (si_actor si), jr_pseudonym = si_pseudonym si\<rparr>"
  shows "\<exists>d''. joinRoom w' h v' d' = (Inr (\<lparr>jr_member = pg_uuid (si_member si), jr_actor = pg_uuid (si_actor si), jr_pseudonym = si_pseudonym si\<rparr>, aw_token w'), d'')"
  using create_then_join_aux [OF _ _ assms(2-10)] reachable_invs [OF assms(1)] by blast

theorem created_room_can_be_joined_witness:
  "\<exists>d''. joinRoom demo_aw demo_hasher VNull demo_db =
     (Inr (\<lparr>jr_member = demo_id CHR ''6'', jr_actor = demo_id CHR ''7'', jr_pseudonym = STUDENT_PSEUDONYMS ! 2\<rparr>, ''t''), d'')"
proof -
  let ?si = "\<lparr>si_member = demo_id CHR ''6'', si_actor = demo_id CHR ''7'', si_pseudonym = STUDENT_PSEUDONYMS ! 2, si_code = ''SC''\<rparr>"
  have si: "?si \<in> set (cr_seats demo_response)" by (simp add: demo_response_def demo_invites_def)
  have ci: "can_issue demo_aw demo_db \<lparr>jr_member = pg_uuid (si_member ?si), jr_actor = pg_uuid (si_actor ?si), jr_pseudonym = si_pseudonym ?si\<rparr>"
    by (simp add: can_issue_def demo_aw_def demo_db_def policy_db_def empty_db_def)
  have hm: "digest_size (aw_hmac demo_aw)" using demo_hasher_ok(2) by (simp add: demo_aw_def)
  have pj: "parseJoinRoomRequest demo_aw VNull = Some (''roomaa'', ''SC'')" by (simp add: demo_aw_def)
  show ?thesis
    using created_room_can_be_joined [OF demo_reachable(1) demo_hasher_ok(1) hm demo_creates [unfolded demo_created_def] si refl pj _ _ ci]
    by (simp add: demo_normal demo_response_def demo_pg) (simp add: demo_aw_def)
qed

text \<open>
  C26: a successful join leaves the seat with exactly one live session, the new one, valid
  for eight hours; every earlier session of the seat is revoked.
\<close>

theorem join_replaces_sessions:
  assumes "joinRoom w h v d = (Inr (resp, tok), d')"
  shows "\<exists>sid. filter (\<lambda>s. s_kind s = StudentKind \<and> s_member s = Some (jr_member resp) \<and> s_revoked s = None) (sessions d') =
     [\<lparr>s_id = sid, s_token_hash = aw_tokenHash w tok, s_kind = StudentKind, s_teacher = None,
       s_member = Some (jr_member resp), s_expires = date_time (aw_now w) + 8 * 60 * 60 * 1000, s_revoked = None,
       s_created = date_time (aw_now w)\<rparr>]"
  using join_single_live [OF assms] by (simp add: live_seat_sessions_def SESSION_DURATION_MS_def)

theorem join_replaces_sessions_witness:
  "\<exists>d'' sid. joinRoom demo_aw demo_hasher VNull demo_db =
     (Inr (\<lparr>jr_member = demo_id CHR ''6'', jr_actor = demo_id CHR ''7'', jr_pseudonym = STUDENT_PSEUDONYMS ! 2\<rparr>, ''t''), d'') \<and>
   filter (\<lambda>s. s_kind s = StudentKind \<and> s_member s = Some (demo_id CHR ''6'') \<and> s_revoked s = None) (sessions d'') =
     [\<lparr>s_id = sid, s_token_hash = [116], s_kind = StudentKind, s_teacher = None,
       s_member = Some (demo_id CHR ''6''), s_expires = 1000 + 8 * 60 * 60 * 1000, s_revoked = None, s_created = 1000\<rparr>]"
proof -
  from demo_join obtain d'' where j: "joinRoom demo_aw demo_hasher VNull demo_db =
     (Inr (\<lparr>jr_member = demo_id CHR ''6'', jr_actor = demo_id CHR ''7'', jr_pseudonym = STUDENT_PSEUDONYMS ! 2\<rparr>, ''t''), d'')" by blast
  from join_replaces_sessions [OF j] j show ?thesis by (simp add: demo_aw_def)
qed

text \<open>
  C33: \<^verbatim>\<open>createRoom\<close> always returns or throws: its loops over the generators end whenever
  the generators keep drawing values outside any finite set.
\<close>

theorem createRoom_terminates:
  assumes "productive (aw_uuid w)" "productive (aw_seatCode w)"
  shows "fst (createRoom w h identity v d) \<noteq> Inl Diverges"
  by (rule createRoom_not_diverges [OF assms])

definition counting :: "nat \<Rightarrow> string" where
  "counting i = replicate i CHR ''x''"

theorem createRoom_terminates_witness:
  "fst (createRoom (demo_aw\<lparr>aw_uuid := counting, aw_seatCode := counting\<rparr>) demo_hasher (Teacher demo_teacher demo_teacher) VNull policy_db) \<noteq> Inl Diverges"
proof -
  have "\<exists>j \<ge> i. counting j \<notin> set used" for used :: "string list" and i
  proof -
    have "inj_on counting {i..}" by (auto simp: inj_on_def counting_def)
    then have "infinite (counting ` {i..})" using infinite_Ici [of i] finite_imageD by blast
    then have "\<not> counting ` {i..} \<subseteq> set used" by (meson List.finite_set finite_subset)
    then show ?thesis by auto
  qed
  then have "productive counting" by (simp add: productive_def)
  then show ?thesis by (intro createRoom_terminates) simp_all
qed

text \<open>
  C32: verifying a code against a stored hash is the same as finding that hash among the
  candidates under all configured peppers: the admission query and the seat comparison
  agree, across pepper rotations.
\<close>

theorem verify_agrees_with_candidates:
  assumes "mk_CodeHasher current ps = Inr h" "digest_size hm" "candidateHashes hm h s = Inr bs"
  shows "verify hm h s stored \<longleftrightarrow> stored \<in> set bs"
  by (rule verify_iff_candidate [OF mk_CodeHasher_ok [OF assms(1)] assms(2,3)])

theorem verify_agrees_with_candidates_witness:
  "verify demo_hmac demo_hasher ''sa'' (demo_hash ''SA'') \<longleftrightarrow> demo_hash ''SA'' \<in> set [demo_hash (normalize_code ''sa'')]"
proof (rule verify_agrees_with_candidates [OF _ demo_hasher_ok(2) demo_candidates])
  show "mk_CodeHasher 1 [(1, replicate 32 7)] = Inr demo_hasher"
    by (simp add: mk_CodeHasher_def assertVersion_def MINIMUM_PEPPER_BYTES_def jm_has_def jm_get_def demo_hasher_def jm_keys_def)
qed

section \<open>Payloads\<close>

text \<open>
  C34: \<^verbatim>\<open>clonePlainJsonData\<close> succeeds exactly on plain data without shared or cyclic
  references, no deeper than 32 levels and within 10000 budget units, and then returns the
  same data.
\<close>

theorem clone_accepts_exactly_plain_data:
  "clone_payload v = Inr j \<longleftrightarrow>
     content v = Some j \<and> depth_fits v 0 \<and> distinct (idents v) \<and> json_cost v \<le> 10000"
  by (simp add: clone_payload_iff MAX_JSON_UNITS_def)

end
