(* ===== verification/Delivery_Access.thy ===== *)
theory Delivery_Access
  imports Room_Messages
begin

text \<open>
  Who may read a room's events: \<^verbatim>\<open>SessionService\<close> of \<^verbatim>\<open>apps/server/src/modules/auth\<close>,
  \<^verbatim>\<open>RealtimeDeliveryAuthorizer\<close>, \<^verbatim>\<open>room-event-http-access.ts\<close> and
  \<^verbatim>\<open>projection-delivery-decision.ts\<close> of \<^verbatim>\<open>modules/realtime\<close>. Authorization is read again
  from the database for every delivery.
\<close>

section \<open>Sessions\<close>

text \<open>
  The database time, SHA-256 of a cookie, PostgreSQL's reading of a \<^verbatim>\<open>uuid\<close> parameter (an
  error when it is none) and the session schema.
\<close>

record access_world =
  xw_now :: int
  xw_tokenHash :: "string \<Rightarrow> nat list"
  xw_uuid :: "string \<Rightarrow> string option"
  xw_session_ok :: "AuthSession \<Rightarrow> string \<Rightarrow> string \<Rightarrow> bool"

definition live_session :: "access_world \<Rightarrow> session_row \<Rightarrow> bool" where
  "live_session w s \<longleftrightarrow> s_revoked s = None \<and> s_expires s > xw_now w"

definition token_sessions :: "access_world \<Rightarrow> string \<Rightarrow> db \<Rightarrow> session_row list" where
  "token_sessions w token d = filter (\<lambda>s. s_token_hash s = xw_tokenHash w token \<and> live_session w s) (sessions d)"

definition unusable :: "string option \<Rightarrow> bool" where
  "unusable token = (case token of None \<Rightarrow> True | Some t \<Rightarrow> t = '''' \<or> length t > 512)"

definition getSessionId :: "access_world \<Rightarrow> string option \<Rightarrow> db \<Rightarrow> string option" where
  "getSessionId w token d = (if unusable token then None
     else case token_sessions w (the token) d of [] \<Rightarrow> None | s # _ \<Rightarrow> Some (s_id s))"

text \<open>\<^verbatim>\<open>authContract.parseSession\<close> on the two shapes the services build.\<close>

definition teacher_principal :: "access_world \<Rightarrow> string \<Rightarrow> failure + AuthSession" where
  "teacher_principal w tid = (let p = Teacher tid tid in
     if xw_session_ok w p '''' '''' then Inr p else Inl (Failure ''INVALID_AUTH_SESSION''))"

definition student_principal :: "access_world \<Rightarrow> string \<Rightarrow> member_row \<Rightarrow> room_row \<Rightarrow> failure + AuthSession" where
  "student_principal w rid m r = (let p = Student rid (m_id m) (m_actor m) in
     if xw_session_ok w p (m_pseudonym m) (r_nova r) then Inr p else Inl (Failure ''INVALID_AUTH_SESSION''))"

text \<open>The left joins to the member and the room of a session.\<close>

definition session_members :: "session_row \<Rightarrow> db \<Rightarrow> member_row option list" where
  "session_members s d = (case filter (\<lambda>m. Some (m_id m) = s_member s) (members d) of [] \<Rightarrow> [None] | ms \<Rightarrow> map Some ms)"

definition session_get :: "access_world \<Rightarrow> string option \<Rightarrow> db \<Rightarrow> failure + AuthSession option" where
  "session_get w token d =
     (if unusable token then Inr None
      else case token_sessions w (the token) d of
        [] \<Rightarrow> Inr None
      | s # _ \<Rightarrow>
          (case (s_kind s, s_teacher s) of
             (TeacherKind, Some tid) \<Rightarrow> (if tid \<noteq> '''' then map_sum id Some (teacher_principal w tid) else Inr None)
           | _ \<Rightarrow>
             (case hd (session_members s d) of
                None \<Rightarrow> Inr None
              | Some m \<Rightarrow> (case find (\<lambda>r. r_id r = m_room m) (rooms d) of
                   None \<Rightarrow> Inr None
                 | Some r \<Rightarrow>
                     if m_room m = '''' \<or> m_id m = '''' \<or> m_actor m = '''' \<or> m_pseudonym m = '''' \<or> r_nova r = '''' then Inr None
                     else map_sum id Some (student_principal w (m_room m) m r)))))"

definition session_revoke :: "access_world \<Rightarrow> string option \<Rightarrow> db \<Rightarrow> db" where
  "session_revoke w token d = (if unusable token then d
     else d\<lparr>sessions := map (\<lambda>s. if s_token_hash s = xw_tokenHash w (the token) \<and> s_revoked s = None
       then s\<lparr>s_revoked := Some (xw_now w)\<rparr> else s) (sessions d)\<rparr>)"

section \<open>Authorization of a delivery\<close>

datatype TokenAuthorization = TokenGranted string AuthSession string | TokenRefused int

datatype DeliveryAuthorization = Granted AuthSession string | Refused int

text \<open>The joined rows of the two queries: session, member and the room asked for.\<close>

definition room_rows :: "access_world \<Rightarrow> (session_row \<Rightarrow> bool) \<Rightarrow> string \<Rightarrow> db \<Rightarrow> (session_row \<times> member_row option \<times> room_row) list" where
  "room_rows w wanted rid d = concat (map (\<lambda>s.
     if wanted s \<and> live_session w s then
       concat (map (\<lambda>m. map (\<lambda>r. (s, m, r))
         (filter (\<lambda>r. ((\<exists>x. m = Some x \<and> r_id r = m_room x) \<or> (s_kind s = TeacherKind \<and> Some (r_teacher r) = s_teacher s)) \<and>
            r_id r = rid \<and> (s_kind s = TeacherKind \<longrightarrow> Some (r_teacher r) = s_teacher s)) (rooms d)))
         (session_members s d))
     else []) (sessions d))"

text \<open>What the row grants; \<open>rid\<close> is the text of the request.\<close>

definition row_grant :: "access_world \<Rightarrow> string \<Rightarrow> session_row \<times> member_row option \<times> room_row \<Rightarrow> failure + DeliveryAuthorization" where
  "row_grant w rid row = (case row of (s, m, r) \<Rightarrow>
     (case (s_kind s, s_teacher s) of
        (TeacherKind, Some tid) \<Rightarrow>
          (if tid \<noteq> '''' then map_sum id (\<lambda>p. Granted p tid) (teacher_principal w tid) else Inr (Refused 4403))
      | _ \<Rightarrow>
        (case m of
           None \<Rightarrow> Inr (Refused 4403)
         | Some x \<Rightarrow>
             if m_room x \<noteq> rid \<or> m_id x = '''' \<or> m_actor x = '''' \<or> m_pseudonym x = '''' \<or> r_nova r = '''' then Inr (Refused 4403)
             else map_sum id (\<lambda>p. Granted p (m_actor x)) (student_principal w rid x r))))"

definition authenticate :: "access_world \<Rightarrow> bool \<Rightarrow> string option \<Rightarrow> string \<Rightarrow> db \<Rightarrow> failure + TokenAuthorization" where
  "authenticate w rejectClosedRoom token rid d =
     (if unusable token then Inr (TokenRefused 4401)
      else case xw_uuid w rid of None \<Rightarrow> Inl (Failure ''22P02'') | Some u \<Rightarrow>
       (case room_rows w (\<lambda>s. s_token_hash s = xw_tokenHash w (the token)) u d of
          [] \<Rightarrow> Inr (TokenRefused 4401)
        | (s, m, r) # _ \<Rightarrow>
            if deletion_active d (r_id r) then Inr (TokenRefused 4410)
            else if rejectClosedRoom \<and> r_status r = Closed then Inr (TokenRefused 4410)
            else (case row_grant w rid (s, m, r) of
                Inl e \<Rightarrow> Inl e
              | Inr (Granted p actor) \<Rightarrow> Inr (TokenGranted (s_id s) p actor)
              | Inr (Refused c) \<Rightarrow> Inr (TokenRefused c))))"

definition authenticateToken :: "access_world \<Rightarrow> string option \<Rightarrow> string \<Rightarrow> db \<Rightarrow> failure + TokenAuthorization" where
  "authenticateToken w = authenticate w False"

definition authenticateWebSocketToken :: "access_world \<Rightarrow> string option \<Rightarrow> string \<Rightarrow> db \<Rightarrow> failure + TokenAuthorization" where
  "authenticateWebSocketToken w = authenticate w True"

definition reauthorize :: "access_world \<Rightarrow> string \<Rightarrow> string \<Rightarrow> db \<Rightarrow> failure + DeliveryAuthorization" where
  "reauthorize w sid rid d =
     (if \<not> list_ex (\<lambda>s. s_id s = sid \<and> live_session w s) (sessions d) then Inr (Refused 4401)
      else case xw_uuid w rid of None \<Rightarrow> Inl (Failure ''22P02'') | Some u \<Rightarrow>
       (case room_rows w (\<lambda>s. s_id s = sid) u d of
          [] \<Rightarrow> Inr (Refused 4403)
        | (s, m, r) # _ \<Rightarrow> if deletion_active d (r_id r) then Inr (Refused 4410) else row_grant w rid (s, m, r)))"

definition roomEventHttpAccessFailure :: "TokenAuthorization \<Rightarrow> (nat \<times> string) option" where
  "roomEventHttpAccessFailure a = (case a of TokenGranted _ _ _ \<Rightarrow> None | TokenRefused _ \<Rightarrow> Some (404, ''ROOM_NOT_FOUND''))"

text \<open>An \<^verbatim>\<open>AnalyticsPolicyError\<close> with its status and code, or any other error.\<close>

datatype ProjectionDeliveryDecision = AllowDelivery | DenyDelivery "int option"

definition projectionDeliveryFailureDecision :: "(nat \<times> string) option \<Rightarrow> ProjectionDeliveryDecision" where
  "projectionDeliveryFailureDecision e = (case e of
     None \<Rightarrow> DenyDelivery None
   | Some (http, c) \<Rightarrow>
       if http = 401 \<and> c = ''AUTH_REQUIRED'' then DenyDelivery (Some 4401)
       else if http = 404 \<and> c = ''ROOM_NOT_FOUND'' then DenyDelivery (Some 4403)
       else if http = 410 \<and> c = ''ROOM_DELETION_IN_PROGRESS'' then DenyDelivery (Some 4410)
       else DenyDelivery None)"

section \<open>What a grant rests on\<close>

text \<open>The seat or the ownership that lets a session read a room.\<close>

definition entitled :: "access_world \<Rightarrow> db \<Rightarrow> session_row \<Rightarrow> string \<Rightarrow> AuthSession \<Rightarrow> string \<Rightarrow> bool" where
  "entitled w d s rid p actor \<longleftrightarrow> s \<in> set (sessions d) \<and> live_session w s \<and>
     (\<exists>r \<in> set (rooms d). xw_uuid w rid = Some (r_id r) \<and> \<not> deletion_active d (r_id r) \<and>
        (p = Teacher (r_teacher r) (r_teacher r) \<and> actor = r_teacher r \<and> s_teacher s = Some (r_teacher r) \<or>
         (\<exists>m \<in> set (members d). s_member s = Some (m_id m) \<and> m_room m = rid \<and> r_id r = rid \<and>
            p = Student rid (m_id m) (m_actor m) \<and> actor = m_actor m)))"

lemma session_members_mem: "Some m \<in> set (session_members s d) \<Longrightarrow> m \<in> set (members d) \<and> s_member s = Some (m_id m)"
proof -
  assume "Some m \<in> set (session_members s d)"
  then have "m \<in> set (filter (\<lambda>m. Some (m_id m) = s_member s) (members d))"
    unfolding session_members_def by (cases "filter (\<lambda>m. Some (m_id m) = s_member s) (members d)") auto
  then show ?thesis by auto
qed

lemma room_rows_mem:
  assumes "(s, m, r) \<in> set (room_rows w wanted u d)"
  shows "s \<in> set (sessions d)" "wanted s" "live_session w s" "r \<in> set (rooms d)" "r_id r = u" "m \<in> set (session_members s d)"
    "s_kind s = TeacherKind \<Longrightarrow> s_teacher s = Some (r_teacher r)"
    "s_kind s = StudentKind \<Longrightarrow> \<exists>x. m = Some x \<and> r_id r = m_room x"
  using assms by (auto simp: room_rows_def split: if_splits)

lemma row_grant_entitled:
  assumes row: "(s, m, r) \<in> set (room_rows w wanted u d)" and u: "xw_uuid w rid = Some u" and del: "\<not> deletion_active d (r_id r)"
    and g: "row_grant w rid (s, m, r) = Inr (Granted p actor)"
  shows "entitled w d s rid p actor"
proof (cases "s_kind s")
  case TeacherKind
  have t: "s_teacher s = Some (r_teacher r)" using room_rows_mem(7) [OF row TeacherKind] .
  then have "p = Teacher (r_teacher r) (r_teacher r) \<and> actor = r_teacher r"
    using g TeacherKind by (auto simp: row_grant_def teacher_principal_def Let_def split: if_splits)
  then show ?thesis using t room_rows_mem(1,3,4,5) [OF row] u del by (auto simp: entitled_def)
next
  case StudentKind
  then obtain x where x: "m = Some x" "r_id r = m_room x" using room_rows_mem(8) [OF row] by blast
  have "m_room x = rid \<and> p = Student rid (m_id x) (m_actor x) \<and> actor = m_actor x"
    using g StudentKind x(1) by (auto simp: row_grant_def student_principal_def Let_def split: if_splits)
  then show ?thesis using x session_members_mem [of x s d] room_rows_mem(1,3,4,5,6) [OF row] u del by (auto simp: entitled_def)
qed

lemma reauthorize_granted:
  assumes "reauthorize w sid rid d = Inr (Granted p actor)"
  shows "\<exists>s. s_id s = sid \<and> entitled w d s rid p actor"
proof -
  from assms obtain u s m r rest where c: "xw_uuid w rid = Some u" "room_rows w (\<lambda>s. s_id s = sid) u d = (s, m, r) # rest"
    "\<not> deletion_active d (r_id r)" "row_grant w rid (s, m, r) = Inr (Granted p actor)"
    by (auto simp: reauthorize_def split: if_splits option.splits list.splits prod.splits)
  then have row: "(s, m, r) \<in> set (room_rows w (\<lambda>s. s_id s = sid) u d)" by simp
  show ?thesis using row_grant_entitled [OF row c(1,3,4)] room_rows_mem(2) [OF row] by blast
qed

lemma authenticate_granted:
  assumes "authenticate w cl token rid d = Inr (TokenGranted sid p actor)"
  shows "\<exists>s t. token = Some t \<and> s_id s = sid \<and> s_token_hash s = xw_tokenHash w t \<and> entitled w d s rid p actor"
proof -
  from assms obtain t u s m r rest where c: "token = Some t" "xw_uuid w rid = Some u"
    "room_rows w (\<lambda>s. s_token_hash s = xw_tokenHash w t) u d = (s, m, r) # rest"
    "\<not> deletion_active d (r_id r)" "row_grant w rid (s, m, r) = Inr (Granted p actor)" "s_id s = sid"
    by (auto simp: authenticate_def unusable_def split: if_splits option.splits list.splits prod.splits sum.splits DeliveryAuthorization.splits)
  then have row: "(s, m, r) \<in> set (room_rows w (\<lambda>s. s_token_hash s = xw_tokenHash w t) u d)" by simp
  show ?thesis using row_grant_entitled [OF row c(2,4,5)] room_rows_mem(2) [OF row] c(1,6) by blast
qed

lemma reauthorize_revoked:
  "(\<And>s. s \<in> set (sessions d) \<Longrightarrow> s_id s = sid \<Longrightarrow> s_revoked s \<noteq> None \<or> s_expires s \<le> xw_now w) \<Longrightarrow> reauthorize w sid rid d = Inr (Refused 4401)"
  by (fastforce simp: reauthorize_def live_session_def list_ex_iff)

lemma session_revoke_dead:
  assumes "\<not> unusable (Some t)"
  shows "token_sessions w t (session_revoke w (Some t) d) = []"
  using assms by (auto simp: token_sessions_def session_revoke_def live_session_def filter_empty_conv)

lemma room_rows_dead:
  assumes "token_sessions w t d = []"
  shows "room_rows w (\<lambda>s. s_token_hash s = xw_tokenHash w t) u d = []"
proof -
  have dead: "(s_token_hash s = xw_tokenHash w t \<and> live_session w s) = False" if "s \<in> set (sessions d)" for s
    using assms that by (auto simp: token_sessions_def filter_empty_conv)
  have "set (sessions d) \<inter> {s. s_token_hash s = xw_tokenHash w t \<and> live_session w s} = {}" using dead by blast
  then show ?thesis by (auto simp: room_rows_def)
qed

end
