(* ===== verification/Wire_Frames.thy ===== *)
theory Wire_Frames
  imports Room_Store
begin

text \<open>
  The realtime contract of \<^verbatim>\<open>packages/contracts\<close>: the frames a server sends and a client
  sends, the routes both sides agree on, and the parsers of \<^verbatim>\<open>realtime.ts\<close> and
  \<^verbatim>\<open>core-room-event.ts\<close>. The compiled JSON-schema validators are produced by Ajv and are
  fields of \<open>contracts\<close>; every check the parsers add to them is written out.
\<close>

section \<open>Frames\<close>

datatype seat_state = Active | Away

datatype projection_key = EchoTeacherShadow | EchoStudentApproved | TraceTeacherBundle | TraceStudentBundle

fun key_text :: "projection_key \<Rightarrow> string" where
  "key_text EchoTeacherShadow = ''echo.teacher_shadow''"
| "key_text EchoStudentApproved = ''echo.student_approved''"
| "key_text TraceTeacherBundle = ''trace.teacher_bundle''"
| "key_text TraceStudentBundle = ''trace.student_bundle''"

record ProjectionFrame =
  pf_roomId :: string
  pf_key :: projection_key
  pf_epoch :: string
  pf_version :: int
  pf_through :: int
  pf_url :: string

datatype agent_state =
    AgentIdle | AgentQueued | AgentRunning | AgentStreaming
  | AgentCompleted | AgentBlocked | AgentCancelled | AgentFailed

datatype health = Healthy | Degraded | Unavailable

text \<open>A time stamp of a frame is a \<^typ>\<open>date\<close>: the number \<^verbatim>\<open>Date.parse\<close> reads from it, or none.\<close>

record AgentStatusFrame =
  ag_roomId :: string
  ag_run :: "string option"
  ag_state :: agent_state
  ag_health :: health
  ag_enabled :: bool
  ag_updated :: date
  ag_failure :: "string option"

datatype media_state = MediaUploaded | MediaProcessing | MediaReady | MediaQuarantined | MediaFailed | MediaDeleted

record MediaStatusFrame =
  mf_media :: string
  mf_state :: media_state
  mf_failure :: "string option"
  mf_updated :: date

datatype ServerFrame =
    Welcome date string int room_status
  | Ack string int int
  | Reject "string option" string "bool option"
  | EventFrame envelope
  | PresenceFrame string seat_state date
  | TypingFrame string bool date
  | ResumeComplete int
  | SnapshotRequired int int
  | DegradedFrame string string date "projection_key option"
  | HeartbeatFrame date
  | MediaStatus MediaStatusFrame
  | AgentStatus AgentStatusFrame
  | Projection ProjectionFrame

text \<open>A command is the JSON object the client builds; the server reads its members.\<close>

datatype ClientFrame =
    ClientHello string int
  | ClientCommand json
  | ClientPresence seat_state int
  | ClientTyping bool int
  | ClientHeartbeat

text \<open>What arrives where the code says \<^verbatim>\<open>unknown\<close>: a value shaped like a frame, or not.\<close>

datatype raw_frame = Malformed | Shaped ServerFrame

record contracts =
  server_schema :: "ServerFrame \<Rightarrow> bool"
  envelope_schema :: "envelope \<Rightarrow> bool"
  core_schema :: "string \<Rightarrow> json \<Rightarrow> bool"
  command_schema :: "json \<Rightarrow> bool"
  client_schema :: "ClientFrame \<Rightarrow> bool"

text \<open>
  Errors of the client: an \<^verbatim>\<open>Error\<close> with its message, or a \<^verbatim>\<open>SessionGatewayError\<close>
  with its code.
\<close>

datatype client_error = Err string | GatewayError string

text \<open>Results: a computation that may throw, a check, and a loop that stops at the first error.\<close>

definition rbind :: "'e + 'a \<Rightarrow> ('a \<Rightarrow> 'e + 'b) \<Rightarrow> 'e + 'b" where
  "rbind r f = (case r of Inl e \<Rightarrow> Inl e | Inr a \<Rightarrow> f a)"

definition check :: "bool \<Rightarrow> string \<Rightarrow> client_error + unit" where
  "check b code = (if b then Inr () else Inl (Err code))"

fun rfold :: "('x \<Rightarrow> 'a \<Rightarrow> 'e + 'a) \<Rightarrow> 'x list \<Rightarrow> 'a \<Rightarrow> 'e + 'a" where
  "rfold f [] a = Inr a"
| "rfold f (x # xs) a = (case f x a of Inl e \<Rightarrow> Inl e | Inr b \<Rightarrow> rfold f xs b)"

lemma rbind_simps [simp]: "rbind (Inl e) f = Inl e" "rbind (Inr a) f = f a"
  by (simp_all add: rbind_def)

lemma rbind_Inr_iff: "rbind r f = Inr b \<longleftrightarrow> (\<exists>a. r = Inr a \<and> f a = Inr b)"
  by (cases r) simp_all

lemma check_Inr_iff: "check b code = Inr u \<longleftrightarrow> b"
  by (simp add: check_def)

lemma rfold_append: "rfold f (xs @ ys) a = rbind (rfold f xs a) (rfold f ys)"
  by (induction xs arbitrary: a) (auto split: sum.split)

lemma rfold_Cons_Inr: "rfold f (x # xs) a = Inr b \<longleftrightarrow> (\<exists>c. f x a = Inr c \<and> rfold f xs c = Inr b)"
  by (auto split: sum.split)

lemma rfold_invariant:
  assumes "\<And>x a b. x \<in> set xs \<Longrightarrow> f x a = Inr b \<Longrightarrow> I a \<Longrightarrow> I b" "rfold f xs a = Inr b" "I a"
  shows "I b"
  using assms by (induction xs arbitrary: a) (auto split: sum.splits)

section \<open>Event pages\<close>

record RoomEventPage =
  pg_events :: "envelope list"
  pg_through :: int
  pg_next :: "int option"

text \<open>The body of a page response: the events, the number they reach, and a continuation for a full page.\<close>

definition event_page :: "envelope list \<Rightarrow> int \<Rightarrow> int \<Rightarrow> RoomEventPage" where
  "event_page found afterSeq limit =
     (let throughRoomSeq = (if found \<noteq> [] then roomSeq (last found) else afterSeq) in
      \<lparr>pg_events = found, pg_through = throughRoomSeq, pg_next = (if int (length found) = limit then Some throughRoomSeq else None)\<rparr>)"

section \<open>Routes\<close>

definition hex_digit :: "nat \<Rightarrow> char" where
  "hex_digit n = ''0123456789ABCDEF'' ! (n mod 16)"

definition uri_unreserved :: "char \<Rightarrow> bool" where
  "uri_unreserved c \<longleftrightarrow> (let n = (of_char c :: nat) in
     (48 \<le> n \<and> n \<le> 57) \<or> (65 \<le> n \<and> n \<le> 90) \<or> (97 \<le> n \<and> n \<le> 122) \<or> n \<in> {33, 39, 40, 41, 42, 45, 46, 95, 126})"

text \<open>\<^verbatim>\<open>encodeURIComponent\<close> on the UTF-8 bytes of a text.\<close>

definition encodeURIComponent :: "string \<Rightarrow> string" where
  "encodeURIComponent s = concat (map (\<lambda>c. if uri_unreserved c then [c]
     else [CHR ''%'', hex_digit (of_char c div 16), hex_digit (of_char c)]) s)"

definition room_route :: "string \<Rightarrow> string \<Rightarrow> string" where
  "room_route rid suffix = ''/v1/rooms/'' @ encodeURIComponent rid @ suffix"

definition analytics_latest :: "string \<Rightarrow> projection_key \<Rightarrow> string" where
  "analytics_latest rid key = room_route rid (''/analytics/'' @ encodeURIComponent (key_text key) @ ''/latest'')"

definition websocket_route :: "string \<Rightarrow> string" where
  "websocket_route rid = room_route rid ''/realtime''"

section \<open>Parsers\<close>

definition coreTypes :: "string list" where
  "coreTypes = [''room.opened'', ''room.paused'', ''room.resumed'', ''room.closed'',
     ''message.added'', ''message.revised'', ''message.retracted'']"

definition parseRoomEventEnvelope :: "contracts \<Rightarrow> envelope \<Rightarrow> client_error + envelope" where
  "parseRoomEventEnvelope k e = (if envelope_schema k e then Inr e else Inl (Err ''INVALID_ROOM_EVENT''))"

definition parseCoreRoomEvent :: "contracts \<Rightarrow> envelope \<Rightarrow> client_error + envelope option" where
  "parseCoreRoomEvent k e = (case parseRoomEventEnvelope k e of Inl err \<Rightarrow> Inl err | Inr v \<Rightarrow>
     if ev_type v \<notin> set coreTypes then Inr None
     else if core_schema k (ev_type v) (payload v) then Inr (Some v)
     else Inl (Err (''INVALID_EVENT_PAYLOAD:'' @ ev_type v)))"

definition agentStatusIdentityHolds :: "AgentStatusFrame \<Rightarrow> bool" where
  "agentStatusIdentityHolds f =
     (let idle = ag_state f = AgentIdle in
      \<not> ((idle \<and> (ag_run f \<noteq> None \<or> ag_failure f \<noteq> None)) \<or> (\<not> idle \<and> ag_run f = None)))"

definition projectionUrlHolds :: "ProjectionFrame \<Rightarrow> bool" where
  "projectionUrlHolds f = (pf_url f = analytics_latest (pf_roomId f) (pf_key f))"

definition parseServerFrame :: "contracts \<Rightarrow> raw_frame \<Rightarrow> client_error + ServerFrame" where
  "parseServerFrame k v = (case v of
     Malformed \<Rightarrow> Inl (Err ''INVALID_SERVER_FRAME'')
   | Shaped f \<Rightarrow>
       if \<not> server_schema k f then Inl (Err ''INVALID_SERVER_FRAME'') else
       (case f of
          EventFrame e \<Rightarrow> (case parseCoreRoomEvent k e of Inl err \<Rightarrow> Inl err | Inr _ \<Rightarrow> Inr f)
        | AgentStatus a \<Rightarrow> if agentStatusIdentityHolds a then Inr f else Inl (Err ''INVALID_SERVER_FRAME'')
        | Projection p \<Rightarrow> if projectionUrlHolds p then Inr f else Inl (Err ''INVALID_SERVER_FRAME'')
        | _ \<Rightarrow> Inr f))"

text \<open>
  The two encoders validate and then print; what they print is represented by the value
  itself, since equal texts come from equal ordered JSON.
\<close>

definition encodeClientFrame :: "contracts \<Rightarrow> ClientFrame \<Rightarrow> client_error + ClientFrame" where
  "encodeClientFrame k f = (if client_schema k f then Inr f else Inl (Err ''INVALID_CLIENT_FRAME''))"

definition encodeRoomCommand :: "contracts \<Rightarrow> json \<Rightarrow> client_error + json" where
  "encodeRoomCommand k c = (if command_schema k c then Inr c else Inl (Err ''INVALID_ROOM_COMMAND''))"

text \<open>Parsing never changes a frame.\<close>

lemma parseServerFrame_Inr: "parseServerFrame k v = Inr f \<Longrightarrow> v = Shaped f"
  by (auto simp: parseServerFrame_def split: raw_frame.splits ServerFrame.splits if_splits sum.splits)

lemma parseCoreRoomEvent_Inr:
  "parseCoreRoomEvent k e = Inr r \<longleftrightarrow>
     envelope_schema k e \<and>
     (if ev_type e \<in> set coreTypes then core_schema k (ev_type e) (payload e) \<and> r = Some e else r = None)"
  by (auto simp: parseCoreRoomEvent_def parseRoomEventEnvelope_def split: if_splits)

lemma parse_event_iff:
  "parseServerFrame k (Shaped (EventFrame e)) = Inr f \<longleftrightarrow>
     f = EventFrame e \<and> server_schema k (EventFrame e) \<and> envelope_schema k e \<and>
     (ev_type e \<in> set coreTypes \<longrightarrow> core_schema k (ev_type e) (payload e))"
  by (auto simp: parseServerFrame_def parseCoreRoomEvent_def parseRoomEventEnvelope_def split: if_splits sum.splits)

definition event_accepted :: "contracts \<Rightarrow> envelope \<Rightarrow> bool" where
  "event_accepted k e \<longleftrightarrow> server_schema k (EventFrame e) \<and> envelope_schema k e \<and>
     (ev_type e \<in> set coreTypes \<longrightarrow> core_schema k (ev_type e) (payload e))"

lemma parse_event_accepted [simp]:
  "event_accepted k e \<Longrightarrow> parseServerFrame k (Shaped (EventFrame e)) = Inr (EventFrame e)"
  by (simp add: parse_event_iff event_accepted_def)

lemma uuid_char_unreserved: "uuid_char_ok i c \<Longrightarrow> uri_unreserved c"
  by (auto simp: uuid_char_ok_def is_hex_def uri_unreserved_def split: if_splits)

lemma encode_unreserved: "list_all uri_unreserved s \<Longrightarrow> encodeURIComponent s = s"
  unfolding encodeURIComponent_def by (induction s) auto

end
