(* ===== verification/Client_Ledger.thy ===== *)
theory Client_Ledger
  imports Wire_Frames
begin

text \<open>
  \<^verbatim>\<open>EventLedger\<close> of \<^verbatim>\<open>apps/web/src/lib/session/event-ledger.ts\<close>: the at-least-once,
  revision-aware ledger a browser keeps of a room's durable events, and the message list
  it derives from them. The contract a contiguous cursor offers its clients is the locale
  \<open>contiguous_cursor\<close>, interpreted here on the ledger and later on the socket.
\<close>

section \<open>The ledger\<close>

record LedgerMessage =
  lm_messageId :: string
  lm_text :: string
  lm_actorId :: string
  lm_actorKind :: string
  lm_actorRole :: string
  lm_eventId :: string
  lm_causationId :: string
  lm_revision :: int
  lm_operation :: string
  lm_eventTime :: int
  lm_firstRoomSeq :: int
  lm_roomSeq :: int
  lm_replyTo :: "string option"
  lm_mentions :: "string list"
  lm_mediaIds :: "string list"

record EventLedger =
  l_events :: "(string, envelope) jsmap"
  l_messages :: "(string, LedgerMessage) jsmap"
  l_lastSeq :: int
  l_roomId :: "string option"

datatype LedgerAppendResult = Appended | Duplicate | Stale | Gap

definition new_ledger :: "string option \<Rightarrow> EventLedger" where
  "new_ledger rid = \<lparr>l_events = [], l_messages = [], l_lastSeq = 0, l_roomId = rid\<rparr>"

text \<open>Members of a payload whose schema has been checked; \<open>None\<close> is null or undefined.\<close>

definition opt_string :: "json \<Rightarrow> string \<Rightarrow> string option" where
  "opt_string p k = (case jmember p k of Some (JStr s) \<Rightarrow> Some s | _ \<Rightarrow> None)"

definition json_text :: "json \<Rightarrow> string" where
  "json_text j = (case j of JStr s \<Rightarrow> s | _ \<Rightarrow> '''')"

definition string_items :: "json \<Rightarrow> string \<Rightarrow> string list" where
  "string_items p k = (case jmember p k of Some (JArr js) \<Rightarrow> map json_text js | _ \<Rightarrow> [])"

definition payload_message_id :: "json \<Rightarrow> string" where
  "payload_message_id p = (case opt_string p ''messageId'' of Some m \<Rightarrow> m | None \<Rightarrow> '''')"

text \<open>The operator \<^verbatim>\<open>??\<close> on optional values.\<close>

definition coalesce :: "'a option \<Rightarrow> 'a option \<Rightarrow> 'a option" where
  "coalesce a b = (case a of Some x \<Rightarrow> Some x | None \<Rightarrow> b)"

definition orelse :: "'a option \<Rightarrow> 'a \<Rightarrow> 'a" where
  "orelse a b = (case a of Some x \<Rightarrow> x | None \<Rightarrow> b)"

lemma coalesce_simps [simp]: "coalesce (Some x) b = Some x" "coalesce None b = b"
  by (simp_all add: coalesce_def)

lemma orelse_simps [simp]: "orelse (Some x) b = x" "orelse None b = b"
  by (simp_all add: orelse_def)

definition messageTypes :: "string list" where
  "messageTypes = [''message.added'', ''message.revised'', ''message.retracted'']"

definition next_message :: "envelope \<Rightarrow> LedgerMessage option \<Rightarrow> LedgerMessage" where
  "next_message e previous =
     (let visible = (if ev_type e = ''message.retracted'' then None else Some (payload e)) in
      \<lparr>lm_messageId = payload_message_id (payload e),
       lm_text = orelse (coalesce (Option.bind visible (\<lambda>p. opt_string p ''text'')) (map_option lm_text previous)) '''',
       lm_actorId = orelse (map_option lm_actorId previous) (actorId e),
       lm_actorKind = orelse (map_option lm_actorKind previous) (actorKind e),
       lm_actorRole = orelse (map_option lm_actorRole previous) (actorRole e),
       lm_eventId = eventId e,
       lm_causationId = causationId e,
       lm_revision = revision e,
       lm_operation = operation e,
       lm_eventTime = eventTime e,
       lm_firstRoomSeq = orelse (map_option lm_firstRoomSeq previous) (roomSeq e),
       lm_roomSeq = roomSeq e,
       lm_replyTo = coalesce (Option.bind visible (\<lambda>p. opt_string p ''replyTo'')) (Option.bind previous lm_replyTo),
       lm_mentions = (case visible of Some p \<Rightarrow> string_items p ''mentions'' | None \<Rightarrow> orelse (map_option lm_mentions previous) []),
       lm_mediaIds = (case visible of Some p \<Rightarrow> string_items p ''mediaIds'' | None \<Rightarrow> orelse (map_option lm_mediaIds previous) [])\<rparr>)"

text \<open>The message entry an event writes, if it writes one.\<close>

definition message_update :: "envelope option \<Rightarrow> (string, LedgerMessage) jsmap \<Rightarrow> LedgerMessage option" where
  "message_update core ms = (case core of None \<Rightarrow> None | Some e \<Rightarrow>
     if ev_type e \<in> set messageTypes then
       (let previous = jm_get ms (payload_message_id (payload e)) in
        case previous of
          None \<Rightarrow> Some (next_message e None)
        | Some p \<Rightarrow> if revision e \<ge> lm_revision p then Some (next_message e previous) else None)
     else None)"

definition ledger_append :: "contracts \<Rightarrow> envelope option \<Rightarrow> (EventLedger, client_error, LedgerAppendResult) act" where
  "ledger_append k value = (\<lambda>l.
     case parseServerFrame k (case value of None \<Rightarrow> Malformed | Some e \<Rightarrow> Shaped (EventFrame e)) of
       Inl err \<Rightarrow> (Inl err, l)
     | Inr (EventFrame event) \<Rightarrow>
         if l_roomId l \<noteq> None \<and> Some (roomId event) \<noteq> l_roomId l then (Inl (Err ''ROOM_EVENT_ROOM_MISMATCH''), l)
         else if jm_has (l_events l) (eventId event) then (Inr Duplicate, l)
         else if roomSeq event \<le> l_lastSeq l then (Inr Stale, l)
         else if roomSeq event \<noteq> l_lastSeq l + 1 then (Inr Gap, l)
         else (case parseCoreRoomEvent k event of
             Inl err \<Rightarrow> (Inl err, l)
           | Inr core \<Rightarrow>
               (Inr Appended,
                l\<lparr>l_events := jm_set (eventId event) event (l_events l),
                  l_lastSeq := roomSeq event,
                  l_messages := (case message_update core (l_messages l) of
                     None \<Rightarrow> l_messages l
                   | Some m \<Rightarrow> jm_set (lm_messageId m) m (l_messages l))\<rparr>))
     | Inr _ \<Rightarrow> (Inl (Err ''ROOM_EVENT_REQUIRED''), l))"

definition ledger_events :: "EventLedger \<Rightarrow> envelope list" where
  "ledger_events l = sort_key roomSeq (jm_values (l_events l))"

definition ledger_messages :: "EventLedger \<Rightarrow> LedgerMessage list" where
  "ledger_messages l = sort_key lm_firstRoomSeq (jm_values (l_messages l))"

definition activeMediaIds :: "EventLedger \<Rightarrow> string list" where
  "activeMediaIds l = remdups (concat (map (\<lambda>m. if lm_operation m = ''retract'' then [] else lm_mediaIds m) (jm_values (l_messages l))))"

definition ledger_reset :: "EventLedger \<Rightarrow> EventLedger" where
  "ledger_reset l = l\<lparr>l_events := [], l_messages := [], l_lastSeq := 0\<rparr>"

definition ledger_destroy :: "EventLedger \<Rightarrow> EventLedger" where
  "ledger_destroy l = (ledger_reset l)\<lparr>l_roomId := None\<rparr>"

section \<open>Contiguous cursors\<close>

text \<open>
  What a component that consumes a numbered feed promises: being offered an item leaves
  its cursor where it was or moves it by one, and then only over the item of that number.
\<close>

locale contiguous_cursor =
  fixes cursor :: "'s \<Rightarrow> int"
    and offer :: "'e \<Rightarrow> 's \<Rightarrow> 's"
    and num :: "'e \<Rightarrow> int option"
  assumes advance: "cursor (offer e s) = cursor s \<or> (cursor (offer e s) = cursor s + 1 \<and> num e = Some (cursor s + 1))"
begin

lemma cursor_le: "cursor s \<le> cursor (fold offer es s)"
proof (induction es arbitrary: s)
  case (Cons e es)
  have "cursor s \<le> cursor (offer e s)" using advance [of e s] by auto
  also have "\<dots> \<le> cursor (fold offer es (offer e s))" by (rule Cons.IH)
  finally show ?case by simp
qed simp

lemma cursor_bound: "cursor (fold offer es s) \<le> cursor s + int (length es)"
proof (induction es arbitrary: s)
  case (Cons e es)
  show ?case using Cons.IH [of "offer e s"] advance [of e s] by auto
qed simp

text \<open>Every number the cursor has passed was offered: nothing is jumped over.\<close>

lemma no_jump: "cursor s < n \<Longrightarrow> n \<le> cursor (fold offer es s) \<Longrightarrow> \<exists>e \<in> set es. num e = Some n"
proof (induction es arbitrary: s)
  case (Cons e es)
  show ?case
  proof (cases "n \<le> cursor (offer e s)")
    case True
    then have "num e = Some n" using advance [of e s] Cons.prems(1) by auto
    then show ?thesis by simp
  next
    case False
    then show ?thesis using Cons.IH [of "offer e s"] Cons.prems(2) by auto
  qed
qed simp

end

text \<open>What \<^verbatim>\<open>append\<close> does, whatever it answers or throws.\<close>

definition ledger_offer :: "contracts \<Rightarrow> envelope \<Rightarrow> EventLedger \<Rightarrow> EventLedger" where
  "ledger_offer k e l = snd (ledger_append k (Some e) l)"

definition ledger_admits :: "contracts \<Rightarrow> envelope \<Rightarrow> EventLedger \<Rightarrow> bool" where
  "ledger_admits k e l \<longleftrightarrow> event_accepted k e \<and> (l_roomId l = None \<or> l_roomId l = Some (roomId e)) \<and>
     \<not> jm_has (l_events l) (eventId e) \<and> roomSeq e = l_lastSeq l + 1"

definition core_view :: "envelope \<Rightarrow> envelope option" where
  "core_view e = (if ev_type e \<in> set coreTypes then Some e else None)"

definition ledger_put :: "envelope \<Rightarrow> EventLedger \<Rightarrow> EventLedger" where
  "ledger_put e l = l\<lparr>l_events := jm_set (eventId e) e (l_events l), l_lastSeq := roomSeq e,
     l_messages := (case message_update (core_view e) (l_messages l) of
        None \<Rightarrow> l_messages l | Some m \<Rightarrow> jm_set (lm_messageId m) m (l_messages l))\<rparr>"

lemma event_accepted_iff: "parseServerFrame k (Shaped (EventFrame e)) = Inr f \<longleftrightarrow> event_accepted k e \<and> f = EventFrame e"
  by (auto simp: parse_event_iff event_accepted_def)

lemma core_parse_accepted: "event_accepted k e \<Longrightarrow> parseCoreRoomEvent k e = Inr (core_view e)"
  by (auto simp: parseCoreRoomEvent_def parseRoomEventEnvelope_def event_accepted_def core_view_def)

lemma ledger_append_Appended:
  "ledger_append k (Some e) l = (Inr Appended, l') \<longleftrightarrow> ledger_admits k e l \<and> l' = ledger_put e l"
proof (cases "event_accepted k e")
  case True
  then show ?thesis
    by (auto simp: ledger_append_def ledger_admits_def ledger_put_def core_parse_accepted)
next
  case False
  then obtain err where "parseServerFrame k (Shaped (EventFrame e)) = Inl err"
    using event_accepted_iff [of k e] by (cases "parseServerFrame k (Shaped (EventFrame e))") auto
  then show ?thesis using False by (simp add: ledger_append_def ledger_admits_def)
qed

lemma ledger_append_cases:
  "ledger_append k v l = (r, l') \<Longrightarrow> r = Inr Appended \<or> l' = l"
  by (auto simp: ledger_append_def Let_def split: sum.splits ServerFrame.splits if_splits)

lemma ledger_offer_eq: "ledger_offer k e l = (if ledger_admits k e l then ledger_put e l else l)"
proof (cases "ledger_append k (Some e) l")
  case (Pair r l')
  then show ?thesis
    using ledger_append_cases [OF Pair] ledger_append_Appended [of k e l l'] ledger_append_Appended [of k e l "ledger_put e l"]
    by (auto simp: ledger_offer_def)
qed

interpretation lc: contiguous_cursor l_lastSeq "ledger_offer k" "\<lambda>e. Some (roomSeq e)" for k
  by unfold_locales (simp add: ledger_offer_eq ledger_admits_def ledger_put_def)

end
