(* ===== verification/Session_Store.thy ===== *)
theory Session_Store
  imports Client_Ledger
begin

text \<open>
  The reducer of \<^verbatim>\<open>apps/web/src/lib/session/session-store.ts\<close>, the roster checks of
  \<^verbatim>\<open>room-identity.ts\<close> and the view selections of \<^verbatim>\<open>room-route.ts\<close>.
\<close>

section \<open>Session state\<close>

text \<open>The two times are ISO texts, represented by the instant they denote.\<close>

record SessionState =
  st_roomId :: string
  st_status :: room_status
  st_connected :: bool
  st_paused :: bool
  st_startsAt :: "date option"
  st_closesAt :: "date option"
  st_lastRoomSeq :: int
  st_announcement :: string

datatype SessionAction =
    SetConnection bool
  | SetStatus room_status
  | SetCursor int
  | SetTiming "date option" "date option"
  | SetAnnouncement string
  | ResetSession

definition createSessionState :: "string \<Rightarrow> room_status \<Rightarrow> date option \<Rightarrow> date option \<Rightarrow> SessionState" where
  "createSessionState rid st starts closes =
     \<lparr>st_roomId = rid, st_status = st, st_connected = False, st_paused = (st = Paused), st_startsAt = starts,
      st_closesAt = closes, st_lastRoomSeq = 0, st_announcement = ''''\<rparr>"

fun sessionReducer :: "SessionState \<Rightarrow> SessionAction \<Rightarrow> SessionState" where
  "sessionReducer s (SetConnection b) = s\<lparr>st_connected := b\<rparr>"
| "sessionReducer s (SetStatus st) = s\<lparr>st_status := st, st_paused := (st = Paused)\<rparr>"
| "sessionReducer s (SetCursor n) = (if n \<ge> st_lastRoomSeq s then s\<lparr>st_lastRoomSeq := n\<rparr> else s)"
| "sessionReducer s (SetTiming a b) = s\<lparr>st_startsAt := a, st_closesAt := b\<rparr>"
| "sessionReducer s (SetAnnouncement m) = s\<lparr>st_announcement := m\<rparr>"
| "sessionReducer s ResetSession = createSessionState (st_roomId s) Scheduled None None"

text \<open>The flag \<^verbatim>\<open>paused\<close> and the status always agree, and only a reset lowers the cursor.\<close>

definition session_inv :: "SessionState \<Rightarrow> bool" where
  "session_inv s \<longleftrightarrow> (st_paused s \<longleftrightarrow> st_status s = Paused) \<and> 0 \<le> st_lastRoomSeq s"

lemma createSessionState_inv: "session_inv (createSessionState rid st a b)"
  by (simp add: createSessionState_def session_inv_def)

lemma sessionReducer_inv: "session_inv s \<Longrightarrow> session_inv (sessionReducer s a)"
  by (cases a) (auto simp: session_inv_def createSessionState_def)

lemma sessionReducer_room: "st_roomId (sessionReducer s a) = st_roomId s"
  by (cases a) (simp_all add: createSessionState_def)

lemma sessionReducer_cursor: "a \<noteq> ResetSession \<Longrightarrow> st_lastRoomSeq s \<le> st_lastRoomSeq (sessionReducer s a)"
  by (cases a) simp_all

section \<open>Roster identity\<close>

record participant =
  pt_actorId :: string
  pt_pseudonym :: string
  pt_kind :: string
  pt_role :: string

record nova_view =
  nv_actorId :: string
  nv_kind :: string
  nv_role :: string
  nv_name :: string

record RoomDetails =
  rd_roomId :: string
  rd_status :: room_status
  rd_startsAt :: "date option"
  rd_closesAt :: "date option"
  rd_participants :: "participant list"
  rd_nova :: nova_view

datatype ClientSession =
    StudentSession (cs_actor: string) (cs_room: string) (cs_pseudonym: string) (cs_nova: nova_view)
  | TeacherSession (cs_actor: string)

text \<open>The four pseudonyms, as the UTF-8 bytes of their text.\<close>

definition STUDENT_PSEUDONYMS :: "string list" where
  "STUDENT_PSEUDONYMS = map (\<lambda>c. map char_of [230, 142, 162, 231, 180, 162, 232, 128, 133, 32 :: nat] @ [c]) ''ABCD''"

definition rosterIntegrity :: "RoomDetails \<Rightarrow> bool" where
  "rosterIntegrity room \<longleftrightarrow>
     (let ids = map pt_actorId (rd_participants room); names = map pt_pseudonym (rd_participants room) in
      \<not> (length (rd_participants room) \<noteq> length STUDENT_PSEUDONYMS
         \<or> length (remdups ids) \<noteq> length (rd_participants room)
         \<or> nv_actorId (rd_nova room) \<in> set ids
         \<or> length (remdups names) \<noteq> length STUDENT_PSEUDONYMS
         \<or> list_ex (\<lambda>n. n \<notin> set STUDENT_PSEUDONYMS) names
         \<or> list_ex (\<lambda>p. pt_kind p \<noteq> ''human'' \<or> pt_role p \<noteq> ''student'') (rd_participants room)
         \<or> nv_kind (rd_nova room) \<noteq> ''agent''
         \<or> nv_role (rd_nova room) \<noteq> ''socratic_facilitator''
         \<or> nv_name (rd_nova room) \<noteq> ''Nova Agent''))"

definition assertRoomRosterIntegrity :: "RoomDetails \<Rightarrow> client_error + unit" where
  "assertRoomRosterIntegrity room = (if rosterIntegrity room then Inr () else Inl (Err ''ROOM_ROSTER_IDENTITY_MISMATCH''))"

definition assertStudentRoomIdentity :: "ClientSession \<Rightarrow> RoomDetails \<Rightarrow> client_error + unit" where
  "assertStudentRoomIdentity session room = (case session of
     TeacherSession _ \<Rightarrow> Inr ()
   | StudentSession actor rid name nova \<Rightarrow>
       (case assertRoomRosterIntegrity room of Inl e \<Rightarrow> Inl e | Inr _ \<Rightarrow>
        (case find (\<lambda>p. pt_actorId p = actor) (rd_participants room) of
           None \<Rightarrow> Inl (Err ''STUDENT_ROOM_IDENTITY_MISMATCH'')
         | Some self \<Rightarrow>
             if rd_roomId room \<noteq> rid \<or> pt_pseudonym self \<noteq> name \<or> pt_kind self \<noteq> ''human'' \<or> pt_role self \<noteq> ''student''
                \<or> nv_actorId nova \<noteq> nv_actorId (rd_nova room) \<or> nv_kind nova \<noteq> nv_kind (rd_nova room)
                \<or> nv_role nova \<noteq> nv_role (rd_nova room) \<or> nv_name nova \<noteq> nv_name (rd_nova room)
             then Inl (Err ''STUDENT_ROOM_IDENTITY_MISMATCH'') else Inr ())))"

text \<open>
  The size comparisons amount to this: four distinct humans with exactly the four
  pseudonyms, and the agent is none of them.
\<close>

lemma remdups_length_distinct: "length (remdups xs) = length xs \<longleftrightarrow> distinct xs"
  by (metis distinct_remdups length_remdups_eq remdups_id_iff_distinct)

lemma rosterIntegrity_iff:
  "rosterIntegrity room \<longleftrightarrow>
     distinct (map pt_actorId (rd_participants room)) \<and> nv_actorId (rd_nova room) \<notin> pt_actorId ` set (rd_participants room) \<and>
     distinct (map pt_pseudonym (rd_participants room)) \<and> pt_pseudonym ` set (rd_participants room) = set STUDENT_PSEUDONYMS \<and>
     (\<forall>p \<in> set (rd_participants room). pt_kind p = ''human'' \<and> pt_role p = ''student'') \<and>
     nv_kind (rd_nova room) = ''agent'' \<and> nv_role (rd_nova room) = ''socratic_facilitator'' \<and> nv_name (rd_nova room) = ''Nova Agent''"
proof -
  let ?ps = "rd_participants room" and ?names = "map pt_pseudonym (rd_participants room)"
  have len: "length STUDENT_PSEUDONYMS = 4" by (simp add: STUDENT_PSEUDONYMS_def)
  have "distinct STUDENT_PSEUDONYMS" by (simp add: STUDENT_PSEUDONYMS_def)
  then have card: "card (set STUDENT_PSEUDONYMS) = 4" using len distinct_card by fastforce
  have A: "length ?ps = 4 \<and> length (remdups ?names) = 4 \<and> set ?names \<subseteq> set STUDENT_PSEUDONYMS \<longleftrightarrow>
     distinct ?names \<and> set ?names = set STUDENT_PSEUDONYMS" (is "?l \<longleftrightarrow> ?r")
  proof
    assume l: ?l
    then have d: "distinct ?names" using remdups_length_distinct [of ?names] by simp
    then have "card (set ?names) = 4" using l distinct_card [of ?names] by simp
    then have "set ?names = set STUDENT_PSEUDONYMS" using l card by (intro card_subset_eq) auto
    with d show ?r by simp
  next
    assume r: ?r
    then have "length ?names = 4" using distinct_card [of ?names] card by simp
    moreover have "length (remdups ?names) = length ?names" using r remdups_length_distinct [of ?names] by blast
    ultimately show ?l using r by auto
  qed
  have B: "length (remdups (map pt_actorId ?ps)) = length ?ps \<longleftrightarrow> distinct (map pt_actorId ?ps)"
    using remdups_length_distinct [of "map pt_actorId ?ps"] by simp
  have C: "rosterIntegrity room \<longleftrightarrow> (length ?ps = 4 \<and> length (remdups ?names) = 4 \<and> set ?names \<subseteq> set STUDENT_PSEUDONYMS) \<and>
     length (remdups (map pt_actorId ?ps)) = length ?ps \<and> nv_actorId (rd_nova room) \<notin> set (map pt_actorId ?ps) \<and>
     (\<forall>p \<in> set ?ps. pt_kind p = ''human'' \<and> pt_role p = ''student'') \<and>
     nv_kind (rd_nova room) = ''agent'' \<and> nv_role (rd_nova room) = ''socratic_facilitator'' \<and> nv_name (rd_nova room) = ''Nova Agent''"
    unfolding rosterIntegrity_def len Let_def list_ex_iff by auto
  show ?thesis unfolding C A B by (auto simp del: length_remdups_card_conv)
qed

section \<open>View selections\<close>

text \<open>
  \<^verbatim>\<open>URLSearchParams\<close> as its list of decoded name/value pairs: \<^verbatim>\<open>get\<close> reads the first,
  \<^verbatim>\<open>set\<close> overwrites the first and drops the others, \<^verbatim>\<open>sort\<close> is stable on the names. Its text
  form and the parser of that form are the browser's; they invert each other.
\<close>

type_synonym search_params = "(string \<times> string) list"

definition params_delete :: "string \<Rightarrow> search_params \<Rightarrow> search_params" where
  "params_delete k ps = filter (\<lambda>(n, _). n \<noteq> k) ps"

fun params_set :: "string \<Rightarrow> string \<Rightarrow> search_params \<Rightarrow> search_params" where
  "params_set k v [] = [(k, v)]"
| "params_set k v ((n, x) # ps) = (if n = k then (k, v) # params_delete k ps else (n, x) # params_set k v ps)"

fun lex_le :: "nat list \<Rightarrow> nat list \<Rightarrow> bool" where
  "lex_le [] ys = True"
| "lex_le (x # xs) [] = False"
| "lex_le (x # xs) (y # ys) = (x < y \<or> (x = y \<and> lex_le xs ys))"

fun insert_param :: "(string \<Rightarrow> nat list) \<Rightarrow> string \<times> string \<Rightarrow> search_params \<Rightarrow> search_params" where
  "insert_param code p [] = [p]"
| "insert_param code p (q # qs) = (if lex_le (code (fst p)) (code (fst q))
     then p # q # qs else q # insert_param code p qs)"

definition char_codes :: "string \<Rightarrow> nat list" where
  "char_codes s = map of_char s"

definition params_sort :: "search_params \<Rightarrow> search_params" where
  "params_sort ps = foldr (insert_param char_codes) ps []"

record RoomViewPreferences =
  vp_window :: string
  vp_view :: string

definition ROOM_VIEW_WINDOWS :: "string list" where
  "ROOM_VIEW_WINDOWS = [''recent_10m'', ''session_45m'']"

definition ROOM_VIEW_NAMES :: "string list" where
  "ROOM_VIEW_NAMES = [''observed'', ''human_only'', ''lineage_adjusted'']"

definition DEFAULT_ROOM_VIEW :: RoomViewPreferences where
  "DEFAULT_ROOM_VIEW = \<lparr>vp_window = ''recent_10m'', vp_view = ''observed''\<rparr>"

definition pick :: "string list \<Rightarrow> string \<Rightarrow> string option \<Rightarrow> string" where
  "pick allowed fallback v = (case v of Some x \<Rightarrow> if x \<in> set allowed then x else fallback | None \<Rightarrow> fallback)"

definition parseRoomViewPreferences :: "search_params \<Rightarrow> RoomViewPreferences" where
  "parseRoomViewPreferences params =
     \<lparr>vp_window = pick ROOM_VIEW_WINDOWS (vp_window DEFAULT_ROOM_VIEW) (map_of params ''window''),
      vp_view = pick ROOM_VIEW_NAMES (vp_view DEFAULT_ROOM_VIEW) (map_of params ''view'')\<rparr>"

definition put_selection :: "string \<Rightarrow> string \<Rightarrow> string \<Rightarrow> search_params \<Rightarrow> search_params" where
  "put_selection key v fallback params = (if v = fallback then params_delete key params else params_set key v params)"

definition roomViewSearch :: "RoomViewPreferences \<Rightarrow> search_params \<Rightarrow> search_params" where
  "roomViewSearch p base = params_sort
     (put_selection ''view'' (vp_view p) (vp_view DEFAULT_ROOM_VIEW)
       (put_selection ''window'' (vp_window p) (vp_window DEFAULT_ROOM_VIEW) base))"

definition isRoomId :: "string \<Rightarrow> bool" where
  "isRoomId s = uuid_ok s"

definition roomPagePath :: "string \<Rightarrow> bool \<Rightarrow> client_error + string" where
  "roomPagePath rid teacher =
     (if \<not> isRoomId rid then Inl (Err ''INVALID_ROOM_ID'')
      else Inr (''/session/'' @ rid @ (if teacher then ''/teacher'' else '''')))"

lemma map_of_delete: "map_of (params_delete k ps) k' = (if k' = k then None else map_of ps k')"
  by (simp add: params_delete_def map_of_filter_key)

lemma map_of_params_set: "map_of (params_set k v ps) k' = (if k' = k then Some v else map_of ps k')"
  by (induction k v ps rule: params_set.induct) (auto simp: map_of_delete)

lemma lex_le_refl: "lex_le xs xs"
  by (induction xs) simp_all

lemma map_of_insert_param:
  "inj code \<Longrightarrow> map_of (insert_param code p qs) k = (if k = fst p then Some (snd p) else map_of qs k)"
proof (induction qs)
  case (Cons q qs)
  then show ?case
    by (cases p; cases q) (auto dest: injD simp: lex_le_refl)
qed (cases p, simp)

lemma inj_char_codes: "inj char_codes"
  by (rule injI) (simp add: char_codes_def inj_map_eq_map [OF inj_of_char])

lemma map_of_params_sort: "map_of (params_sort ps) k = map_of ps k"
  unfolding params_sort_def
  by (induction ps) (auto simp: map_of_insert_param [OF inj_char_codes] split: prod.splits)

lemma map_of_put_selection:
  "map_of (put_selection key v fb ps) k = (if k = key then (if v = fb then None else Some v) else map_of ps k)"
  by (simp add: put_selection_def map_of_delete map_of_params_set)

lemma view_roundtrip:
  assumes "vp_window p \<in> set ROOM_VIEW_WINDOWS" "vp_view p \<in> set ROOM_VIEW_NAMES"
  shows "parseRoomViewPreferences (roomViewSearch p base) = p"
  using assms
  by (cases p) (auto simp: parseRoomViewPreferences_def roomViewSearch_def map_of_params_sort map_of_put_selection pick_def
      ROOM_VIEW_WINDOWS_def ROOM_VIEW_NAMES_def DEFAULT_ROOM_VIEW_def)

end
