(* ===== verification/Room_Socket.thy ===== *)
theory Room_Socket
  imports Session_Store
begin

text \<open>
  \<^verbatim>\<open>RoomSocket\<close> of \<^verbatim>\<open>apps/web/src/lib/realtime/room-socket.ts\<close>: the browser's state
  machine for the at-least-once room feed. It owns the replay cursor, the queue of commands
  that await an answer, and the reconnect policy. Browser sockets are numbers; what was
  written to them is a trace. The six callbacks it is constructed with are actions on the
  whole client, so that a callback may call back into the socket, as the code does.
\<close>

section \<open>State\<close>

record RoomSocket =
  rs_clientId :: string
  rs_lastRoomSeq :: int
  rs_roomId :: string
  rs_storage :: "(string, js_number) jsmap"
  rs_storageKey :: string
  rs_pending :: "(string, json) jsmap"
  rs_clientSeq :: int
  rs_retryDelays :: "int list"
  rs_retryIndex :: nat
  rs_retryTimer :: "int option"
  rs_gate :: "nat option"
  rs_waiters :: "nat list"
  rs_socket :: "nat option"
  rs_factory :: bool
  rs_closed :: bool
  rs_resumeReady :: bool

datatype wire_event = Sent nat ClientFrame | ClosedSocket nat int

record 'h client =
  sock :: RoomSocket
  wire :: "wire_event list"
  next_socket :: nat
  host :: 'h

type_synonym ('h, 'a) cact = "('h client, client_error, 'a) act"

record 'h callbacks =
  cb_sink :: "envelope \<Rightarrow> ('h, unit) cact"
  cb_control :: "ServerFrame \<Rightarrow> ('h, unit) cact"
  cb_expired :: "('h, unit) cact"
  cb_unavailable :: "int \<Rightarrow> ('h, unit) cact"
  cb_connection :: "bool \<Rightarrow> ('h, unit) cact"
  cb_protocol :: "('h, unit) cact"

text \<open>
  The browser's side of a socket: whether it is open, whether a write number \<open>n\<close> of the
  trace throws, whether closing with a code throws.
\<close>

record browser =
  sock_open :: "nat \<Rightarrow> bool"
  send_throws :: "nat \<Rightarrow> nat \<Rightarrow> bool"
  close_throws :: "int \<Rightarrow> bool"

definition MAX_PENDING_COMMANDS :: nat where "MAX_PENDING_COMMANDS = 100"

definition act_catch :: "('s, 'e, 'a) act \<Rightarrow> ('e \<Rightarrow> ('s, 'e, 'a) act) \<Rightarrow> ('s, 'e, 'a) act" where
  "act_catch m h = (\<lambda>s. case m s of (Inl e, s') \<Rightarrow> h e s' | (Inr a, s') \<Rightarrow> (Inr a, s'))"

definition upd_sock :: "(RoomSocket \<Rightarrow> RoomSocket) \<Rightarrow> ('h, unit) cact" where
  "upd_sock f = modify (\<lambda>c. c\<lparr>sock := f (sock c)\<rparr>)"

definition getsock :: "(RoomSocket \<Rightarrow> 'a) \<Rightarrow> ('h, 'a) cact" where
  "getsock f = gets (\<lambda>c. f (sock c))"

definition roomWebSocketUrl :: "string \<Rightarrow> string \<Rightarrow> string \<Rightarrow> client_error + string" where
  "roomWebSocketUrl rid protocol hostname =
     (if \<not> isRoomId rid then Inl (Err ''INVALID_ROOM_ID'')
      else if protocol \<noteq> ''https:'' \<and> protocol \<noteq> ''http:'' then Inl (Err ''INVALID_PUBLIC_ORIGIN'')
      else if hostname = '''' \<or> list_ex (\<lambda>c. c \<in> {CHR ''/'', CHR ''?'', CHR ''#'', CHR ''@'', CHR 0x5C}) hostname then Inl (Err ''INVALID_PUBLIC_ORIGIN'')
      else Inr ((if protocol = ''https:'' then ''wss:'' else ''ws:'') @ ''//'' @ hostname @ websocket_route rid))"

text \<open>The socket argument \<open>None\<close> is the code's inert stand-in \<^verbatim>\<open>{ send: () => undefined }\<close>.\<close>

definition isOpen :: "browser \<Rightarrow> nat option \<Rightarrow> bool" where
  "isOpen b s = (case s of None \<Rightarrow> True | Some i \<Rightarrow> sock_open b i)"

definition socket_send :: "browser \<Rightarrow> nat option \<Rightarrow> ClientFrame \<Rightarrow> ('h, unit) cact" where
  "socket_send b s f = (case s of None \<Rightarrow> ret () | Some i \<Rightarrow> (\<lambda>c.
     if send_throws b i (length (wire c)) then (Inl (Err ''InvalidStateError''), c)
     else (Inr (), c\<lparr>wire := wire c @ [Sent i f]\<rparr>)))"

definition socket_close :: "browser \<Rightarrow> nat option \<Rightarrow> int \<Rightarrow> ('h, unit) cact" where
  "socket_close b s code = (case s of None \<Rightarrow> ret () | Some i \<Rightarrow> (\<lambda>c.
     if close_throws b code then (Inl (Err ''InvalidAccessError''), c)
     else (Inr (), c\<lparr>wire := wire c @ [ClosedSocket i code]\<rparr>)))"

definition new_socket :: "string \<Rightarrow> (string, js_number) jsmap \<Rightarrow> int list option \<Rightarrow> string \<Rightarrow> RoomSocket" where
  "new_socket rid storage delays cid =
     (let key = ''lo:'' @ rid @ '':seq''; saved = orelse (jm_get storage key) (Whole 0) in
      \<lparr>rs_clientId = cid, rs_lastRoomSeq = (if safe_natural saved then whole saved else 0), rs_roomId = rid,
       rs_storage = storage, rs_storageKey = key, rs_pending = [], rs_clientSeq = 0,
       rs_retryDelays = orelse delays [500, 1000, 2000, 4000, 8000], rs_retryIndex = 0, rs_retryTimer = None,
       rs_gate = None, rs_waiters = [], rs_socket = None, rs_factory = False, rs_closed = False, rs_resumeReady = False\<rparr>)"

definition hello :: "RoomSocket \<Rightarrow> ClientFrame" where
  "hello s = ClientHello (rs_clientId s) (rs_lastRoomSeq s)"

definition pendingCommandIds :: "RoomSocket \<Rightarrow> string list" where
  "pendingCommandIds s = jm_keys (rs_pending s)"

section \<open>Reconnecting\<close>

definition clearRetry :: "('h, unit) cact" where
  "clearRetry = upd_sock (\<lambda>s. s\<lparr>rs_retryTimer := None\<rparr>)"

text \<open>\<^verbatim>\<open>this.#closed = true; this.#clearRetry();\<close>\<close>

definition shut_down :: "('h, unit) cact" where
  "shut_down = upd_sock (\<lambda>s. s\<lparr>rs_closed := True, rs_retryTimer := None\<rparr>)"

definition deferReconnectUntil :: "nat \<Rightarrow> ('h, unit) cact" where
  "deferReconnectUntil g = upd_sock (\<lambda>s. s\<lparr>rs_gate := Some g\<rparr>)"

text \<open>\<^verbatim>\<open>delays[Math.min(index, delays.length - 1)]\<close>: an empty list has no delay.\<close>

definition retry_delay :: "RoomSocket \<Rightarrow> int option" where
  "retry_delay s = (if rs_retryDelays s = [] then None
     else Some (rs_retryDelays s ! min (rs_retryIndex s) (length (rs_retryDelays s) - 1)))"

definition schedule_in :: "RoomSocket \<Rightarrow> RoomSocket" where
  "schedule_in s =
     (if rs_closed s \<or> \<not> rs_factory s \<or> rs_retryTimer s \<noteq> None then s
      else case retry_delay s of
        None \<Rightarrow> s
      | Some d \<Rightarrow> s\<lparr>rs_retryIndex := rs_retryIndex s + 1, rs_retryTimer := Some (max 0 d)\<rparr>)"

definition scheduleReconnect :: "('h, unit) cact" where
  "scheduleReconnect = upd_sock schedule_in"

text \<open>\<^verbatim>\<open>onClose\<close>; the code is absent when the client itself gave the socket up.\<close>

definition rs_onClose :: "'h callbacks \<Rightarrow> int option \<Rightarrow> ('h, unit) cact" where
  "rs_onClose cb code =
     act_bind (getsock rs_closed) (\<lambda>closed. if closed then ret () else
     act_then (upd_sock (\<lambda>s. s\<lparr>rs_socket := None, rs_resumeReady := False\<rparr>))
     (act_then (cb_connection cb False)
     (act_bind (getsock rs_gate) (\<lambda>gate.
      if code = Some 4400 then
        act_then shut_down (cb_protocol cb)
      else if code = Some 4401 then
        act_then shut_down (cb_expired cb)
      else if code = Some 4403 \<or> code = Some 4410 then
        act_then shut_down (cb_unavailable cb (the code))
      else if code = Some 4409 \<and> gate = None then
        act_then shut_down (cb_protocol cb)
      else (case gate of
          Some g \<Rightarrow> upd_sock (\<lambda>s. s\<lparr>rs_waiters := rs_waiters s @ [g]\<rparr>)
        | None \<Rightarrow> scheduleReconnect)))))"

text \<open>The continuation of a recovery the socket waits for, run once per waiter.\<close>

definition gate_settled :: "nat \<Rightarrow> bool \<Rightarrow> ('h, unit) cact" where
  "gate_settled g fulfilled = upd_sock (\<lambda>s.
     if g \<notin> set (rs_waiters s) then s else
     let s1 = s\<lparr>rs_waiters := removeAll g (rs_waiters s), rs_gate := (if rs_gate s = Some g then None else rs_gate s)\<rparr> in
     if fulfilled then schedule_in s1 else s1)"

section \<open>Sending\<close>

definition command_id :: "json \<Rightarrow> string" where
  "command_id c = orelse (opt_string c ''commandId'') ''''"

text \<open>
  The write of a queued command: a failure closes the socket and gives it up when it is
  the current one.
\<close>

definition transmit :: "contracts \<Rightarrow> browser \<Rightarrow> 'h callbacks \<Rightarrow> json \<Rightarrow> nat option \<Rightarrow> ('h, unit) cact" where
  "transmit k b cb cmd s =
     act_bind (getsock rs_resumeReady) (\<lambda>ready.
        if ready \<and> isOpen b s then
          act_catch (act_bind (lift_result (encodeClientFrame k (ClientCommand cmd))) (socket_send b s))
            (\<lambda>_. act_then (act_catch (socket_close b s 1011) (\<lambda>_. ret ()))
               (act_bind (getsock rs_socket) (\<lambda>cur. if s \<noteq> None \<and> cur = s then rs_onClose cb None else ret ())))
        else ret ())"

definition rs_send :: "contracts \<Rightarrow> browser \<Rightarrow> 'h callbacks \<Rightarrow> json \<Rightarrow> nat option \<Rightarrow> ('h, unit) cact" where
  "rs_send k b cb command s =
     act_bind (lift_result (encodeRoomCommand k command)) (\<lambda>encoded.
     act_bind (getsock rs_pending) (\<lambda>pending. case jm_get pending (command_id command) of
       Some existing \<Rightarrow>
         act_bind (lift_result (encodeRoomCommand k existing)) (\<lambda>encodedOld.
         act_then (require (encodedOld = encoded) (Err ''COMMAND_ID_CONFLICT'')) (transmit k b cb existing s))
     | None \<Rightarrow>
         act_then (require (\<not> length pending \<ge> MAX_PENDING_COMMANDS) (Err ''PENDING_COMMAND_LIMIT''))
         (act_then (upd_sock (\<lambda>x. x\<lparr>rs_pending := jm_set (command_id command) command (rs_pending x)\<rparr>))
           (transmit k b cb command s))))"

definition sendEphemeral :: "contracts \<Rightarrow> browser \<Rightarrow> (int \<Rightarrow> ClientFrame) \<Rightarrow> nat option \<Rightarrow> ('h, unit) cact" where
  "sendEphemeral k b mk s =
     act_bind (getsock (\<lambda>x. (rs_clientSeq x + 1, rs_resumeReady x))) (\<lambda>(n, ready).
     if s = None \<or> \<not> ready \<or> \<not> isOpen b s then ret () else
     act_catch (act_then (act_bind (lift_result (encodeClientFrame k (mk n))) (socket_send b s))
                  (upd_sock (\<lambda>x. x\<lparr>rs_clientSeq := n\<rparr>))) (\<lambda>_. ret ()))"

definition sendPresence :: "contracts \<Rightarrow> browser \<Rightarrow> seat_state \<Rightarrow> ('h, unit) cact" where
  "sendPresence k b st = act_bind (getsock rs_socket) (sendEphemeral k b (ClientPresence st))"

definition sendTyping :: "contracts \<Rightarrow> browser \<Rightarrow> bool \<Rightarrow> ('h, unit) cact" where
  "sendTyping k b active = act_bind (getsock rs_socket) (sendEphemeral k b (ClientTyping active))"

fun send_each :: "contracts \<Rightarrow> browser \<Rightarrow> 'h callbacks \<Rightarrow> json list \<Rightarrow> nat option \<Rightarrow> ('h, unit) cact" where
  "send_each k b cb [] s = ret ()"
| "send_each k b cb (c # cs) s = act_then (rs_send k b cb c s) (send_each k b cb cs s)"

definition flushPending :: "contracts \<Rightarrow> browser \<Rightarrow> 'h callbacks \<Rightarrow> nat option \<Rightarrow> ('h, unit) cact" where
  "flushPending k b cb s = act_bind (getsock (\<lambda>x. jm_values (rs_pending x))) (\<lambda>cs. send_each k b cb cs s)"

definition sendHello :: "contracts \<Rightarrow> browser \<Rightarrow> nat option \<Rightarrow> ('h, unit) cact" where
  "sendHello k b s = act_bind (getsock hello) (\<lambda>f. act_bind (lift_result (encodeClientFrame k f)) (socket_send b s))"

section \<open>Receiving\<close>

definition acceptCursor :: "int \<Rightarrow> RoomSocket \<Rightarrow> RoomSocket" where
  "acceptCursor n s =
     (if \<bar>n\<bar> > max_safe_integer \<or> n < rs_lastRoomSeq s then s
      else s\<lparr>rs_lastRoomSeq := n, rs_storage := jm_set (rs_storageKey s) (Whole n) (rs_storage s)\<rparr>)"

definition rs_acceptEvent :: "'h callbacks \<Rightarrow> envelope \<Rightarrow> ('h, unit) cact" where
  "rs_acceptEvent cb e =
     act_bind (getsock (\<lambda>s. (rs_roomId s, rs_lastRoomSeq s))) (\<lambda>(rid, n).
     if roomId e \<noteq> rid \<or> roomSeq e \<le> n then ret ()
     else if roomSeq e \<noteq> n + 1 then cb_control cb (SnapshotRequired n (roomSeq e - 1))
     else act_then (upd_sock (acceptCursor (roomSeq e))) (cb_sink cb e))"

definition drop_pending :: "string \<Rightarrow> ('h, unit) cact" where
  "drop_pending i = upd_sock (\<lambda>s. s\<lparr>rs_pending := jm_delete i (rs_pending s)\<rparr>)"

definition onFrame :: "contracts \<Rightarrow> browser \<Rightarrow> 'h callbacks \<Rightarrow> raw_frame \<Rightarrow> nat option \<Rightarrow> ('h, unit) cact" where
  "onFrame k b cb v s =
     act_bind (lift_result (parseServerFrame k v)) (\<lambda>f. case f of
       EventFrame e \<Rightarrow> rs_acceptEvent cb e
     | ResumeComplete through \<Rightarrow>
         act_bind (getsock rs_lastRoomSeq) (\<lambda>n.
         if through \<noteq> n then cb_control cb (SnapshotRequired n (max n through)) else
         act_then (upd_sock (\<lambda>x. x\<lparr>rs_retryIndex := 0, rs_resumeReady := True\<rparr>))
         (act_then (cb_connection cb True) (act_then (flushPending k b cb s) (cb_control cb f))))
     | Ack i _ _ \<Rightarrow> act_then (drop_pending i) (cb_control cb f)
     | Reject (Some i) _ retryable \<Rightarrow>
         act_then (if i \<noteq> '''' \<and> retryable \<noteq> Some True then drop_pending i else ret ()) (cb_control cb f)
     | _ \<Rightarrow> cb_control cb f)"

text \<open>\<^verbatim>\<open>onFrame(value)\<close> with its default socket argument.\<close>

definition onFrame_default :: "contracts \<Rightarrow> browser \<Rightarrow> 'h callbacks \<Rightarrow> raw_frame \<Rightarrow> ('h, unit) cact" where
  "onFrame_default k b cb v = act_bind (getsock rs_socket) (onFrame k b cb v)"

section \<open>Connecting\<close>

text \<open>
  \<^verbatim>\<open>connect(factory)\<close>; \<open>fac\<close> is the exception the factory throws, if it does. The listeners
  it installs are the three operations after it.
\<close>

definition connect_socket :: "contracts \<Rightarrow> browser \<Rightarrow> 'h callbacks \<Rightarrow> client_error option \<Rightarrow> ('h, nat) cact" where
  "connect_socket k b cb fac =
     act_then (upd_sock (\<lambda>s. s\<lparr>rs_closed := False, rs_resumeReady := False, rs_factory := True\<rparr>))
     (act_then clearRetry
     (act_then (cb_connection cb False)
     (act_bind (getsock rs_socket) (\<lambda>previous.
      act_then (upd_sock (\<lambda>s. s\<lparr>rs_socket := None\<rparr>))
      (act_then (act_catch (socket_close b previous 1000) (\<lambda>_. ret ()))
      (case fac of Some e \<Rightarrow> raise e | None \<Rightarrow>
       act_bind (gets next_socket) (\<lambda>i.
       act_then (modify (\<lambda>c. c\<lparr>next_socket := i + 1, sock := (sock c)\<lparr>rs_socket := Some i\<rparr>\<rparr>))
       (act_then (if isOpen b (Some i) then sendHello k b (Some i) else ret ()) (ret i)))))))))"

definition protocolFailure :: "browser \<Rightarrow> 'h callbacks \<Rightarrow> nat \<Rightarrow> ('h, unit) cact" where
  "protocolFailure b cb i =
     act_bind (getsock rs_closed) (\<lambda>closed. if closed then ret () else
     act_then shut_down
     (act_then (upd_sock (\<lambda>s. if rs_socket s = Some i then s\<lparr>rs_socket := None\<rparr> else s))
     (act_then (cb_connection cb False)
     (act_then (socket_close b (Some i) 4400) (cb_protocol cb)))))"

definition opened_listener :: "contracts \<Rightarrow> browser \<Rightarrow> nat \<Rightarrow> ('h, unit) cact" where
  "opened_listener k b i = act_bind (getsock (\<lambda>s. \<not> rs_closed s \<and> rs_socket s = Some i)) (\<lambda>ok.
     if ok then sendHello k b (Some i) else ret ())"

definition message_listener :: "contracts \<Rightarrow> browser \<Rightarrow> 'h callbacks \<Rightarrow> nat \<Rightarrow> raw_frame \<Rightarrow> ('h, unit) cact" where
  "message_listener k b cb i v = act_bind (getsock (\<lambda>s. rs_closed s \<or> rs_socket s \<noteq> Some i)) (\<lambda>skip.
     if skip then ret () else act_catch (onFrame k b cb v (Some i)) (\<lambda>_. protocolFailure b cb i))"

definition close_listener :: "'h callbacks \<Rightarrow> nat \<Rightarrow> int option \<Rightarrow> ('h, unit) cact" where
  "close_listener cb i code = act_bind (getsock rs_socket) (\<lambda>cur. if cur = Some i then rs_onClose cb code else ret ())"

text \<open>The retry timer fires.\<close>

definition retry_fires :: "contracts \<Rightarrow> browser \<Rightarrow> 'h callbacks \<Rightarrow> client_error option \<Rightarrow> ('h, unit) cact" where
  "retry_fires k b cb fac = act_bind (getsock (\<lambda>s. rs_retryTimer s \<noteq> None)) (\<lambda>armed. if \<not> armed then ret () else
     act_then (upd_sock (\<lambda>s. s\<lparr>rs_retryTimer := None\<rparr>))
     (act_bind (getsock (\<lambda>s. \<not> rs_closed s \<and> rs_factory s)) (\<lambda>go.
       if go then act_then (connect_socket k b cb fac) (ret ()) else ret ())))"

definition close_socket :: "browser \<Rightarrow> 'h callbacks \<Rightarrow> ('h, unit) cact" where
  "close_socket b cb =
     act_then shut_down
     (act_then (upd_sock (\<lambda>s. s\<lparr>rs_resumeReady := False\<rparr>))
     (act_bind (getsock rs_socket) (\<lambda>cur.
      act_then (socket_close b cur 1000)
      (act_then (upd_sock (\<lambda>s. s\<lparr>rs_socket := None\<rparr>)) (cb_connection cb False)))))"

definition destroy_socket :: "browser \<Rightarrow> 'h callbacks \<Rightarrow> ('h, unit) cact" where
  "destroy_socket b cb =
     act_then (close_socket b cb)
     (upd_sock (\<lambda>s. s\<lparr>rs_pending := [], rs_clientSeq := 0, rs_storage := jm_delete (rs_storageKey s) (rs_storage s),
        rs_roomId := '''', rs_storageKey := '''', rs_lastRoomSeq := 0, rs_gate := None, rs_factory := False\<rparr>))"

end
