(* ===== verification/Socket_Cursor.thy ===== *)
theory Socket_Cursor
  imports Room_Socket
begin

text \<open>
  What the room socket keeps, whatever its callbacks do within their contract. The locale
  \<open>socket_frame\<close> is that contract for one predicate on the client: the callbacks a frame can
  reach keep it, and so does each internal update that does not move the cursor. From it,
  every operation that a frame other than an event sets off keeps the predicate; the
  contiguous-cursor contract and the queue invariant are two instances.
\<close>

lemma keeps_catch [keeps_intros]: "keeps I m \<Longrightarrow> (\<And>e. keeps I (h e)) \<Longrightarrow> keeps I (act_catch m h)"
  unfolding keeps_def act_catch_def by (fastforce split: prod.split sum.split)

lemma keeps_getsock [keeps_intros]: "keeps I (getsock f)"
  by (simp add: getsock_def keeps_gets)

lemma keeps_upd_sock: "(\<And>c. I c \<Longrightarrow> I (c\<lparr>sock := f (sock c)\<rparr>)) \<Longrightarrow> keeps I (upd_sock f)"
  by (simp add: upd_sock_def keeps_def)

lemma act_catch_app [act_simps]:
  "act_catch m h s = (case m s of (Inl e, s') \<Rightarrow> h e s' | (Inr a, s') \<Rightarrow> (Inr a, s'))"
  by (simp add: act_catch_def)

lemma upd_sock_app [act_simps, simp]: "upd_sock f c = (Inr (), c\<lparr>sock := f (sock c)\<rparr>)"
  by (simp add: upd_sock_def)

lemma getsock_app [act_simps, simp]: "getsock f c = (Inr (f (sock c)), c)"
  by (simp add: getsock_def)

locale socket_frame =
  fixes cb :: "'h callbacks" and I :: "'h client \<Rightarrow> bool"
  assumes control_keeps: "keeps I (cb_control cb f)"
    and connection_keeps: "keeps I (cb_connection cb up)"
    and wire_keeps: "I c \<Longrightarrow> I (c\<lparr>wire := w\<rparr>)"
    and give_up: "I c \<Longrightarrow> I (c\<lparr>sock := (sock c)\<lparr>rs_socket := None, rs_resumeReady := False\<rparr>\<rparr>)"
    and wait_keeps: "I c \<Longrightarrow> I (c\<lparr>sock := (sock c)\<lparr>rs_waiters := g\<rparr>\<rparr>)"
    and schedule_keeps: "I c \<Longrightarrow> I (c\<lparr>sock := schedule_in (sock c)\<rparr>)"
    and enqueue_keeps: "I c \<Longrightarrow> length (rs_pending (sock c)) < MAX_PENDING_COMMANDS \<Longrightarrow>
          I (c\<lparr>sock := (sock c)\<lparr>rs_pending := jm_set i v (rs_pending (sock c))\<rparr>\<rparr>)"
    and dequeue_keeps: "I c \<Longrightarrow> I (c\<lparr>sock := (sock c)\<lparr>rs_pending := jm_delete i (rs_pending (sock c))\<rparr>\<rparr>)"
    and client_seq_keeps: "I c \<Longrightarrow> I (c\<lparr>sock := (sock c)\<lparr>rs_clientSeq := n\<rparr>\<rparr>)"
    and resume_keeps: "I c \<Longrightarrow> I (c\<lparr>sock := (sock c)\<lparr>rs_retryIndex := 0, rs_resumeReady := True\<rparr>\<rparr>)"
begin

lemma socket_send_keeps: "keeps I (socket_send b s f)"
  unfolding socket_send_def by (cases s) (auto simp: keeps_def wire_keeps)

lemma socket_close_keeps: "keeps I (socket_close b s code)"
  unfolding socket_close_def by (cases s) (auto simp: keeps_def wire_keeps)

lemma gave_up_keeps: "keeps I (rs_onClose cb None)"
proof -
  have "rs_onClose cb None = act_bind (getsock rs_closed) (\<lambda>closed. if closed then ret () else
     act_then (upd_sock (\<lambda>s. s\<lparr>rs_socket := None, rs_resumeReady := False\<rparr>))
     (act_then (cb_connection cb False)
     (act_bind (getsock rs_gate) (\<lambda>gate. case gate of
          Some g \<Rightarrow> upd_sock (\<lambda>s. s\<lparr>rs_waiters := rs_waiters s @ [g]\<rparr>)
        | None \<Rightarrow> scheduleReconnect))))"
    by (simp add: rs_onClose_def cong: if_cong)
  moreover have "keeps I \<dots>"
    unfolding scheduleReconnect_def
    by (intro keeps_intros keeps_upd_sock connection_keeps give_up wait_keeps schedule_keeps)
  ultimately show ?thesis by simp
qed

lemma transmit_keeps: "keeps I (transmit k b cb st s)"
  unfolding transmit_def by (intro keeps_intros socket_send_keeps socket_close_keeps gave_up_keeps)

lemma enqueue_then:
  assumes "keeps I m" "\<And>x. keeps I (f x)"
  shows "keeps I (act_bind (getsock rs_pending) (\<lambda>pending. case jm_get pending i of
     Some x \<Rightarrow> f x
   | None \<Rightarrow> act_then (require (\<not> length pending \<ge> MAX_PENDING_COMMANDS) e)
       (act_then (upd_sock (\<lambda>x. x\<lparr>rs_pending := jm_set i v (rs_pending x)\<rparr>)) m)))"
  using assms enqueue_keeps unfolding keeps_def
  by (auto simp: act_bind_app act_then_app require_app not_le split: option.split)

lemma send_keeps: "keeps I (rs_send k b cb command s)"
  unfolding rs_send_def by (intro keeps_bind keeps_lift_result enqueue_then keeps_then keeps_require transmit_keeps)

lemma send_each_keeps: "keeps I (send_each k b cb cs s)"
proof (induction cs)
  case Nil
  show ?case unfolding send_each.simps by (rule keeps_ret)
next
  case (Cons c cs)
  then show ?case unfolding send_each.simps by (intro keeps_then send_keeps)
qed

lemma flushPending_keeps: "keeps I (flushPending k b cb s)"
  unfolding flushPending_def by (intro keeps_intros send_each_keeps)

lemma sendEphemeral_keeps: "keeps I (sendEphemeral k b mk s)"
  unfolding sendEphemeral_def
  by (auto intro!: keeps_intros socket_send_keeps keeps_upd_sock client_seq_keeps split: prod.split)

lemma sendPresence_keeps: "keeps I (sendPresence k b st)"
  unfolding sendPresence_def by (intro keeps_intros sendEphemeral_keeps)

lemma drop_pending_keeps: "keeps I (drop_pending i)"
  unfolding drop_pending_def by (rule keeps_upd_sock) (rule dequeue_keeps)

definition not_event :: "raw_frame \<Rightarrow> bool" where
  "not_event v \<longleftrightarrow> (case v of Shaped (EventFrame _) \<Rightarrow> False | _ \<Rightarrow> True)"

lemma onFrame_keeps:
  assumes "not_event v"
  shows "keeps I (onFrame k b cb v s)"
proof (rule keepsI)
  fix c assume c: "I c"
  show "I (snd (onFrame k b cb v s c))"
  proof (cases "parseServerFrame k v")
    case (Inl e)
    then show ?thesis using c by (simp add: onFrame_def act_bind_app lift_result_def)
  next
    case (Inr f)
    then have f: "\<And>e. f \<noteq> EventFrame e" using assms parseServerFrame_Inr [OF Inr] by (auto simp: not_event_def)
    have "keeps I (case f of
       EventFrame e \<Rightarrow> rs_acceptEvent cb e
     | ResumeComplete through \<Rightarrow>
         act_bind (getsock rs_lastRoomSeq) (\<lambda>n.
         if through \<noteq> n then cb_control cb (SnapshotRequired n (max n through)) else
         act_then (upd_sock (\<lambda>x. x\<lparr>rs_retryIndex := 0, rs_resumeReady := True\<rparr>))
         (act_then (cb_connection cb True) (act_then (flushPending k b cb s) (cb_control cb f))))
     | Ack i _ _ \<Rightarrow> act_then (drop_pending i) (cb_control cb f)
     | Reject (Some i) _ retryable \<Rightarrow>
         act_then (if i \<noteq> '''' \<and> retryable \<noteq> Some True then drop_pending i else ret ()) (cb_control cb f)
     | _ \<Rightarrow> cb_control cb f)"
      using f by (auto intro!: keeps_intros keeps_upd_sock control_keeps connection_keeps flushPending_keeps drop_pending_keeps resume_keeps
          split: ServerFrame.split option.split)
    then show ?thesis using c Inr by (simp add: onFrame_def act_bind_app lift_result_def keeps_def)
  qed
qed

end

section \<open>The cursor\<close>

text \<open>Hosts that leave the socket's cursor alone while a frame is handled.\<close>

locale quiet_host =
  fixes cb :: "'h callbacks"
  assumes control_quiet: "keeps (\<lambda>c. rs_lastRoomSeq (sock c) = n) (cb_control cb f)"
    and connection_quiet: "keeps (\<lambda>c. rs_lastRoomSeq (sock c) = n) (cb_connection cb up)"
    and sink_quiet: "keeps (\<lambda>c. rs_lastRoomSeq (sock c) = n) (cb_sink cb e)"
begin

lemma frame: "socket_frame cb (\<lambda>c. rs_lastRoomSeq (sock c) = n)"
  by unfold_locales (simp_all add: control_quiet connection_quiet schedule_in_def split: option.split)

definition frame_number :: "raw_frame \<Rightarrow> int option" where
  "frame_number v = (case v of Shaped (EventFrame e) \<Rightarrow> Some (roomSeq e) | _ \<Rightarrow> None)"

lemma acceptEvent_cursor:
  "rs_lastRoomSeq (sock (snd (rs_acceptEvent cb e c))) = rs_lastRoomSeq (sock c) \<or>
     rs_lastRoomSeq (sock (snd (rs_acceptEvent cb e c))) = rs_lastRoomSeq (sock c) + 1 \<and> roomSeq e = rs_lastRoomSeq (sock c) + 1"
  using control_quiet [unfolded keeps_def] sink_quiet [unfolded keeps_def]
  by (auto simp: rs_acceptEvent_def act_bind_app act_then_app acceptCursor_def)

lemma onFrame_cursor:
  "rs_lastRoomSeq (sock (snd (onFrame k b cb v s c))) = rs_lastRoomSeq (sock c) \<or>
     rs_lastRoomSeq (sock (snd (onFrame k b cb v s c))) = rs_lastRoomSeq (sock c) + 1 \<and> frame_number v = Some (rs_lastRoomSeq (sock c) + 1)"
proof (cases "\<exists>e. v = Shaped (EventFrame e)")
  case True
  then obtain e where v: "v = Shaped (EventFrame e)" by blast
  show ?thesis
    using acceptEvent_cursor [of e c]
    by (cases "parseServerFrame k v") (auto simp: v onFrame_def act_bind_app lift_result_def frame_number_def dest!: parseServerFrame_Inr)
next
  case False
  then have "socket_frame.not_event v" by (auto simp: socket_frame.not_event_def [OF frame] split: raw_frame.split ServerFrame.split)
  then show ?thesis
    using socket_frame.onFrame_keeps [OF frame [of "rs_lastRoomSeq (sock c)"], of v k b s] by (auto simp: keeps_def)
qed

end

sublocale quiet_host \<subseteq> contiguous_cursor "\<lambda>c. rs_lastRoomSeq (sock c)" "\<lambda>v c. snd (onFrame k b cb v s c)" frame_number for k b s
  by unfold_locales (use onFrame_cursor in blast)

section \<open>The command queue and the retry timer\<close>

text \<open>
  At most one hundred commands wait for an answer, each under its own id, and a socket
  that is closed for good has no reconnect armed.
\<close>

definition queue_ok :: "RoomSocket \<Rightarrow> bool" where
  "queue_ok s \<longleftrightarrow> jm_ok (rs_pending s) \<and> length (rs_pending s) \<le> MAX_PENDING_COMMANDS \<and> (rs_closed s \<longrightarrow> rs_retryTimer s = None)"

definition client_queue_ok :: "'h client \<Rightarrow> bool" where
  "client_queue_ok c = queue_ok (sock c)"

lemma client_queue_ok_upd: "queue_ok (f (sock c)) \<Longrightarrow> client_queue_ok (c\<lparr>sock := f (sock c)\<rparr>)"
  by (simp add: client_queue_ok_def)

lemma keeps_queue: "(\<And>s. queue_ok s \<Longrightarrow> queue_ok (f s)) \<Longrightarrow> keeps client_queue_ok (upd_sock f)"
  by (rule keeps_upd_sock) (simp add: client_queue_ok_def)

lemma queue_ok_schedule: "queue_ok s \<Longrightarrow> queue_ok (schedule_in s)"
  by (auto simp: queue_ok_def schedule_in_def split: option.split)

lemma queue_ok_updates [simp]:
  "queue_ok s \<Longrightarrow> queue_ok (s\<lparr>rs_socket := x\<rparr>)" "queue_ok s \<Longrightarrow> queue_ok (s\<lparr>rs_resumeReady := r\<rparr>)"
  "queue_ok s \<Longrightarrow> queue_ok (s\<lparr>rs_waiters := ws\<rparr>)" "queue_ok s \<Longrightarrow> queue_ok (s\<lparr>rs_gate := g\<rparr>)"
  "queue_ok s \<Longrightarrow> queue_ok (s\<lparr>rs_clientSeq := n\<rparr>)" "queue_ok s \<Longrightarrow> queue_ok (s\<lparr>rs_retryIndex := m\<rparr>)"
  "queue_ok s \<Longrightarrow> queue_ok (s\<lparr>rs_factory := fa\<rparr>)" "queue_ok s \<Longrightarrow> queue_ok (s\<lparr>rs_retryTimer := None\<rparr>)"
  "queue_ok s \<Longrightarrow> queue_ok (s\<lparr>rs_closed := False\<rparr>)" "queue_ok s \<Longrightarrow> queue_ok (s\<lparr>rs_closed := True, rs_retryTimer := None\<rparr>)"
  "queue_ok s \<Longrightarrow> queue_ok (s\<lparr>rs_lastRoomSeq := l\<rparr>)" "queue_ok s \<Longrightarrow> queue_ok (s\<lparr>rs_storage := st\<rparr>)"
  "queue_ok s \<Longrightarrow> queue_ok (s\<lparr>rs_roomId := ri\<rparr>)" "queue_ok s \<Longrightarrow> queue_ok (s\<lparr>rs_storageKey := sk\<rparr>)"
  "queue_ok s \<Longrightarrow> queue_ok (s\<lparr>rs_pending := []\<rparr>)" "queue_ok s \<Longrightarrow> queue_ok (s\<lparr>rs_pending := jm_delete i (rs_pending s)\<rparr>)"
  by (auto simp: queue_ok_def intro: le_trans [OF jm_delete_length_le])

lemma queue_ok_enqueue: "queue_ok s \<Longrightarrow> length (rs_pending s) < MAX_PENDING_COMMANDS \<Longrightarrow> queue_ok (s\<lparr>rs_pending := jm_set i v (rs_pending s)\<rparr>)"
  by (simp add: queue_ok_def jm_set_length)

lemma queue_ok_cursor: "queue_ok s \<Longrightarrow> queue_ok (acceptCursor n s)"
  by (simp add: acceptCursor_def)

lemma shut_down_ok: "keeps client_queue_ok shut_down"
  unfolding shut_down_def by (rule keeps_queue) simp

lemma clearRetry_ok: "keeps client_queue_ok clearRetry"
  unfolding clearRetry_def by (rule keeps_queue) simp

text \<open>Callbacks that keep the queue in order: the contract for every other operation.\<close>

locale orderly_host =
  fixes cb :: "'h callbacks"
  assumes control_ok: "keeps client_queue_ok (cb_control cb f)"
    and connection_ok: "keeps client_queue_ok (cb_connection cb up)"
    and sink_ok: "keeps client_queue_ok (cb_sink cb e)"
    and expired_ok: "keeps client_queue_ok (cb_expired cb)"
    and unavailable_ok: "keeps client_queue_ok (cb_unavailable cb code)"
    and protocol_ok: "keeps client_queue_ok (cb_protocol cb)"

sublocale orderly_host \<subseteq> of: socket_frame cb client_queue_ok
proof unfold_locales
  show "keeps client_queue_ok (cb_control cb f)" "keeps client_queue_ok (cb_connection cb up)" for f up
    by (rule control_ok connection_ok)+
qed (simp_all add: client_queue_ok_def queue_ok_schedule queue_ok_enqueue)

context orderly_host
begin

lemma onClose_ok: "keeps client_queue_ok (rs_onClose cb code)"
  unfolding rs_onClose_def scheduleReconnect_def
  by (intro keeps_intros shut_down_ok expired_ok unavailable_ok protocol_ok connection_ok keeps_queue)
     (simp_all add: queue_ok_schedule)

lemma acceptEvent_ok: "keeps client_queue_ok (rs_acceptEvent cb e)"
proof -
  have "keeps client_queue_ok (act_then (upd_sock (acceptCursor n)) (cb_sink cb e))" for n
    by (intro keeps_then sink_ok keeps_queue) (rule queue_ok_cursor)
  then show ?thesis
    unfolding rs_acceptEvent_def by (intro keeps_bind keeps_getsock) (auto intro!: keeps_if control_ok keeps_ret split: prod.split simp del: ret_app)
qed

lemma onFrame_ok: "keeps client_queue_ok (onFrame k b cb v s)"
proof (cases "\<exists>e. v = Shaped (EventFrame e)")
  case True
  then obtain e where v: "v = Shaped (EventFrame e)" by blast
  have "snd (onFrame k b cb v s c) = c \<or> snd (onFrame k b cb v s c) = snd (rs_acceptEvent cb e c)" for c
    by (cases "parseServerFrame k v") (auto simp: v onFrame_def act_bind_app lift_result_def dest!: parseServerFrame_Inr)
  then show ?thesis using acceptEvent_ok [of e] unfolding keeps_def by metis
next
  case False
  then have "of.not_event v" by (auto simp: of.not_event_def split: raw_frame.split ServerFrame.split)
  then show ?thesis by (rule of.onFrame_keeps)
qed

lemma sendHello_ok: "keeps (client_queue_ok :: 'h client \<Rightarrow> bool) (sendHello k b s)"
  unfolding sendHello_def by (intro keeps_bind keeps_getsock keeps_lift_result of.socket_send_keeps)

lemma connect_ok: "keeps client_queue_ok (connect_socket k b cb fac)"
proof -
  have m: "keeps client_queue_ok (modify (\<lambda>c. c\<lparr>next_socket := i + 1, sock := (sock c)\<lparr>rs_socket := Some i\<rparr>\<rparr>))" for i
    by (simp add: keeps_def client_queue_ok_def)
  show ?thesis
    unfolding connect_socket_def
    by (intro keeps_intros clearRetry_ok connection_ok keeps_queue of.socket_close_keeps sendHello_ok m) simp_all
qed

lemma protocolFailure_ok: "keeps client_queue_ok (protocolFailure b cb i)"
  unfolding protocolFailure_def
  by (intro keeps_intros shut_down_ok connection_ok protocol_ok keeps_queue of.socket_close_keeps) simp

lemma listeners_ok:
  "keeps (client_queue_ok :: 'h client \<Rightarrow> bool) (opened_listener k b i)" "keeps client_queue_ok (message_listener k b cb i v)"
  "keeps client_queue_ok (close_listener cb i code)"
  unfolding opened_listener_def message_listener_def close_listener_def
  by (intro keeps_intros sendHello_ok onFrame_ok protocolFailure_ok onClose_ok)+

lemma retry_fires_ok: "keeps client_queue_ok (retry_fires k b cb fac)"
  unfolding retry_fires_def by (intro keeps_intros keeps_queue connect_ok) simp

lemma close_ok: "keeps client_queue_ok (close_socket b cb)"
  unfolding close_socket_def
  by (intro keeps_intros shut_down_ok keeps_queue connection_ok of.socket_close_keeps) simp_all

lemma destroy_ok: "keeps client_queue_ok (destroy_socket b cb)"
  unfolding destroy_socket_def by (intro keeps_then close_ok keeps_queue) simp

lemma gate_settled_ok: "keeps client_queue_ok (gate_settled g fulfilled)"
  unfolding gate_settled_def by (rule keeps_queue) (simp add: Let_def queue_ok_schedule)

end

end
