(* ===== verification/Command_Bus.thy ===== *)
theory Command_Bus
  imports Room_Socket Seat_Codes
begin

text \<open>
  \<^verbatim>\<open>makeSessionCommandBus\<close> of \<^verbatim>\<open>apps/web/src/lib/session/session-command-bus.ts\<close>: a user's
  intent becomes a validated room command with a fresh id, which the transport takes. The
  transport, the clock and the id generator are arguments, as in the code.
\<close>

datatype RoomCommandIntent =
    OpenIntent | PauseIntent | ResumeIntent | CloseIntent
  | AddIntent string "string option" "string list" "string list"
  | ReviseIntent string string "string option" "string list" int
  | RetractIntent string int
  | OtherIntent string

fun intent_type :: "RoomCommandIntent \<Rightarrow> string" where
  "intent_type OpenIntent = ''room.open''"
| "intent_type PauseIntent = ''room.pause''"
| "intent_type ResumeIntent = ''room.resume''"
| "intent_type CloseIntent = ''room.close''"
| "intent_type (AddIntent _ _ _ _) = ''message.add''"
| "intent_type (ReviseIntent _ _ _ _ _) = ''message.revise''"
| "intent_type (RetractIntent _ _) = ''message.retract''"
| "intent_type (OtherIntent t) = t"

text \<open>\<^verbatim>\<open>[...new Set(values)]\<close>: first occurrences, in order.\<close>

definition unique :: "string list \<Rightarrow> string list" where
  "unique xs = foldl (\<lambda>acc x. if x \<in> set acc then acc else acc @ [x]) [] xs"

definition json_strings :: "string list \<Rightarrow> json" where
  "json_strings xs = JArr (map JStr xs)"

definition json_opt :: "string option \<Rightarrow> json" where
  "json_opt s = (case s of None \<Rightarrow> JNull | Some x \<Rightarrow> JStr x)"

definition common_members :: "string \<Rightarrow> string \<Rightarrow> int \<Rightarrow> (string \<times> json) list" where
  "common_members cid rid t = [(''commandId'', JStr cid), (''roomId'', JStr rid), (''clientTime'', JTime t)]"

definition freezeCommand :: "contracts \<Rightarrow> (string \<times> json) list \<Rightarrow> client_error + json" where
  "freezeCommand k ms = rbind (encodeRoomCommand k (JObj ms)) (\<lambda>_. Inr (JObj ms))"

definition build_command :: "contracts \<Rightarrow> string \<Rightarrow> string \<Rightarrow> int \<Rightarrow> RoomCommandIntent \<Rightarrow> client_error + json" where
  "build_command k cid rid t intent =
     (let common = common_members cid rid t; ty = (''type'', JStr (intent_type intent)) in
      case intent of
        AddIntent raw replyTo ms media \<Rightarrow>
          let body = js_trim raw; mentions = unique ms; mediaIds = unique media in
          rbind (check (\<not> (body = '''' \<and> length mediaIds = 0)) ''MESSAGE_TEXT_OR_MEDIA_REQUIRED'') (\<lambda>_.
          rbind (check (\<not> length mediaIds > 4) ''MESSAGE_MEDIA_LIMIT_EXCEEDED'') (\<lambda>_.
          freezeCommand k (common @ [ty, (''payload'', JObj [(''text'', JStr body), (''replyTo'', json_opt replyTo),
            (''mentions'', json_strings mentions), (''mediaIds'', json_strings mediaIds)])])))
      | ReviseIntent mid raw replyTo ms rv \<Rightarrow>
          let body = js_trim raw in
          rbind (check (body \<noteq> '''') ''MESSAGE_TEXT_REQUIRED'') (\<lambda>_.
          freezeCommand k (common @ [ty, (''baseRevision'', JNum (of_int rv)), (''payload'', JObj [(''messageId'', JStr mid),
            (''text'', JStr body), (''replyTo'', json_opt replyTo), (''mentions'', json_strings (unique ms))])]))
      | RetractIntent mid rv \<Rightarrow>
          freezeCommand k (common @ [ty, (''baseRevision'', JNum (of_int rv)), (''payload'', JObj [(''messageId'', JStr mid)])])
      | OtherIntent _ \<Rightarrow> Inl (Err ''COMMAND_INTENT_INVALID'')
      | _ \<Rightarrow> freezeCommand k (common @ [ty, (''payload'', JObj [])]))"

definition bus_send ::
  "contracts \<Rightarrow> string \<Rightarrow> date \<Rightarrow> client_error + string \<Rightarrow> (json \<Rightarrow> ('s, client_error, string) act) \<Rightarrow> RoomCommandIntent \<Rightarrow> ('s, client_error, string) act" where
  "bus_send k rid now uuid transport intent =
     act_then (require (validDate now) (Err ''COMMAND_CLOCK_INVALID''))
     (act_bind (lift_result uuid) (\<lambda>cid.
      act_bind (lift_result (build_command k cid rid (date_time now) intent)) (\<lambda>command.
      act_bind (transport command) (\<lambda>sent.
      act_then (require (sent = cid) (Err ''COMMAND_TRANSPORT_ID_MISMATCH'')) (ret cid)))))"

section \<open>What the bus sends\<close>

lemma unique_aux: "distinct acc \<Longrightarrow> distinct (foldl (\<lambda>acc x. if x \<in> set acc then acc else acc @ [x]) acc xs) \<and>
  set (foldl (\<lambda>acc x. if x \<in> set acc then acc else acc @ [x]) acc xs) = set acc \<union> set xs"
  by (induction xs arbitrary: acc) (simp_all add: insert_absorb)

lemma unique_spec: "distinct (unique xs)" "set (unique xs) = set xs"
  using unique_aux [of "[]" xs] by (simp_all add: unique_def)

text \<open>A built command passed the command schema and carries the id, the room and the intent's type.\<close>

lemma build_command_Inr:
  assumes "build_command k cid rid t intent = Inr c"
  shows "command_schema k c" "command_id c = cid" "opt_string c ''roomId'' = Some rid"
    "opt_string c ''type'' = Some (intent_type intent)" "jmember c ''clientTime'' = Some (JTime t)"
  using assms
  by (auto simp: build_command_def freezeCommand_def encodeRoomCommand_def rbind_Inr_iff check_Inr_iff Let_def command_id_def
      opt_string_def jmember_def common_members_def split: RoomCommandIntent.splits if_splits)

lemma build_add_payload:
  assumes "build_command k cid rid t (AddIntent raw replyTo ms media) = Inr c"
  shows "\<exists>p. jmember c ''payload'' = Some p \<and> opt_string p ''text'' = Some (js_trim raw) \<and>
     (js_trim raw \<noteq> '''' \<or> string_items p ''mediaIds'' \<noteq> []) \<and> length (string_items p ''mediaIds'') \<le> 4 \<and>
     distinct (string_items p ''mediaIds'') \<and> set (string_items p ''mediaIds'') = set media \<and>
     distinct (string_items p ''mentions'') \<and> set (string_items p ''mentions'') = set ms \<and> opt_string p ''replyTo'' = replyTo"
proof -
  let ?p = "JObj [(''text'', JStr (js_trim raw)), (''replyTo'', json_opt replyTo), (''mentions'', json_strings (unique ms)),
     (''mediaIds'', json_strings (unique media))]"
  from assms have c: "c = JObj (common_members cid rid t @ [(''type'', JStr ''message.add''), (''payload'', ?p)])"
    and g: "js_trim raw \<noteq> '''' \<or> unique media \<noteq> []" "length (unique media) \<le> 4"
    by (auto simp: build_command_def freezeCommand_def encodeRoomCommand_def rbind_Inr_iff check_Inr_iff Let_def split: if_splits)
  have t: "map json_text (map JStr xs) = xs" for xs by (simp add: json_text_def comp_def)
  have i: "string_items ?p ''mediaIds'' = unique media" "string_items ?p ''mentions'' = unique ms"
    by (simp_all add: string_items_def jmember_def json_strings_def t del: map_map)
  have "opt_string ?p ''text'' = Some (js_trim raw)" "opt_string ?p ''replyTo'' = replyTo"
    by (simp_all add: opt_string_def jmember_def json_opt_def split: option.split)
  moreover have "jmember c ''payload'' = Some ?p" by (simp add: c jmember_def common_members_def)
  ultimately show ?thesis using g i unique_spec by (intro exI [of _ ?p]) simp
qed

lemma bus_send_Inr:
  assumes "bus_send k rid now uuid transport intent s = (Inr cid, s')"
  shows "uuid = Inr cid \<and> validDate now \<and>
     (\<exists>c. build_command k cid rid (date_time now) intent = Inr c \<and> transport c s = (Inr cid, s'))"
  using assms by (auto simp: bus_send_def act_iffs)

end
