(* ===== verification/Concept_Contract.thy ===== *)
theory Concept_Contract
  imports Wire_Frames
begin

text \<open>
  The analytics contract of \<^verbatim>\<open>packages/contracts/src/analytics.ts\<close>: concept-map snapshots
  and patches, network bundles, and the semantic checks the parsers add to the JSON
  schemas. The schema validators themselves are fields of \<open>analytics_schemas\<close>.
\<close>

section \<open>Data\<close>

text \<open>The bounds of an evidence span; \<open>None\<close> is a value that is not a number.\<close>

type_synonym span = "int option \<times> int option"

record concept_node =
  cn_id :: string
  cn_x :: rat
  cn_y :: rat
  cn_review :: string
  cn_data :: json

record concept_edge =
  ce_id :: string
  ce_head :: string
  ce_tail :: string
  ce_review :: string
  ce_refs :: "span list option"
  ce_data :: json

record ConceptMapSnapshot =
  sn_roomId :: string
  sn_key :: projection_key
  sn_epoch :: string
  sn_algorithm :: string
  sn_parameters :: string
  sn_version :: int
  sn_base :: int
  sn_through :: int
  sn_replay :: bool
  sn_evidence :: string
  sn_review :: string
  sn_display :: string
  sn_warnings :: "string list"
  sn_refs :: "span list option"
  sn_nodes :: "concept_node list"
  sn_edges :: "concept_edge list"
  sn_rest :: json

record ConceptMapPatch =
  pa_epoch :: string
  pa_algorithm :: string
  pa_parameters :: string
  pa_version :: int
  pa_base :: int
  pa_through :: int
  pa_replay :: bool
  pa_warnings :: "string list"
  pa_refs :: "span list option"
  pa_nodesAdded :: "concept_node list"
  pa_nodesUpdated :: "concept_node list"
  pa_nodesHidden :: "string list"
  pa_edgesAdded :: "concept_edge list"
  pa_edgesUpdated :: "concept_edge list"
  pa_edgesHidden :: "string list"
  pa_positions :: "(string \<times> rat \<times> rat) list"

record trace_node =
  tn_id :: string
  tn_label :: "string option"
  tn_kind :: "string option"

record trace_edge =
  te_edgeId :: "string option"
  te_sourceId :: "string option"
  te_targetId :: "string option"
  te_sourceNodeId :: "string option"
  te_targetNodeId :: "string option"
  te_layer :: string
  te_refs :: "(string \<times> int option \<times> int option) list option"

record trace_view =
  tv_nodes :: "trace_node list"
  tv_edges :: "trace_edge list"

record trace_window =
  tw_start :: date
  tw_end :: date
  tw_views :: "(string \<times> trace_view) list"

record SnaProjectionBundle =
  tb_roomId :: string
  tb_key :: projection_key
  tb_epoch :: string
  tb_version :: int
  tb_base :: int
  tb_through :: int
  tb_replay :: bool
  tb_evidence :: string
  tb_watermark :: date
  tb_recent :: trace_window
  tb_session :: trace_window
  tb_mapping :: "(string \<times> string \<times> string) list"
  tb_rest :: json

record analytics_schemas =
  echo_schema :: "ConceptMapSnapshot \<Rightarrow> bool"
  teacher_echo_schema :: "ConceptMapSnapshot \<Rightarrow> bool"
  student_echo_schema :: "ConceptMapSnapshot \<Rightarrow> bool"
  trace_schema :: "SnaProjectionBundle \<Rightarrow> bool"

section \<open>Spans\<close>

definition span_ok :: "span \<Rightarrow> bool" where
  "span_ok sp = (case sp of (Some a, Some b) \<Rightarrow> \<not> b \<le> a | _ \<Rightarrow> False)"

definition spans_ok :: "span list option list \<Rightarrow> bool" where
  "spans_ok groups = list_all (\<lambda>g. case g of None \<Rightarrow> True | Some refs \<Rightarrow> list_all span_ok refs) groups"

definition assertEchoSpans_snapshot :: "ConceptMapSnapshot \<Rightarrow> client_error + unit" where
  "assertEchoSpans_snapshot s = check (spans_ok (sn_refs s # map ce_refs (sn_edges s))) ''INVALID_ECHO_EVIDENCE_SPAN''"

definition assertEchoSpans_patch :: "ConceptMapPatch \<Rightarrow> client_error + unit" where
  "assertEchoSpans_patch p =
     check (spans_ok (pa_refs p # map ce_refs (pa_edgesAdded p @ pa_edgesUpdated p))) ''INVALID_ECHO_EVIDENCE_SPAN''"

section \<open>Snapshots\<close>

text \<open>The two loops: each adds the identities it has passed to a set.\<close>

fun nodes_fit :: "bool \<Rightarrow> concept_node list \<Rightarrow> string list \<Rightarrow> string list option" where
  "nodes_fit student [] ids = Some ids"
| "nodes_fit student (n # ns) ids =
     (if cn_id n \<in> set ids \<or> (student \<and> cn_review n \<noteq> ''approved'') then None else nodes_fit student ns (cn_id n # ids))"

fun edges_fit :: "bool \<Rightarrow> string list \<Rightarrow> concept_edge list \<Rightarrow> string list \<Rightarrow> bool" where
  "edges_fit student nodeIds [] ids = True"
| "edges_fit student nodeIds (e # es) ids =
     (if ce_id e \<in> set ids \<or> ce_head e \<notin> set nodeIds \<or> ce_tail e \<notin> set nodeIds \<or> (student \<and> ce_review e \<noteq> ''approved'')
      then False else edges_fit student nodeIds es (ce_id e # ids))"

definition assertEchoSnapshotSemantics :: "ConceptMapSnapshot \<Rightarrow> client_error + unit" where
  "assertEchoSnapshotSemantics v =
     (if sn_base v \<noteq> sn_version v - 1 \<or> sn_replay v \<noteq> (sn_evidence v = ''requires_replay'') then Inl (Err ''INVALID_ECHO_PROJECTION'')
      else rbind (if sn_key v = EchoTeacherShadow then check (sn_display v = ''teacher_shadow'') ''INVALID_ECHO_PROJECTION''
           else let hasApprovedContent = sn_nodes v \<noteq> [] \<or> sn_edges v \<noteq> [] in
             check (sn_display v = ''student_approved'' \<and>
                    sn_review v = (if hasApprovedContent then ''approved'' else ''unreviewed'')) ''INVALID_ECHO_PROJECTION'')
        (\<lambda>_. let student = (sn_key v = EchoStudentApproved) in
          case nodes_fit student (sn_nodes v) [] of
            None \<Rightarrow> Inl (Err ''INVALID_ECHO_PROJECTION'')
          | Some nodeIds \<Rightarrow> check (edges_fit student nodeIds (sn_edges v) []) ''INVALID_ECHO_PROJECTION''))"

definition parse_snapshot :: "(ConceptMapSnapshot \<Rightarrow> bool) \<Rightarrow> string \<Rightarrow> ConceptMapSnapshot \<Rightarrow> client_error + ConceptMapSnapshot" where
  "parse_snapshot schema code v =
     rbind (check (schema v) code) (\<lambda>_. rbind (assertEchoSpans_snapshot v) (\<lambda>_.
       rbind (assertEchoSnapshotSemantics v) (\<lambda>_. Inr v)))"

definition parseEchoSnapshot :: "analytics_schemas \<Rightarrow> ConceptMapSnapshot \<Rightarrow> client_error + ConceptMapSnapshot" where
  "parseEchoSnapshot k = parse_snapshot (echo_schema k) ''INVALID_ECHO_PROJECTION''"

definition parseTeacherEchoSnapshot :: "analytics_schemas \<Rightarrow> ConceptMapSnapshot \<Rightarrow> client_error + ConceptMapSnapshot" where
  "parseTeacherEchoSnapshot k = parse_snapshot (teacher_echo_schema k) ''INVALID_TEACHER_ECHO_PROJECTION''"

definition parseStudentEchoSnapshot :: "analytics_schemas \<Rightarrow> ConceptMapSnapshot \<Rightarrow> client_error + ConceptMapSnapshot" where
  "parseStudentEchoSnapshot k = parse_snapshot (student_echo_schema k) ''INVALID_STUDENT_ECHO_PROJECTION''"

section \<open>Patches and timelines\<close>

definition assertEchoPatchSemantics :: "ConceptMapPatch \<Rightarrow> string \<Rightarrow> client_error + unit" where
  "assertEchoPatchSemantics v code =
     (let nodeMutations = map cn_id (pa_nodesAdded v) @ map cn_id (pa_nodesUpdated v) @ pa_nodesHidden v;
          edgeMutations = map ce_id (pa_edgesAdded v) @ map ce_id (pa_edgesUpdated v) @ pa_edgesHidden v in
      if pa_version v \<noteq> pa_base v + 1 then Inl (Err code)
      else if length (remdups nodeMutations) \<noteq> length nodeMutations then Inl (Err code)
      else check (length (remdups edgeMutations) = length edgeMutations \<and>
                  length (remdups (map fst (pa_positions v))) = length (pa_positions v)) code)"

text \<open>A patch continues the chain its predecessor ends.\<close>

definition continues :: "ConceptMapPatch option \<Rightarrow> ConceptMapPatch \<Rightarrow> bool" where
  "continues previous p = (case previous of None \<Rightarrow> True | Some q \<Rightarrow>
     pa_base p = pa_version q \<and> pa_epoch p = pa_epoch q \<and> pa_algorithm p = pa_algorithm q \<and>
     pa_parameters p = pa_parameters q \<and> \<not> pa_through p < pa_through q)"

fun assertPatchChain :: "ConceptMapPatch option \<Rightarrow> ConceptMapPatch list \<Rightarrow> string \<Rightarrow> client_error + unit" where
  "assertPatchChain previous [] code = Inr ()"
| "assertPatchChain previous (p # ps) code =
     rbind (assertEchoSpans_patch p) (\<lambda>_. rbind (assertEchoPatchSemantics p code) (\<lambda>_.
       if pa_version p \<noteq> pa_base p + 1 \<or> \<not> continues previous p then Inl (Err code)
       else assertPatchChain (Some p) ps code))"

record TimelineResponse =
  tl_roomId :: string
  tl_key :: projection_key
  tl_epoch :: string
  tl_baseSnapshot :: "ConceptMapSnapshot option"
  tl_patches :: "ConceptMapPatch list"
  tl_truncated :: "int option"
  tl_head :: int

definition assertPatchPageSemantics :: "string \<Rightarrow> ConceptMapPatch list \<Rightarrow> string \<Rightarrow> client_error + unit" where
  "assertPatchPageSemantics epoch patches code =
     rbind (assertPatchChain None patches code) (\<lambda>_. check (list_all (\<lambda>p. pa_epoch p = epoch) patches) code)"

definition assertTimelineSemantics :: "TimelineResponse \<Rightarrow> client_error + unit" where
  "assertTimelineSemantics v =
     (let code = ''INVALID_ANALYTICS_TIMELINE'' in
      rbind (assertPatchChain None (tl_patches v) code) (\<lambda>_.
      if \<not> list_all (\<lambda>p. pa_epoch p = tl_epoch v) (tl_patches v) \<or>
         (case tl_baseSnapshot v of None \<Rightarrow> False | Some b \<Rightarrow>
            sn_roomId b \<noteq> tl_roomId v \<or> sn_key b \<noteq> tl_key v \<or> sn_epoch b \<noteq> tl_epoch v)
      then Inl (Err code)
      else case tl_patches v of
        [] \<Rightarrow> check (\<not> (tl_baseSnapshot v \<noteq> None \<or> tl_truncated v \<noteq> None \<or> tl_head v \<noteq> 0)) code
      | first # _ \<Rightarrow>
          let last_patch = last (tl_patches v);
              expected = (case tl_baseSnapshot v of Some b \<Rightarrow> sn_version b | None \<Rightarrow> 0) in
          if pa_base first \<noteq> expected \<or> pa_version last_patch \<noteq> tl_head v then Inl (Err code)
          else (case tl_baseSnapshot v of
              Some b \<Rightarrow>
                rbind (assertEchoSpans_snapshot b) (\<lambda>_. rbind (assertEchoSnapshotSemantics b) (\<lambda>_.
                  check (\<not> (tl_truncated v \<noteq> Some (sn_version b) \<or> sn_epoch b \<noteq> pa_epoch first \<or>
                    sn_algorithm b \<noteq> pa_algorithm first \<or> sn_parameters b \<noteq> pa_parameters first \<or>
                    sn_through b > pa_through first)) code))
            | None \<Rightarrow> check (tl_truncated v = None) code)))"

section \<open>Network bundles\<close>

definition trace_identity :: "trace_edge \<Rightarrow> string \<Rightarrow> string \<Rightarrow> string" where
  "trace_identity e source target = (case te_edgeId e of Some i \<Rightarrow> i
     | None \<Rightarrow> source @ [CHR 0x00] @ target @ [CHR 0x00] @ te_layer e)"

definition falsy_text :: "string option \<Rightarrow> bool" where
  "falsy_text s = (s = None \<or> s = Some '''')"

definition trace_ref_ok :: "string \<times> int option \<times> int option \<Rightarrow> bool" where
  "trace_ref_ok r = (case r of (basis, st, en) \<Rightarrow>
     \<not> (basis = ''text_span'' \<and> (case (st, en) of (Some a, Some b) \<Rightarrow> b \<le> a | _ \<Rightarrow> True)))"

definition coalesce_text :: "string option \<Rightarrow> string option \<Rightarrow> string option" where
  "coalesce_text a b = (if a = None then b else a)"

fun trace_edges_fit :: "string \<Rightarrow> string list \<Rightarrow> trace_edge list \<Rightarrow> string list \<Rightarrow> bool" where
  "trace_edges_fit viewName allowed [] seen_ids = True"
| "trace_edges_fit viewName allowed (e # es) seen_ids =
     (let source = coalesce_text (te_sourceNodeId e) (te_sourceId e); target = coalesce_text (te_targetNodeId e) (te_targetId e) in
      if falsy_text source \<or> falsy_text target then False else
      let identity = trace_identity e (the source) (the target) in
      if the source \<notin> set allowed \<or> the target \<notin> set allowed \<or> identity \<in> set seen_ids \<or>
         (viewName = ''lineage_adjusted'' \<and> te_layer e \<noteq> ''uptake'') then False
      else if (case te_refs e of None \<Rightarrow> False | Some refs \<Rightarrow> \<not> list_all trace_ref_ok refs) then False
      else trace_edges_fit viewName allowed es (identity # seen_ids))"

definition trace_view_ok :: "(string \<times> string \<times> string) list option \<Rightarrow> string \<times> trace_view \<Rightarrow> bool" where
  "trace_view_ok mapping nv = (case nv of (viewName, view) \<Rightarrow>
     let nodeIds = map tn_id (tv_nodes view) in
     length (remdups nodeIds) = length nodeIds \<and>
     (case mapping of None \<Rightarrow> True | Some m \<Rightarrow>
        \<not> list_ex (\<lambda>n. case map_of m (tn_id n) of None \<Rightarrow> True
            | Some (pseudonym, kind) \<Rightarrow> tn_label n \<noteq> Some pseudonym \<or> tn_kind n \<noteq> Some kind) (tv_nodes view)) \<and>
     trace_edges_fit viewName nodeIds (tv_edges view) [])"

definition assertTraceSemantics :: "SnaProjectionBundle \<Rightarrow> client_error + unit" where
  "assertTraceSemantics v =
     (let code = ''INVALID_TRACE_PROJECTION'';
          rs = tw_start (tb_recent v); re = tw_end (tb_recent v); ss = tw_start (tb_session v); se = tw_end (tb_session v);
          mapping = (if tb_key v = TraceTeacherBundle then Some (tb_mapping v) else None) in
      if tb_base v \<noteq> tb_version v - 1 \<or> tb_replay v \<noteq> (tb_evidence v = ''requires_replay'') then Inl (Err code)
      else if \<not> list_all validDate [rs, re, ss, se, tb_watermark v]
        \<or> date_time rs > date_time re \<or> date_time ss > date_time se \<or> date_time re \<noteq> date_time se
        \<or> date_time re - date_time rs > 10 * 60000 \<or> date_time se - date_time ss > 45 * 60000
        \<or> date_time re > date_time (tb_watermark v) then Inl (Err code)
      else check (list_all (trace_view_ok mapping) (tw_views (tb_recent v) @ tw_views (tb_session v))) code)"

definition parseTrace :: "analytics_schemas \<Rightarrow> SnaProjectionBundle \<Rightarrow> client_error + SnaProjectionBundle" where
  "parseTrace k v = rbind (check (trace_schema k v) ''INVALID_TRACE_PROJECTION'') (\<lambda>_.
     rbind (assertTraceSemantics v) (\<lambda>_. Inr v))"

section \<open>What the checks establish\<close>

definition snapshot_wf :: "ConceptMapSnapshot \<Rightarrow> bool" where
  "snapshot_wf v \<longleftrightarrow> distinct (map cn_id (sn_nodes v)) \<and> distinct (map ce_id (sn_edges v)) \<and>
     (\<forall>e \<in> set (sn_edges v). {ce_head e, ce_tail e} \<subseteq> cn_id ` set (sn_nodes v)) \<and>
     (sn_key v = EchoStudentApproved \<longrightarrow> (\<forall>n \<in> set (sn_nodes v). cn_review n = ''approved'') \<and> (\<forall>e \<in> set (sn_edges v). ce_review e = ''approved'')) \<and>
     sn_base v = sn_version v - 1 \<and> (sn_replay v \<longleftrightarrow> sn_evidence v = ''requires_replay'')"

lemma nodes_fit_Some:
  "nodes_fit st ns ids = Some r \<longleftrightarrow>
     r = rev (map cn_id ns) @ ids \<and> distinct (map cn_id ns) \<and> set (map cn_id ns) \<inter> set ids = {} \<and>
     (st \<longrightarrow> (\<forall>n \<in> set ns. cn_review n = ''approved''))"
  by (induction ns arbitrary: ids) auto

lemma edges_fit_iff:
  "edges_fit st nids es ids \<longleftrightarrow>
     distinct (map ce_id es) \<and> set (map ce_id es) \<inter> set ids = {} \<and> (\<forall>e \<in> set es. {ce_head e, ce_tail e} \<subseteq> set nids) \<and>
     (st \<longrightarrow> (\<forall>e \<in> set es. ce_review e = ''approved''))"
  by (induction es arbitrary: ids) auto

lemma assertEchoSnapshotSemantics_wf: "assertEchoSnapshotSemantics v = Inr u \<Longrightarrow> snapshot_wf v"
proof -
  assume a: "assertEchoSnapshotSemantics v = Inr u"
  then obtain r where r: "nodes_fit (sn_key v = EchoStudentApproved) (sn_nodes v) [] = Some r"
    and e: "edges_fit (sn_key v = EchoStudentApproved) r (sn_edges v) []"
    and b: "sn_base v = sn_version v - 1" "sn_replay v = (sn_evidence v = ''requires_replay'')"
    by (auto simp: assertEchoSnapshotSemantics_def rbind_Inr_iff check_Inr_iff Let_def split: if_splits option.splits)
  from r e b show "snapshot_wf v" unfolding nodes_fit_Some edges_fit_iff by (auto simp: snapshot_wf_def)
qed

lemma parse_snapshot_wf: "parse_snapshot schema code v = Inr w \<Longrightarrow> w = v \<and> snapshot_wf v"
  by (auto simp: parse_snapshot_def rbind_Inr_iff dest: assertEchoSnapshotSemantics_wf)

lemma patch_chain_versions:
  "assertPatchChain prev ps code = Inr u \<Longrightarrow> ps \<noteq> [] \<Longrightarrow>
     (case prev of None \<Rightarrow> True | Some q \<Rightarrow> pa_base (hd ps) = pa_version q) \<and>
     map pa_version ps = map (\<lambda>i. pa_base (hd ps) + 1 + int i) [0..<length ps]"
proof (induction ps arbitrary: prev)
  case (Cons p ps)
  from Cons.prems have p: "pa_version p = pa_base p + 1" "continues prev p" and r: "assertPatchChain (Some p) ps code = Inr u"
    by (auto simp: rbind_Inr_iff split: if_splits)
  have "map pa_version ps = map (\<lambda>i. pa_base p + 2 + int i) [0..<length ps]"
  proof (cases "ps = []")
    case False
    then show ?thesis using Cons.IH [OF r False] p(1) by simp
  qed simp
  moreover have "map (\<lambda>i. pa_base p + 1 + int i) [0..<Suc (length ps)] = (pa_base p + 1) # map (\<lambda>i. pa_base p + 2 + int i) [0..<length ps]"
    by (simp add: upt_conv_Cons map_Suc_upt [symmetric] del: upt_Suc)
  ultimately show ?case using p by (auto simp: continues_def simp del: upt_Suc split: option.splits)
qed simp

end
