(* ===== verification/Concept_Reducer.thy ===== *)
theory Concept_Reducer
  imports Concept_Contract
begin

text \<open>
  \<^verbatim>\<open>applyConceptPatch\<close> of \<^verbatim>\<open>apps/web/src/lib/analytics/concept-reducer.ts\<close>: one step of a
  concept map from a snapshot to the next version. The two \<^verbatim>\<open>Map\<close>s keep insertion order;
  cloning an edge or a position copies a value.
\<close>

section \<open>The reducer\<close>

type_synonym node_map = "(string, concept_node) jsmap"
type_synonym edge_map = "(string, concept_edge) jsmap"

definition node_map_of :: "concept_node list \<Rightarrow> node_map" where
  "node_map_of ns = fold (\<lambda>n. jm_set (cn_id n) n) ns []"

definition edge_map_of :: "concept_edge list \<Rightarrow> edge_map" where
  "edge_map_of es = fold (\<lambda>e. jm_set (ce_id e) e) es []"

definition add_entry :: "('v \<Rightarrow> string) \<Rightarrow> string \<Rightarrow> 'v \<Rightarrow> (string, 'v) jsmap \<Rightarrow> client_error + (string, 'v) jsmap" where
  "add_entry key code v m = (if jm_has m (key v) then Inl (Err code) else Inr (jm_set (key v) v m))"

definition update_entry :: "('v \<Rightarrow> string) \<Rightarrow> string \<Rightarrow> 'v \<Rightarrow> (string, 'v) jsmap \<Rightarrow> client_error + (string, 'v) jsmap" where
  "update_entry key code v m = (if \<not> jm_has m (key v) then Inl (Err code) else Inr (jm_set (key v) v m))"

definition hide_entry :: "string \<Rightarrow> string \<Rightarrow> (string, 'v) jsmap \<Rightarrow> client_error + (string, 'v) jsmap" where
  "hide_entry code k m = (if \<not> jm_has m k then Inl (Err code) else Inr (jm_delete k m))"

definition move_node :: "string \<times> rat \<times> rat \<Rightarrow> node_map \<Rightarrow> client_error + node_map" where
  "move_node p m = (case p of (k, x, y) \<Rightarrow> (case jm_get m k of
     None \<Rightarrow> Inl (Err ''CONCEPT_PATCH_POSITION_TARGET_MISSING'')
   | Some n \<Rightarrow> Inr (jm_set k (n\<lparr>cn_x := x, cn_y := y\<rparr>) m)))"

definition patch_guard :: "ConceptMapSnapshot \<Rightarrow> ConceptMapPatch \<Rightarrow> client_error + unit" where
  "patch_guard s p =
     (if sn_replay s \<or> sn_evidence s \<noteq> ''active'' \<or> pa_replay p then Inl (Err ''CONCEPT_PATCH_REPLAY_REQUIRED'')
      else if pa_epoch p \<noteq> sn_epoch s then Inl (Err ''CONCEPT_PATCH_EPOCH_MISMATCH'')
      else if pa_algorithm p \<noteq> sn_algorithm s \<or> pa_parameters p \<noteq> sn_parameters s then Inl (Err ''CONCEPT_PATCH_BASELINE_MISMATCH'')
      else if pa_base p \<noteq> sn_version s \<or> pa_version p \<noteq> sn_version s + 1 then Inl (Err ''CONCEPT_PATCH_VERSION_MISMATCH'')
      else if pa_through p < sn_through s then Inl (Err ''CONCEPT_PATCH_CURSOR_REGRESSION'')
      else Inr ())"

definition patched_nodes :: "node_map \<Rightarrow> ConceptMapPatch \<Rightarrow> client_error + node_map" where
  "patched_nodes m p =
     rbind (rfold (add_entry cn_id ''CONCEPT_PATCH_NODE_ADD_CONFLICT'') (pa_nodesAdded p) m) (\<lambda>m1.
     rbind (rfold (update_entry cn_id ''CONCEPT_PATCH_NODE_UPDATE_MISSING'') (pa_nodesUpdated p) m1)
       (rfold (hide_entry ''CONCEPT_PATCH_NODE_HIDE_MISSING'') (pa_nodesHidden p)))"

definition patched_edges :: "edge_map \<Rightarrow> ConceptMapPatch \<Rightarrow> client_error + edge_map" where
  "patched_edges m p =
     rbind (rfold (add_entry ce_id ''CONCEPT_PATCH_EDGE_ADD_CONFLICT'') (pa_edgesAdded p) m) (\<lambda>m1.
     rbind (rfold (update_entry ce_id ''CONCEPT_PATCH_EDGE_UPDATE_MISSING'') (pa_edgesUpdated p) m1)
       (rfold (hide_entry ''CONCEPT_PATCH_EDGE_HIDE_MISSING'') (pa_edgesHidden p)))"

definition patched_snapshot :: "ConceptMapSnapshot \<Rightarrow> ConceptMapPatch \<Rightarrow> concept_node list \<Rightarrow> concept_edge list \<Rightarrow> ConceptMapSnapshot" where
  "patched_snapshot s p ns es = s\<lparr>
     sn_epoch := pa_epoch p, sn_algorithm := pa_algorithm p, sn_parameters := pa_parameters p,
     sn_version := pa_version p, sn_base := pa_base p, sn_through := pa_through p,
     sn_replay := False, sn_evidence := ''active'',
     sn_review := (if sn_key s = EchoStudentApproved
        then (if length ns > 0 \<or> length es > 0 then ''approved'' else ''unreviewed'') else sn_review s),
     sn_warnings := pa_warnings p, sn_nodes := ns, sn_edges := es\<rparr>"

definition applyConceptPatch :: "analytics_schemas \<Rightarrow> ConceptMapSnapshot \<Rightarrow> ConceptMapPatch \<Rightarrow> client_error + ConceptMapSnapshot" where
  "applyConceptPatch k s p =
     rbind (patch_guard s p) (\<lambda>_.
     rbind (patched_nodes (node_map_of (sn_nodes s)) p) (\<lambda>nodes0.
     rbind (patched_edges (edge_map_of (sn_edges s)) p) (\<lambda>edges.
     rbind (rfold move_node (pa_positions p) nodes0) (\<lambda>nodes.
     if list_ex (\<lambda>e. \<not> jm_has nodes (ce_head e) \<or> \<not> jm_has nodes (ce_tail e)) (jm_values edges)
     then Inl (Err ''CONCEPT_PATCH_DANGLING_EDGE'')
     else case parseEchoSnapshot k (patched_snapshot s p (jm_values nodes) (jm_values edges)) of
            Inl _ \<Rightarrow> Inl (Err ''CONCEPT_PATCH_RESULT_INVALID'')
          | Inr v \<Rightarrow> Inr v))))"

text \<open>The loop of \<^verbatim>\<open>applyEchoPatches\<close>.\<close>

definition apply_patches :: "analytics_schemas \<Rightarrow> ConceptMapPatch list \<Rightarrow> ConceptMapSnapshot \<Rightarrow> client_error + ConceptMapSnapshot" where
  "apply_patches k ps s = rfold (\<lambda>p s. applyConceptPatch k s p) ps s"

section \<open>Results\<close>

lemma patch_guard_Inr:
  "patch_guard s p = Inr u \<longleftrightarrow> \<not> sn_replay s \<and> sn_evidence s = ''active'' \<and> \<not> pa_replay p \<and> pa_epoch p = sn_epoch s \<and>
     pa_algorithm p = sn_algorithm s \<and> pa_parameters p = sn_parameters s \<and> pa_base p = sn_version s \<and>
     pa_version p = sn_version s + 1 \<and> sn_through s \<le> pa_through p"
  by (auto simp: patch_guard_def)

lemma applyConceptPatch_Inr:
  assumes "applyConceptPatch k s p = Inr v"
  obtains nodes0 edges nodes where "patch_guard s p = Inr ()"
    "patched_nodes (node_map_of (sn_nodes s)) p = Inr nodes0" "patched_edges (edge_map_of (sn_edges s)) p = Inr edges"
    "rfold move_node (pa_positions p) nodes0 = Inr nodes"
    "v = patched_snapshot s p (jm_values nodes) (jm_values edges)" "snapshot_wf v"
  using assms
  by (auto simp: applyConceptPatch_def rbind_Inr_iff parseEchoSnapshot_def split: if_splits sum.splits dest: parse_snapshot_wf)

text \<open>One accepted patch: the next version of the same map in the same epoch, well formed.\<close>

lemma applyConceptPatch_next:
  assumes "applyConceptPatch k s p = Inr v"
  shows "sn_version v = sn_version s + 1 \<and> sn_epoch v = sn_epoch s \<and> sn_key v = sn_key s \<and> sn_roomId v = sn_roomId s \<and>
     sn_through s \<le> sn_through v \<and> sn_through v = pa_through p \<and> snapshot_wf v \<and> sn_evidence v = ''active'' \<and> \<not> sn_replay v"
  by (rule applyConceptPatch_Inr [OF assms]) (auto simp: patch_guard_Inr patched_snapshot_def)

lemma apply_patches_advance:
  assumes "apply_patches k ps s = Inr v"
  shows "sn_version v = sn_version s + int (length ps) \<and> sn_epoch v = sn_epoch s \<and> sn_key v = sn_key s \<and>
     sn_roomId v = sn_roomId s \<and> sn_through s \<le> sn_through v"
  using assms unfolding apply_patches_def
proof (induction ps arbitrary: s)
  case (Cons p ps)
  then obtain t where t: "applyConceptPatch k s p = Inr t" "rfold (\<lambda>p s. applyConceptPatch k s p) ps t = Inr v"
    by (auto split: sum.splits)
  show ?case using Cons.IH [OF t(2)] applyConceptPatch_next [OF t(1)] by auto
qed simp

lemma apply_patches_active:
  assumes "apply_patches k ps s = Inr v" "ps \<noteq> []"
  shows "sn_evidence v = ''active'' \<and> \<not> sn_replay v \<and> snapshot_wf v"
proof -
  obtain qs q where "ps = qs @ [q]" using assms(2) by (cases ps rule: rev_cases) auto
  then obtain t where "applyConceptPatch k t q = Inr v"
    using assms(1) by (auto simp: apply_patches_def rfold_append rbind_Inr_iff rfold_Cons_Inr simp del: rfold.simps(2))
  then show ?thesis using applyConceptPatch_next by blast
qed

subsection \<open>The reference: a patch as a function on keyed collections\<close>

text \<open>The content of the map at an identity after a list of additions, updates, removals.\<close>

lemma jm_has_get: "jm_has m k \<longleftrightarrow> (\<exists>v. jm_get m k = Some v)"
  by (auto simp: jm_has_def)

lemma add_entry_Inr: "add_entry key code v m = Inr m' \<longleftrightarrow> jm_get m (key v) = None \<and> m' = jm_set (key v) v m"
  by (auto simp: add_entry_def jm_has_def)

lemma update_entry_Inr: "update_entry key code v m = Inr m' \<longleftrightarrow> jm_get m (key v) \<noteq> None \<and> m' = jm_set (key v) v m"
  by (auto simp: update_entry_def jm_has_def)

lemma hide_entry_Inr: "hide_entry code k m = Inr m' \<longleftrightarrow> jm_get m k \<noteq> None \<and> m' = jm_delete k m"
  by (auto simp: hide_entry_def jm_has_def)

lemma rfold_add:
  assumes "rfold (add_entry key code) vs m = Inr m'"
  shows "distinct (map key vs) \<and> (\<forall>v \<in> set vs. jm_get m (key v) = None) \<and>
     jm_get m' = (\<lambda>i. case map_of (map (\<lambda>v. (key v, v)) vs) i of Some v \<Rightarrow> Some v | None \<Rightarrow> jm_get m i)"
  using assms
proof (induction vs arbitrary: m)
  case (Cons v vs)
  from Cons.prems have h: "jm_get m (key v) = None" and r: "rfold (add_entry key code) vs (jm_set (key v) v m) = Inr m'"
    by (auto simp: add_entry_Inr rfold_Cons_Inr simp del: rfold.simps)
  have IH: "distinct (map key vs)" "\<And>x. x \<in> set vs \<Longrightarrow> jm_get (jm_set (key v) v m) (key x) = None"
    "jm_get m' = (\<lambda>i. case map_of (map (\<lambda>v. (key v, v)) vs) i of Some v \<Rightarrow> Some v | None \<Rightarrow> jm_get (jm_set (key v) v m) i)"
    using Cons.IH [OF r] by auto
  have d: "key v \<notin> key ` set vs" "\<And>x. x \<in> set vs \<Longrightarrow> jm_get m (key x) = None"
    using IH(2) by (force split: if_splits)+
  then have "map_of (map (\<lambda>v. (key v, v)) vs) (key v) = None" by (auto simp: map_of_eq_None_iff image_image)
  with d h IH show ?case by (auto simp: fun_eq_iff split: option.splits)
qed simp

lemma rfold_hide:
  assumes "rfold (hide_entry code) ks m = Inr m'"
  shows "distinct ks \<and> (\<forall>k \<in> set ks. jm_get m k \<noteq> None) \<and> jm_get m' = (\<lambda>i. if i \<in> set ks then None else jm_get m i)"
  using assms
proof (induction ks arbitrary: m)
  case (Cons k ks)
  from Cons.prems have h: "jm_get m k \<noteq> None" and r: "rfold (hide_entry code) ks (jm_delete k m) = Inr m'"
    by (auto simp: hide_entry_Inr rfold_Cons_Inr simp del: rfold.simps)
  show ?case using Cons.IH [OF r] h by (auto simp: fun_eq_iff split: if_splits)
qed simp

lemma rfold_update:
  assumes "rfold (update_entry key code) vs m = Inr m'"
  shows "(\<forall>v \<in> set vs. jm_get m (key v) \<noteq> None) \<and>
     jm_get m' = (\<lambda>i. case map_of (rev (map (\<lambda>v. (key v, v)) vs)) i of Some v \<Rightarrow> Some v | None \<Rightarrow> jm_get m i)"
  using assms
proof (induction vs arbitrary: m)
  case (Cons v vs)
  from Cons.prems have h: "jm_get m (key v) \<noteq> None" and r: "rfold (update_entry key code) vs (jm_set (key v) v m) = Inr m'"
    by (auto simp: update_entry_Inr rfold_Cons_Inr simp del: rfold.simps)
  have IH: "\<And>x. x \<in> set vs \<Longrightarrow> jm_get (jm_set (key v) v m) (key x) \<noteq> None"
    "jm_get m' = (\<lambda>i. case map_of (rev (map (\<lambda>v. (key v, v)) vs)) i of Some v \<Rightarrow> Some v | None \<Rightarrow> jm_get (jm_set (key v) v m) i)"
    using Cons.IH [OF r] by auto
  have g: "jm_get m (key x) \<noteq> None" if "x \<in> set vs" for x using IH(1) [OF that] h by (auto split: if_splits)
  show ?case unfolding IH(2) using g h by (auto simp: fun_eq_iff map_add_def split: option.splits)
qed simp

text \<open>Identities after a group of mutations: those before, the added ones, less the hidden.\<close>

definition ids_of :: "(string, 'v) jsmap \<Rightarrow> string set" where
  "ids_of m = {i. jm_get m i \<noteq> None}"

lemma ids_of_alt: "ids_of m = fst ` set m"
  by (auto simp: ids_of_def jm_get_def map_of_eq_None_iff)

lemma ids_after_mutations:
  assumes "rbind (rfold (add_entry key c1) as m) (\<lambda>m1. rbind (rfold (update_entry key c2) us m1) (rfold (hide_entry c3) hs)) = Inr m'"
  shows "ids_of m' = (ids_of m \<union> key ` set as) - set hs \<and> key ` set as \<inter> ids_of m = {} \<and> key ` set us \<subseteq> ids_of m \<union> key ` set as"
proof -
  obtain m1 m2 where m: "rfold (add_entry key c1) as m = Inr m1" "rfold (update_entry key c2) us m1 = Inr m2" "rfold (hide_entry c3) hs m2 = Inr m'"
    using assms by (auto simp: rbind_Inr_iff)
  have a: "ids_of m1 = ids_of m \<union> key ` set as" "key ` set as \<inter> ids_of m = {}"
    using rfold_add [OF m(1)] by (auto simp: ids_of_def map_of_eq_None_iff image_image split: option.splits dest: map_of_SomeD)
  have u: "ids_of m2 = ids_of m1" "key ` set us \<subseteq> ids_of m1"
    using rfold_update [OF m(2)] by (auto simp: ids_of_def split: option.splits dest!: map_of_SomeD)
  have h: "ids_of m' = ids_of m2 - set hs" using rfold_hide [OF m(3)] by (auto simp: ids_of_def)
  show ?thesis using a u h by auto
qed

lemma move_nodes_ids: "rfold move_node ps m = Inr m' \<Longrightarrow> ids_of m' = ids_of m"
proof (induction ps arbitrary: m)
  case (Cons p ps)
  then show ?case
    by (cases p) (auto simp: move_node_def ids_of_def split: option.splits sum.splits)
qed simp

lemma fold_set_ids: "ids_of (fold (\<lambda>v. jm_set (key v) v) vs m) = ids_of m \<union> key ` set vs"
  by (induction vs arbitrary: m) (auto simp: ids_of_def)

definition keyed :: "('v \<Rightarrow> string) \<Rightarrow> (string, 'v) jsmap \<Rightarrow> bool" where
  "keyed key m \<longleftrightarrow> (\<forall>(k, v) \<in> set m. key v = k)"

lemma jm_set_elems: "x \<in> set (jm_set k v m) \<Longrightarrow> x = (k, v) \<or> x \<in> set m"
  by (induction m) (auto split: if_splits)

lemma keyed_set: "keyed key m \<Longrightarrow> key v = k \<Longrightarrow> keyed key (jm_set k v m)"
  by (auto simp: keyed_def dest!: jm_set_elems)

lemma keyed_delete: "keyed key m \<Longrightarrow> keyed key (jm_delete k m)"
  by (auto simp: keyed_def jm_delete_def)

lemma keyed_ids: "keyed key m \<Longrightarrow> key ` set (jm_values m) = ids_of m"
  by (force simp: keyed_def ids_of_alt jm_values_def)

lemma keyed_mutations:
  assumes "keyed key m"
    and "rbind (rfold (add_entry key c1) as m) (\<lambda>m1. rbind (rfold (update_entry key c2) us m1) (rfold (hide_entry c3) hs)) = Inr m'"
  shows "keyed key m'"
proof -
  obtain m1 m2 where m: "rfold (add_entry key c1) as m = Inr m1" "rfold (update_entry key c2) us m1 = Inr m2" "rfold (hide_entry c3) hs m2 = Inr m'"
    using assms by (auto simp: rbind_Inr_iff)
  have 1: "keyed key m1"
    by (rule rfold_invariant [where I = "keyed key" and f = "add_entry key c1", OF _ m(1) assms(1)]) (auto simp: add_entry_Inr keyed_set)
  have 2: "keyed key m2"
    by (rule rfold_invariant [where I = "keyed key" and f = "update_entry key c2", OF _ m(2) 1]) (auto simp: update_entry_Inr keyed_set)
  show ?thesis
    by (rule rfold_invariant [where I = "keyed key" and f = "hide_entry c3", OF _ m(3) 2]) (auto simp: hide_entry_Inr keyed_delete)
qed

lemma keyed_move_node: "move_node x a = Inr b \<Longrightarrow> keyed cn_id a \<Longrightarrow> keyed cn_id b"
proof -
  assume "move_node x a = Inr b" "keyed cn_id a"
  then obtain k px py n where "jm_get a k = Some n" "b = jm_set k (n\<lparr>cn_x := px, cn_y := py\<rparr>) a"
    by (auto simp: move_node_def split: prod.splits option.splits)
  moreover have "cn_id n = k" using \<open>keyed cn_id a\<close> calculation(1) by (auto simp: keyed_def jm_get_def dest!: map_of_SomeD)
  ultimately show "keyed cn_id b" using \<open>keyed cn_id a\<close> by (simp add: keyed_set)
qed

lemma keyed_moves: "rfold move_node ps m = Inr m' \<Longrightarrow> keyed cn_id m \<Longrightarrow> keyed cn_id m'"
  by (rule rfold_invariant [where I = "keyed cn_id" and f = move_node]) (auto intro: keyed_move_node)

lemma keyed_fold: "keyed key m \<Longrightarrow> keyed key (fold (\<lambda>v. jm_set (key v) v) vs m)"
  by (induction vs arbitrary: m) (auto simp: keyed_set)

lemma keyed_Nil: "keyed key []"
  by (simp add: keyed_def)

lemma applyConceptPatch_ids:
  assumes "applyConceptPatch k s p = Inr v"
  shows "cn_id ` set (sn_nodes v) = (cn_id ` set (sn_nodes s) \<union> cn_id ` set (pa_nodesAdded p)) - set (pa_nodesHidden p) \<and>
     ce_id ` set (sn_edges v) = (ce_id ` set (sn_edges s) \<union> ce_id ` set (pa_edgesAdded p)) - set (pa_edgesHidden p)"
proof -
  from assms obtain nodes0 edges nodes where a: "patched_nodes (node_map_of (sn_nodes s)) p = Inr nodes0"
    "patched_edges (edge_map_of (sn_edges s)) p = Inr edges" "rfold move_node (pa_positions p) nodes0 = Inr nodes"
    "v = patched_snapshot s p (jm_values nodes) (jm_values edges)"
    by (rule applyConceptPatch_Inr)
  have n: "keyed cn_id (node_map_of (sn_nodes s))" "ids_of (node_map_of (sn_nodes s)) = cn_id ` set (sn_nodes s)"
    and e: "keyed ce_id (edge_map_of (sn_edges s))" "ids_of (edge_map_of (sn_edges s)) = ce_id ` set (sn_edges s)"
    by (simp_all add: node_map_of_def edge_map_of_def keyed_fold keyed_Nil fold_set_ids) (simp_all add: ids_of_def)
  have "keyed cn_id nodes" using keyed_moves [OF a(3) keyed_mutations [OF n(1)]] a(1) by (simp add: patched_nodes_def)
  moreover have "keyed ce_id edges" using keyed_mutations [OF e(1)] a(2) by (simp add: patched_edges_def)
  ultimately show ?thesis
    using a(4) n(2) e(2) ids_after_mutations [OF a(1) [unfolded patched_nodes_def]] ids_after_mutations [OF a(2) [unfolded patched_edges_def]]
      move_nodes_ids [OF a(3)]
    by (simp add: patched_snapshot_def keyed_ids)
qed

end
