(* ===== verification/Projection_Sync.thy ===== *)
theory Projection_Sync
  imports Concept_Reducer Session_Store
begin

text \<open>
  \<^verbatim>\<open>ProjectionSync\<close> of \<^verbatim>\<open>apps/web/src/lib/session/projection-sync.ts\<close>: which analytics
  projection a browser holds and at which version, and the invariant that it holds only
  what its role may see.
\<close>

section \<open>ProjectionSync\<close>

datatype ProjectionSnapshot = ConceptSnapshot ConceptMapSnapshot | TraceSnapshot SnaProjectionBundle

fun ps_key :: "ProjectionSnapshot \<Rightarrow> projection_key" where
  "ps_key (ConceptSnapshot s) = sn_key s"
| "ps_key (TraceSnapshot t) = tb_key t"

fun ps_roomId :: "ProjectionSnapshot \<Rightarrow> string" where
  "ps_roomId (ConceptSnapshot s) = sn_roomId s"
| "ps_roomId (TraceSnapshot t) = tb_roomId t"

fun ps_epoch :: "ProjectionSnapshot \<Rightarrow> string" where
  "ps_epoch (ConceptSnapshot s) = sn_epoch s"
| "ps_epoch (TraceSnapshot t) = tb_epoch t"

fun ps_version :: "ProjectionSnapshot \<Rightarrow> int" where
  "ps_version (ConceptSnapshot s) = sn_version s"
| "ps_version (TraceSnapshot t) = tb_version t"

fun ps_through :: "ProjectionSnapshot \<Rightarrow> int" where
  "ps_through (ConceptSnapshot s) = sn_through s"
| "ps_through (TraceSnapshot t) = tb_through t"

fun ps_stale :: "ProjectionSnapshot \<Rightarrow> bool" where
  "ps_stale (ConceptSnapshot s) = (sn_replay s \<or> sn_evidence s \<noteq> ''active'')"
| "ps_stale (TraceSnapshot t) = (tb_replay t \<or> tb_evidence t \<noteq> ''active'')"

datatype availability = Loading | Ready | NotAvailableByPolicy | NotReady | LoadFailed

record ProjectionSlot =
  sl_availability :: availability
  sl_snapshot :: "ProjectionSnapshot option"
  sl_error :: "string option"

datatype client_role = RoleTeacher | RoleStudent

fun session_role :: "ClientSession \<Rightarrow> client_role" where
  "session_role (TeacherSession _) = RoleTeacher"
| "session_role (StudentSession _ _ _ _) = RoleStudent"

record ProjectionSync =
  py_references :: "(projection_key, ProjectionFrame) jsmap"
  py_slots :: "(projection_key, ProjectionSlot) jsmap"
  py_allowed :: "projection_key list"
  py_role :: "client_role option"
  py_roomId :: string

datatype ProjectionAcceptResult = Accepted | EpochChanged | DuplicateVersion | StaleVersion | VersionGap

fun role_keys :: "client_role \<Rightarrow> projection_key list" where
  "role_keys RoleTeacher = [EchoTeacherShadow, TraceTeacherBundle]"
| "role_keys RoleStudent = [EchoStudentApproved, TraceStudentBundle]"

definition loading_slot :: ProjectionSlot where
  "loading_slot = \<lparr>sl_availability = Loading, sl_snapshot = None, sl_error = None\<rparr>"

definition loading_slots :: "projection_key list \<Rightarrow> (projection_key, ProjectionSlot) jsmap" where
  "loading_slots keys = fold (\<lambda>k. jm_set k loading_slot) keys []"

definition new_projections :: "string \<Rightarrow> ClientSession \<Rightarrow> ProjectionSync" where
  "new_projections rid session =
     (let allowed = role_keys (session_role session) in
      \<lparr>py_references = [], py_slots = loading_slots allowed, py_allowed = allowed,
       py_role = Some (session_role session), py_roomId = rid\<rparr>)"

definition holds :: "projection_key \<Rightarrow> ProjectionSync \<Rightarrow> bool" where
  "holds key p = (case py_role p of None \<Rightarrow> False | Some r \<Rightarrow> key \<in> set (role_keys r))"

type_synonym 'a py_act = "(ProjectionSync, client_error, 'a) act"

definition assertAllowed :: "projection_key \<Rightarrow> unit py_act" where
  "assertAllowed key = act_bind (gets py_role) (\<lambda>role. case role of
     None \<Rightarrow> raise (Err ''PROJECTION_AUTHORITY_CLEARED'')
   | Some r \<Rightarrow> require (key \<in> set (role_keys r)) (Err ''PROJECTION_ROLE_FORBIDDEN''))"

definition assertFrame :: "ProjectionFrame \<Rightarrow> unit py_act" where
  "assertFrame f =
     act_then (assertAllowed (pf_key f))
     (act_bind (gets py_roomId) (\<lambda>rid.
      act_then (require (pf_roomId f = rid) (Err ''PROJECTION_ROOM_MISMATCH''))
        (require (pf_url f = analytics_latest rid (pf_key f)) (Err ''PROJECTION_SNAPSHOT_URL_INVALID''))))"

definition set_reference :: "projection_key \<Rightarrow> ProjectionFrame \<Rightarrow> unit py_act" where
  "set_reference key f = modify (\<lambda>p. p\<lparr>py_references := jm_set key f (py_references p)\<rparr>)"

definition delete_reference :: "projection_key \<Rightarrow> unit py_act" where
  "delete_reference key = modify (\<lambda>p. p\<lparr>py_references := jm_delete key (py_references p)\<rparr>)"

definition set_slot :: "projection_key \<Rightarrow> ProjectionSlot \<Rightarrow> unit py_act" where
  "set_slot key sl = modify (\<lambda>p. p\<lparr>py_slots := jm_set key sl (py_slots p)\<rparr>)"

definition accept :: "ProjectionFrame \<Rightarrow> ProjectionAcceptResult py_act" where
  "accept f =
     act_then (assertFrame f)
     (act_bind (gets (\<lambda>p. jm_get (py_references p) (pf_key f))) (\<lambda>cur. case cur of
        None \<Rightarrow> act_then (set_reference (pf_key f) f) (ret Accepted)
      | Some c \<Rightarrow>
          if pf_epoch f \<noteq> pf_epoch c then act_then (set_reference (pf_key f) f) (ret EpochChanged)
          else if pf_version f = pf_version c then ret DuplicateVersion
          else if pf_version f < pf_version c then ret StaleVersion
          else if pf_version f \<noteq> pf_version c + 1 then ret VersionGap
          else if pf_through f < pf_through c then raise (Err ''PROJECTION_CURSOR_REGRESSION'')
          else act_then (set_reference (pf_key f) f) (ret Accepted)))"

definition slot :: "projection_key \<Rightarrow> ProjectionSlot py_act" where
  "slot key = act_then (assertAllowed key) (gets (\<lambda>p. orelse (jm_get (py_slots p) key) loading_slot))"

definition parse_projection :: "analytics_schemas \<Rightarrow> ProjectionSnapshot \<Rightarrow> client_error + ProjectionSnapshot" where
  "parse_projection k c = (case c of
     ConceptSnapshot s \<Rightarrow>
       (if sn_key s = EchoStudentApproved then rbind (parseStudentEchoSnapshot k s) (\<lambda>v. Inr (ConceptSnapshot v))
        else if sn_key s = EchoTeacherShadow then rbind (parseTeacherEchoSnapshot k s) (\<lambda>v. Inr (ConceptSnapshot v))
        else Inl (Err ''INVALID_TRACE_PROJECTION''))
   | TraceSnapshot t \<Rightarrow>
       (if tb_key t = EchoStudentApproved then Inl (Err ''INVALID_STUDENT_ECHO_PROJECTION'')
        else if tb_key t = EchoTeacherShadow then Inl (Err ''INVALID_TEACHER_ECHO_PROJECTION'')
        else rbind (parseTrace k t) (\<lambda>v. Inr (TraceSnapshot v))))"

definition replaceSnapshot :: "analytics_schemas \<Rightarrow> ProjectionSnapshot \<Rightarrow> unit py_act" where
  "replaceSnapshot k candidate =
     act_then (assertAllowed (ps_key candidate))
     (act_bind (gets py_roomId) (\<lambda>rid.
      act_then (require (ps_roomId candidate = rid) (Err ''PROJECTION_ROOM_MISMATCH''))
      (act_bind (lift_result (parse_projection k candidate)) (\<lambda>s.
       act_then (require (\<not> ps_stale s) (Err ''PROJECTION_REPLAY_REQUIRED''))
       (act_then (set_reference (ps_key s)
          \<lparr>pf_roomId = ps_roomId s, pf_key = ps_key s, pf_epoch = ps_epoch s, pf_version = ps_version s,
           pf_through = ps_through s, pf_url = analytics_latest (ps_roomId s) (ps_key s)\<rparr>)
        (set_slot (ps_key s) \<lparr>sl_availability = Ready, sl_snapshot = Some s, sl_error = None\<rparr>))))))"

definition applyEchoPatches :: "analytics_schemas \<Rightarrow> projection_key \<Rightarrow> ConceptMapPatch list \<Rightarrow> ProjectionFrame \<Rightarrow> unit py_act" where
  "applyEchoPatches k key patches target =
     act_then (assertAllowed key) (act_then (assertFrame target)
     (act_then (require (pf_key target = key) (Err ''PROJECTION_PATCH_TARGET_MISMATCH''))
     (act_bind (gets (\<lambda>p. Option.bind (jm_get (py_slots p) key) sl_snapshot)) (\<lambda>cur.
      case cur of
        Some (ConceptSnapshot s) \<Rightarrow>
          if sn_key s \<noteq> EchoStudentApproved \<and> sn_key s \<noteq> EchoTeacherShadow then raise (Err ''PROJECTION_PATCH_BASE_MISSING'') else
          act_bind (lift_result (apply_patches k patches s)) (\<lambda>next.
          act_then (require (\<not> (sn_epoch next \<noteq> pf_epoch target \<or> sn_version next \<noteq> pf_version target \<or> sn_through next \<noteq> pf_through target))
            (Err ''PROJECTION_PATCH_TARGET_NOT_REACHED''))
          (act_then (set_reference key target)
            (set_slot key \<lparr>sl_availability = Ready, sl_snapshot = Some (ConceptSnapshot next), sl_error = None\<rparr>)))
      | _ \<Rightarrow> raise (Err ''PROJECTION_PATCH_BASE_MISSING'')))))"

definition held_snapshot :: "projection_key \<Rightarrow> ProjectionSync \<Rightarrow> ProjectionSnapshot option" where
  "held_snapshot key p = Option.bind (jm_get (py_slots p) key) sl_snapshot"

definition markLoading :: "projection_key \<Rightarrow> unit py_act" where
  "markLoading key = act_then (assertAllowed key) (act_bind (gets (held_snapshot key)) (\<lambda>s.
     set_slot key \<lparr>sl_availability = Loading, sl_snapshot = s, sl_error = None\<rparr>))"

definition markPolicyUnavailable :: "projection_key \<Rightarrow> unit py_act" where
  "markPolicyUnavailable key = act_then (assertAllowed key) (act_then (delete_reference key)
     (set_slot key \<lparr>sl_availability = NotAvailableByPolicy, sl_snapshot = None, sl_error = None\<rparr>))"

definition markNotReady :: "projection_key \<Rightarrow> unit py_act" where
  "markNotReady key = act_then (assertAllowed key) (act_then (delete_reference key)
     (set_slot key \<lparr>sl_availability = NotReady, sl_snapshot = None, sl_error = None\<rparr>))"

definition markFailed :: "projection_key \<Rightarrow> string \<Rightarrow> unit py_act" where
  "markFailed key code = act_then (assertAllowed key) (act_bind (gets (held_snapshot key)) (\<lambda>s.
     set_slot key \<lparr>sl_availability = LoadFailed, sl_snapshot = s, sl_error = Some code\<rparr>))"

definition markAuthorityUnavailable :: "projection_key \<Rightarrow> string \<Rightarrow> unit py_act" where
  "markAuthorityUnavailable key code = act_then (assertAllowed key) (act_then (delete_reference key)
     (set_slot key \<lparr>sl_availability = LoadFailed, sl_snapshot = None, sl_error = Some code\<rparr>))"

definition reset_projections :: "ProjectionSync \<Rightarrow> ProjectionSync" where
  "reset_projections p = p\<lparr>py_references := [],
     py_slots := (if py_role p \<noteq> None then loading_slots (py_allowed p) else [])\<rparr>"

definition clearAuthority :: "ProjectionSync \<Rightarrow> ProjectionSync" where
  "clearAuthority p = (reset_projections p)\<lparr>py_role := None, py_roomId := '''', py_slots := []\<rparr>"

section \<open>Invariant\<close>

text \<open>
  A browser holds only what its role may see: every reference and every slot is under a
  key of the role, a snapshot lies under its own key, belongs to the room and was active
  when it was taken, and a reference names the route of its room and key.
\<close>

definition projections_inv :: "ProjectionSync \<Rightarrow> bool" where
  "projections_inv p \<longleftrightarrow>
     (case py_role p of
        None \<Rightarrow> py_references p = [] \<and> py_slots p = []
      | Some r \<Rightarrow> py_allowed p = role_keys r \<and>
          (\<forall>k f. jm_get (py_references p) k = Some f \<longrightarrow>
             k \<in> set (role_keys r) \<and> pf_key f = k \<and> pf_roomId f = py_roomId p \<and> projectionUrlHolds f) \<and>
          (\<forall>k sl. jm_get (py_slots p) k = Some sl \<longrightarrow> k \<in> set (role_keys r) \<and>
             (\<forall>s. sl_snapshot sl = Some s \<longrightarrow> ps_key s = k \<and> ps_roomId s = py_roomId p \<and> \<not> ps_stale s)))"

lemma keeps_guarded:
  assumes "\<And>p r. py_role p = Some r \<Longrightarrow> key \<in> set (role_keys r) \<Longrightarrow> I p \<Longrightarrow> I (snd (m p))"
  shows "keeps I (act_then (assertAllowed key) m)"
proof (rule keepsI)
  fix p assume "I p"
  then show "I (snd (act_then (assertAllowed key) m p))"
    using assms by (cases "py_role p") (auto simp: assertAllowed_def act_then_app act_bind_app require_app)
qed

lemma inv_set_slot:
  "projections_inv p \<Longrightarrow> py_role p = Some r \<Longrightarrow> key \<in> set (role_keys r) \<Longrightarrow>
     (\<And>s. sl_snapshot sl = Some s \<Longrightarrow> ps_key s = key \<and> ps_roomId s = py_roomId p \<and> \<not> ps_stale s) \<Longrightarrow>
     projections_inv (snd (set_slot key sl p))"
  by (auto simp: projections_inv_def set_slot_def split: if_splits)

lemma inv_set_reference:
  "projections_inv p \<Longrightarrow> py_role p = Some r \<Longrightarrow> key \<in> set (role_keys r) \<Longrightarrow> pf_key f = key \<Longrightarrow> pf_roomId f = py_roomId p \<Longrightarrow>
     projectionUrlHolds f \<Longrightarrow> projections_inv (snd (set_reference key f p))"
  by (auto simp: projections_inv_def set_reference_def split: if_splits)

lemma inv_delete_reference:
  "projections_inv p \<Longrightarrow> projections_inv (snd (delete_reference key p))"
  by (auto simp: projections_inv_def delete_reference_def jm_delete_def [of _ "[]"] split: if_splits option.splits)

lemma held_snapshot_inv:
  "projections_inv p \<Longrightarrow> held_snapshot key p = Some s \<Longrightarrow> ps_key s = key \<and> ps_roomId s = py_roomId p \<and> \<not> ps_stale s"
  by (cases "py_role p") (auto simp: projections_inv_def held_snapshot_def split: Option.bind_splits)

lemma set_slot_frame: "py_role (snd (set_reference key f p)) = py_role p" "py_roomId (snd (set_reference key f p)) = py_roomId p"
  "py_role (snd (delete_reference key p)) = py_role p" "py_roomId (snd (delete_reference key p)) = py_roomId p"
  by (simp_all add: set_reference_def delete_reference_def)

lemma keeps_mark:
  assumes "\<And>s. sl_snapshot (f s) = s"
  shows "keeps projections_inv (act_then (assertAllowed key) (act_bind (gets (held_snapshot key)) (\<lambda>s. set_slot key (f s))))"
  by (rule keeps_guarded) (auto simp: act_bind_app assms intro!: inv_set_slot dest: held_snapshot_inv)

lemma keeps_drop:
  assumes "sl_snapshot sl = None"
  shows "keeps projections_inv (act_then (assertAllowed key) (act_then (delete_reference key) (set_slot key sl)))"
proof (rule keeps_guarded)
  fix p r assume a: "py_role p = Some r" "key \<in> set (role_keys r)" "projections_inv p"
  have "act_then (delete_reference key) (set_slot key sl) p = set_slot key sl (snd (delete_reference key p))"
    by (simp add: delete_reference_def act_then_app)
  moreover have "projections_inv (snd (set_slot key sl (snd (delete_reference key p))))"
    by (rule inv_set_slot [where r = r]) (use a assms in \<open>simp_all add: inv_delete_reference set_slot_frame\<close>)
  ultimately show "projections_inv (snd (act_then (delete_reference key) (set_slot key sl) p))" by simp
qed

lemma markers_keep:
  "keeps projections_inv (markLoading key)" "keeps projections_inv (markFailed key code)"
  "keeps projections_inv (markPolicyUnavailable key)" "keeps projections_inv (markNotReady key)"
  "keeps projections_inv (markAuthorityUnavailable key code)"
  unfolding markLoading_def markFailed_def markPolicyUnavailable_def markNotReady_def markAuthorityUnavailable_def
  by (auto intro!: keeps_mark keeps_drop)

lemma assertFrame_Inr:
  "assertFrame f p = (Inr u, p') \<longleftrightarrow> p' = p \<and> (\<exists>r. py_role p = Some r \<and> pf_key f \<in> set (role_keys r)) \<and>
     pf_roomId f = py_roomId p \<and> projectionUrlHolds f"
  by (cases "py_role p") (auto simp: assertFrame_def assertAllowed_def act_iffs projectionUrlHolds_def)

lemma assertFrame_state: "snd (assertFrame f p) = p"
  by (cases "py_role p") (simp_all add: assertFrame_def assertAllowed_def act_then_app act_bind_app require_app)

lemma accept_keeps: "keeps projections_inv (accept f)"
proof (rule keepsI)
  fix p assume I: "projections_inv p"
  show "projections_inv (snd (accept f p))"
  proof (cases "assertFrame f p")
    case (Pair res p')
    then have p': "p' = p" using assertFrame_state [of f p] by simp
    show ?thesis
    proof (cases res)
      case (Inr u)
      then obtain r where r: "py_role p = Some r" "pf_key f \<in> set (role_keys r)" "pf_roomId f = py_roomId p" "projectionUrlHolds f"
        using Pair p' by (auto simp: assertFrame_Inr)
      have "projections_inv (snd (set_reference (pf_key f) f p))" using inv_set_reference [OF I r(1,2)] r(3,4) by simp
      then show ?thesis using I Pair Inr p'
        by (simp add: accept_def act_then_app act_bind_app set_reference_def split: option.split)
    qed (use Pair I p' in \<open>simp add: accept_def act_then_app\<close>)
  qed
qed

lemma parse_projection_Inr: "parse_projection k c = Inr s \<Longrightarrow> s = c"
  by (auto simp: parse_projection_def rbind_Inr_iff parseStudentEchoSnapshot_def parseTeacherEchoSnapshot_def parseTrace_def
      split: ProjectionSnapshot.splits if_splits dest: parse_snapshot_wf)

lemma inv_install:
  assumes "projections_inv p" "py_role p = Some r" "key \<in> set (role_keys r)" "pf_key f = key" "pf_roomId f = py_roomId p" "projectionUrlHolds f"
    and "\<And>s. sl_snapshot sl = Some s \<Longrightarrow> ps_key s = key \<and> ps_roomId s = py_roomId p \<and> \<not> ps_stale s"
  shows "projections_inv (snd (act_then (set_reference key f) (set_slot key sl) p))"
proof -
  have "act_then (set_reference key f) (set_slot key sl) p = set_slot key sl (snd (set_reference key f p))"
    by (simp add: set_reference_def act_then_app)
  then show ?thesis
    using inv_set_slot [OF inv_set_reference [OF assms(1-6)], of r key sl] assms(2,3,7) by (simp add: set_slot_frame)
qed

lemma replaceSnapshot_keeps: "keeps projections_inv (replaceSnapshot k c)"
  unfolding replaceSnapshot_def
proof (rule keeps_guarded)
  fix p r assume r: "py_role p = Some r" "ps_key c \<in> set (role_keys r)" "projections_inv p"
  have "projections_inv (snd (act_then (set_reference (ps_key c)
          \<lparr>pf_roomId = ps_roomId c, pf_key = ps_key c, pf_epoch = ps_epoch c, pf_version = ps_version c,
           pf_through = ps_through c, pf_url = analytics_latest (ps_roomId c) (ps_key c)\<rparr>)
        (set_slot (ps_key c) \<lparr>sl_availability = Ready, sl_snapshot = Some c, sl_error = None\<rparr>) p))"
    if "ps_roomId c = py_roomId p" "\<not> ps_stale c"
    by (rule inv_install [OF r(3) r(1,2)]) (use that in \<open>simp_all add: projectionUrlHolds_def\<close>)
  then show "projections_inv (snd (act_bind (gets py_roomId) (\<lambda>rid.
      act_then (require (ps_roomId c = rid) (Err ''PROJECTION_ROOM_MISMATCH''))
      (act_bind (lift_result (parse_projection k c)) (\<lambda>s.
       act_then (require (\<not> ps_stale s) (Err ''PROJECTION_REPLAY_REQUIRED''))
       (act_then (set_reference (ps_key s)
          \<lparr>pf_roomId = ps_roomId s, pf_key = ps_key s, pf_epoch = ps_epoch s, pf_version = ps_version s,
           pf_through = ps_through s, pf_url = analytics_latest (ps_roomId s) (ps_key s)\<rparr>)
        (set_slot (ps_key s) \<lparr>sl_availability = Ready, sl_snapshot = Some s, sl_error = None\<rparr>))))) p))"
    using r(3) parse_projection_Inr [of k c]
    by (cases "parse_projection k c") (auto simp: act_bind_app act_then_app [of "require _ _"] require_app lift_result_def split: if_splits)
qed

lemma applyEchoPatches_keeps: "keeps projections_inv (applyEchoPatches k key patches target)"
proof (rule keepsI)
  fix p assume I: "projections_inv p"
  show "projections_inv (snd (applyEchoPatches k key patches target p))"
  proof (cases "applyEchoPatches k key patches target p")
    case (Pair res p')
    show ?thesis
    proof (cases "p' = p")
      case False
      from Pair False obtain r s v where c: "py_role p = Some r" "key \<in> set (role_keys r)" "pf_key target = key" "pf_roomId target = py_roomId p"
        "projectionUrlHolds target" "held_snapshot key p = Some (ConceptSnapshot s)" "apply_patches k patches s = Inr v"
        and p': "p' = snd (act_then (set_reference key target)
            (set_slot key \<lparr>sl_availability = Ready, sl_snapshot = Some (ConceptSnapshot v), sl_error = None\<rparr>) p)"
        by (auto simp: applyEchoPatches_def assertFrame_def assertAllowed_def act_then_app act_bind_app require_app lift_result_def held_snapshot_def
            projectionUrlHolds_def split: option.splits if_splits sum.splits ProjectionSnapshot.splits)
      have "\<not> ps_stale (ConceptSnapshot v)"
      proof (cases patches)
        case Nil
        then have "v = s" using c(7) by (simp add: apply_patches_def)
        then show ?thesis using held_snapshot_inv [OF I c(6)] by simp
      next
        case (Cons q qs)
        then show ?thesis using apply_patches_active [OF c(7)] by simp
      qed
      then show ?thesis
        using inv_install [OF I c(1-3) c(4,5), of "\<lparr>sl_availability = Ready, sl_snapshot = Some (ConceptSnapshot v), sl_error = None\<rparr>"]
          apply_patches_advance [OF c(7)] held_snapshot_inv [OF I c(6)] Pair p' by simp
    qed (use Pair I in simp)
  qed
qed

lemma get_loading_slots: "jm_get (loading_slots keys) k = (if k \<in> set keys then Some loading_slot else None)"
proof -
  have "jm_get (fold (\<lambda>k. jm_set k loading_slot) keys m) k = (if k \<in> set keys then Some loading_slot else jm_get m k)" for m
    by (induction keys arbitrary: m) auto
  then show ?thesis by (simp add: loading_slots_def)
qed

lemma new_projections_inv: "projections_inv (new_projections rid session)"
  by (auto simp: projections_inv_def new_projections_def get_loading_slots loading_slot_def Let_def split: if_splits)

lemma reset_projections_inv: "projections_inv p \<Longrightarrow> projections_inv (reset_projections p)"
  by (auto simp: projections_inv_def reset_projections_def get_loading_slots loading_slot_def split: if_splits option.splits)

lemma clearAuthority_inv: "projections_inv (clearAuthority p)"
  by (simp add: projections_inv_def clearAuthority_def reset_projections_def)

end
