(* ===== verification/Agent_Status.thy ===== *)
theory Agent_Status
  imports Wire_Frames
begin

text \<open>
  The agent's status as a browser merges it, from
  \<^verbatim>\<open>apps/web/src/lib/session/hydrated-session-state.ts\<close>: frames arrive over the socket and
  snapshots over HTTP, in any order, and the merge keeps the newest run, health and switch.
\<close>

section \<open>Merging\<close>

record agent_view =
  av_status :: "AgentStatusFrame option"
  av_runAt :: "int option"
  av_metaAt :: "int option"

definition TERMINAL_AGENT_STATES :: "agent_state list" where
  "TERMINAL_AGENT_STATES = [AgentCompleted, AgentBlocked, AgentCancelled, AgentFailed]"

text \<open>\<^verbatim>\<open>AGENT_PROGRESS_RANK[state] ?? -1\<close>\<close>

fun progress_rank :: "agent_state \<Rightarrow> int" where
  "progress_rank AgentQueued = 0"
| "progress_rank AgentRunning = 1"
| "progress_rank AgentStreaming = 2"
| "progress_rank _ = - 1"

fun health_rank :: "health \<Rightarrow> int" where
  "health_rank Healthy = 0"
| "health_rank Degraded = 1"
| "health_rank Unavailable = 2"

definition agentFrameIdentityIsValid :: "AgentStatusFrame \<Rightarrow> bool" where
  "agentFrameIdentityIsValid f =
     (if ag_state f = AgentIdle then ag_run f = None \<and> ag_failure f = None else ag_run f \<noteq> None)"

definition acceptAgentRunTransition :: "AgentStatusFrame \<Rightarrow> AgentStatusFrame \<Rightarrow> int option \<Rightarrow> int \<Rightarrow> bool \<Rightarrow> bool" where
  "acceptAgentRunTransition previous next previousTime nextTime authoritative =
     (if ag_run previous = None then
        ag_run next \<noteq> None \<and> (case previousTime of None \<Rightarrow> False | Some t \<Rightarrow> nextTime > t)
      else case previousTime of None \<Rightarrow> False | Some t \<Rightarrow>
        if ag_run next = None \<or> nextTime < t then False
        else if ag_run previous \<noteq> ag_run next then
          nextTime > t \<and> (authoritative \<or> ag_state previous \<in> set TERMINAL_AGENT_STATES)
        else if ag_state previous = ag_state next then nextTime > t
        else if ag_state previous \<in> set TERMINAL_AGENT_STATES then False
        else if ag_state next \<in> set TERMINAL_AGENT_STATES then True
        else progress_rank (ag_state next) > progress_rank (ag_state previous))"

definition newest :: "int option \<Rightarrow> int option \<Rightarrow> date" where
  "newest a b = (case (a, b) of
     (None, None) \<Rightarrow> InvalidDate | (Some x, None) \<Rightarrow> At x | (None, Some y) \<Rightarrow> At y | (Some x, Some y) \<Rightarrow> At (max x y))"

definition merge_into :: "AgentStatusFrame \<Rightarrow> AgentStatusFrame \<Rightarrow> int \<Rightarrow> int \<Rightarrow> bool \<Rightarrow> agent_view \<Rightarrow> bool \<times> agent_view" where
  "merge_into previous f runTime metaTime authoritative v =
     (let acceptRun = acceptAgentRunTransition previous f (av_runAt v) runTime authoritative;
          newerMeta = (case av_metaAt v of None \<Rightarrow> True | Some t \<Rightarrow> metaTime > t);
          sameMeta = (av_metaAt v = Some metaTime);
          acceptHealth = (newerMeta \<or> (sameMeta \<and> health_rank (ag_health f) > health_rank (ag_health previous)));
          acceptEnabled = (newerMeta \<or> (sameMeta \<and> ag_enabled previous \<and> \<not> ag_enabled f));
          runAt = (if acceptRun then Some runTime else av_runAt v);
          metaAt = (if newerMeta then Some metaTime else av_metaAt v);
          p1 = (if acceptRun then previous\<lparr>ag_run := ag_run f, ag_state := ag_state f, ag_failure := ag_failure f\<rparr> else previous);
          p2 = (if acceptHealth then p1\<lparr>ag_health := ag_health f\<rparr> else p1);
          p3 = (if acceptEnabled then p2\<lparr>ag_enabled := ag_enabled f\<rparr> else p2) in
      (acceptRun \<or> acceptHealth \<or> acceptEnabled,
       \<lparr>av_status = Some (p3\<lparr>ag_updated := newest runAt metaAt\<rparr>), av_runAt = runAt, av_metaAt = metaAt\<rparr>))"

definition mergeAgentFrame :: "AgentStatusFrame \<Rightarrow> date \<Rightarrow> date \<Rightarrow> bool \<Rightarrow> (agent_view, client_error, bool) act" where
  "mergeAgentFrame f runTime metaTime authoritative = (\<lambda>v.
     if \<not> agentFrameIdentityIsValid f \<or> \<not> validDate runTime \<or> \<not> validDate metaTime then (Inl (Err ''AGENT_STATUS_INVALID''), v)
     else (case av_status v of
         None \<Rightarrow> (Inr True, \<lparr>av_status = Some (f\<lparr>ag_updated := At (max (date_time runTime) (date_time metaTime))\<rparr>),
             av_runAt = Some (date_time runTime), av_metaAt = Some (date_time metaTime)\<rparr>)
       | Some previous \<Rightarrow> (case merge_into previous f (date_time runTime) (date_time metaTime) authoritative v of (acc, v') \<Rightarrow> (Inr acc, v'))))"

section \<open>Invariant and order\<close>

definition agent_inv :: "agent_view \<Rightarrow> bool" where
  "agent_inv v \<longleftrightarrow> (case av_status v of
     None \<Rightarrow> True
   | Some s \<Rightarrow> agentFrameIdentityIsValid s \<and> av_runAt v \<noteq> None \<and> av_metaAt v \<noteq> None \<and> ag_updated s = newest (av_runAt v) (av_metaAt v))"

definition empty_agent :: agent_view where
  "empty_agent = \<lparr>av_status = None, av_runAt = None, av_metaAt = None\<rparr>"

lemma empty_agent_inv: "agent_inv empty_agent"
  by (simp add: agent_inv_def empty_agent_def)

lemma mergeAgentFrame_inv: "agent_inv v \<Longrightarrow> agent_inv (snd (mergeAgentFrame f rt mt a v))"
proof (cases "av_status v")
  case None
  assume "agent_inv v"
  then show ?thesis using None
    by (cases rt; cases mt) (auto simp: mergeAgentFrame_def agent_inv_def agentFrameIdentityIsValid_def newest_def)
next
  case (Some p)
  assume i: "agent_inv v"
  show ?thesis
  proof (cases "agentFrameIdentityIsValid f \<and> validDate rt \<and> validDate mt")
    case True
    then show ?thesis using i Some
      by (auto simp: mergeAgentFrame_def agent_inv_def merge_into_def Let_def agentFrameIdentityIsValid_def split: if_splits)
  qed (use i in \<open>auto simp: mergeAgentFrame_def\<close>)
qed

text \<open>
  The order the merge climbs: a later run time, or at an equal one the same run further
  along; and for the service a later report, or at an equal one worse health and a switch
  that is off.
\<close>

definition agent_le :: "agent_view \<Rightarrow> agent_view \<Rightarrow> bool" where
  "agent_le v w \<longleftrightarrow> (case av_status v of None \<Rightarrow> True | Some s \<Rightarrow>
     (\<exists>t. av_status w = Some t \<and> ag_roomId t = ag_roomId s \<and>
       the (av_runAt v) \<le> the (av_runAt w) \<and> the (av_metaAt v) \<le> the (av_metaAt w) \<and>
       (the (av_runAt v) = the (av_runAt w) \<longrightarrow> ag_run t = ag_run s \<and> (ag_state s \<in> set TERMINAL_AGENT_STATES \<longrightarrow> ag_state t = ag_state s)) \<and>
       (ag_run t = ag_run s \<and> ag_state s \<in> set TERMINAL_AGENT_STATES \<longrightarrow> ag_state t = ag_state s) \<and>
       (the (av_metaAt v) = the (av_metaAt w) \<longrightarrow> health_rank (ag_health s) \<le> health_rank (ag_health t) \<and> (ag_enabled t \<longrightarrow> ag_enabled s))))"

lemma accept_same_time:
  "acceptAgentRunTransition p f (Some t) t a \<Longrightarrow> ag_run f = ag_run p \<and> ag_state p \<notin> set TERMINAL_AGENT_STATES"
  by (auto simp: acceptAgentRunTransition_def split: if_splits)

lemma accept_later: "acceptAgentRunTransition p f (Some t) n a \<Longrightarrow> t \<le> n"
  by (auto simp: acceptAgentRunTransition_def split: if_splits)

lemma accept_terminal:
  "acceptAgentRunTransition p f (Some t) n a \<Longrightarrow> ag_run f = ag_run p \<Longrightarrow> ag_state p \<in> set TERMINAL_AGENT_STATES \<Longrightarrow> ag_state f = ag_state p"
  by (auto simp: acceptAgentRunTransition_def split: if_splits)

lemma merge_into_le:
  assumes "av_status v = Some p" "av_runAt v = Some t" "av_metaAt v = Some m"
  shows "agent_le v (snd (merge_into p f rt mt a v))"
proof -
  let ?acc = "acceptAgentRunTransition p f (Some t) rt a"
  have "?acc \<Longrightarrow> t \<le> rt" by (rule accept_later)
  moreover have "?acc \<Longrightarrow> rt = t \<Longrightarrow> ag_run f = ag_run p \<and> ag_state p \<notin> set TERMINAL_AGENT_STATES" using accept_same_time by blast
  moreover have "?acc \<Longrightarrow> ag_run f = ag_run p \<Longrightarrow> ag_state p \<in> set TERMINAL_AGENT_STATES \<Longrightarrow> ag_state f = ag_state p"
    by (rule accept_terminal)
  ultimately show ?thesis
    using assms unfolding agent_le_def merge_into_def Let_def by (auto split: if_splits)
qed

lemma mergeAgentFrame_le: "agent_inv v \<Longrightarrow> agent_le v (snd (mergeAgentFrame f rt mt a v))"
proof (cases "av_status v")
  case (Some p)
  assume i: "agent_inv v"
  then obtain t m where tm: "av_runAt v = Some t" "av_metaAt v = Some m" using Some by (auto simp: agent_inv_def)
  have refl: "agent_le v v" using Some by (auto simp: agent_le_def)
  show ?thesis
    using Some refl merge_into_le [OF Some tm, of f "date_time rt" "date_time mt" a]
    by (auto simp: mergeAgentFrame_def split: prod.split)
qed (simp add: agent_le_def)

end
