(* ===== verification/Hydrated_State.thy ===== *)
theory Hydrated_State
  imports Socket_Cursor Command_Bus Projection_Sync Agent_Status
begin

text \<open>
  \<^verbatim>\<open>HydratedSessionState\<close> of \<^verbatim>\<open>apps/web/src/lib/session/hydrated-session-state.ts\<close>, first
  part: the state, how it is cleared, and the background requests for the agent's status
  and the analytics projections. A request is split at each \<^verbatim>\<open>await\<close>: an operation that
  starts it and one that resumes it with the response, so that other operations may run
  in between, as they do in the browser.
\<close>

section \<open>State\<close>

datatype work =
    AwaitLatest "ProjectionSnapshot option"
  | AwaitPatches ProjectionFrame
  | AwaitFrameLatest ProjectionFrame

record projection_task =
  tk_id :: nat
  tk_key :: projection_key
  tk_generation :: nat
  tk_work :: work

text \<open>A page loop in flight: its promise, the loop's cursor and the pages read so far.\<close>

record recovery =
  rc_id :: nat
  rc_cursor :: int
  rc_pages :: nat

record hydrated =
  hy_ledger :: EventLedger
  hy_projections :: ProjectionSync
  hy_acks :: "(string, ServerFrame) jsmap"
  hy_rejects :: "ServerFrame list"
  hy_presence :: "(string, seat_state \<times> date) jsmap"
  hy_typing :: "(string, bool \<times> date) jsmap"
  hy_media :: "(string, MediaStatusFrame) jsmap"
  hy_degraded :: "(string, ServerFrame) jsmap"
  hy_agent :: agent_view
  hy_agentUnavailable :: bool
  hy_agentPending :: bool
  hy_lastProjection :: "ProjectionAcceptResult option"
  hy_serverTime :: "date option"
  hy_serverTimeAt :: "int option"
  hy_recoveryError :: "string option"
  hy_state :: SessionState
  hy_expired :: bool
  hy_unavailable :: bool
  hy_recovery :: "recovery option"
  hy_watchers :: "nat list"
  hy_rejected :: "nat list"
  hy_nextPromise :: nat
  hy_pageLimit :: int
  hy_required :: int
  hy_agentGeneration :: nat
  hy_agentLive :: nat
  hy_agentRefresh :: "(nat \<times> nat) option"
  hy_projGeneration :: "(projection_key, nat) jsmap"
  hy_tasks :: "projection_task list"
  hy_refreshes :: "(projection_key, nat) jsmap"
  hy_timelines :: "(projection_key, nat) jsmap"
  hy_session :: "ClientSession option"
  hy_room :: "RoomDetails option"
  hy_notices :: nat

type_synonym 'a hact = "(hydrated, 'a) cact"

text \<open>
  The surroundings of an operation: schema validators, the browser's sockets and clock, and
  which optional methods the gateway has.
\<close>

record surroundings =
  su_contracts :: contracts
  su_schemas :: analytics_schemas
  su_browser :: browser
  su_now :: int
  su_hasAgent :: bool
  su_hasLatest :: bool
  su_hasPatches :: bool
  su_hasTimeline :: bool

definition gethost :: "(hydrated \<Rightarrow> 'a) \<Rightarrow> 'a hact" where
  "gethost f = gets (\<lambda>c. f (host c))"

definition upd_host :: "(hydrated \<Rightarrow> hydrated) \<Rightarrow> unit hact" where
  "upd_host f = modify (\<lambda>c. c\<lparr>host := f (host c)\<rparr>)"

definition act_finally :: "('s, 'e, 'a) act \<Rightarrow> ('s, 'e, unit) act \<Rightarrow> ('s, 'e, 'a) act" where
  "act_finally m n = (\<lambda>s. case m s of (r, s') \<Rightarrow> (case n s' of (Inl e, s'') \<Rightarrow> (Inl e, s'') | (Inr _, s'') \<Rightarrow> (r, s'')))"

text \<open>Listeners are the user interface; a notification is counted.\<close>

definition notify :: "unit hact" where
  "notify = upd_host (\<lambda>h. h\<lparr>hy_notices := hy_notices h + 1\<rparr>)"

definition on_projections :: "'a py_act \<Rightarrow> 'a hact" where
  "on_projections m = (\<lambda>c. case m (hy_projections (host c)) of (r, p) \<Rightarrow> (r, c\<lparr>host := (host c)\<lparr>hy_projections := p\<rparr>\<rparr>))"

definition on_agent :: "(agent_view, client_error, 'a) act \<Rightarrow> 'a hact" where
  "on_agent m = (\<lambda>c. case m (hy_agent (host c)) of (r, v) \<Rightarrow> (r, c\<lparr>host := (host c)\<lparr>hy_agent := v\<rparr>\<rparr>))"

definition on_ledger :: "(EventLedger, client_error, 'a) act \<Rightarrow> 'a hact" where
  "on_ledger m = (\<lambda>c. case m (hy_ledger (host c)) of (r, l) \<Rightarrow> (r, c\<lparr>host := (host c)\<lparr>hy_ledger := l\<rparr>\<rparr>))"

definition dispatch_state :: "SessionAction \<Rightarrow> unit hact" where
  "dispatch_state a = upd_host (\<lambda>h. h\<lparr>hy_state := sessionReducer (hy_state h) a\<rparr>)"

definition is_echo :: "projection_key \<Rightarrow> bool" where
  "is_echo key = (key = EchoTeacherShadow \<or> key = EchoStudentApproved)"

section \<open>Clearing\<close>

definition cancelProjectionRefresh :: "projection_key \<Rightarrow> hydrated \<Rightarrow> hydrated" where
  "cancelProjectionRefresh key h = h\<lparr>
     hy_projGeneration := jm_set key (orelse (jm_get (hy_projGeneration h) key) 0 + 1) (hy_projGeneration h),
     hy_refreshes := jm_delete key (hy_refreshes h)\<rparr>"

definition cancelTimelineRequest :: "projection_key \<Rightarrow> hydrated \<Rightarrow> hydrated" where
  "cancelTimelineRequest key h = (if \<not> is_echo key then h else h\<lparr>hy_timelines := jm_delete key (hy_timelines h)\<rparr>)"

text \<open>\<^verbatim>\<open>onConnectionChange\<close>, the callback the socket's teardown reaches.\<close>

definition connection_callback :: "bool \<Rightarrow> unit hact" where
  "connection_callback up = act_then (dispatch_state (SetConnection up)) notify"

definition teardown_callbacks :: "hydrated callbacks" where
  "teardown_callbacks = \<lparr>cb_sink = (\<lambda>_. ret ()), cb_control = (\<lambda>_. ret ()), cb_expired = ret (), cb_unavailable = (\<lambda>_. ret ()),
     cb_connection = connection_callback, cb_protocol = ret ()\<rparr>"

definition cleared :: "hydrated \<Rightarrow> hydrated" where
  "cleared h = h\<lparr>
     hy_ledger := ledger_destroy (hy_ledger h), hy_projections := clearAuthority (hy_projections h),
     hy_acks := [], hy_rejects := [], hy_presence := [], hy_typing := [], hy_media := [], hy_degraded := [],
     hy_agent := empty_agent, hy_agentUnavailable := False, hy_agentPending := False,
     hy_lastProjection := None, hy_serverTime := None, hy_serverTimeAt := None, hy_recoveryError := None,
     hy_session := None, hy_room := None, hy_state := createSessionState '''' Scheduled None None, hy_required := 0\<rparr>"

definition clearState :: "surroundings \<Rightarrow> unit hact" where
  "clearState su =
     act_then (upd_host (\<lambda>h. (fold cancelProjectionRefresh (py_allowed (hy_projections h))
         (h\<lparr>hy_agentGeneration := hy_agentGeneration h + 1, hy_agentRefresh := None\<rparr>))\<lparr>hy_timelines := [], hy_refreshes := []\<rparr>))
     (act_then (destroy_socket (su_browser su) teardown_callbacks) (upd_host cleared))"

definition clearForSessionExpiry :: "surroundings \<Rightarrow> unit hact" where
  "clearForSessionExpiry su =
     act_bind (gethost (\<lambda>h. hy_expired h \<or> hy_unavailable h)) (\<lambda>gone. if gone then ret () else
     act_then (upd_host (\<lambda>h. h\<lparr>hy_expired := True\<rparr>)) (act_then (clearState su) notify))"

definition clearForRoomUnavailable :: "surroundings \<Rightarrow> unit hact" where
  "clearForRoomUnavailable su =
     act_bind (gethost (\<lambda>h. hy_expired h \<or> hy_unavailable h)) (\<lambda>gone. if gone then ret () else
     act_then (upd_host (\<lambda>h. h\<lparr>hy_unavailable := True\<rparr>)) (act_then (clearState su) notify))"

definition failRecovery :: "surroundings \<Rightarrow> string \<Rightarrow> unit hact" where
  "failRecovery su reason =
     act_bind (gethost (\<lambda>h. hy_expired h \<or> hy_unavailable h \<or> hy_recoveryError h \<noteq> None)) (\<lambda>gone. if gone then ret () else
     act_then (upd_host (\<lambda>h. h\<lparr>hy_recoveryError := Some reason\<rparr>))
     (act_then (close_socket (su_browser su) teardown_callbacks) notify))"

section \<open>The agent's status\<close>

record AgentCurrentState =
  ac_roomId :: string
  ac_run :: "(string \<times> agent_state \<times> string option \<times> date) option"
  ac_health :: health
  ac_enabled :: bool
  ac_updated :: date

definition current_frame :: "AgentCurrentState \<Rightarrow> AgentStatusFrame" where
  "current_frame a = (case ac_run a of
     None \<Rightarrow> \<lparr>ag_roomId = ac_roomId a, ag_run = None, ag_state = AgentIdle, ag_health = ac_health a, ag_enabled = ac_enabled a,
       ag_updated = ac_updated a, ag_failure = None\<rparr>
   | Some (rid, st, failure, _) \<Rightarrow> \<lparr>ag_roomId = ac_roomId a, ag_run = Some rid, ag_state = st, ag_health = ac_health a,
       ag_enabled = ac_enabled a, ag_updated = ac_updated a, ag_failure = failure\<rparr>)"

definition room_id_of :: "string hact" where
  "room_id_of = act_bind (gethost hy_room) (\<lambda>r. case r of None \<Rightarrow> raise (Err ''SESSION_STATE_CLEARED'') | Some x \<Rightarrow> ret (rd_roomId x))"

definition mergeAgentCurrent :: "surroundings \<Rightarrow> AgentCurrentState \<Rightarrow> bool hact" where
  "mergeAgentCurrent su a =
     act_bind room_id_of (\<lambda>rid.
     act_then (require (ac_roomId a = rid) (Err ''AGENT_CURRENT_ROOM_MISMATCH''))
     (act_bind (lift_result (parseServerFrame (su_contracts su) (Shaped (AgentStatus (current_frame a))))) (\<lambda>f. case f of
        AgentStatus frame \<Rightarrow>
          on_agent (mergeAgentFrame frame (case ac_run a of Some (_, _, _, t) \<Rightarrow> t | None \<Rightarrow> ac_updated a) (ac_updated a) True)
      | _ \<Rightarrow> raise (Err ''AGENT_CURRENT_FRAME_INVALID''))))"

definition refreshAgentCurrent :: "surroundings \<Rightarrow> unit hact" where
  "refreshAgentCurrent su =
     act_bind (gethost hy_room) (\<lambda>room. if \<not> su_hasAgent su \<or> room = None then ret () else
     act_then (upd_host (\<lambda>h. h\<lparr>hy_agentGeneration := hy_agentGeneration h + 1,
         hy_agentRefresh := Some (hy_agentGeneration h + 1, hy_agentLive h), hy_agentPending := True\<rparr>)) notify)"

text \<open>The refresh number \<open>generation\<close>, started at live version \<open>live\<close>, gets its response, a timeout or an abort.\<close>

definition agent_refresh_settles :: "surroundings \<Rightarrow> nat \<Rightarrow> nat \<Rightarrow> client_error + AgentCurrentState \<Rightarrow> unit hact" where
  "agent_refresh_settles su generation live response =
     act_finally
       (act_catch
         (act_bind (lift_result response) (\<lambda>current.
          act_bind (gethost (\<lambda>h. generation \<noteq> hy_agentGeneration h \<or> hy_room h = None)) (\<lambda>superseded. if superseded then ret () else
          act_then (mergeAgentCurrent su current)
          (act_then (upd_host (\<lambda>h. h\<lparr>hy_agentUnavailable := False\<rparr>)) notify))))
         (\<lambda>e. act_bind (gethost (\<lambda>h. generation \<noteq> hy_agentGeneration h \<or> hy_room h = None)) (\<lambda>superseded. if superseded then ret () else
          if e = GatewayError ''AUTH_REQUIRED'' then clearForSessionExpiry su
          else if e = GatewayError ''FORBIDDEN'' \<or> e = GatewayError ''ROOM_NOT_FOUND'' then clearForRoomUnavailable su
          else act_bind (gethost hy_agentLive) (\<lambda>l. if l \<noteq> live then ret () else
            act_then (upd_host (\<lambda>h. h\<lparr>hy_agentUnavailable := True\<rparr>)) notify))))
       (act_bind (gethost hy_agentGeneration) (\<lambda>g. if generation \<noteq> g then ret () else
         act_then (upd_host (\<lambda>h. h\<lparr>hy_agentPending := False, hy_agentRefresh := None\<rparr>)) notify))"

section \<open>Projections\<close>

definition PROJECTION_AUTHORITY_LOSS_CODES :: "string list" where
  "PROJECTION_AUTHORITY_LOSS_CODES = [''PROJECTION_FORBIDDEN'', ''RETENTION_POLICY_EXPIRED'', ''ROOM_DELETION_IN_PROGRESS'']"

text \<open>\<^verbatim>\<open>#projectionTask\<close> up to its first \<^verbatim>\<open>await\<close>; the synchronous part of the work chooses the request.\<close>

definition projectionTask :: "projection_key \<Rightarrow> work hact \<Rightarrow> unit hact" where
  "projectionTask key start =
     act_bind (gethost (\<lambda>h. hy_room h = None \<or> hy_session h = None)) (\<lambda>gone. if gone then ret () else
     act_bind (gethost (\<lambda>h. orelse (jm_get (hy_projGeneration h) key) 0 + 1)) (\<lambda>generation.
     act_then (upd_host (\<lambda>h. h\<lparr>hy_projGeneration := jm_set key generation (hy_projGeneration h)\<rparr>))
     (act_then (on_projections (markLoading key)) (act_then notify
     (act_bind start (\<lambda>w.
      upd_host (\<lambda>h. h\<lparr>hy_nextPromise := hy_nextPromise h + 1,
        hy_tasks := hy_tasks h @ [\<lparr>tk_id = hy_nextPromise h, tk_key = key, tk_generation = generation, tk_work = w\<rparr>],
        hy_refreshes := jm_set key (hy_nextPromise h) (hy_refreshes h)\<rparr>)))))))"

definition refreshProjectionLatest :: "surroundings \<Rightarrow> projection_key \<Rightarrow> unit hact" where
  "refreshProjectionLatest su key =
     act_bind (gethost hy_room) (\<lambda>room. if \<not> su_hasLatest su \<or> room = None then ret () else
     projectionTask key (act_bind (on_projections (slot key)) (\<lambda>sl. ret (AwaitLatest (sl_snapshot sl)))))"

fun refresh_each :: "surroundings \<Rightarrow> projection_key list \<Rightarrow> unit hact" where
  "refresh_each su [] = ret ()"
| "refresh_each su (key # keys) = act_then (refreshProjectionLatest su key) (refresh_each su keys)"

definition refreshProjections :: "surroundings \<Rightarrow> unit hact" where
  "refreshProjections su =
     act_bind (gethost (\<lambda>h. (hy_room h, py_allowed (hy_projections h)))) (\<lambda>(room, keys).
     if \<not> su_hasLatest su \<or> room = None then ret () else refresh_each su keys)"

definition refreshProjection :: "surroundings \<Rightarrow> projection_key \<Rightarrow> unit hact" where
  "refreshProjection su key = act_bind (gethost (\<lambda>h. py_allowed (hy_projections h))) (\<lambda>keys.
     if key \<notin> set keys then raise (Err ''PROJECTION_ROLE_FORBIDDEN'') else refreshProjectionLatest su key)"

definition reconcileProjectionFrame :: "surroundings \<Rightarrow> ProjectionFrame \<Rightarrow> ProjectionAcceptResult \<Rightarrow> unit hact" where
  "reconcileProjectionFrame su frame result =
     act_bind (gethost hy_room) (\<lambda>room. if \<not> su_hasLatest su \<or> room = None then ret () else
     projectionTask (pf_key frame) (act_bind (on_projections (slot (pf_key frame))) (\<lambda>sl. ret
       (case sl_snapshot sl of
          Some cur \<Rightarrow> if result = Accepted \<and> is_echo (pf_key frame) \<and> su_hasPatches su \<and> ps_key cur = pf_key frame \<and>
              ps_epoch cur = pf_epoch frame \<and> ps_version cur + 1 = pf_version frame
            then AwaitPatches frame else AwaitFrameLatest frame
        | None \<Rightarrow> AwaitFrameLatest frame))))"

datatype projection_response = LatestResponse ProjectionSnapshot | PatchesResponse "ConceptMapPatch list" | FailedResponse client_error

definition error_code :: "client_error \<Rightarrow> string" where
  "error_code e = (case e of
     GatewayError c \<Rightarrow> c
   | Err m \<Rightarrow> if m \<noteq> '''' \<and> length m \<le> 80 \<and>
         list_all (\<lambda>x. let n = (of_char x :: nat) in (65 \<le> n \<and> n \<le> 90) \<or> (48 \<le> n \<and> n \<le> 57) \<or> n = 95) m
       then m else ''PROJECTION_SYNC_FAILED'')"

text \<open>The \<^verbatim>\<open>catch\<close> clause of the task, when it has not been superseded.\<close>

definition task_error :: "surroundings \<Rightarrow> projection_key \<Rightarrow> client_error \<Rightarrow> unit hact" where
  "task_error su key e =
     (if e = GatewayError ''AUTH_REQUIRED'' then clearForSessionExpiry su
      else if e = GatewayError ''ROOM_NOT_FOUND'' then clearForRoomUnavailable su
      else act_then
        (if e = GatewayError ''STUDENT_ANALYTICS_NOT_PROMOTED'' then
           act_then (upd_host (cancelTimelineRequest key)) (on_projections (markPolicyUnavailable key))
         else if e = GatewayError ''ANALYTICS_NOT_READY'' then on_projections (markNotReady key)
         else if e \<in> GatewayError ` set PROJECTION_AUTHORITY_LOSS_CODES then
           act_then (upd_host (cancelTimelineRequest key)) (on_projections (markAuthorityUnavailable key (error_code e)))
         else on_projections (markFailed key (error_code e))) notify)"

text \<open>What the work does with a response: the next request to await, or the end.\<close>

definition work_resumes :: "surroundings \<Rightarrow> projection_key \<Rightarrow> work \<Rightarrow> projection_response \<Rightarrow> work option hact" where
  "work_resumes su key w response = (case (w, response) of
     (AwaitLatest previous, LatestResponse s) \<Rightarrow>
       act_then (case previous of Some q \<Rightarrow> if ps_epoch q \<noteq> ps_epoch s then upd_host (cancelTimelineRequest key) else ret () | None \<Rightarrow> ret ())
       (act_then (on_projections (replaceSnapshot (su_schemas su) s)) (ret None))
   | (AwaitPatches frame, PatchesResponse ps) \<Rightarrow>
       act_catch (act_then (on_projections (applyEchoPatches (su_schemas su) key ps frame)) (ret None))
         (\<lambda>_. ret (Some (AwaitFrameLatest frame)))
   | (AwaitPatches frame, FailedResponse e) \<Rightarrow>
       if e \<in> GatewayError ` set [''AUTH_REQUIRED'', ''ROOM_NOT_FOUND'', ''STUDENT_ANALYTICS_NOT_PROMOTED''] then raise e
       else ret (Some (AwaitFrameLatest frame))
   | (AwaitFrameLatest frame, LatestResponse s) \<Rightarrow>
       if ps_epoch s = pf_epoch frame \<and> (ps_version s < pf_version frame \<or> ps_through s < pf_through frame)
       then raise (Err ''PROJECTION_SNAPSHOT_BEHIND_FRAME'')
       else act_then (on_projections (replaceSnapshot (su_schemas su) s)) (ret None)
   | (_, FailedResponse e) \<Rightarrow> raise e
   | _ \<Rightarrow> raise (Err ''SESSION_RESPONSE_INVALID''))"

definition task_current :: "projection_task \<Rightarrow> hydrated \<Rightarrow> bool" where
  "task_current t h \<longleftrightarrow> jm_get (hy_projGeneration h) (tk_key t) = Some (tk_generation t)"

definition task_superseded :: "projection_task \<Rightarrow> hydrated \<Rightarrow> bool" where
  "task_superseded t h \<longleftrightarrow> \<not> task_current t h \<or> hy_room h = None \<or> hy_session h = None"

text \<open>The \<^verbatim>\<open>finally\<close> clause.\<close>

definition task_finished :: "projection_task \<Rightarrow> unit hact" where
  "task_finished t = upd_host (\<lambda>h. if task_current t h \<and> jm_get (hy_refreshes h) (tk_key t) = Some (tk_id t)
     then h\<lparr>hy_refreshes := jm_delete (tk_key t) (hy_refreshes h)\<rparr> else h)"

text \<open>Task \<open>t\<close>, which is in flight, gets a response.\<close>

definition projection_task_resumes :: "surroundings \<Rightarrow> projection_task \<Rightarrow> projection_response \<Rightarrow> unit hact" where
  "projection_task_resumes su t response =
     act_then (upd_host (\<lambda>h. h\<lparr>hy_tasks := removeAll t (hy_tasks h)\<rparr>))
     (act_bind (act_catch (act_bind (work_resumes su (tk_key t) (tk_work t) response) (\<lambda>w. case w of
          Some w' \<Rightarrow> act_then (upd_host (\<lambda>h. h\<lparr>hy_tasks := hy_tasks h @ [t\<lparr>tk_work := w'\<rparr>]\<rparr>)) (ret True)
        | None \<Rightarrow> act_bind (gethost (task_superseded t)) (\<lambda>stale. if stale then ret False else act_then notify (ret False))))
        (\<lambda>e. act_bind (gethost (task_superseded t)) (\<lambda>stale.
           act_catch (act_then (if stale then ret () else task_error su (tk_key t) e) (ret False))
             (\<lambda>e'. act_then (task_finished t) (raise e')))))
      (\<lambda>awaits. if awaits then ret () else task_finished t))"

section \<open>Concept timelines\<close>

definition loadConceptTimeline :: "surroundings \<Rightarrow> projection_key \<Rightarrow> js_number \<Rightarrow> nat hact" where
  "loadConceptTimeline su key limit =
     act_bind (gethost id) (\<lambda>h.
     act_then (require (key \<in> set (py_allowed (hy_projections h))) (Err ''PROJECTION_ROLE_FORBIDDEN''))
     (act_then (require (safe_natural limit \<and> \<not> whole limit < 1 \<and> \<not> whole limit > 200) (Err ''ANALYTICS_TIMELINE_LIMIT_INVALID''))
     (act_then (require (su_hasTimeline su \<and> hy_room h \<noteq> None \<and> hy_session h \<noteq> None) (Err ''ANALYTICS_TIMELINE_UNAVAILABLE''))
     (act_bind (on_projections (slot key)) (\<lambda>sl.
      act_then (require (case sl_snapshot sl of None \<Rightarrow> False | Some s \<Rightarrow> ps_key s = key) (Err ''ANALYTICS_TIMELINE_BASE_MISSING''))
      (act_then (upd_host (\<lambda>h. h\<lparr>hy_nextPromise := hy_nextPromise h + 1, hy_timelines := jm_set key (hy_nextPromise h) (hy_timelines h)\<rparr>))
       (ret (hy_nextPromise h))))))))"

definition timeline_accepts :: "projection_key \<Rightarrow> nat \<Rightarrow> TimelineResponse \<Rightarrow> unit hact" where
  "timeline_accepts key i r =
     act_bind (gethost id) (\<lambda>h.
     act_then (require (jm_get (hy_timelines h) key = Some i \<and> hy_room h \<noteq> None \<and> hy_session h \<noteq> None) (Err ''ANALYTICS_TIMELINE_STALE''))
     (act_bind (on_projections (slot key)) (\<lambda>sl.
      require (case sl_snapshot sl of None \<Rightarrow> False | Some s \<Rightarrow> ps_key s = key \<and> ps_epoch s = tl_epoch r) (Err ''ANALYTICS_TIMELINE_EPOCH_CHANGED''))))"

definition timeline_error :: "surroundings \<Rightarrow> projection_key \<Rightarrow> client_error \<Rightarrow> unit hact" where
  "timeline_error su key e =
     (if e = GatewayError ''AUTH_REQUIRED'' then clearForSessionExpiry su
      else if e = GatewayError ''ROOM_NOT_FOUND'' then clearForRoomUnavailable su
      else act_bind (gethost (\<lambda>h. hy_room h \<noteq> None \<and> hy_session h \<noteq> None)) (\<lambda>live.
        if e = GatewayError ''STUDENT_ANALYTICS_NOT_PROMOTED'' \<and> live then
          act_then (upd_host (cancelTimelineRequest key)) (act_then (on_projections (markPolicyUnavailable key)) notify)
        else if e \<in> GatewayError ` set PROJECTION_AUTHORITY_LOSS_CODES \<and> live then
          act_then (upd_host (cancelTimelineRequest key)) (act_then (on_projections (markAuthorityUnavailable key (error_code e))) notify)
        else ret ()))"

definition timeline_settles :: "surroundings \<Rightarrow> projection_key \<Rightarrow> nat \<Rightarrow> client_error + TimelineResponse \<Rightarrow> TimelineResponse hact" where
  "timeline_settles su key i response = (\<lambda>c.
     case act_catch (act_bind (lift_result response) (\<lambda>r. act_then (timeline_accepts key i r) (ret r)))
            (\<lambda>e. act_then (timeline_error su key e) (raise e)) c of
       (r, c') \<Rightarrow> (r, snd (upd_host (\<lambda>h. if jm_get (hy_timelines h) key = Some i then h\<lparr>hy_timelines := jm_delete key (hy_timelines h)\<rparr> else h) c')))"

end
