(* ===== verification/Hydrated_Session.thy ===== *)
theory Hydrated_Session
  imports Hydrated_State
begin

text \<open>
  \<^verbatim>\<open>HydratedSessionState\<close>, second part: construction, the event and control sinks the socket
  calls, the page recovery of missed events, commands, seat signals and the clock.
\<close>

section \<open>Sinks\<close>

definition statusFromEvent :: "string \<Rightarrow> room_status option" where
  "statusFromEvent t =
     (if t = ''room.opened'' \<or> t = ''room.resumed'' then Some Open
      else if t = ''room.paused'' then Some Paused
      else if t = ''room.closed'' then Some Closed
      else None)"

text \<open>\<^verbatim>\<open>requiredString\<close> on a member that holds an ISO time; other text has no time value.\<close>

definition requiredTime :: "json \<Rightarrow> string \<Rightarrow> string \<Rightarrow> client_error + date" where
  "requiredTime p key reason = (case jmember p key of
     Some (JTime t) \<Rightarrow> Inr (At t) | Some (JStr _) \<Rightarrow> Inr InvalidDate | _ \<Rightarrow> Inl (Err reason))"

definition result_name :: "LedgerAppendResult \<Rightarrow> string" where
  "result_name r = (case r of Appended \<Rightarrow> ''APPENDED'' | Duplicate \<Rightarrow> ''DUPLICATE'' | Stale \<Rightarrow> ''STALE'' | Gap \<Rightarrow> ''GAP'')"

definition drop_inactive_media :: "hydrated \<Rightarrow> hydrated" where
  "drop_inactive_media h = h\<lparr>hy_media := filter (\<lambda>(m, _). m \<in> set (activeMediaIds (hy_ledger h))) (hy_media h)\<rparr>"

definition hy_acceptEvent :: "surroundings \<Rightarrow> envelope \<Rightarrow> unit hact" where
  "hy_acceptEvent su e =
     act_bind (on_ledger (ledger_append (su_contracts su) (Some e))) (\<lambda>result.
     act_then (require (result = Appended) (Err (''ROOM_EVENT_LEDGER_'' @ result_name result)))
     (act_then (upd_host drop_inactive_media)
     (act_then (dispatch_state (SetCursor (roomSeq e)))
     (act_then (case statusFromEvent (ev_type e) of None \<Rightarrow> ret () | Some st \<Rightarrow> dispatch_state (SetStatus st))
     (act_then (if ev_type e = ''room.opened'' then
         act_bind (lift_result (requiredTime (payload e) ''startsAt'' ''ROOM_START_INVALID'')) (\<lambda>s.
         act_bind (lift_result (requiredTime (payload e) ''closesAt'' ''ROOM_CLOSE_INVALID'')) (\<lambda>t.
           dispatch_state (SetTiming (Some s) (Some t))))
       else ret ())
      notify)))))"

text \<open>
  \<^verbatim>\<open>recoverEvents\<close>: the promise it returns, rejected at once or of the page loop that is or
  gets under way.
\<close>

definition recovery_refused :: "int \<Rightarrow> hydrated \<Rightarrow> bool" where
  "recovery_refused n h \<longleftrightarrow> hy_expired h \<or> hy_unavailable h \<or> hy_recoveryError h \<noteq> None \<or> \<bar>n\<bar> > max_safe_integer \<or> n < 0"

definition recoverEvents :: "int \<Rightarrow> nat hact" where
  "recoverEvents n =
     act_bind (gethost id) (\<lambda>h.
     if recovery_refused n h then
       act_then (upd_host (\<lambda>h. h\<lparr>hy_nextPromise := hy_nextPromise h + 1, hy_rejected := hy_rejected h @ [hy_nextPromise h]\<rparr>))
         (ret (hy_nextPromise h))
     else act_then (upd_host (\<lambda>h. h\<lparr>hy_required := max (hy_required h) n\<rparr>))
       (case hy_recovery h of
          Some r \<Rightarrow> ret (rc_id r)
        | None \<Rightarrow> act_then (upd_host (\<lambda>h. h\<lparr>hy_nextPromise := hy_nextPromise h + 1,
              hy_recovery := Some \<lparr>rc_id = hy_nextPromise h, rc_cursor = l_lastSeq (hy_ledger h), rc_pages = 0\<rparr>\<rparr>))
            (ret (hy_nextPromise h))))"

definition MAX_ACK_HISTORY :: nat where "MAX_ACK_HISTORY = 500"
definition MAX_REJECT_HISTORY :: nat where "MAX_REJECT_HISTORY = 100"
definition MAX_MEDIA_STATUS_HISTORY :: nat where "MAX_MEDIA_STATUS_HISTORY = 500"

definition TERMINAL_MEDIA_STATES :: "media_state list" where
  "TERMINAL_MEDIA_STATES = [MediaQuarantined, MediaFailed, MediaDeleted]"

definition record_ack :: "string \<Rightarrow> ServerFrame \<Rightarrow> hydrated \<Rightarrow> hydrated" where
  "record_ack i f h = (let acks = jm_set i f (hy_acks h) in
     h\<lparr>hy_acks := (if length acks > MAX_ACK_HISTORY then jm_delete (fst (hd acks)) acks else acks)\<rparr>)"

definition record_reject :: "ServerFrame \<Rightarrow> hydrated \<Rightarrow> hydrated" where
  "record_reject f h = (let rs = hy_rejects h @ [f] in h\<lparr>hy_rejects := drop (length rs - MAX_REJECT_HISTORY) rs\<rparr>)"

text \<open>Comparisons of \<^verbatim>\<open>Date.parse\<close> results: false when either is NaN.\<close>

definition date_less :: "date \<Rightarrow> date \<Rightarrow> bool" where
  "date_less a b \<longleftrightarrow> validDate a \<and> validDate b \<and> date_time a < date_time b"

definition date_same :: "date \<Rightarrow> date \<Rightarrow> bool" where
  "date_same a b \<longleftrightarrow> validDate a \<and> validDate b \<and> date_time a = date_time b"

definition media_outdated :: "MediaStatusFrame \<Rightarrow> MediaStatusFrame \<Rightarrow> bool" where
  "media_outdated previous f \<longleftrightarrow>
     (let was = mf_state previous \<in> set TERMINAL_MEDIA_STATES; is = mf_state f \<in> set TERMINAL_MEDIA_STATES in
      date_less (mf_updated f) (mf_updated previous) \<or> (was \<and> \<not> is) \<or>
      (date_same (mf_updated f) (mf_updated previous) \<and> mf_state previous \<noteq> mf_state f \<and> \<not> (is \<and> \<not> was)))"

definition record_media :: "MediaStatusFrame \<Rightarrow> hydrated \<Rightarrow> hydrated" where
  "record_media f h =
     (if mf_media f \<notin> set (activeMediaIds (hy_ledger h)) then h
      else case jm_get (hy_media h) (mf_media f) of
        Some previous \<Rightarrow> if media_outdated previous f then h else h\<lparr>hy_media := jm_set (mf_media f) f (hy_media h)\<rparr>
      | None \<Rightarrow>
          let ms = (if length (hy_media h) \<ge> MAX_MEDIA_STATUS_HISTORY then jm_delete (fst (hd (hy_media h))) (hy_media h) else hy_media h) in
          h\<lparr>hy_media := jm_set (mf_media f) f ms\<rparr>)"

definition observe_clock :: "surroundings \<Rightarrow> date \<Rightarrow> unit hact" where
  "observe_clock su t = upd_host (\<lambda>h. h\<lparr>hy_serverTime := Some t, hy_serverTimeAt := Some (su_now su)\<rparr>)"

definition snapshot_required :: "int \<Rightarrow> int \<Rightarrow> unit hact" where
  "snapshot_required after through =
     act_bind (gethost (\<lambda>h. l_lastSeq (hy_ledger h))) (\<lambda>n.
     act_then (require (after = n \<and> \<not> through < after) (Err ''ROOM_EVENT_RECOVERY_RANGE_INVALID''))
     (act_bind (recoverEvents through) (\<lambda>p.
      act_then (deferReconnectUntil p) (upd_host (\<lambda>h. h\<lparr>hy_watchers := hy_watchers h @ [p]\<rparr>)))))"

definition degraded_frame :: "ServerFrame \<Rightarrow> string \<Rightarrow> string \<Rightarrow> projection_key option \<Rightarrow> unit hact" where
  "degraded_frame f scope reason key =
     act_then (upd_host (\<lambda>h. h\<lparr>hy_degraded :=
        jm_set scope f (jm_set (scope @ '':'' @ (case key of None \<Rightarrow> ''all'' | Some x \<Rightarrow> key_text x)) f (hy_degraded h))\<rparr>))
     (act_bind (gethost (\<lambda>h. case key of None \<Rightarrow> False | Some x \<Rightarrow> holds x (hy_projections h))) (\<lambda>held.
      if scope = ''analytics'' \<and> reason = ''STUDENT_ANALYTICS_NOT_PROMOTED'' \<and> held then
        act_then (upd_host (\<lambda>h. cancelTimelineRequest (the key) (cancelProjectionRefresh (the key) h)))
          (on_projections (markPolicyUnavailable (the key)))
      else ret ()))"

definition projection_frame :: "surroundings \<Rightarrow> ProjectionFrame \<Rightarrow> unit hact" where
  "projection_frame su f =
     act_bind (on_projections (accept f)) (\<lambda>result.
     act_then (upd_host (\<lambda>h. h\<lparr>hy_lastProjection := Some result\<rparr>))
     (act_then (if result = EpochChanged then upd_host (cancelTimelineRequest (pf_key f)) else ret ())
      (if result \<noteq> DuplicateVersion \<and> result \<noteq> StaleVersion then reconcileProjectionFrame su f result else ret ())))"

definition control_body :: "surroundings \<Rightarrow> ServerFrame \<Rightarrow> unit hact" where
  "control_body su f = (case f of
     Welcome t rid _ st \<Rightarrow>
       act_bind room_id_of (\<lambda>own. act_then (require (rid = own) (Err ''WELCOME_ROOM_MISMATCH''))
         (act_then (observe_clock su t) (dispatch_state (SetStatus st))))
   | SnapshotRequired after through \<Rightarrow> snapshot_required after through
   | ResumeComplete _ \<Rightarrow>
       act_then (sendPresence (su_contracts su) (su_browser su) Active) (act_then (refreshAgentCurrent su) (refreshProjections su))
   | Ack i _ _ \<Rightarrow> upd_host (record_ack i f)
   | Reject _ _ _ \<Rightarrow> upd_host (record_reject f)
   | PresenceFrame actor st t \<Rightarrow> upd_host (\<lambda>h. h\<lparr>hy_presence := jm_set actor (st, t) (hy_presence h)\<rparr>)
   | TypingFrame actor active t \<Rightarrow> upd_host (\<lambda>h. h\<lparr>hy_typing := jm_set actor (active, t) (hy_typing h)\<rparr>)
   | MediaStatus m \<Rightarrow> upd_host (record_media m)
   | AgentStatus a \<Rightarrow>
       act_bind room_id_of (\<lambda>own. act_then (require (ag_roomId a = own) (Err ''AGENT_STATUS_ROOM_MISMATCH''))
         (act_bind (on_agent (mergeAgentFrame a (ag_updated a) (ag_updated a) False)) (\<lambda>accepted.
          if accepted then upd_host (\<lambda>h. h\<lparr>hy_agentLive := hy_agentLive h + 1, hy_agentUnavailable := False\<rparr>) else ret ())))
   | Projection p \<Rightarrow> projection_frame su p
   | DegradedFrame scope reason _ key \<Rightarrow> degraded_frame f scope reason key
   | HeartbeatFrame t \<Rightarrow> observe_clock su t
   | EventFrame _ \<Rightarrow> ret ())"

definition acceptControl :: "surroundings \<Rightarrow> ServerFrame \<Rightarrow> unit hact" where
  "acceptControl su f = act_finally (control_body su f) notify"

definition hydrated_callbacks :: "surroundings \<Rightarrow> hydrated callbacks" where
  "hydrated_callbacks su =
     \<lparr>cb_sink = hy_acceptEvent su, cb_control = acceptControl su, cb_expired = clearForSessionExpiry su,
      cb_unavailable = (\<lambda>_. clearForRoomUnavailable su), cb_connection = connection_callback,
      cb_protocol = failRecovery su ''REALTIME_PROTOCOL_ERROR''\<rparr>"

section \<open>Recovery\<close>

definition frame_to_socket :: "surroundings \<Rightarrow> ServerFrame \<Rightarrow> unit hact" where
  "frame_to_socket su f = onFrame_default (su_contracts su) (su_browser su) (hydrated_callbacks su) (Shaped f)"

fun page_events :: "surroundings \<Rightarrow> envelope list \<Rightarrow> int \<Rightarrow> int hact" where
  "page_events su [] cursor = ret cursor"
| "page_events su (e # es) cursor =
     act_then (require (roomSeq e = cursor + 1) (Err ''ROOM_EVENT_PAGE_GAP''))
     (act_then (frame_to_socket su (EventFrame e))
     (act_bind (gethost (\<lambda>h. l_lastSeq (hy_ledger h))) (\<lambda>n.
      act_then (require (n = roomSeq e) (Err ''ROOM_EVENT_PAGE_REJECTED'')) (page_events su es (roomSeq e)))))"

text \<open>One turn of \<^verbatim>\<open>#recoverLoop\<close> with the page it awaited: the cursor of the next request, or the end.\<close>

definition recover_page :: "surroundings \<Rightarrow> int \<Rightarrow> RoomEventPage \<Rightarrow> int option hact" where
  "recover_page su cursor p =
     act_bind (gethost (\<lambda>h. (hy_expired h, hy_unavailable h))) (\<lambda>(ex, un).
     if ex then raise (Err ''SESSION_EXPIRED'') else if un then raise (Err ''ROOM_UNAVAILABLE'') else
     act_bind (page_events su (pg_events p) cursor) (\<lambda>n.
     act_then (require (pg_through p = n) (Err ''ROOM_EVENT_PAGE_CURSOR_MISMATCH''))
     (case pg_next p of
        None \<Rightarrow> act_bind (gethost hy_required) (\<lambda>req. if n < req then raise (Err ''ROOM_EVENT_RECOVERY_INCOMPLETE'') else ret None)
      | Some m \<Rightarrow> if m \<noteq> n \<or> pg_events p = [] then raise (Err ''ROOM_EVENT_PAGE_CURSOR_INVALID'') else ret (Some n))))"

definition MAX_RECOVERY_PAGES :: nat where "MAX_RECOVERY_PAGES = 1000"

text \<open>The handlers of the finished loop, then those attached to its promise.\<close>

definition recovery_done :: "nat \<Rightarrow> unit hact" where
  "recovery_done i =
     act_then (upd_host (\<lambda>h. h\<lparr>hy_recovery := None, hy_required := l_lastSeq (hy_ledger h), hy_watchers := removeAll i (hy_watchers h)\<rparr>))
       (gate_settled i True)"

definition recovery_failed :: "surroundings \<Rightarrow> nat \<Rightarrow> client_error \<Rightarrow> unit hact" where
  "recovery_failed su i e =
     act_then (upd_host (\<lambda>h. h\<lparr>hy_recovery := None\<rparr>))
     (act_then (if e = GatewayError ''AUTH_REQUIRED'' then clearForSessionExpiry su
        else if e = GatewayError ''FORBIDDEN'' \<or> e = GatewayError ''ROOM_NOT_FOUND'' then clearForRoomUnavailable su else ret ())
     (act_bind (gethost (\<lambda>h. i \<in> set (hy_watchers h))) (\<lambda>watched.
      act_then (upd_host (\<lambda>h. h\<lparr>hy_watchers := removeAll i (hy_watchers h)\<rparr>))
      (act_then (if watched then failRecovery su ''ROOM_EVENT_RECOVERY_FAILED'' else ret ()) (gate_settled i False)))))"

text \<open>
  The request of the loop in flight is answered. Evaluating \<^verbatim>\<open>this.room.roomId\<close> for the next
  request throws once the state has been cleared.
\<close>

definition page_arrives :: "surroundings \<Rightarrow> client_error + RoomEventPage \<Rightarrow> unit hact" where
  "page_arrives su response =
     act_bind (gethost hy_recovery) (\<lambda>rc. case rc of None \<Rightarrow> ret () | Some r \<Rightarrow>
     act_catch
       (act_bind (lift_result response) (\<lambda>p.
        act_bind (recover_page su (rc_cursor r) p) (\<lambda>next. case next of
          None \<Rightarrow> recovery_done (rc_id r)
        | Some n \<Rightarrow>
            if rc_pages r + 1 \<ge> MAX_RECOVERY_PAGES then raise (Err ''ROOM_EVENT_PAGE_LIMIT_EXCEEDED'') else
            act_then room_id_of (upd_host (\<lambda>h. h\<lparr>hy_recovery := Some (r\<lparr>rc_cursor := n, rc_pages := rc_pages r + 1\<rparr>)\<rparr>)))))
       (\<lambda>e. recovery_failed su (rc_id r) e))"

text \<open>A recovery that was refused at once: its handlers.\<close>

definition rejection_settles :: "surroundings \<Rightarrow> nat \<Rightarrow> unit hact" where
  "rejection_settles su i =
     act_bind (gethost (\<lambda>h. i \<in> set (hy_rejected h))) (\<lambda>pending. if \<not> pending then ret () else
     act_bind (gethost (\<lambda>h. i \<in> set (hy_watchers h))) (\<lambda>watched.
     act_then (upd_host (\<lambda>h. h\<lparr>hy_rejected := removeAll i (hy_rejected h), hy_watchers := removeAll i (hy_watchers h)\<rparr>))
     (act_then (if watched then failRecovery su ''ROOM_EVENT_RECOVERY_FAILED'' else ret ()) (gate_settled i False))))"

text \<open>
  The whole loop against a gateway that answers from a room state that does not change
  meanwhile; \<open>fuel\<close> counts the remaining pages.
\<close>

fun recover_all :: "surroundings \<Rightarrow> (int \<Rightarrow> client_error + RoomEventPage) \<Rightarrow> nat \<Rightarrow> int \<Rightarrow> unit hact" where
  "recover_all su gateway 0 cursor = raise (Err ''ROOM_EVENT_PAGE_LIMIT_EXCEEDED'')"
| "recover_all su gateway (Suc fuel) cursor =
     act_then room_id_of
     (act_bind (lift_result (gateway cursor)) (\<lambda>p.
      act_bind (recover_page su cursor p) (\<lambda>next. case next of
        None \<Rightarrow> ret ()
      | Some n \<Rightarrow> recover_all su gateway fuel n)))"

definition recoverLoop :: "surroundings \<Rightarrow> (int \<Rightarrow> client_error + RoomEventPage) \<Rightarrow> unit hact" where
  "recoverLoop su gateway = act_bind (gethost (\<lambda>h. l_lastSeq (hy_ledger h))) (recover_all su gateway MAX_RECOVERY_PAGES)"

section \<open>Construction\<close>

record HydratedSessionOptions =
  op_session :: ClientSession
  op_room :: RoomDetails
  op_pageLimit :: "js_number option"
  op_retryDelays :: "int list option"
  op_agentCurrent :: "AgentCurrentState option"
  op_agentUnavailable :: bool
  op_agentTimeout :: "js_number option"
  op_clientId :: string

definition blank_state :: "HydratedSessionOptions \<Rightarrow> hydrated" where
  "blank_state op =
     \<lparr>hy_ledger = new_ledger (Some (rd_roomId (op_room op))), hy_projections = new_projections (rd_roomId (op_room op)) (op_session op),
      hy_acks = [], hy_rejects = [], hy_presence = [], hy_typing = [], hy_media = [], hy_degraded = [],
      hy_agent = empty_agent, hy_agentUnavailable = False, hy_agentPending = False, hy_lastProjection = None,
      hy_serverTime = None, hy_serverTimeAt = None, hy_recoveryError = None,
      hy_state = createSessionState (rd_roomId (op_room op)) (rd_status (op_room op)) (rd_startsAt (op_room op)) (rd_closesAt (op_room op)),
      hy_expired = False, hy_unavailable = False, hy_recovery = None, hy_watchers = [], hy_rejected = [], hy_nextPromise = 0,
      hy_pageLimit = whole (orelse (op_pageLimit op) (Whole 500)), hy_required = 0, hy_agentGeneration = 0, hy_agentLive = 0,
      hy_agentRefresh = None, hy_projGeneration = [], hy_tasks = [], hy_refreshes = [], hy_timelines = [],
      hy_session = Some (op_session op), hy_room = Some (op_room op), hy_notices = 0\<rparr>"

definition options_error :: "HydratedSessionOptions \<Rightarrow> string option" where
  "options_error op =
     (let room = op_room op; session = op_session op;
          limit = orelse (op_pageLimit op) (Whole 500); timeout = orelse (op_agentTimeout op) (Whole 1500) in
      if assertRoomRosterIntegrity room \<noteq> Inr () then Some ''HYDRATED_ROOM_ROSTER_INVALID''
      else if (case session of StudentSession _ rid _ _ \<Rightarrow> rd_roomId room \<noteq> rid | TeacherSession _ \<Rightarrow> False) then Some ''HYDRATED_SESSION_ROOM_MISMATCH''
      else if assertStudentRoomIdentity session room \<noteq> Inr () then Some ''HYDRATED_SESSION_IDENTITY_MISMATCH''
      else if \<not> safe_natural limit \<or> whole limit < 1 \<or> whole limit > 500 then Some ''HYDRATED_PAGE_LIMIT_INVALID''
      else if \<not> safe_natural timeout \<or> whole timeout < 1 \<or> whole timeout > 30000 then Some ''AGENT_STATUS_TIMEOUT_INVALID''
      else None)"

definition construct :: "surroundings \<Rightarrow> HydratedSessionOptions \<Rightarrow> client_error + hydrated client" where
  "construct su op = (case options_error op of Some e \<Rightarrow> Inl (Err e) | None \<Rightarrow>
     let c = \<lparr>sock = new_socket (rd_roomId (op_room op)) [] (op_retryDelays op) (op_clientId op), wire = [], next_socket = 0, host = blank_state op\<rparr> in
     (case op_agentCurrent op of
        Some a \<Rightarrow> (case mergeAgentCurrent su a c of (Inl e, _) \<Rightarrow> Inl e | (Inr _, c') \<Rightarrow> Inr c')
      | None \<Rightarrow> Inr (c\<lparr>host := (host c)\<lparr>hy_agentUnavailable := op_agentUnavailable op\<rparr>\<rparr>)))"

text \<open>\<^verbatim>\<open>HydratedSessionState.create\<close> with a gateway that answers at once.\<close>

definition create_session :: "surroundings \<Rightarrow> (int \<Rightarrow> client_error + RoomEventPage) \<Rightarrow> HydratedSessionOptions \<Rightarrow> client_error + hydrated client" where
  "create_session su gateway op = rbind (construct su op) (\<lambda>c.
     case act_then (recoverLoop su gateway)
            (act_then (upd_host (\<lambda>h. h\<lparr>hy_required := l_lastSeq (hy_ledger h)\<rparr>)) (refreshProjections su)) c of
       (Inl e, _) \<Rightarrow> Inl e | (Inr _, c') \<Rightarrow> Inr c')"

section \<open>Commands, signals, clock\<close>

definition receiveFrame :: "surroundings \<Rightarrow> raw_frame \<Rightarrow> unit hact" where
  "receiveFrame su v =
     act_bind (gethost (\<lambda>h. hy_expired h \<or> hy_unavailable h \<or> hy_recoveryError h \<noteq> None)) (\<lambda>gone. if gone then ret () else
     act_catch (onFrame_default (su_contracts su) (su_browser su) (hydrated_callbacks su) v)
       (\<lambda>_. failRecovery su ''REALTIME_PROTOCOL_ERROR''))"

definition connect_session :: "surroundings \<Rightarrow> client_error option \<Rightarrow> nat hact" where
  "connect_session su fac =
     act_bind (gethost id) (\<lambda>h.
     act_then (require (\<not> hy_expired h) (Err ''SESSION_EXPIRED''))
     (act_then (require (\<not> hy_unavailable h) (Err ''ROOM_UNAVAILABLE''))
     (act_then (require (hy_recoveryError h = None) (Err ''SESSION_SYNC_FAILED''))
       (connect_socket (su_contracts su) (su_browser su) (hydrated_callbacks su) fac))))"

text \<open>\<^verbatim>\<open>connectNative\<close>; \<open>native\<close> says whether there is a WebSocket constructor, \<open>opens\<close> what it throws for an address.\<close>

definition connectNative :: "surroundings \<Rightarrow> bool \<Rightarrow> string \<Rightarrow> string \<Rightarrow> (string \<Rightarrow> client_error option) \<Rightarrow> nat hact" where
  "connectNative su native protocol hostname opens =
     act_then (require native (Err ''WEBSOCKET_UNAVAILABLE''))
     (act_bind room_id_of (\<lambda>rid.
      act_bind (lift_result (roomWebSocketUrl rid protocol hostname)) (\<lambda>url. connect_session su (opens url))))"

definition is_message_intent :: "RoomCommandIntent \<Rightarrow> bool" where
  "is_message_intent i = (take 8 (intent_type i) = ''message.'')"

definition command_transport :: "surroundings \<Rightarrow> json \<Rightarrow> string hact" where
  "command_transport su c =
     act_bind (getsock rs_socket) (\<lambda>s.
     act_then (rs_send (su_contracts su) (su_browser su) (hydrated_callbacks su) c s) (ret (command_id c)))"

text \<open>The bus is built with the room the session was constructed for.\<close>

definition sendIntent :: "surroundings \<Rightarrow> string \<Rightarrow> date \<Rightarrow> client_error + string \<Rightarrow> RoomCommandIntent \<Rightarrow> string hact" where
  "sendIntent su rid now uuid intent =
     act_bind (gethost id) (\<lambda>h.
     act_then (require (\<not> hy_expired h) (Err ''SESSION_EXPIRED''))
     (act_then (require (\<not> hy_unavailable h) (Err ''ROOM_UNAVAILABLE''))
     (act_then (require (hy_recoveryError h = None) (Err ''SESSION_SYNC_FAILED''))
     (case hy_session h of
        None \<Rightarrow> raise (Err ''SESSION_STATE_CLEARED'')
      | Some session \<Rightarrow>
          act_then (require (\<not> (is_message_intent intent \<and> st_status (hy_state h) \<noteq> Open)) (Err ''ROOM_NOT_OPEN''))
          (act_then (require (\<not> (session_role session = RoleStudent \<and> \<not> is_message_intent intent)) (Err ''COMMAND_ROLE_FORBIDDEN''))
          (act_then (require (\<not> (session_role session = RoleTeacher \<and>
              (intent_type intent = ''message.add'' \<or> intent_type intent = ''message.revise''))) (Err ''COMMAND_ROLE_FORBIDDEN''))
          (act_bind (bus_send (su_contracts su) rid now uuid (command_transport su) intent) (\<lambda>cid.
           act_then notify (ret cid)))))))))"

definition signalPresence :: "surroundings \<Rightarrow> seat_state \<Rightarrow> unit hact" where
  "signalPresence su st = act_bind (gethost (\<lambda>h. hy_expired h \<or> hy_unavailable h)) (\<lambda>gone.
     if gone then ret () else sendPresence (su_contracts su) (su_browser su) st)"

definition signalTyping :: "surroundings \<Rightarrow> bool \<Rightarrow> unit hact" where
  "signalTyping su active = act_bind (gethost (\<lambda>h. hy_expired h \<or> hy_unavailable h)) (\<lambda>gone.
     if gone then ret () else sendTyping (su_contracts su) (su_browser su) active)"

definition presenceStateOf :: "string \<Rightarrow> int \<Rightarrow> hydrated \<Rightarrow> seat_state option" where
  "presenceStateOf actor now h = (case jm_get (hy_presence h) actor of
     None \<Rightarrow> None | Some (st, t) \<Rightarrow> if validDate t \<and> date_time t > now then Some st else None)"

definition typingActorIds :: "int \<Rightarrow> hydrated \<Rightarrow> string list" where
  "typingActorIds now h =
     map fst (filter (\<lambda>(actor, active, t). active \<and> Some actor \<noteq> map_option cs_actor (hy_session h) \<and> validDate t \<and> date_time t > now) (hy_typing h))"

definition serverNow :: "int \<Rightarrow> hydrated \<Rightarrow> int option" where
  "serverNow browserNow h = (case (hy_serverTime h, hy_serverTimeAt h) of
     (Some t, Some received) \<Rightarrow> if validDate t then Some (browserNow + (date_time t - received)) else None
   | _ \<Rightarrow> None)"

definition ceil_div :: "int \<Rightarrow> int \<Rightarrow> int" where
  "ceil_div a b = - ((- a) div b)"

definition remaining :: "int \<Rightarrow> hydrated \<Rightarrow> (int \<times> bool) option" where
  "remaining browserNow h = (case (serverNow browserNow h, st_closesAt (hy_state h)) of
     (Some now, Some t) \<Rightarrow> if \<not> validDate t then None
       else let ms = date_time t - now in if ms \<le> 0 then Some (0, True) else Some (ceil_div ms 1000, False)
   | _ \<Rightarrow> None)"

definition progress :: "int \<Rightarrow> hydrated \<Rightarrow> int \<times> rat" where
  "progress now h = (case (st_startsAt (hy_state h), st_closesAt (hy_state h)) of
     (Some (At s), Some (At t)) \<Rightarrow>
       if t \<le> s then (0, 0)
       else let elapsed = min (max 0 (now - s)) (t - s) in (elapsed div 1000, of_int elapsed / of_int (t - s))
   | _ \<Rightarrow> (0, 0))"

definition dispose :: "surroundings \<Rightarrow> unit hact" where
  "dispose su = clearState su"

end
