(* ===== verification/Session_Invariants.thy ===== *)
theory Session_Invariants
  imports Hydrated_Session
begin

text \<open>
  The hydrated session as the host of the room socket. The actions that touch only the
  host leave the socket alone; the event and control sinks touch its reconnect gate and its
  signal counter and nothing else. From this the session's callbacks meet the two contracts
  of \<^verbatim>\<open>Socket_Cursor\<close>: the cursor is left alone while a frame is handled, and the queue of
  pending commands stays in order.
\<close>

section \<open>Actions of the host\<close>

lemma gethost_app [act_simps, simp]: "gethost f c = (Inr (f (host c)), c)"
  by (simp add: gethost_def)

lemma upd_host_app [act_simps, simp]: "upd_host f c = (Inr (), c\<lparr>host := f (host c)\<rparr>)"
  by (simp add: upd_host_def)

lemma keeps_gethost [keeps_intros]: "keeps I (gethost f)"
  by (simp add: keeps_def)

lemma keeps_finally [keeps_intros]: "keeps I m \<Longrightarrow> keeps I n \<Longrightarrow> keeps I (act_finally m n)"
  unfolding keeps_def act_finally_def by (fastforce split: prod.split sum.split)

text \<open>Predicates on the socket that the gate and the signal counter do not matter for.\<close>

locale socket_guard =
  fixes P :: "RoomSocket \<Rightarrow> bool"
  assumes gate_guard: "P s \<Longrightarrow> P (s\<lparr>rs_gate := g\<rparr>)"
    and seq_guard: "P s \<Longrightarrow> P (s\<lparr>rs_clientSeq := n\<rparr>)"
begin

lemma host_keeps: "keeps (\<lambda>c. P (sock c)) (upd_host f)" "keeps (\<lambda>c. P (sock c)) (on_projections m)"
  "keeps (\<lambda>c. P (sock c)) (on_agent m')" "keeps (\<lambda>c. P (sock c)) (on_ledger m'')"
  by (auto simp: keeps_def on_projections_def on_agent_def on_ledger_def split: prod.split)

lemma signal_keeps: "keeps (\<lambda>c. P (sock c)) (sendEphemeral k b mk s)"
proof -
  have "keeps (\<lambda>c. P (sock c)) (socket_send b s f)" for f
    unfolding socket_send_def by (cases s) (auto simp: keeps_def)
  then show ?thesis
    unfolding sendEphemeral_def
    by (auto intro!: keeps_intros keeps_upd_sock seq_guard split: prod.split)
qed

lemma small_keeps:
  "keeps (\<lambda>c. P (sock c)) notify" "keeps (\<lambda>c. P (sock c)) (dispatch_state a)" "keeps (\<lambda>c. P (sock c)) room_id_of"
  "keeps (\<lambda>c. P (sock c)) (connection_callback up)" "keeps (\<lambda>c. P (sock c)) (observe_clock su t)"
  "keeps (\<lambda>c. P (sock c)) (deferReconnectUntil g)" "keeps (\<lambda>c. P (sock c)) (recoverEvents n)"
proof -
  show "keeps (\<lambda>c. P (sock c)) (deferReconnectUntil g)"
    unfolding deferReconnectUntil_def by (rule keeps_upd_sock) (simp add: gate_guard)
qed (unfold notify_def dispatch_state_def room_id_of_def connection_callback_def observe_clock_def recoverEvents_def,
     (intro keeps_intros host_keeps)+)

lemma task_keeps: "keeps (\<lambda>c. P (sock c)) w \<Longrightarrow> keeps (\<lambda>c. P (sock c)) (projectionTask key w)"
  unfolding projectionTask_def by (intro keeps_intros host_keeps small_keeps)

lemma refresh_keeps:
  "keeps (\<lambda>c. P (sock c)) (refreshProjectionLatest su key)" "keeps (\<lambda>c. P (sock c)) (reconcileProjectionFrame su f r)"
  "keeps (\<lambda>c. P (sock c)) (refreshAgentCurrent su)"
  unfolding refreshProjectionLatest_def reconcileProjectionFrame_def refreshAgentCurrent_def
  by (intro keeps_intros host_keeps task_keeps small_keeps)+

lemma refresh_each_keeps: "keeps (\<lambda>c. P (sock c)) (refresh_each su keys)"
proof (induction keys)
  case Nil
  show ?case unfolding refresh_each.simps by (rule keeps_ret)
next
  case (Cons key keys)
  then show ?case unfolding refresh_each.simps by (intro keeps_then refresh_keeps)
qed

lemma refreshProjections_keeps: "keeps (\<lambda>c. P (sock c)) (refreshProjections su)"
proof -
  have "keeps (\<lambda>c. P (sock c)) (case x of (room, keys) \<Rightarrow> if \<not> su_hasLatest su \<or> room = None then ret () else refresh_each su keys)"
    for x :: "RoomDetails option \<times> projection_key list"
    unfolding case_prod_beta by (intro keeps_if keeps_ret refresh_each_keeps)
  then show ?thesis unfolding refreshProjections_def by (intro keeps_bind keeps_gethost)
qed

lemma parts_keep:
  "keeps (\<lambda>c. P (sock c)) (snapshot_required after through)" "keeps (\<lambda>c. P (sock c)) (degraded_frame f scope reason key)"
  "keeps (\<lambda>c. P (sock c)) (projection_frame su p)" "keeps (\<lambda>c. P (sock c)) (sendPresence k b st)"
  unfolding snapshot_required_def degraded_frame_def projection_frame_def sendPresence_def
  by (intro keeps_intros host_keeps small_keeps refresh_keeps signal_keeps)+

lemma control_keeps_sock: "keeps (\<lambda>c. P (sock c)) (acceptControl su f)"
proof -
  have "keeps (\<lambda>c. P (sock c)) (control_body su f)"
    unfolding control_body_def
    by (cases f; simp only: ServerFrame.simps)
       (intro keeps_intros host_keeps small_keeps parts_keep refresh_keeps refreshProjections_keeps)+
  then show ?thesis unfolding acceptControl_def by (intro keeps_finally small_keeps)
qed

lemma sink_keeps_sock: "keeps (\<lambda>c. P (sock c)) (hy_acceptEvent su e)"
  unfolding hy_acceptEvent_def by (intro keeps_intros host_keeps small_keeps)

end

interpretation qg: socket_guard queue_ok
  by unfold_locales simp_all

interpretation cg: socket_guard "\<lambda>s. rs_lastRoomSeq s = n" for n
  by unfold_locales simp_all

interpretation sq: quiet_host "hydrated_callbacks su" for su
  by unfold_locales (simp_all add: hydrated_callbacks_def cg.control_keeps_sock cg.sink_keeps_sock cg.small_keeps)

lemma client_queue_ok_sock: "client_queue_ok = (\<lambda>c. queue_ok (sock c))"
  by (simp add: client_queue_ok_def fun_eq_iff)

interpretation td: orderly_host teardown_callbacks
proof unfold_locales
  show "keeps client_queue_ok (cb_connection teardown_callbacks up)" for up
    unfolding client_queue_ok_sock by (simp add: teardown_callbacks_def qg.small_keeps)
qed (simp_all only: teardown_callbacks_def callbacks.simps keeps_ret)

lemma queue_clearing:
  "keeps client_queue_ok (clearState su)" "keeps client_queue_ok (clearForSessionExpiry su)"
  "keeps client_queue_ok (clearForRoomUnavailable su)" "keeps client_queue_ok (failRecovery su reason)"
proof -
  have host: "keeps client_queue_ok (upd_host f)" for f unfolding client_queue_ok_sock by (rule qg.host_keeps)
  have told: "keeps client_queue_ok notify" unfolding notify_def by (rule host)
  show c: "keeps client_queue_ok (clearState su)"
    unfolding clearState_def by (intro keeps_intros host td.destroy_ok)
  show "keeps client_queue_ok (clearForSessionExpiry su)" "keeps client_queue_ok (clearForRoomUnavailable su)"
    unfolding clearForSessionExpiry_def clearForRoomUnavailable_def by (intro keeps_intros host told c)+
  show "keeps client_queue_ok (failRecovery su reason)"
    unfolding failRecovery_def by (intro keeps_intros host told td.close_ok)
qed

interpretation so: orderly_host "hydrated_callbacks su" for su
proof unfold_locales
  show "keeps client_queue_ok (cb_control (hydrated_callbacks su) f)" "keeps client_queue_ok (cb_connection (hydrated_callbacks su) up)"
    "keeps client_queue_ok (cb_sink (hydrated_callbacks su) e)" for f up e
    unfolding client_queue_ok_sock by (simp_all add: hydrated_callbacks_def qg.control_keeps_sock qg.small_keeps qg.sink_keeps_sock)
qed (simp_all add: hydrated_callbacks_def queue_clearing)

end
