(* ===== verification/Ledger_Replay.thy ===== *)
theory Ledger_Replay
  imports Client_Ledger "HOL-Library.Sublist"
begin

text \<open>
  What the browser's ledger holds after any delivery of a room's log: an invariant that
  ties its state to the list of events it has taken, the prefix and completeness facts of
  at-least-once delivery, and the message list as a fold over the log.
\<close>

definition numbered :: "envelope list \<Rightarrow> bool" where
  "numbered es \<longleftrightarrow> map roomSeq es = map int [1..<Suc (length es)]"

definition message_step :: "envelope \<Rightarrow> (string, LedgerMessage) jsmap \<Rightarrow> (string, LedgerMessage) jsmap" where
  "message_step e ms = (case message_update (core_view e) ms of None \<Rightarrow> ms | Some m \<Rightarrow> jm_set (lm_messageId m) m ms)"

text \<open>The ledger's state when it has taken exactly the events \<open>es\<close>.\<close>

definition ledger_of :: "envelope list \<Rightarrow> EventLedger \<Rightarrow> bool" where
  "ledger_of es l \<longleftrightarrow>
     l_events l = map (\<lambda>e. (eventId e, e)) es \<and> numbered es \<and> distinct (map eventId es) \<and>
     l_lastSeq l = int (length es) \<and> l_messages l = fold message_step es []"

lemma numbered_nth: "numbered es \<Longrightarrow> i < length es \<Longrightarrow> roomSeq (es ! i) = int i + 1"
proof -
  assume n: "numbered es" and i: "i < length es"
  have "roomSeq (es ! i) = map roomSeq es ! i" using i by simp
  also have "\<dots> = int i + 1" using n i by (simp add: numbered_def del: upt_Suc)
  finally show ?thesis .
qed

lemma numbered_take: "numbered es \<Longrightarrow> numbered (take n es)"
proof -
  assume "numbered es"
  then have "map roomSeq (take n es) = take n (map int [1..<Suc (length es)])" by (simp add: numbered_def take_map [symmetric] del: upt_Suc)
  also have "\<dots> = map int (take n [1..<Suc (length es)])" by (simp add: take_map del: upt_Suc)
  also have "\<dots> = map int [1..<Suc (length (take n es))]" by (cases "n \<le> length es") (simp_all add: take_upt min_def del: upt_Suc)
  finally show ?thesis by (simp add: numbered_def)
qed

lemma numbered_snoc: "numbered es \<Longrightarrow> roomSeq e = int (length es) + 1 \<Longrightarrow> numbered (es @ [e])"
  by (simp add: numbered_def)

lemma numbered_append: "numbered (xs @ ys) \<Longrightarrow> numbered xs"
  using numbered_take [of "xs @ ys" "length xs"] by simp

lemma jm_set_new: "k \<notin> fst ` set m \<Longrightarrow> jm_set k v m = m @ [(k, v)]"
  by (induction m) auto

lemma jm_has_ids: "jm_has (map (\<lambda>e. (eventId e, e)) es) i \<longleftrightarrow> i \<in> eventId ` set es"
  by (induction es) (auto simp: jm_has_def jm_get_def)

lemma ledger_of_new: "ledger_of [] (new_ledger rid)"
  by (simp add: ledger_of_def new_ledger_def numbered_def)

lemma ledger_of_put:
  assumes "ledger_of es l" "ledger_admits k e l"
  shows "ledger_of (es @ [e]) (ledger_put e l)"
proof -
  have "eventId e \<notin> eventId ` set es" using assms by (simp add: ledger_of_def ledger_admits_def jm_has_ids)
  then show ?thesis
    using assms by (simp add: ledger_of_def ledger_admits_def ledger_put_def jm_set_new image_image numbered_snoc message_step_def split: option.split)
qed

lemma ledger_events_of: "ledger_of es l \<Longrightarrow> ledger_events l = es"
proof -
  assume a: "ledger_of es l"
  then have "sorted (map roomSeq es)" by (simp add: ledger_of_def numbered_def sorted_map sorted_wrt_map del: upt_Suc)
  then show ?thesis using a by (simp add: ledger_events_def ledger_of_def jm_values_def comp_def sort_key_id_if_sorted)
qed

text \<open>A log a client may be fed from: one room, numbered, distinct, every event acceptable.\<close>

definition feedable :: "contracts \<Rightarrow> string \<Rightarrow> envelope list \<Rightarrow> bool" where
  "feedable k rid es \<longleftrightarrow> numbered es \<and> distinct (map eventId es) \<and> (\<forall>e \<in> set es. event_accepted k e \<and> roomId e = rid)"

lemma feedableD:
  assumes "feedable k rid es"
  shows "numbered es" "distinct (map eventId es)" "\<And>e. e \<in> set es \<Longrightarrow> event_accepted k e" "\<And>e. e \<in> set es \<Longrightarrow> roomId e = rid"
  using assms by (auto simp: feedable_def)

lemma offer_room [simp]: "l_roomId (ledger_offer k e l) = l_roomId l"
  by (simp add: ledger_offer_eq ledger_put_def)

lemma feed_step:
  assumes log: "feedable k rid es" and e: "e \<in> set es" and n: "n \<le> length es"
    and l: "ledger_of (take n es) l" "l_roomId l \<in> {None, Some rid}"
  shows "ledger_of (take (if roomSeq e = int n + 1 then Suc n else n) es) (ledger_offer k e l)"
proof -
  obtain i where i: "i < length es" "e = es ! i" using e by (auto simp: in_set_conv_nth)
  have seq: "roomSeq e = int i + 1" using i numbered_nth [OF feedableD(1) [OF log]] by simp
  have last: "l_lastSeq l = int n" using l n by (simp add: ledger_of_def)
  show ?thesis
  proof (cases "i = n")
    case True
    have "distinct (map eventId (take (Suc n) es))" using feedableD(2) [OF log] by (simp add: take_map [symmetric])
    then have "eventId e \<notin> eventId ` set (take n es)" using i True by (simp add: take_Suc_conv_app_nth)
    then have "ledger_admits k e l"
      using l last seq True feedableD(3,4) [OF log e] by (auto simp: ledger_admits_def ledger_of_def jm_has_ids)
    then show ?thesis
      using ledger_of_put [OF l(1)] i True seq by (simp add: ledger_offer_eq take_Suc_conv_app_nth)
  next
    case False
    then have "\<not> ledger_admits k e l" using last seq by (simp add: ledger_admits_def)
    then show ?thesis using l(1) False seq by (simp add: ledger_offer_eq)
  qed
qed

text \<open>
  Whatever is delivered, repeated, reordered or missing, the ledger holds a prefix of the
  log; and it holds all of it as soon as the delivery contains the rest of it in order.
\<close>

lemma feed_prefix:
  assumes log: "feedable k rid es" and ws: "set ws \<subseteq> set es" and n: "n \<le> length es"
    and l: "ledger_of (take n es) l" "l_roomId l \<in> {None, Some rid}"
  shows "\<exists>m \<ge> n. m \<le> length es \<and> ledger_of (take m es) (fold (ledger_offer k) ws l) \<and>
     (subseq (drop n es) ws \<longrightarrow> m = length es)"
  using ws n l
proof (induction ws arbitrary: n l)
  case Nil
  then show ?case by (intro exI [of _ n]) (auto dest: list_emb_length)
next
  case (Cons w ws)
  let ?n = "if roomSeq w = int n + 1 then Suc n else n"
  have w: "w \<in> set es" using Cons.prems(1) by simp
  then obtain i where i: "i < length es" "w = es ! i" by (auto simp: in_set_conv_nth)
  have seq: "roomSeq w = int i + 1" using i numbered_nth [OF feedableD(1) [OF log]] by simp
  have n': "?n \<le> length es" using i seq Cons.prems(2) by auto
  obtain m where m: "m \<ge> ?n" "m \<le> length es" "ledger_of (take m es) (fold (ledger_offer k) ws (ledger_offer k w l))"
    "subseq (drop ?n es) ws \<longrightarrow> m = length es"
    using Cons.IH [of ?n "ledger_offer k w l"] feed_step [OF log w Cons.prems(2,3,4)] n' Cons.prems(1,4) by auto
  have "subseq (drop ?n es) ws" if "subseq (drop n es) (w # ws)"
  proof (cases "n = length es")
    case True
    then show ?thesis using n' i seq by simp
  next
    case False
    then have d: "drop n es = es ! n # drop (Suc n) es" using Cons.prems(2) by (simp add: Cons_nth_drop_Suc)
    show ?thesis
    proof (cases "i = n")
      case True
      then show ?thesis using that d i seq by simp
    next
      case ne: False
      then have "w \<noteq> es ! n" using i seq False Cons.prems(2) numbered_nth [OF feedableD(1) [OF log], of n] by auto
      then show ?thesis using that d ne seq by simp
    qed
  qed
  then show ?case using m by (intro exI [of _ m]) (auto split: if_splits)
qed

section \<open>The message list\<close>

text \<open>A message as a fold over the events that concern it.\<close>

definition concerns :: "string \<Rightarrow> envelope \<Rightarrow> bool" where
  "concerns mid e \<longleftrightarrow> ev_type e \<in> set messageTypes \<and> payload_message_id (payload e) = mid"

definition view_step :: "envelope \<Rightarrow> LedgerMessage option \<Rightarrow> LedgerMessage option" where
  "view_step e v = (case v of None \<Rightarrow> Some (next_message e None)
     | Some p \<Rightarrow> if revision e \<ge> lm_revision p then Some (next_message e (Some p)) else Some p)"

definition message_view :: "string \<Rightarrow> envelope list \<Rightarrow> LedgerMessage option" where
  "message_view mid es = fold view_step (filter (concerns mid) es) None"

lemma messageTypes_core: "t \<in> set messageTypes \<Longrightarrow> t \<in> set coreTypes"
  by (auto simp: messageTypes_def coreTypes_def)

lemma next_message_id [simp]: "lm_messageId (next_message e p) = payload_message_id (payload e)"
  by (simp add: next_message_def Let_def)

lemma get_message_step:
  "jm_get (message_step e ms) mid = (if concerns mid e then view_step e (jm_get ms mid) else jm_get ms mid)"
proof (cases "ev_type e \<in> set messageTypes")
  case True
  have c: "core_view e = Some e" using messageTypes_core [OF True] by (simp add: core_view_def)
  show ?thesis
    unfolding message_step_def message_update_def c view_step_def
    using True by (auto simp: concerns_def Let_def split: option.splits)
next
  case False
  then show ?thesis
    by (auto simp: message_step_def message_update_def core_view_def concerns_def)
qed

lemma get_messages_fold: "jm_get (fold message_step es ms) mid = fold view_step (filter (concerns mid) es) (jm_get ms mid)"
  by (induction es arbitrary: ms) (simp_all add: get_message_step)

lemma ledger_message_view: "ledger_of es l \<Longrightarrow> jm_get (l_messages l) mid = message_view mid es"
  by (simp add: ledger_of_def get_messages_fold message_view_def)

text \<open>On a history with ascending revisions the view is that of the last version.\<close>

lemma next_message_simps [simp]:
  "lm_revision (next_message e p) = revision e" "lm_operation (next_message e p) = operation e"
  "lm_roomSeq (next_message e p) = roomSeq e" "lm_eventId (next_message e p) = eventId e"
  "lm_firstRoomSeq (next_message e p) = orelse (map_option lm_firstRoomSeq p) (roomSeq e)"
  "lm_actorId (next_message e p) = orelse (map_option lm_actorId p) (actorId e)"
  by (simp_all add: next_message_def Let_def)

lemma view_fold_ascending:
  "sorted (map revision (x # xs)) \<Longrightarrow>
     \<exists>m. fold view_step xs (Some (next_message x q)) = Some m \<and>
       lm_revision m = revision (last (x # xs)) \<and> lm_operation m = operation (last (x # xs)) \<and>
       lm_roomSeq m = roomSeq (last (x # xs)) \<and> lm_eventId m = eventId (last (x # xs)) \<and>
       lm_firstRoomSeq m = lm_firstRoomSeq (next_message x q) \<and> lm_actorId m = lm_actorId (next_message x q) \<and>
       (\<exists>p. m = next_message (last (x # xs)) p)"
proof (induction xs arbitrary: x q)
  case (Cons y ys)
  have "view_step y (Some (next_message x q)) = Some (next_message y (Some (next_message x q)))"
    using Cons.prems by (simp add: view_step_def)
  then show ?case using Cons.IH [of y "Some (next_message x q)"] Cons.prems by auto
qed auto

lemma view_latest:
  assumes "filter (concerns mid) es = x # xs" "sorted (map revision (x # xs))"
  shows "\<exists>m p. message_view mid es = Some m \<and> m = next_message (last (x # xs)) p \<and>
     lm_firstRoomSeq m = roomSeq x \<and> lm_actorId m = actorId x"
proof -
  have "message_view mid es = fold view_step xs (Some (next_message x None))"
    using assms(1) by (simp add: message_view_def view_step_def)
  then show ?thesis using view_fold_ascending [OF assms(2), of None] by auto
qed

end
