(* ===== verification/Session_Safety.thy ===== *)
theory Session_Safety
  imports Session_Invariants Ledger_Replay
begin

text \<open>
  Every operation of a hydrated session as one datatype of inputs, the states a session can
  reach by any interleaving of them, and the invariants of those states: the ledger holds a
  prefix of the room's log, the histories are bounded, the role sees only its projections,
  the agent's status and the visible state are consistent, the command queue is in order.
\<close>

section \<open>Invariants of the host\<close>

text \<open>Callbacks that keep a property of the host; the event sink only for events that are \<open>ok\<close>.\<close>

locale host_frame =
  fixes cb :: "'h callbacks" and J :: "'h \<Rightarrow> bool" and ok :: "envelope \<Rightarrow> bool"
  assumes control_host: "keeps (\<lambda>c. J (host c)) (cb_control cb f)"
    and connection_host: "keeps (\<lambda>c. J (host c)) (cb_connection cb up)"
    and sink_host: "ok e \<Longrightarrow> keeps (\<lambda>c. J (host c)) (cb_sink cb e)"
    and expired_host: "keeps (\<lambda>c. J (host c)) (cb_expired cb)"
    and unavailable_host: "keeps (\<lambda>c. J (host c)) (cb_unavailable cb n)"
    and protocol_host: "keeps (\<lambda>c. J (host c)) (cb_protocol cb)"

sublocale host_frame \<subseteq> hf: socket_frame cb "\<lambda>c. J (host c)"
  by unfold_locales (simp_all add: control_host connection_host)

definition frame_fed :: "(envelope \<Rightarrow> bool) \<Rightarrow> raw_frame \<Rightarrow> bool" where
  "frame_fed ok v \<longleftrightarrow> (case v of Shaped (EventFrame e) \<Rightarrow> ok e | _ \<Rightarrow> True)"

context host_frame
begin

lemma sock_host: "keeps (\<lambda>c. J (host c)) (upd_sock f)" "keeps (\<lambda>c. J (host c)) shut_down" "keeps (\<lambda>c. J (host c)) clearRetry"
  "keeps (\<lambda>c. J (host c)) scheduleReconnect"
  by (simp_all add: keeps_def shut_down_def clearRetry_def scheduleReconnect_def)

lemma onClose_host: "keeps (\<lambda>c. J (host c)) (rs_onClose cb cl)"
  unfolding rs_onClose_def by (intro keeps_intros sock_host expired_host unavailable_host protocol_host connection_host)

lemma acceptEvent_host: "ok e \<Longrightarrow> keeps (\<lambda>c. J (host c)) (rs_acceptEvent cb e)"
  unfolding rs_acceptEvent_def case_prod_beta by (intro keeps_intros sock_host control_host sink_host)

lemma onFrame_host:
  assumes "frame_fed ok v"
  shows "keeps (\<lambda>c. J (host c)) (onFrame k b cb v s)"
proof (cases "\<exists>e. v = Shaped (EventFrame e)")
  case True
  then obtain e where v: "v = Shaped (EventFrame e)" by blast
  have "snd (onFrame k b cb v s c) = c \<or> snd (onFrame k b cb v s c) = snd (rs_acceptEvent cb e c)" for c
    by (cases "parseServerFrame k v") (auto simp: v onFrame_def act_bind_app lift_result_def dest!: parseServerFrame_Inr)
  then show ?thesis using acceptEvent_host [of e] assms unfolding keeps_def frame_fed_def v by (metis raw_frame.case(2) ServerFrame.case(4))
next
  case False
  then have "hf.not_event v" by (auto simp: hf.not_event_def split: raw_frame.split ServerFrame.split)
  then show ?thesis by (rule hf.onFrame_keeps)
qed

lemma sendHello_host: "keeps (\<lambda>c :: 'h client. J (host c)) (sendHello k b s)"
  unfolding sendHello_def by (intro keeps_bind keeps_getsock keeps_lift_result hf.socket_send_keeps)

lemma connect_host: "keeps (\<lambda>c. J (host c)) (connect_socket k b cb fac)"
proof -
  have "keeps (\<lambda>c. J (host c)) (modify (\<lambda>c. c\<lparr>next_socket := i + 1, sock := (sock c)\<lparr>rs_socket := Some i\<rparr>\<rparr>))" for i
    by (simp add: keeps_def)
  then show ?thesis
    unfolding connect_socket_def by (intro keeps_intros sock_host connection_host hf.socket_close_keeps sendHello_host)
qed

lemma protocolFailure_host: "keeps (\<lambda>c. J (host c)) (protocolFailure b cb i)"
  unfolding protocolFailure_def by (intro keeps_intros sock_host connection_host protocol_host hf.socket_close_keeps)

lemma listeners_host:
  "keeps (\<lambda>c :: 'h client. J (host c)) (opened_listener k b i)" "keeps (\<lambda>c. J (host c)) (close_listener cb i cl)"
  "frame_fed ok v \<Longrightarrow> keeps (\<lambda>c. J (host c)) (message_listener k b cb i v)"
  unfolding opened_listener_def message_listener_def close_listener_def
  by (intro keeps_intros sendHello_host onFrame_host protocolFailure_host onClose_host, assumption?)+

lemma retry_fires_host: "keeps (\<lambda>c. J (host c)) (retry_fires k b cb fac)"
  unfolding retry_fires_def by (intro keeps_intros sock_host connect_host)

lemma close_host: "keeps (\<lambda>c. J (host c)) (close_socket b cb)"
  unfolding close_socket_def by (intro keeps_intros sock_host connection_host hf.socket_close_keeps)

lemma destroy_host: "keeps (\<lambda>c. J (host c)) (destroy_socket b cb)"
  unfolding destroy_socket_def by (intro keeps_then close_host sock_host)

lemma gate_settled_host: "keeps (\<lambda>c :: 'h client. J (host c)) (gate_settled g fulfilled)"
  unfolding gate_settled_def by (rule sock_host)

end

section \<open>The session's invariant\<close>

definition follows_log :: "string \<Rightarrow> envelope list \<Rightarrow> hydrated \<Rightarrow> bool" where
  "follows_log rid lg h \<longleftrightarrow>
     (\<exists>n \<le> length lg. ledger_of (take n lg) (hy_ledger h)) \<and> l_roomId (hy_ledger h) \<in> {None, Some rid} \<and>
     st_lastRoomSeq (hy_state h) = l_lastSeq (hy_ledger h)"

definition history_bounds :: "hydrated \<Rightarrow> bool" where
  "history_bounds h \<longleftrightarrow> length (hy_acks h) \<le> MAX_ACK_HISTORY \<and> length (hy_rejects h) \<le> MAX_REJECT_HISTORY \<and>
     length (hy_media h) \<le> MAX_MEDIA_STATUS_HISTORY"

definition session_ok :: "string \<Rightarrow> envelope list \<Rightarrow> hydrated \<Rightarrow> bool" where
  "session_ok rid lg h \<longleftrightarrow> follows_log rid lg h \<and> history_bounds h \<and> projections_inv (hy_projections h) \<and>
     agent_inv (hy_agent h) \<and> session_inv (hy_state h)"

lemmas session_ok_defs = session_ok_def follows_log_def history_bounds_def

text \<open>Updates of the other fields do not matter.\<close>

lemma session_ok_frame [simp]:
  "session_ok rid lg (h\<lparr>hy_presence := p\<rparr>) = session_ok rid lg h" "session_ok rid lg (h\<lparr>hy_typing := t\<rparr>) = session_ok rid lg h"
  "session_ok rid lg (h\<lparr>hy_degraded := d\<rparr>) = session_ok rid lg h" "session_ok rid lg (h\<lparr>hy_agentUnavailable := b\<rparr>) = session_ok rid lg h"
  "session_ok rid lg (h\<lparr>hy_agentPending := b\<rparr>) = session_ok rid lg h" "session_ok rid lg (h\<lparr>hy_lastProjection := l\<rparr>) = session_ok rid lg h"
  "session_ok rid lg (h\<lparr>hy_serverTime := st\<rparr>) = session_ok rid lg h" "session_ok rid lg (h\<lparr>hy_serverTimeAt := sa\<rparr>) = session_ok rid lg h"
  "session_ok rid lg (h\<lparr>hy_recoveryError := re\<rparr>) = session_ok rid lg h" "session_ok rid lg (h\<lparr>hy_expired := b\<rparr>) = session_ok rid lg h"
  "session_ok rid lg (h\<lparr>hy_unavailable := b\<rparr>) = session_ok rid lg h" "session_ok rid lg (h\<lparr>hy_recovery := rc\<rparr>) = session_ok rid lg h"
  "session_ok rid lg (h\<lparr>hy_watchers := w\<rparr>) = session_ok rid lg h" "session_ok rid lg (h\<lparr>hy_rejected := w\<rparr>) = session_ok rid lg h"
  "session_ok rid lg (h\<lparr>hy_nextPromise := n\<rparr>) = session_ok rid lg h" "session_ok rid lg (h\<lparr>hy_required := i\<rparr>) = session_ok rid lg h"
  "session_ok rid lg (h\<lparr>hy_agentGeneration := n\<rparr>) = session_ok rid lg h" "session_ok rid lg (h\<lparr>hy_agentLive := n\<rparr>) = session_ok rid lg h"
  "session_ok rid lg (h\<lparr>hy_agentRefresh := ar\<rparr>) = session_ok rid lg h" "session_ok rid lg (h\<lparr>hy_projGeneration := g\<rparr>) = session_ok rid lg h"
  "session_ok rid lg (h\<lparr>hy_tasks := ts\<rparr>) = session_ok rid lg h" "session_ok rid lg (h\<lparr>hy_refreshes := g\<rparr>) = session_ok rid lg h"
  "session_ok rid lg (h\<lparr>hy_timelines := g\<rparr>) = session_ok rid lg h" "session_ok rid lg (h\<lparr>hy_notices := n\<rparr>) = session_ok rid lg h"
  by (simp_all add: session_ok_defs)

lemma keeps_upd_host: "(\<And>h. J h \<Longrightarrow> J (f h)) \<Longrightarrow> keeps (\<lambda>c. J (host c)) (upd_host f)"
  by (simp add: keeps_def)

lemma keeps_on_projections:
  "keeps projections_inv m \<Longrightarrow> keeps (\<lambda>c. session_ok rid lg (host c)) (on_projections m)"
  by (fastforce simp: keeps_def on_projections_def session_ok_defs split: prod.split)

lemma keeps_on_agent:
  "(\<And>v. agent_inv v \<Longrightarrow> agent_inv (snd (m v))) \<Longrightarrow> keeps (\<lambda>c. session_ok rid lg (host c)) (on_agent m)"
  by (fastforce simp: keeps_def on_agent_def session_ok_defs split: prod.split)

lemma slot_keeps: "keeps projections_inv (slot key)"
  unfolding slot_def by (rule keeps_guarded) simp

lemma ok_dispatch:
  "session_ok rid lg h \<Longrightarrow> (\<And>n. a \<noteq> SetCursor n) \<Longrightarrow> a \<noteq> ResetSession \<Longrightarrow> session_ok rid lg (h\<lparr>hy_state := sessionReducer (hy_state h) a\<rparr>)"
  using sessionReducer_inv [of "hy_state h" a] by (cases a) (auto simp: session_ok_defs)

lemma ok_small:
  "keeps (\<lambda>c. session_ok rid lg (host c)) notify" "keeps (\<lambda>c. session_ok rid lg (host c)) room_id_of"
  "keeps (\<lambda>c. session_ok rid lg (host c)) (dispatch_state (SetStatus st))" "keeps (\<lambda>c. session_ok rid lg (host c)) (dispatch_state (SetTiming x y))"
  "keeps (\<lambda>c. session_ok rid lg (host c)) (connection_callback up)" "keeps (\<lambda>c. session_ok rid lg (host c)) (observe_clock su t)"
  "keeps (\<lambda>c. session_ok rid lg (host c)) (recoverEvents n)"
  unfolding notify_def dispatch_state_def room_id_of_def connection_callback_def observe_clock_def recoverEvents_def
  by (intro keeps_intros keeps_upd_host; simp add: ok_dispatch del: sessionReducer.simps)+

lemma delete_first: "m \<noteq> [] \<Longrightarrow> length (jm_delete (fst (hd m)) m) < length m"
  by (cases m) (auto simp: jm_delete_def less_Suc_eq_le)

lemma ok_record_ack: "session_ok rid lg h \<Longrightarrow> session_ok rid lg (record_ack i f h)"
proof -
  assume a: "session_ok rid lg h"
  let ?m = "jm_set i f (hy_acks h)"
  have "length ?m \<le> Suc MAX_ACK_HISTORY" using a by (simp add: session_ok_defs jm_set_length)
  moreover have "?m \<noteq> []" by (cases "hy_acks h") (auto split: if_splits)
  ultimately show ?thesis using a delete_first [of ?m] by (simp add: session_ok_defs record_ack_def Let_def)
qed

lemma ok_record_reject: "session_ok rid lg h \<Longrightarrow> session_ok rid lg (record_reject f h)"
  by (auto simp: session_ok_defs record_reject_def Let_def)

lemma ok_record_media: "session_ok rid lg h \<Longrightarrow> session_ok rid lg (record_media f h)"
proof -
  assume a: "session_ok rid lg h"
  have "length (jm_set (mf_media f) f (hy_media h)) = length (hy_media h)" if "jm_get (hy_media h) (mf_media f) = Some x" for x
    using that by (simp add: jm_set_length jm_has_def)
  moreover have "length (jm_set (mf_media f) f (if length (hy_media h) \<ge> MAX_MEDIA_STATUS_HISTORY
      then jm_delete (fst (hd (hy_media h))) (hy_media h) else hy_media h)) \<le> MAX_MEDIA_STATUS_HISTORY"
  proof (cases "length (hy_media h) \<ge> MAX_MEDIA_STATUS_HISTORY")
    case True
    then have "hy_media h \<noteq> []" by (auto simp: MAX_MEDIA_STATUS_HISTORY_def)
    from delete_first [OF this] show ?thesis using a True by (auto simp: session_ok_defs jm_set_length)
  qed (simp add: jm_set_length)
  ultimately show ?thesis using a by (auto simp: session_ok_defs record_media_def Let_def split: option.split)
qed

lemma ok_cancel: "session_ok rid lg h \<Longrightarrow> session_ok rid lg (cancelProjectionRefresh key h)"
  "session_ok rid lg h \<Longrightarrow> session_ok rid lg (cancelTimelineRequest key h)"
  by (simp_all add: cancelProjectionRefresh_def cancelTimelineRequest_def)

lemma ok_cancel_all: "session_ok rid lg h \<Longrightarrow> session_ok rid lg (fold cancelProjectionRefresh keys h)"
  by (induction keys arbitrary: h) (simp_all add: ok_cancel)

lemma ok_cleared: "session_ok rid lg h \<Longrightarrow> session_ok rid lg (cleared h)"
proof -
  assume a: "session_ok rid lg h"
  have "ledger_of (take 0 lg) (ledger_destroy (hy_ledger h))" by (simp add: ledger_of_def ledger_destroy_def ledger_reset_def numbered_def)
  then have "\<exists>n \<le> length lg. ledger_of (take n lg) (ledger_destroy (hy_ledger h))" by (intro exI [of _ 0]) simp
  then show ?thesis
    by (simp add: session_ok_defs cleared_def clearAuthority_inv empty_agent_inv createSessionState_inv)
       (simp add: createSessionState_def ledger_destroy_def ledger_reset_def)
qed

text \<open>The event sink: an event of the log extends the prefix by at most itself.\<close>

lemma ok_drop_media: "session_ok rid lg h \<Longrightarrow> session_ok rid lg (drop_inactive_media h)"
  by (auto simp: session_ok_defs drop_inactive_media_def intro: le_trans [OF length_filter_le])

lemma follows_append:
  assumes lg: "feedable k rid lg" "e \<in> set lg" and ok: "session_ok rid lg h"
    and app: "ledger_append k (Some e) (hy_ledger h) = (Inr Appended, l)"
  shows "session_ok rid lg (h\<lparr>hy_ledger := l, hy_state := sessionReducer (hy_state h) (SetCursor (roomSeq e))\<rparr>)"
proof -
  from ok obtain n where n: "n \<le> length lg" "ledger_of (take n lg) (hy_ledger h)" "l_roomId (hy_ledger h) \<in> {None, Some rid}"
    "st_lastRoomSeq (hy_state h) = l_lastSeq (hy_ledger h)" by (auto simp: session_ok_defs)
  have l: "l = ledger_offer k e (hy_ledger h)" using app by (simp add: ledger_offer_def)
  have s: "l_lastSeq l = roomSeq e" "roomSeq e = l_lastSeq (hy_ledger h) + 1"
    using app by (auto simp: ledger_append_Appended ledger_admits_def ledger_put_def)
  obtain i where i: "i < length lg" "e = lg ! i" using lg(2) by (auto simp: in_set_conv_nth)
  then have "roomSeq e = int i + 1" using numbered_nth [OF feedableD(1) [OF lg(1)]] by simp
  then have "(if roomSeq e = int n + 1 then Suc n else n) \<le> length lg" using i n(1) by auto
  then have "\<exists>m \<le> length lg. ledger_of (take m lg) l"
    unfolding l using feed_step [OF lg n(1-3)] by blast
  moreover have "l_roomId l \<in> {None, Some rid}" using n(3) l by simp
  moreover have "0 \<le> l_lastSeq (hy_ledger h)" using n(2) by (simp add: ledger_of_def)
  ultimately show ?thesis using ok n(4) s by (simp add: session_ok_defs session_inv_def)
qed

lemma ok_sink:
  assumes lg: "feedable (su_contracts su) rid lg" "e \<in> set lg"
  shows "keeps (\<lambda>c. session_ok rid lg (host c)) (hy_acceptEvent su e)"
proof (rule keepsI)
  fix c :: "hydrated client" assume ok: "session_ok rid lg (host c)"
  define rest where "rest = act_then (case statusFromEvent (ev_type e) of None \<Rightarrow> ret () | Some st \<Rightarrow> dispatch_state (SetStatus st))
     (act_then (if ev_type e = ''room.opened'' then
         act_bind (lift_result (requiredTime (payload e) ''startsAt'' ''ROOM_START_INVALID'')) (\<lambda>s.
         act_bind (lift_result (requiredTime (payload e) ''closesAt'' ''ROOM_CLOSE_INVALID'')) (\<lambda>t.
           dispatch_state (SetTiming (Some s) (Some t))))
       else ret ()) notify)"
  have rest: "keeps (\<lambda>c. session_ok rid lg (host c)) rest"
    unfolding rest_def by (intro keeps_intros ok_small)
  show "session_ok rid lg (host (snd (hy_acceptEvent su e c)))"
  proof (cases "ledger_append (su_contracts su) (Some e) (hy_ledger (host c))")
    case (Pair r l)
    show ?thesis
    proof (cases "r = Inr Appended")
      case True
      let ?h = "(host c)\<lparr>hy_ledger := l, hy_state := sessionReducer (hy_state (host c)) (SetCursor (roomSeq e))\<rparr>"
      have "session_ok rid lg (drop_inactive_media ?h)"
        using ok_drop_media [OF follows_append [OF lg ok]] Pair True by blast
      moreover have "drop_inactive_media ?h = (drop_inactive_media ((host c)\<lparr>hy_ledger := l\<rparr>))
          \<lparr>hy_state := sessionReducer (hy_state (host c)) (SetCursor (roomSeq e))\<rparr>"
        by (rule hydrated.equality) (simp_all add: drop_inactive_media_def del: sessionReducer.simps)
      moreover have "hy_acceptEvent su e c = rest (c\<lparr>host := (drop_inactive_media ((host c)\<lparr>hy_ledger := l\<rparr>))
          \<lparr>hy_state := sessionReducer (hy_state (host c)) (SetCursor (roomSeq e))\<rparr>\<rparr>)"
        using Pair True
        by (simp add: hy_acceptEvent_def rest_def [symmetric] on_ledger_def act_bind_app act_then_app require_app dispatch_state_def
            drop_inactive_media_def del: sessionReducer.simps)
      ultimately show ?thesis using rest by (simp add: keeps_def)
    next
      case False
      then have "l = hy_ledger (host c)" using ledger_append_cases [OF Pair] by simp
      then show ?thesis using Pair False ok
        by (cases r) (auto simp: hy_acceptEvent_def on_ledger_def act_bind_app act_then_app require_app)
    qed
  qed
qed

section \<open>Every operation keeps it\<close>

lemma ok_task: "keeps (\<lambda>c. session_ok rid lg (host c)) w \<Longrightarrow> keeps (\<lambda>c. session_ok rid lg (host c)) (projectionTask key w)"
  unfolding projectionTask_def
  by (intro keeps_intros keeps_upd_host ok_small keeps_on_projections markers_keep) simp_all

lemma ok_refresh:
  "keeps (\<lambda>c. session_ok rid lg (host c)) (refreshProjectionLatest su key)" "keeps (\<lambda>c. session_ok rid lg (host c)) (reconcileProjectionFrame su f r)"
  "keeps (\<lambda>c. session_ok rid lg (host c)) (refreshProjection su key)"
  unfolding refreshProjectionLatest_def reconcileProjectionFrame_def refreshProjection_def
  by (intro keeps_intros ok_task keeps_on_projections slot_keeps)+

lemma ok_refreshAgent: "keeps (\<lambda>c. session_ok rid lg (host c)) (refreshAgentCurrent su)"
  unfolding refreshAgentCurrent_def by (intro keeps_intros ok_small keeps_upd_host) simp

lemma ok_refresh_each: "keeps (\<lambda>c. session_ok rid lg (host c)) (refresh_each su keys)"
proof (induction keys)
  case Nil
  show ?case unfolding refresh_each.simps by (rule keeps_ret)
next
  case (Cons key keys)
  then show ?case unfolding refresh_each.simps by (intro keeps_then ok_refresh)
qed

lemma ok_refreshProjections: "keeps (\<lambda>c. session_ok rid lg (host c)) (refreshProjections su)"
  unfolding refreshProjections_def case_prod_beta by (intro keeps_intros ok_refresh_each)

interpretation th: host_frame teardown_callbacks "session_ok rid lg" ok for rid lg ok
proof unfold_locales
  show "keeps (\<lambda>c. session_ok rid lg (host c)) (cb_connection teardown_callbacks up)" for up
    by (simp add: teardown_callbacks_def ok_small)
qed (simp_all only: teardown_callbacks_def callbacks.simps keeps_ret)

lemma ok_clearing:
  "keeps (\<lambda>c. session_ok rid lg (host c)) (clearState su)" "keeps (\<lambda>c. session_ok rid lg (host c)) (clearForSessionExpiry su)"
  "keeps (\<lambda>c. session_ok rid lg (host c)) (clearForRoomUnavailable su)" "keeps (\<lambda>c. session_ok rid lg (host c)) (failRecovery su reason)"
proof -
  show c: "keeps (\<lambda>c. session_ok rid lg (host c)) (clearState su)"
    unfolding clearState_def
    by (intro keeps_intros keeps_upd_host th.destroy_host) (simp_all add: ok_cleared ok_cancel_all)
  show "keeps (\<lambda>c. session_ok rid lg (host c)) (clearForSessionExpiry su)" "keeps (\<lambda>c. session_ok rid lg (host c)) (clearForRoomUnavailable su)"
    unfolding clearForSessionExpiry_def clearForRoomUnavailable_def
    by (intro keeps_intros keeps_upd_host ok_small c; simp)+
  show "keeps (\<lambda>c. session_ok rid lg (host c)) (failRecovery su reason)"
    unfolding failRecovery_def by (intro keeps_intros keeps_upd_host ok_small th.close_host) simp
qed

lemma ok_socket_only:
  "keeps (\<lambda>c. session_ok rid lg (host c)) (sendPresence k b st)" "keeps (\<lambda>c. session_ok rid lg (host c)) (sendTyping k b a)"
  "keeps (\<lambda>c. session_ok rid lg (host c)) (deferReconnectUntil g)" "keeps (\<lambda>c. session_ok rid lg (host c)) (gate_settled g t)"
  unfolding sendTyping_def deferReconnectUntil_def
  by (intro keeps_bind keeps_getsock th.hf.sendPresence_keeps th.hf.sendEphemeral_keeps th.sock_host th.gate_settled_host)+

lemma ok_parts:
  "keeps (\<lambda>c. session_ok rid lg (host c)) (snapshot_required after through)" "keeps (\<lambda>c. session_ok rid lg (host c)) (projection_frame su p)"
  "keeps (\<lambda>c. session_ok rid lg (host c)) (degraded_frame f scope reason key)"
  unfolding snapshot_required_def projection_frame_def degraded_frame_def
  by (intro keeps_intros keeps_upd_host ok_small ok_socket_only keeps_on_projections accept_keeps ok_refresh markers_keep; simp add: ok_cancel)+

lemma ok_control: "keeps (\<lambda>c. session_ok rid lg (host c)) (acceptControl su f)"
proof -
  have "keeps (\<lambda>c. session_ok rid lg (host c)) (control_body su f)"
    unfolding control_body_def
    by (cases f; simp only: ServerFrame.simps)
       (intro keeps_intros keeps_upd_host keeps_on_agent ok_small ok_socket_only ok_parts ok_refreshAgent ok_refreshProjections;
        simp add: ok_record_ack ok_record_reject ok_record_media mergeAgentFrame_inv)+
  then show ?thesis unfolding acceptControl_def by (intro keeps_finally ok_small)
qed

interpretation hh: host_frame "hydrated_callbacks su" "session_ok rid lg" "\<lambda>e. feedable (su_contracts su) rid lg \<and> e \<in> set lg" for su rid lg
  by unfold_locales (simp_all add: hydrated_callbacks_def ok_control ok_small ok_clearing ok_sink)

end
