(* ===== verification/Session_Reach.thy ===== *)
theory Session_Reach
  imports Session_Safety
begin

text \<open>
  The inputs of a session, one constructor per entry point of \<^verbatim>\<open>HydratedSessionState\<close> and per
  callback the browser runs on its behalf, and the states reached by any sequence of them.
\<close>

section \<open>Inputs\<close>

datatype session_op =
    SocketOpened nat
  | SocketMessage nat raw_frame
  | SocketClosed nat "int option"
  | RetryFires "client_error option"
  | ReceiveFrame raw_frame
  | ConnectWith "client_error option"
  | ConnectTo bool string string "string \<Rightarrow> client_error option"
  | SendIntent string date "client_error + string" RoomCommandIntent
  | SignalPresence seat_state
  | SignalTyping bool
  | Recover int
  | PageArrives "client_error + RoomEventPage"
  | RejectionSettles nat
  | RefreshAgent
  | AgentSettles nat nat "client_error + AgentCurrentState"
  | RefreshAll
  | RefreshOne projection_key
  | TaskResumes projection_task projection_response
  | LoadTimeline projection_key js_number
  | TimelineSettles projection_key nat "client_error + TimelineResponse"
  | SessionExpires
  | RoomVanishes
  | DisposeSession

definition quietly :: "'a hact \<Rightarrow> unit hact" where
  "quietly m = act_then m (ret ())"

fun run_op :: "surroundings \<Rightarrow> session_op \<Rightarrow> unit hact" where
  "run_op su (SocketOpened i) = opened_listener (su_contracts su) (su_browser su) i"
| "run_op su (SocketMessage i v) = message_listener (su_contracts su) (su_browser su) (hydrated_callbacks su) i v"
| "run_op su (SocketClosed i n) = close_listener (hydrated_callbacks su) i n"
| "run_op su (RetryFires fac) = retry_fires (su_contracts su) (su_browser su) (hydrated_callbacks su) fac"
| "run_op su (ReceiveFrame v) = receiveFrame su v"
| "run_op su (ConnectWith fac) = quietly (connect_session su fac)"
| "run_op su (ConnectTo native p h opens) = quietly (connectNative su native p h opens)"
| "run_op su (SendIntent rid now uuid intent) = quietly (sendIntent su rid now uuid intent)"
| "run_op su (SignalPresence st) = signalPresence su st"
| "run_op su (SignalTyping a) = signalTyping su a"
| "run_op su (Recover n) = quietly (recoverEvents n)"
| "run_op su (PageArrives r) = page_arrives su r"
| "run_op su (RejectionSettles i) = rejection_settles su i"
| "run_op su RefreshAgent = refreshAgentCurrent su"
| "run_op su (AgentSettles g l r) = agent_refresh_settles su g l r"
| "run_op su RefreshAll = refreshProjections su"
| "run_op su (RefreshOne key) = refreshProjection su key"
| "run_op su (TaskResumes t r) = projection_task_resumes su t r"
| "run_op su (LoadTimeline key n) = quietly (loadConceptTimeline su key n)"
| "run_op su (TimelineSettles key i r) = quietly (timeline_settles su key i r)"
| "run_op su SessionExpires = clearForSessionExpiry su"
| "run_op su RoomVanishes = clearForRoomUnavailable su"
| "run_op su DisposeSession = dispose su"

text \<open>Events come from the room's log, over the socket or in a page; anything else may arrive.\<close>

definition op_fed :: "envelope list \<Rightarrow> session_op \<Rightarrow> bool" where
  "op_fed lg op \<longleftrightarrow> (case op of
     SocketMessage _ v \<Rightarrow> frame_fed (\<lambda>e. e \<in> set lg) v
   | ReceiveFrame v \<Rightarrow> frame_fed (\<lambda>e. e \<in> set lg) v
   | PageArrives (Inr p) \<Rightarrow> set (pg_events p) \<subseteq> set lg
   | _ \<Rightarrow> True)"

inductive session_reach :: "contracts \<Rightarrow> string \<Rightarrow> envelope list \<Rightarrow> hydrated client \<Rightarrow> bool" for k rid lg where
  constructed: "construct su op = Inr c \<Longrightarrow> rd_roomId (op_room op) = rid \<Longrightarrow> session_reach k rid lg c"
| operated: "session_reach k rid lg c \<Longrightarrow> su_contracts su = k \<Longrightarrow> op_fed lg op \<Longrightarrow> session_reach k rid lg (snd (run_op su op c))"

section \<open>Invariant\<close>

definition client_ok :: "string \<Rightarrow> envelope list \<Rightarrow> hydrated client \<Rightarrow> bool" where
  "client_ok rid lg c \<longleftrightarrow> session_ok rid lg (host c) \<and> client_queue_ok c"

lemma keeps_both:
  "keeps (\<lambda>c. session_ok rid lg (host c)) m \<Longrightarrow> keeps client_queue_ok m \<Longrightarrow> keeps (client_ok rid lg) m"
  by (simp add: keeps_def client_ok_def)

lemma both_host: "(\<And>h. session_ok rid lg h \<Longrightarrow> session_ok rid lg (f h)) \<Longrightarrow> keeps (client_ok rid lg) (upd_host f)"
  by (simp add: keeps_def client_ok_def client_queue_ok_def)

lemma both_projections: "keeps projections_inv m \<Longrightarrow> keeps (client_ok rid lg) (on_projections m)"
  by (rule keeps_both, erule keeps_on_projections, unfold client_queue_ok_sock, rule qg.host_keeps)

lemma both_agent: "(\<And>v. agent_inv v \<Longrightarrow> agent_inv (snd (m v))) \<Longrightarrow> keeps (client_ok rid lg) (on_agent m)"
  by (rule keeps_both, erule keeps_on_agent, unfold client_queue_ok_sock, rule qg.host_keeps)

lemma both_small:
  "keeps (client_ok rid lg) notify" "keeps (client_ok rid lg) room_id_of" "keeps (client_ok rid lg) (recoverEvents n)"
  by (rule keeps_both, rule ok_small, unfold client_queue_ok_sock, rule qg.small_keeps)+

lemma both_refresh:
  "keeps (client_ok rid lg) (refreshAgentCurrent su)" "keeps (client_ok rid lg) (refreshProjections su)"
  "keeps (client_ok rid lg) (refreshProjectionLatest su key)"
  by (rule keeps_both, (rule ok_refreshAgent ok_refreshProjections ok_refresh),
      unfold client_queue_ok_sock, (rule qg.refresh_keeps qg.refreshProjections_keeps))+

lemma both_clearing:
  "keeps (client_ok rid lg) (clearState su)" "keeps (client_ok rid lg) (clearForSessionExpiry su)"
  "keeps (client_ok rid lg) (clearForRoomUnavailable su)" "keeps (client_ok rid lg) (failRecovery su reason)"
  by (rule keeps_both, rule ok_clearing, rule queue_clearing)+

lemma fed_mono: "feedable k rid lg \<Longrightarrow> frame_fed (\<lambda>e. e \<in> set lg) v \<Longrightarrow> frame_fed (\<lambda>e. feedable k rid lg \<and> e \<in> set lg) v"
  by (auto simp: frame_fed_def split: raw_frame.split ServerFrame.split)

lemma both_socket:
  "keeps (client_ok rid lg) (opened_listener k b i)" "keeps (client_ok rid lg) (close_listener (hydrated_callbacks su) i n)"
  "keeps (client_ok rid lg) (retry_fires k b (hydrated_callbacks su) fac)" "keeps (client_ok rid lg) (connect_socket k b (hydrated_callbacks su) fac)"
  "keeps (client_ok rid lg) (rs_send k b (hydrated_callbacks su) cmd s)" "keeps (client_ok rid lg) (gate_settled g t)"
  by (rule keeps_both, rule hh.listeners_host hh.retry_fires_host hh.connect_host hh.hf.send_keeps th.gate_settled_host,
      rule so.listeners_ok so.retry_fires_ok so.connect_ok so.of.send_keeps td.gate_settled_ok)+

lemma both_signals:
  "keeps (client_ok rid lg) (sendPresence k b st)" "keeps (client_ok rid lg) (sendTyping k b a)"
proof -
  have e: "keeps client_queue_ok (sendEphemeral k b mk s :: unit hact)" for mk s
    unfolding client_queue_ok_sock by (rule qg.signal_keeps)
  have "keeps client_queue_ok (sendPresence k b st :: unit hact)" "keeps client_queue_ok (sendTyping k b a :: unit hact)"
    unfolding sendPresence_def sendTyping_def by (intro keeps_bind keeps_getsock e)+
  then show "keeps (client_ok rid lg) (sendPresence k b st)" "keeps (client_ok rid lg) (sendTyping k b a)"
    by (simp_all add: keeps_both ok_socket_only)
qed

lemma both_frames:
  assumes "feedable (su_contracts su) rid lg" "frame_fed (\<lambda>e. e \<in> set lg) v"
  shows "keeps (client_ok rid lg) (message_listener k b (hydrated_callbacks su) i v)"
    "keeps (client_ok rid lg) (onFrame k b (hydrated_callbacks su) v s)"
  by (rule keeps_both, rule hh.listeners_host, rule fed_mono [OF assms], rule so.listeners_ok)
     (rule keeps_both, rule hh.onFrame_host, rule fed_mono [OF assms], rule so.onFrame_ok)

section \<open>Every operation keeps it\<close>

lemma both_recovery_end:
  "keeps (client_ok rid lg) (recovery_done i)" "keeps (client_ok rid lg) (recovery_failed su i e)" "keeps (client_ok rid lg) (rejection_settles su i)"
  unfolding recovery_done_def recovery_failed_def rejection_settles_def
  by (intro keeps_intros keeps_gethost both_host both_socket both_clearing; simp)+

lemma both_page_events:
  assumes "feedable (su_contracts su) rid lg"
  shows "set es \<subseteq> set lg \<Longrightarrow> keeps (client_ok rid lg) (page_events su es n)"
proof (induction es arbitrary: n)
  case Nil
  show ?case unfolding page_events.simps by (rule keeps_ret)
next
  case (Cons e es)
  have "frame_fed (\<lambda>e. e \<in> set lg) (Shaped (EventFrame e))" using Cons.prems by (simp add: frame_fed_def)
  then have "keeps (client_ok rid lg) (frame_to_socket su (EventFrame e))"
    unfolding frame_to_socket_def onFrame_default_def by (intro keeps_bind keeps_getsock both_frames [OF assms])
  then show ?case unfolding page_events.simps using Cons by (intro keeps_intros keeps_gethost) auto
qed

lemma both_page:
  assumes "feedable (su_contracts su) rid lg" "op_fed lg (PageArrives r)"
  shows "keeps (client_ok rid lg) (page_arrives su r)"
proof -
  have p: "keeps (client_ok rid lg) (recover_page su n p)" if "set (pg_events p) \<subseteq> set lg" for n p
    unfolding recover_page_def case_prod_beta
    by (intro keeps_intros keeps_gethost both_page_events [OF assms(1) that])
  have serve: "keeps (client_ok rid lg) (act_bind (lift_result r) (\<lambda>p. act_bind (recover_page su n p) (f p)))"
    if "\<And>p x. keeps (client_ok rid lg) (f p x)" for n f
  proof (cases r)
    case (Inr q)
    then have "keeps (client_ok rid lg) (act_bind (recover_page su n q) (f q))"
      using assms(2) by (intro keeps_bind p that) (simp add: op_fed_def)
    then show ?thesis by (simp add: Inr keeps_def act_bind_app [of "lift_result _"])
  qed (simp add: keeps_def act_bind_app)
  show ?thesis
    unfolding page_arrives_def
    by (rule keeps_bind, rule keeps_gethost, rule keeps_case_option, rule keeps_ret, rule keeps_catch, rule serve)
       (intro keeps_intros both_recovery_end both_small both_host; simp)+
qed

lemma both_task: "keeps (client_ok rid lg) (projection_task_resumes su t r)"
proof -
  have e: "keeps (client_ok rid lg) (task_error su key e)" for key e
    unfolding task_error_def
    by (intro keeps_intros both_clearing both_host both_projections markers_keep both_small; simp add: ok_cancel)
  have w: "keeps (client_ok rid lg) (work_resumes su key w r)" for key w
    unfolding work_resumes_def
    by (cases w; cases r; simp only: prod.case work.case projection_response.case)
       (intro keeps_intros both_host both_projections replaceSnapshot_keeps applyEchoPatches_keeps; simp add: ok_cancel)+
  have f: "keeps (client_ok rid lg) (task_finished t)"
    unfolding task_finished_def by (rule both_host) simp
  show ?thesis
    unfolding projection_task_resumes_def
    by (intro keeps_intros keeps_gethost both_host both_small e w f; simp)
qed

lemma both_merge: "keeps (client_ok rid lg) (mergeAgentCurrent su a)"
proof -
  have "keeps (client_ok rid lg) (case f of AgentStatus frame \<Rightarrow> on_agent (mergeAgentFrame frame x y True)
      | _ \<Rightarrow> raise (Err ''AGENT_CURRENT_FRAME_INVALID''))" for f x y
    by (cases f; simp only: ServerFrame.case) (intro keeps_raise both_agent; simp add: mergeAgentFrame_inv)+
  then show ?thesis unfolding mergeAgentCurrent_def by (intro keeps_intros both_small)
qed

lemma both_agent_refresh: "keeps (client_ok rid lg) (agent_refresh_settles su g l r)"
  unfolding agent_refresh_settles_def
  by (intro keeps_intros keeps_finally keeps_gethost both_small both_clearing both_host both_merge; simp)

lemma both_timeline:
  "keeps (client_ok rid lg) (loadConceptTimeline su key n)" "keeps (client_ok rid lg) (timeline_settles su key i r)"
proof -
  show "keeps (client_ok rid lg) (loadConceptTimeline su key n)"
    unfolding loadConceptTimeline_def
    by (intro keeps_intros keeps_gethost both_host both_projections slot_keeps; simp)
  have a: "keeps (client_ok rid lg) (timeline_accepts key i x)" for x
    unfolding timeline_accepts_def by (intro keeps_intros keeps_gethost both_projections slot_keeps)
  have e: "keeps (client_ok rid lg) (timeline_error su key x)" for x
    unfolding timeline_error_def
    by (intro keeps_intros keeps_gethost both_clearing both_host both_projections markers_keep both_small; simp add: ok_cancel)
  have m: "keeps (client_ok rid lg) (act_catch (act_bind (lift_result r) (\<lambda>r. act_then (timeline_accepts key i r) (ret r)))
            (\<lambda>e. act_then (timeline_error su key e) (raise e)))"
    by (intro keeps_intros a e)
  have f: "keeps (client_ok rid lg) (upd_host (\<lambda>h. if jm_get (hy_timelines h) key = Some i then h\<lparr>hy_timelines := jm_delete key (hy_timelines h)\<rparr> else h))"
    by (rule both_host) simp
  show "keeps (client_ok rid lg) (timeline_settles su key i r)"
    unfolding timeline_settles_def
  proof (rule keepsI, goal_cases)
    case (1 c)
    then show ?case using m f by (fastforce simp: keeps_def simp del: upd_host_app split: prod.split)
  qed
qed

lemma both_commands:
  "keeps (client_ok rid lg) (connect_session su fac)" "keeps (client_ok rid lg) (connectNative su native p h opens)"
  "keeps (client_ok rid lg) (sendIntent su room now uuid intent)" "keeps (client_ok rid lg) (signalPresence su st)"
  "keeps (client_ok rid lg) (signalTyping su a)" "keeps (client_ok rid lg) (refreshProjection su key)"
  unfolding connect_session_def connectNative_def sendIntent_def signalPresence_def signalTyping_def refreshProjection_def bus_send_def command_transport_def
  by (intro keeps_intros keeps_gethost both_socket both_signals both_small both_refresh)+

lemma both_receive:
  assumes "feedable (su_contracts su) rid lg" "frame_fed (\<lambda>e. e \<in> set lg) v"
  shows "keeps (client_ok rid lg) (receiveFrame su v)"
  unfolding receiveFrame_def onFrame_default_def
  by (intro keeps_intros keeps_gethost both_frames [OF assms] both_clearing)

lemma both_quietly: "keeps (client_ok rid lg) m \<Longrightarrow> keeps (client_ok rid lg) (quietly m)"
  unfolding quietly_def by (intro keeps_then keeps_ret)

lemma run_op_ok:
  assumes lg: "feedable (su_contracts su) rid lg" and fed: "op_fed lg op"
  shows "keeps (client_ok rid lg) (run_op su op)"
  using fed both_page [OF lg]
    by (cases op; simp only: run_op.simps dispose_def)
       (intro both_quietly both_socket both_commands both_small both_recovery_end both_refresh both_agent_refresh both_task both_timeline both_clearing
          both_frames [OF lg] both_receive [OF lg]; simp add: op_fed_def)+

section \<open>Reachable sessions\<close>

lemma construct_ok:
  assumes "construct su op = Inr c" "rd_roomId (op_room op) = rid"
  shows "client_ok rid lg c"
proof -
  have b: "session_ok rid lg (blank_state op)"
  proof -
    have "\<exists>n \<le> length lg. ledger_of (take n lg) (new_ledger (Some (rd_roomId (op_room op))))"
      using ledger_of_new by (intro exI [of _ 0]) simp
    then show ?thesis using assms(2)
      by (simp add: session_ok_defs blank_state_def new_projections_inv empty_agent_inv createSessionState_inv)
         (simp add: new_ledger_def createSessionState_def)
  qed
  let ?c = "\<lparr>sock = new_socket (rd_roomId (op_room op)) [] (op_retryDelays op) (op_clientId op), wire = [], next_socket = 0, host = blank_state op\<rparr>"
  have c0: "client_ok rid lg ?c" using b by (simp add: client_ok_def client_queue_ok_def queue_ok_def new_socket_def Let_def)
  show ?thesis
  proof (cases "op_agentCurrent op")
    case None
    then show ?thesis using assms c0 by (auto simp: construct_def Let_def client_ok_def client_queue_ok_def split: option.splits)
  next
    case (Some a)
    then have "snd (mergeAgentCurrent su a ?c) = c" using assms by (auto simp: construct_def Let_def split: option.splits prod.splits sum.splits)
    then show ?thesis using both_merge [of rid lg su a] c0 by (auto simp: keeps_def)
  qed
qed

theorem session_reach_ok: "session_reach k rid lg c \<Longrightarrow> feedable k rid lg \<Longrightarrow> client_ok rid lg c"
proof (induction rule: session_reach.induct)
  case (constructed su op c)
  then show ?case by (blast intro: construct_ok)
next
  case (operated c su op)
  then show ?case using run_op_ok [of su rid lg op] by (simp add: keeps_def)
qed
end
