(* ===== verification/Session_Recovery.thy ===== *)
theory Session_Recovery
  imports Session_Reach
begin

text \<open>
  The page recovery of missed events reaches the end of the log: a progress theorem for
  \<^verbatim>\<open>#recoverLoop\<close> and for \<^verbatim>\<open>HydratedSessionState.create\<close> against a gateway that serves the
  pages of a log.
\<close>

section \<open>One event\<close>

text \<open>The payload of an opening carries its two times, as its schema requires.\<close>

definition opening_timed :: "envelope \<Rightarrow> bool" where
  "opening_timed e \<longleftrightarrow> ev_type e \<noteq> ''room.opened'' \<or>
     (case (jmember (payload e) ''startsAt'', jmember (payload e) ''closesAt'') of (Some (JTime _), Some (JTime _)) \<Rightarrow> True | _ \<Rightarrow> False)"

definition status_after :: "envelope \<Rightarrow> room_status \<Rightarrow> room_status" where
  "status_after e st = orelse (statusFromEvent (ev_type e)) st"

text \<open>What a recovery needs of the host beside its ledger, and leaves alone.\<close>

definition attached :: "hydrated \<Rightarrow> RoomDetails option \<times> ClientSession option \<times> bool \<times> bool \<times> int \<times> ProjectionSync" where
  "attached h = (hy_room h, hy_session h, hy_expired h, hy_unavailable h, hy_required h, hy_projections h)"

lemma acceptEvent_runs:
  assumes adm: "ledger_admits (su_contracts su) e (hy_ledger (host c))" and timed: "opening_timed e"
  shows "\<exists>h'. hy_acceptEvent su e c = (Inr (), c\<lparr>host := h'\<rparr>) \<and> hy_ledger h' = ledger_put e (hy_ledger (host c)) \<and>
     st_status (hy_state h') = status_after e (st_status (hy_state (host c))) \<and> attached h' = attached (host c)"
proof -
  have app: "ledger_append (su_contracts su) (Some e) (hy_ledger (host c)) = (Inr Appended, ledger_put e (hy_ledger (host c)))"
    using adm by (simp add: ledger_append_Appended)
  have t: "\<exists>s t. requiredTime (payload e) ''startsAt'' ''ROOM_START_INVALID'' = Inr s \<and> requiredTime (payload e) ''closesAt'' ''ROOM_CLOSE_INVALID'' = Inr t"
    if "ev_type e = ''room.opened''"
    using timed that by (auto simp: opening_timed_def requiredTime_def split: option.splits json.splits)
  have st: "statusFromEvent (ev_type e) = Some Open" if "ev_type e = ''room.opened''" using that by (simp add: statusFromEvent_def)
  show ?thesis
  proof (cases "ev_type e = ''room.opened''")
    case True
    then obtain x y where "requiredTime (payload e) ''startsAt'' ''ROOM_START_INVALID'' = Inr x"
      "requiredTime (payload e) ''closesAt'' ''ROOM_CLOSE_INVALID'' = Inr y" using t by blast
    then show ?thesis using app True st
      by (intro exI [of _ "host (snd (hy_acceptEvent su e c))"])
         (simp add: hy_acceptEvent_def on_ledger_def act_bind_app act_then_app require_app dispatch_state_def notify_def
          drop_inactive_media_def attached_def status_after_def)
  next
    case False
    then show ?thesis using app
      by (intro exI [of _ "host (snd (hy_acceptEvent su e c))"], cases "statusFromEvent (ev_type e)")
         (simp_all add: hy_acceptEvent_def on_ledger_def act_bind_app act_then_app require_app dispatch_state_def notify_def
          drop_inactive_media_def attached_def status_after_def)
  qed
qed

section \<open>Following a log\<close>

definition tracks :: "string \<Rightarrow> envelope list \<Rightarrow> nat \<Rightarrow> hydrated client \<Rightarrow> bool" where
  "tracks rid lg n c \<longleftrightarrow> ledger_of (take n lg) (hy_ledger (host c)) \<and> l_roomId (hy_ledger (host c)) = Some rid \<and>
     rs_roomId (sock c) = rid \<and> rs_lastRoomSeq (sock c) = int n"

definition served :: "contracts \<Rightarrow> string \<Rightarrow> envelope list \<Rightarrow> bool" where
  "served k rid lg \<longleftrightarrow> feedable k rid lg \<and> list_all opening_timed lg \<and> int (length lg) \<le> max_safe_integer"

lemma next_admitted:
  assumes "feedable k rid lg" "n < length lg" "ledger_of (take n lg) l" "l_roomId l = Some rid"
  shows "ledger_admits k (lg ! n) l" "ledger_of (take (Suc n) lg) (ledger_put (lg ! n) l)"
proof -
  have e: "lg ! n \<in> set lg" using assms(2) by simp
  have seq: "roomSeq (lg ! n) = int n + 1" using numbered_nth [OF feedableD(1) [OF assms(1)] assms(2)] .
  have "distinct (map eventId (take (Suc n) lg))" using feedableD(2) [OF assms(1)] by (simp add: take_map [symmetric])
  then have "eventId (lg ! n) \<notin> eventId ` set (take n lg)" using assms(2) by (simp add: take_Suc_conv_app_nth)
  then show a: "ledger_admits k (lg ! n) l"
    using assms seq feedableD(3,4) [OF assms(1) e] by (simp add: ledger_admits_def ledger_of_def jm_has_ids)
  show "ledger_of (take (Suc n) lg) (ledger_put (lg ! n) l)"
    using ledger_of_put [OF assms(3) a] assms(2) by (simp add: take_Suc_conv_app_nth)
qed

lemma ledger_put_frame: "l_roomId (ledger_put e l) = l_roomId l" "l_lastSeq (ledger_put e l) = roomSeq e"
  by (simp_all add: ledger_put_def)

lemma event_taken:
  assumes sv: "served (su_contracts su) rid lg" and n: "n < length lg" and tr: "tracks rid lg n c"
  shows "\<exists>c'. frame_to_socket su (EventFrame (lg ! n)) c = (Inr (), c') \<and> tracks rid lg (Suc n) c' \<and>
     attached (host c') = attached (host c) \<and> st_status (hy_state (host c')) = status_after (lg ! n) (st_status (hy_state (host c)))"
proof -
  let ?e = "lg ! n" and ?k = "su_contracts su"
  let ?c1 = "c\<lparr>sock := acceptCursor (roomSeq (lg ! n)) (sock c)\<rparr>"
  have lg: "feedable ?k rid lg" using sv by (simp add: served_def)
  have e: "?e \<in> set lg" "opening_timed ?e" using n sv by (simp_all add: served_def list_all_length)
  have seq: "roomSeq ?e = int n + 1" using numbered_nth [OF feedableD(1) [OF lg] n] .
  note adm = next_admitted [OF lg n]
  have acc: "event_accepted ?k ?e" "roomId ?e = rid" using feedableD(3,4) [OF lg e(1)] by simp_all
  obtain h' where h': "hy_acceptEvent su ?e ?c1 = (Inr (), ?c1\<lparr>host := h'\<rparr>)" "hy_ledger h' = ledger_put ?e (hy_ledger (host c))"
    "st_status (hy_state h') = status_after ?e (st_status (hy_state (host c)))" "attached h' = attached (host c)"
    using acceptEvent_runs [of su ?e ?c1] adm(1) tr e(2) by (auto simp: tracks_def)
  have cur: "acceptCursor (roomSeq ?e) (sock c) = (sock c)\<lparr>rs_lastRoomSeq := int n + 1,
      rs_storage := jm_set (rs_storageKey (sock c)) (Whole (int n + 1)) (rs_storage (sock c))\<rparr>"
    using tr seq n sv by (simp add: acceptCursor_def tracks_def served_def)
  have "frame_to_socket su (EventFrame ?e) c = (Inr (), ?c1\<lparr>host := h'\<rparr>)"
    using acc seq tr h'(1)
    by (simp add: frame_to_socket_def onFrame_default_def onFrame_def act_bind_app act_then_app rs_acceptEvent_def tracks_def hydrated_callbacks_def)
  moreover have "tracks rid lg (Suc n) (?c1\<lparr>host := h'\<rparr>)"
    using tr adm(2) h'(2) cur by (simp add: tracks_def ledger_put_frame)
  ultimately show ?thesis using h' by (intro exI [of _ "?c1\<lparr>host := h'\<rparr>"]) simp
qed

section \<open>One page\<close>

lemma page_taken:
  assumes sv: "served (su_contracts su) rid lg"
  shows "n + m \<le> length lg \<Longrightarrow> tracks rid lg n c \<Longrightarrow>
     \<exists>c'. page_events su (take m (drop n lg)) (int n) c = (Inr (int (n + m)), c') \<and> tracks rid lg (n + m) c' \<and>
       attached (host c') = attached (host c) \<and>
       st_status (hy_state (host c')) = fold status_after (take m (drop n lg)) (st_status (hy_state (host c)))"
proof (induction m arbitrary: n c)
  case 0
  then show ?case by simp
next
  case (Suc m)
  then have n: "n < length lg" by simp
  have d: "take (Suc m) (drop n lg) = lg ! n # take m (drop (Suc n) lg)" using n by (simp add: Cons_nth_drop_Suc [symmetric])
  have seq: "roomSeq (lg ! n) = int n + 1" using numbered_nth [OF _ n] sv by (simp add: served_def feedable_def)
  obtain c1 where c1: "frame_to_socket su (EventFrame (lg ! n)) c = (Inr (), c1)" "tracks rid lg (Suc n) c1"
    "attached (host c1) = attached (host c)" "st_status (hy_state (host c1)) = status_after (lg ! n) (st_status (hy_state (host c)))"
    using event_taken [OF sv n Suc.prems(2)] by blast
  have last: "l_lastSeq (hy_ledger (host c1)) = int n + 1" using c1(2) n by (simp add: tracks_def ledger_of_def)
  obtain c2 where "page_events su (take m (drop (Suc n) lg)) (int (Suc n)) c1 = (Inr (int (Suc n + m)), c2)" "tracks rid lg (Suc n + m) c2"
    "attached (host c2) = attached (host c1)"
    "st_status (hy_state (host c2)) = fold status_after (take m (drop (Suc n) lg)) (st_status (hy_state (host c1)))"
    using Suc.IH [of "Suc n" c1] Suc.prems(1) c1(2) by auto
  then show ?case
    using d c1 seq last by (simp add: act_then_app act_bind_app require_app add.commute [of 1])
qed

section \<open>The whole loop\<close>

definition log_page :: "envelope list \<Rightarrow> nat \<Rightarrow> int \<Rightarrow> RoomEventPage" where
  "log_page lg limit a = event_page (take limit (drop (nat a) lg)) a (int limit)"

lemma log_page_through:
  assumes "numbered lg" "n \<le> length lg"
  shows "pg_through (log_page lg limit (int n)) = int (min (n + limit) (length lg))"
proof (cases "take limit (drop n lg) = []")
  case True
  then show ?thesis using assms by (auto simp: log_page_def event_page_def Let_def)
next
  case False
  let ?m = "min (n + limit) (length lg)"
  have "last (take limit (drop n lg)) = lg ! (?m - 1)"
    using False assms(2) by (simp add: last_conv_nth min_def) (auto intro: arg_cong [of _ _ "(!) lg"])
  moreover have "?m - 1 < length lg" "?m > 0" using False assms(2) by (auto simp: min_def)
  ultimately show ?thesis
    using False numbered_nth [OF assms(1), of "?m - 1"] by (simp add: log_page_def event_page_def Let_def)
qed

lemma recover_all_reaches_end:
  assumes sv: "served (su_contracts su) rid lg" and l: "0 < limit"
    and gw: "\<And>m. m \<le> length lg \<Longrightarrow> gateway (int m) = Inr (log_page lg limit (int m))"
  shows "n \<le> length lg \<Longrightarrow> length lg - n < fuel * limit \<Longrightarrow> tracks rid lg n c \<Longrightarrow>
     attached (host c) = (Some room, session, False, False, req, pr) \<Longrightarrow> req \<le> int (length lg) \<Longrightarrow>
     \<exists>c'. recover_all su gateway fuel (int n) c = (Inr (), c') \<and> tracks rid lg (length lg) c' \<and>
       attached (host c') = attached (host c) \<and>
       st_status (hy_state (host c')) = fold status_after (drop n lg) (st_status (hy_state (host c)))"
proof (induction fuel arbitrary: n c)
  case (Suc fuel)
  let ?m = "min limit (length lg - n)"
  have num: "numbered lg" using sv by (simp add: served_def feedable_def)
  obtain c1 where c1: "page_events su (take ?m (drop n lg)) (int n) c = (Inr (int (n + ?m)), c1)" "tracks rid lg (n + ?m) c1"
    "attached (host c1) = attached (host c)"
    "st_status (hy_state (host c1)) = fold status_after (take ?m (drop n lg)) (st_status (hy_state (host c)))"
    using page_taken [OF sv, of n ?m c] Suc.prems(1,3) by fastforce
  have tk: "take ?m (drop n lg) = take limit (drop n lg)" by (simp add: min_def)
  have thr: "pg_through (log_page lg limit (int n)) = int (n + ?m)"
    using log_page_through [OF num Suc.prems(1), of limit] Suc.prems(1) by (simp add: min_def split: if_splits)
  have ev: "pg_events (log_page lg limit (int n)) = take limit (drop n lg)" by (simp add: log_page_def event_page_def Let_def)
  have nx: "pg_next (log_page lg limit (int n)) = (if limit \<le> length lg - n then Some (int (n + ?m)) else None)"
    using thr by (auto simp: log_page_def event_page_def Let_def)
  have open_host: "hy_room (host c) = Some room" "\<not> hy_expired (host c)" "\<not> hy_unavailable (host c)" "hy_required (host c1) = req"
    using Suc.prems(4) c1(3) by (auto simp: attached_def)
  have page: "recover_page su (int n) (log_page lg limit (int n)) c =
      (Inr (if limit \<le> length lg - n then Some (int (n + ?m)) else None), c1)"
    using c1(1) tk thr ev nx open_host l Suc.prems(1,5)
    by (auto simp: recover_page_def act_bind_app act_then_app require_app)
  show ?case
  proof (cases "limit \<le> length lg - n")
    case False
    then have "?m = length lg - n" "n + ?m = length lg" using Suc.prems(1) by simp_all
    then show ?thesis
      using False page c1 open_host(1) gw [OF Suc.prems(1)] by (simp add: act_then_app act_bind_app room_id_of_def)
  next
    case True
    then have m: "?m = limit" by simp
    have "\<exists>c'. recover_all su gateway fuel (int (n + limit)) c1 = (Inr (), c') \<and> tracks rid lg (length lg) c' \<and>
       attached (host c') = attached (host c1) \<and>
       st_status (hy_state (host c')) = fold status_after (drop (n + limit) lg) (st_status (hy_state (host c1)))"
      using Suc.IH [of "n + limit" c1] Suc.prems True c1 m by auto
    then obtain c2 where c2: "recover_all su gateway fuel (int (n + limit)) c1 = (Inr (), c2)" "tracks rid lg (length lg) c2"
      "attached (host c2) = attached (host c1)"
      "st_status (hy_state (host c2)) = fold status_after (drop (n + limit) lg) (st_status (hy_state (host c1)))" by blast
    have "drop n lg = take limit (drop n lg) @ drop (n + limit) lg" by (metis append_take_drop_id drop_drop add.commute)
    then have "fold status_after (drop n lg) s = fold status_after (drop (n + limit) lg) (fold status_after (take limit (drop n lg)) s)" for s
      by (metis fold_append comp_apply)
    then show ?thesis
      using True page c1 c2 m open_host(1) gw [OF Suc.prems(1)] by (simp add: act_then_app act_bind_app room_id_of_def)
  qed
qed simp

lemma recoverLoop_reaches_end:
  assumes "served (su_contracts su) rid lg" "0 < limit" "n \<le> length lg" "length lg - n < MAX_RECOVERY_PAGES * limit" "tracks rid lg n c"
    "attached (host c) = (Some room, session, False, False, req, pr)" "req \<le> int (length lg)"
    "\<And>m. m \<le> length lg \<Longrightarrow> gateway (int m) = Inr (log_page lg limit (int m))"
  shows "\<exists>c'. recoverLoop su gateway c = (Inr (), c') \<and> tracks rid lg (length lg) c' \<and>
       attached (host c') = attached (host c) \<and>
       st_status (hy_state (host c')) = fold status_after (drop n lg) (st_status (hy_state (host c)))"
proof -
  have "l_lastSeq (hy_ledger (host c)) = int n" using assms(3,5) by (simp add: tracks_def ledger_of_def)
  then show ?thesis using recover_all_reaches_end [OF assms(1,2,8,3,4,5,6,7)] by (simp add: recoverLoop_def act_bind_app)
qed

end
