(* ===== verification/Event_Feed.thy ===== *)
theory Event_Feed
  imports Reachable_Rooms Delivery_Access Session_Recovery
begin

text \<open>
  The page of events as it crosses the network: the handler of \<^verbatim>\<open>GET /v1/rooms/:roomId/events\<close>
  (\<^verbatim>\<open>apps/server/src/routes.ts\<close>) and \<^verbatim>\<open>FetchSessionGateway.getRoomEvents\<close>
  (\<^verbatim>\<open>apps/web/src/lib/session/session-gateway.ts\<close>), and the composition of the two with the
  stored ledger on one side and the browser's recovery on the other.
\<close>

section \<open>The handler\<close>

text \<open>The services a deployment was built with.\<close>

record deployment =
  dp_sessions :: bool
  dp_realtime :: bool
  dp_lifecycle :: bool

text \<open>The query: whether it has any other key, and what \<^verbatim>\<open>Number\<close> makes of the two it may have.\<close>

record page_query =
  pq_other :: bool
  pq_after :: "js_number option"
  pq_limit :: "js_number option"

datatype page_reply = PageReply RoomEventPage | ErrorReply nat string

definition encodeRoomEventPage :: "(RoomEventPage \<Rightarrow> bool) \<Rightarrow> RoomEventPage \<Rightarrow> failure + RoomEventPage" where
  "encodeRoomEventPage valid p = (if valid p then Inr p else Inl (Failure ''INVALID_ROOM_EVENT_PAGE''))"

text \<open>After the events were read: authorization again, and the reply.\<close>

definition send_page ::
  "access_world \<Rightarrow> (RoomEventPage \<Rightarrow> bool) \<Rightarrow> string \<Rightarrow> string \<Rightarrow> string \<Rightarrow> int \<Rightarrow> int \<Rightarrow> envelope list \<Rightarrow> db \<Rightarrow> failure + page_reply" where
  "send_page x valid sid actor rid afterSeq limit found d =
     rbind (reauthorize x sid rid d) (\<lambda>final. case final of
       Refused _ \<Rightarrow> Inr (ErrorReply 404 ''ROOM_NOT_FOUND'')
     | Granted _ again \<Rightarrow>
         if again \<noteq> actor then Inr (ErrorReply 404 ''ROOM_NOT_FOUND'')
         else map_sum id PageReply (encodeRoomEventPage valid (event_page found afterSeq limit)))"

text \<open>\<open>ds i\<close> is the database at the \<open>i\<close>-th query of the handler; an exception is left to Fastify.\<close>

definition events_route ::
  "deployment \<Rightarrow> world \<Rightarrow> access_world \<Rightarrow> (RoomEventPage \<Rightarrow> bool) \<Rightarrow> string option \<Rightarrow> string \<Rightarrow> page_query \<Rightarrow> (nat \<Rightarrow> db) \<Rightarrow> failure + page_reply" where
  "events_route dp w x valid token rid q ds =
     rbind (if dp_sessions dp then session_get x token (ds 0) else Inr None) (\<lambda>identity.
     if identity = None then Inr (ErrorReply 401 ''AUTH_REQUIRED'')
     else if \<not> dp_realtime dp then Inr (ErrorReply 503 ''ROOM_SERVICE_UNAVAILABLE'')
     else rbind (authenticateToken x token rid (ds 1)) (\<lambda>auth.
       case (roomEventHttpAccessFailure auth, auth) of
         (Some (http, c), _) \<Rightarrow> Inr (ErrorReply http c)
       | (None, TokenRefused _) \<Rightarrow> Inr (ErrorReply 404 ''ROOM_NOT_FOUND'')
       | (None, TokenGranted sid _ actor) \<Rightarrow>
           if \<not> dp_lifecycle dp then Inr (ErrorReply 503 ''ROOM_SERVICE_UNAVAILABLE'')
           else if pq_other q then Inr (ErrorReply 400 ''INVALID_QUERY'')
           else
             let afterSeq = orelse (pq_after q) (Whole 0); limit = orelse (pq_limit q) (Whole 500) in
             if \<not> safe_natural afterSeq \<or> \<not> safe_natural limit \<or> whole limit < 1 \<or> whole limit > 500
             then Inr (ErrorReply 400 ''INVALID_QUERY'')
             else rbind (fst (eventsAfter w rid (whole afterSeq) (whole limit) (ds 2))) (\<lambda>found.
               send_page x valid sid actor rid (whole afterSeq) (whole limit) found (ds 3))))"

section \<open>The gateway\<close>

text \<open>A body as \<^verbatim>\<open>response.json()\<close> reads it: an error object, a page, or anything else.\<close>

datatype http_body = ErrorBody string | PageBody RoomEventPage | OtherBody

datatype http_response = Unanswered | Response nat http_body

record http_contract =
  hc_page :: "RoomEventPage \<Rightarrow> bool"
  hc_code :: "string \<Rightarrow> bool"

definition legalError :: "http_contract \<Rightarrow> (nat \<Rightarrow> string list) \<Rightarrow> nat \<Rightarrow> http_body \<Rightarrow> client_error" where
  "legalError hc allowlist http body = (case body of
     ErrorBody c \<Rightarrow> if hc_code hc c \<and> c \<in> set (allowlist http) then GatewayError c else GatewayError ''SESSION_RESPONSE_INVALID''
   | _ \<Rightarrow> GatewayError ''SESSION_RESPONSE_INVALID'')"

definition page_allowlist :: "nat \<Rightarrow> string list" where
  "page_allowlist http =
     (if http = 400 then [''INVALID_QUERY''] else if http = 401 then [''AUTH_REQUIRED'']
      else if http = 404 then [''ROOM_NOT_FOUND''] else if http = 503 then [''ROOM_SERVICE_UNAVAILABLE''] else [])"

definition getRoomEvents :: "http_contract \<Rightarrow> http_response \<Rightarrow> client_error + RoomEventPage" where
  "getRoomEvents hc response = (case response of
     Unanswered \<Rightarrow> Inl (GatewayError ''SESSION_NETWORK_FAILURE'')
   | Response http body \<Rightarrow>
       if http \<noteq> 200 then Inl (legalError hc page_allowlist http body)
       else (case body of
           PageBody p \<Rightarrow> if hc_page hc p then Inr p else Inl (GatewayError ''SESSION_RESPONSE_INVALID'')
         | _ \<Rightarrow> Inl (GatewayError ''SESSION_RESPONSE_INVALID'')))"

text \<open>What arrives of a reply; Fastify answers an exception with a 500 whose body is no error of the contract.\<close>

fun delivered :: "failure + page_reply \<Rightarrow> http_response" where
  "delivered (Inr (PageReply p)) = Response 200 (PageBody p)"
| "delivered (Inr (ErrorReply http c)) = Response http (ErrorBody c)"
| "delivered (Inl _) = Response 500 OtherBody"

section \<open>What the route guards\<close>

lemma send_page_PageReply:
  assumes "send_page x valid sid actor rid a n found d = Inr (PageReply p)"
  shows "\<exists>q. reauthorize x sid rid d = Inr (Granted q actor)" "p = event_page found a n" "valid p"
  using assms by (auto simp: send_page_def encodeRoomEventPage_def rbind_def split: sum.splits DeliveryAuthorization.splits if_splits)

lemma events_route_PageReply:
  assumes "events_route dp w x valid token rid q ds = Inr (PageReply p)"
  obtains sid role actor a n found where "authenticateToken x token rid (ds 1) = Inr (TokenGranted sid role actor)"
    "safe_natural (orelse (pq_after q) (Whole 0))" "a = whole (orelse (pq_after q) (Whole 0))" "n = whole (orelse (pq_limit q) (Whole 500))"
    "safe_natural (orelse (pq_limit q) (Whole 500))" "1 \<le> n" "n \<le> 500" "fst (eventsAfter w rid a n (ds 2)) = Inr found"
    "send_page x valid sid actor rid a n found (ds 3) = Inr (PageReply p)"
  using assms unfolding events_route_def rbind_def Let_def
  by (auto simp: roomEventHttpAccessFailure_def split: sum.splits if_splits TokenAuthorization.splits option.splits)

text \<open>The error replies of the route, all of which the gateway's allowlist names.\<close>

definition listed :: "page_reply \<Rightarrow> bool" where
  "listed r \<longleftrightarrow> (case r of PageReply _ \<Rightarrow> True | ErrorReply http c \<Rightarrow> http \<noteq> 200 \<and> c \<in> set (page_allowlist http))"

lemma send_page_listed: "send_page x valid sid actor rid a n found d = Inr r \<Longrightarrow> listed r"
  by (auto simp: send_page_def rbind_def listed_def page_allowlist_def encodeRoomEventPage_def
      split: sum.splits DeliveryAuthorization.splits if_splits)

lemma events_route_listed: "events_route dp w x valid token rid q ds = Inr r \<Longrightarrow> listed r"
  unfolding events_route_def rbind_def Let_def
  by (auto simp: listed_def page_allowlist_def roomEventHttpAccessFailure_def
      split: sum.splits if_splits TokenAuthorization.splits option.splits dest!: send_page_listed)

end
