(* ===== verification/Shared_Log.thy ===== *)
theory Shared_Log
  imports Event_Feed
begin

text \<open>
  The two ends of the room together: a browser that opens a room against the server's
  event route ends with the server's ledger and the server's room status.
\<close>

section \<open>The stored log can be followed\<close>

definition opening_schema :: "contracts \<Rightarrow> bool" where
  "opening_schema k \<longleftrightarrow> (\<forall>p. core_schema k ''room.opened'' p \<longrightarrow>
     (\<exists>s t. jmember p ''startsAt'' = Some (JTime s) \<and> jmember p ''closesAt'' = Some (JTime t)))"

lemma accepted_timed: "opening_schema k \<Longrightarrow> event_accepted k e \<Longrightarrow> opening_timed e"
  by (auto simp: opening_schema_def opening_timed_def event_accepted_def coreTypes_def)

lemma log_served:
  assumes inv: "ledger_inv d" and room: "rid \<in> r_id ` set (rooms d)"
    and rd: "list_all (readable w) (ledger_log d rid)" and ac: "list_all (event_accepted k) (ledger_log d rid)" and op: "opening_schema k"
  shows "served k rid (ledger_log d rid)"
proof -
  let ?lg = "ledger_log d rid"
  have num: "numbered ?lg" using ledger_log_numbered [OF inv room] by (simp add: numbered_def)
  have "distinct (map e_id (room_events d rid))" using ledger_invD(3) [OF inv] by (simp add: room_events_def distinct_map_filter)
  then have ids: "distinct (map eventId ?lg)"
    by (auto simp: room_events_log [OF inv] event_row_of_def comp_def distinct_map inj_on_def)
  have rid: "roomId e = rid" if "e \<in> set ?lg" for e
  proof -
    have "canonical (roomId e)" using rd that by (auto simp: list_all_iff readable_def canonical_envelope_def)
    moreover have "pg_uuid (roomId e) = rid" using that unfolding ledger_log_filter [OF inv, symmetric] by simp
    ultimately show ?thesis by (simp add: canonical_def)
  qed
  have len: "int (length ?lg) \<le> max_safe_integer"
  proof (cases "?lg = []")
    case False
    then have "roomSeq (last ?lg) = int (length ?lg)" using numbered_nth [OF num, of "length ?lg - 1"] by (simp add: last_conv_nth of_nat_diff Suc_le_eq)
    moreover have "readable w (last ?lg)" using rd False by (simp add: list_all_iff)
    ultimately show ?thesis by (simp add: readable_def)
  qed (simp add: max_safe_integer_def)
  show ?thesis using num ids rid len ac accepted_timed [OF op] by (auto simp: served_def feedable_def list_all_iff)
qed

section \<open>Both ends agree on the status\<close>

lemma lc_step_status: "lc_step st t = Some st' \<Longrightarrow> st' = orelse (statusFromEvent t) st"
  by (auto simp: lc_step.simps statusFromEvent_def split: if_splits)

lemma status_fold:
  "lc_run st (map ev_type es) = Some st' \<Longrightarrow> fold status_after es st = st'"
proof (induction es arbitrary: st)
  case (Cons e es)
  then obtain s where s: "lc_step st (ev_type e) = Some s" "lc_run s (map ev_type es) = Some st'" by (auto split: option.splits)
  have "status_after e st = s" using lc_step_status [OF s(1)] by (simp add: status_after_def)
  then show ?case using Cons.IH [OF s(2)] by simp
qed simp

lemma status_fold_again:
  assumes "lc_run st (map ev_type es) = Some st'"
  shows "fold status_after es st' = st'"
proof -
  have "fold status_after es a = fold status_after es b \<or> (fold status_after es a = a \<and> fold status_after es b = b)" for a b
  proof (induction es arbitrary: a b)
    case (Cons e es)
    show ?case using Cons.IH [of "status_after e a" "status_after e b"]
      by (cases "statusFromEvent (ev_type e)") (auto simp: status_after_def)
  qed simp
  from this [of st st'] show ?thesis using status_fold [OF assms] by auto
qed

lemma stored_status:
  assumes "room_inv d" "r \<in> set (rooms d)"
  shows "fold status_after (ledger_log d (r_id r)) (r_status r) = r_status r"
proof -
  have inv: "ledger_inv d" using assms(1) by (simp add: room_inv_def)
  have "lc_run Scheduled (map e_type (room_events d (r_id r))) = Some (r_status r)" using assms by (simp add: room_inv_def status_inv_def)
  then show ?thesis by (intro status_fold_again) (simp add: room_events_log [OF inv] event_row_of_def comp_def)
qed

section \<open>Opening a session\<close>

lemma construct_attached:
  assumes "construct su op = Inr c"
  shows "tracks (rd_roomId (op_room op)) lg 0 c"
    "attached (host c) = (Some (op_room op), Some (op_session op), False, False, 0, new_projections (rd_roomId (op_room op)) (op_session op))"
    "st_status (hy_state (host c)) = rd_status (op_room op)"
  using assms
  by (auto simp: construct_def Let_def mergeAgentCurrent_def on_agent_def act_bind_app act_then_app require_app lift_result_def
      room_id_of_def gethost_def gets_def raise_def ret_def
      tracks_def ledger_of_def numbered_def blank_state_def new_ledger_def new_socket_def jm_get_def attached_def createSessionState_def
      split: option.splits sum.splits prod.splits if_splits ServerFrame.splits)

text \<open>Starting the loads of the projections succeeds and touches neither the ledger nor the visible state.\<close>

definition visible :: "hydrated client \<Rightarrow> EventLedger \<times> SessionState" where
  "visible c = (hy_ledger (host c), hy_state (host c))"

lemma refresh_runs:
  assumes "py_role (hy_projections (host c)) = Some r" "key \<in> set (role_keys r)"
  shows "\<exists>c'. refreshProjectionLatest su key c = (Inr (), c') \<and> visible c' = visible c \<and> py_role (hy_projections (host c')) = Some r"
  using assms
  by (intro exI [of _ "snd (refreshProjectionLatest su key c)"])
     (auto simp: refreshProjectionLatest_def projectionTask_def markLoading_def slot_def assertAllowed_def set_slot_def notify_def
       on_projections_def upd_host_def gethost_def gets_def modify_def act_bind_app act_then_app require_app ret_def visible_def)

lemma refresh_each_runs:
  "py_role (hy_projections (host c)) = Some r \<Longrightarrow> set keys \<subseteq> set (role_keys r) \<Longrightarrow>
     \<exists>c'. refresh_each su keys c = (Inr (), c') \<and> visible c' = visible c"
proof (induction keys arbitrary: c)
  case (Cons key keys)
  then obtain c1 where "refreshProjectionLatest su key c = (Inr (), c1)" "visible c1 = visible c" "py_role (hy_projections (host c1)) = Some r"
    using refresh_runs [of c r key su] by auto
  then show ?case using Cons.IH [of c1] Cons.prems(2) by (auto simp: act_then_app)
qed (simp add: ret_def)

lemma create_reaches_end:
  assumes c0: "construct su op = Inr c0" and sv: "served (su_contracts su) (rd_roomId (op_room op)) lg"
    and lim: "0 < limit" "length lg < MAX_RECOVERY_PAGES * limit"
    and gw: "\<And>n. n \<le> length lg \<Longrightarrow> gateway (int n) = Inr (log_page lg limit (int n))"
  shows "\<exists>c. create_session su gateway op = Inr c \<and> ledger_events (hy_ledger (host c)) = lg \<and>
     st_status (hy_state (host c)) = fold status_after lg (rd_status (op_room op))"
proof -
  let ?rid = "rd_roomId (op_room op)"
  note at = construct_attached(1) [OF c0, of lg] construct_attached(2,3) [OF c0]
  obtain c1 where c1: "recoverLoop su gateway c0 = (Inr (), c1)" "tracks ?rid lg (length lg) c1" "attached (host c1) = attached (host c0)"
    "st_status (hy_state (host c1)) = fold status_after lg (rd_status (op_room op))"
    using recoverLoop_reaches_end [OF sv lim(1) _ _ at(1) at(2) _ gw] lim(2) at(3) by auto
  let ?c2 = "c1\<lparr>host := (host c1)\<lparr>hy_required := l_lastSeq (hy_ledger (host c1))\<rparr>\<rparr>"
  have pr: "hy_room (host c1) = Some (op_room op)" "py_role (hy_projections (host c1)) = Some (session_role (op_session op))"
    "py_allowed (hy_projections (host c1)) = role_keys (session_role (op_session op))"
    using c1(3) at(2) by (simp_all add: attached_def new_projections_def Let_def)
  obtain c3 where "refreshProjections su ?c2 = (Inr (), c3)" "visible c3 = visible c1"
  proof -
    have "\<exists>c3. refresh_each su (role_keys (session_role (op_session op))) ?c2 = (Inr (), c3) \<and> visible c3 = visible c1"
      using refresh_each_runs [of ?c2 "session_role (op_session op)"] pr(2) by (simp add: visible_def)
    then show ?thesis using that pr
      by (cases "su_hasLatest su") (auto simp: refreshProjections_def gethost_def gets_def act_bind_app ret_def visible_def)
  qed
  then have "create_session su gateway op = Inr c3" "visible c3 = visible c1"
    using c0 c1(1) by (simp_all add: create_session_def act_then_app upd_host_def modify_def)
  moreover have "ledger_events (hy_ledger (host c1)) = lg" using c1(2) by (simp add: tracks_def ledger_events_of)
  ultimately show ?thesis using c1(4) by (auto simp: visible_def)
qed

section \<open>Against the server\<close>

text \<open>What the browser asks for, and what it gets of a room state that stays as it is.\<close>

definition page_limit :: "HydratedSessionOptions \<Rightarrow> js_number" where
  "page_limit op = orelse (op_pageLimit op) (Whole 500)"

definition server_gateway ::
  "deployment \<Rightarrow> world \<Rightarrow> access_world \<Rightarrow> http_contract \<Rightarrow> string option \<Rightarrow> HydratedSessionOptions \<Rightarrow> db \<Rightarrow> int \<Rightarrow> client_error + RoomEventPage" where
  "server_gateway dp w x hc token op d a =
     getRoomEvents hc (delivered (events_route dp w x (hc_page hc) token (rd_roomId (op_room op))
       \<lparr>pq_other = False, pq_after = Some (Whole a), pq_limit = Some (page_limit op)\<rparr> (\<lambda>_. d)))"

text \<open>A session the server admits to the room.\<close>

definition admitted :: "access_world \<Rightarrow> string option \<Rightarrow> string \<Rightarrow> db \<Rightarrow> bool" where
  "admitted x token rid d \<longleftrightarrow> (\<exists>identity sid role actor role'. session_get x token d = Inr (Some identity) \<and>
     authenticateToken x token rid d = Inr (TokenGranted sid role actor) \<and> reauthorize x sid rid d = Inr (Granted role' actor))"

lemma gateway_serves:
  assumes inv: "ledger_inv d" and room: "find_room d rid = Some r" "r_id r = rid" "uuid_ok rid" and ad: "admitted x token rid d"
    and dp: "dp_sessions dp" "dp_realtime dp" "dp_lifecycle dp"
    and op: "rd_roomId (op_room op) = rid" "page_limit op = Whole l" "1 \<le> l" "l \<le> 500"
    and rd: "list_all (readable w) (ledger_log d rid)" and pages: "\<And>n l. hc_page hc (log_page (ledger_log d rid) l (int n))"
    and n: "int n \<le> max_safe_integer"
  shows "server_gateway dp w x hc token op d (int n) = Inr (log_page (ledger_log d rid) (nat l) (int n))"
proof -
  have "list_all (readable w) (page d rid n (nat l))" using rd by (auto simp: list_all_iff page_def dest!: in_set_takeD in_set_dropD)
  then have "eventsAfter w rid (int n) l d = (Inr (page d rid n (nat l)), d)"
    using eventsAfter_page [OF inv room(1,3) n op(3,4)] room(2) by simp
  moreover have "\<bar>l\<bar> \<le> max_safe_integer" using op(3,4) by (simp add: max_safe_integer_def)
  ultimately show ?thesis
    using ad dp op n pages [of "nat l" n]
    by (auto simp: server_gateway_def events_route_def admitted_def roomEventHttpAccessFailure_def send_page_def encodeRoomEventPage_def
        getRoomEvents_def log_page_def page_def)
qed

lemma construct_limit:
  assumes "construct su op = Inr c"
  obtains l where "page_limit op = Whole l" "1 \<le> l" "l \<le> 500"
  using assms by (cases "page_limit op") (auto simp: construct_def options_error_def page_limit_def Let_def split: option.splits if_splits)

lemma session_opens_at_server:
  assumes inv: "room_inv d" and room: "find_room d rid = Some r" "r_id r = rid" "uuid_ok rid" and ad: "admitted x token rid d"
    and dp: "dp_sessions dp" "dp_realtime dp" "dp_lifecycle dp"
    and op: "construct su op = Inr c0" "rd_roomId (op_room op) = rid" "rd_status (op_room op) = r_status r"
    and rd: "list_all (readable w) (ledger_log d rid)" "list_all (event_accepted (su_contracts su)) (ledger_log d rid)"
    and sch: "opening_schema (su_contracts su)" and pages: "\<And>n l. hc_page hc (log_page (ledger_log d rid) l (int n))"
    and len: "int (length (ledger_log d rid)) < 1000 * whole (page_limit op)"
  shows "\<exists>c. create_session su (server_gateway dp w x hc token op d) op = Inr c \<and>
     ledger_events (hy_ledger (host c)) = ledger_log d rid \<and> st_status (hy_state (host c)) = r_status r"
proof -
  have li: "ledger_inv d" using inv by (simp add: room_inv_def)
  have r: "r \<in> set (rooms d)" using find_room_SomeD [OF room(1)] by blast
  then have sv: "served (su_contracts su) (rd_roomId (op_room op)) (ledger_log d rid)"
    using log_served [OF li _ rd sch] room(2) op(2) by force
  obtain l where l: "page_limit op = Whole l" "1 \<le> l" "l \<le> 500" by (rule construct_limit [OF op(1)])
  have lim: "0 < nat l" "length (ledger_log d rid) < MAX_RECOVERY_PAGES * nat l" using l len by (simp_all add: MAX_RECOVERY_PAGES_def nat_less_iff)
  have gw: "server_gateway dp w x hc token op d (int n) = Inr (log_page (ledger_log d rid) (nat l) (int n))"
    if "n \<le> length (ledger_log d rid)" for n
    using gateway_serves [OF li room ad dp op(2) l rd(1) pages] that sv by (simp add: served_def)
  show ?thesis using create_reaches_end [OF op(1) sv lim gw] stored_status [OF inv r] room(2) op(3) by auto
qed

end
