(* ===== verification/Demo_Client.thy ===== *)
theory Demo_Client
  imports Demo_School Shared_Log
begin

text \<open>
  A student of the concrete school in the browser: a seat of the opened room is taken, and
  a session is opened for it.
\<close>

section \<open>A seat is taken\<close>

definition demo_session :: session_row where
  "demo_session = \<lparr>s_id = demo_id CHR ''0'', s_token_hash = [116], s_kind = StudentKind, s_teacher = None,
     s_member = Some (demo_id CHR ''6''), s_expires = 28801000, s_revoked = None, s_created = 1000\<rparr>"

definition joined_db :: db where
  "joined_db = open_db\<lparr>sessions := [demo_session]\<rparr>"

definition demo_seats :: "member_row list" where
  "demo_seats = map (\<lambda>(i, m, a, c). \<lparr>m_id = m, m_actor = a, m_room = demo_id CHR ''0'', m_seat = i + 1,
        m_pseudonym = Room_Admission.STUDENT_PSEUDONYMS ! i, m_code_hash = demo_hash c\<rparr>)
       [(0, demo_id CHR ''2'', demo_id CHR ''3'', ''SA''), (1, demo_id CHR ''4'', demo_id CHR ''5'', ''SB''), (2, demo_id CHR ''6'', demo_id CHR ''7'', ''SC''), (3, demo_id CHR ''8'', demo_id CHR ''9'', ''SD'')]"

lemma open_db_members: "members open_db = demo_seats"
  by (simp add: open_db_def demo_db_def demo_seats_def)

lemma demo_ids_sorted: "sorted (map demo_id ''2468'')"
  by code_simp

lemma demo_seats_locked: "lockMembers (demo_id CHR ''0'') open_db = demo_seats"
proof -
  have "sorted (map m_id demo_seats)" using demo_ids_sorted by (simp add: demo_seats_def)
  moreover have "filter (\<lambda>m. m_room m = demo_id CHR ''0'') demo_seats = demo_seats" by (simp add: demo_seats_def)
  ultimately show ?thesis by (simp add: lockMembers_def open_db_members sort_key_id_if_sorted)
qed

lemma demo_verify: "verify demo_hmac demo_hasher s stored \<longleftrightarrow> stored = demo_hash (normalize_code s)"
  using verify_iff_candidate [OF demo_hasher_ok demo_candidates] by simp

lemma demo_seat_match:
  "seat_matches demo_hmac demo_hasher ''SC'' demo_seats = [demo_seats ! 2]"
  using demo_hash_distinct by (auto simp: seat_matches_def demo_verify demo_normal demo_seats_def Room_Admission.STUDENT_PSEUDONYMS_def)

lemma demo_joins_open: "snd (joinRoom demo_aw demo_hasher VNull open_db) = joined_db"
proof -
  have l: "locate_rooms [demo_hash ''ROOMAA''] open_db = [demo_id CHR ''0'']"
    by (simp add: locate_rooms_def open_db_room) (simp add: open_row_def new_room_row_def)
  have f: "find (\<lambda>r. r_id r = demo_id CHR ''0'' \<and> r_code_hash r = demo_hash ''ROOMAA'') (rooms open_db) = Some open_row"
    by (simp add: open_db_room) (simp add: open_row_def new_room_row_def)
  have s: "sessions open_db = []" by (simp add: open_db_def demo_db_def policy_db_def empty_db_def)
  have n: "length demo_seats = 4" "length Room_Admission.STUDENT_PSEUDONYMS = 4" "m_id (demo_seats ! 2) = demo_id CHR ''6''"
    by (simp_all add: demo_seats_def Room_Admission.STUDENT_PSEUDONYMS_def)
  have j: "joinRoom demo_aw demo_hasher VNull open_db = inTransaction (joinRoom_in demo_aw demo_hasher [demo_hash ''ROOMAA''] ''SC'') open_db"
    by (simp add: joinRoom_def demo_aw_def demo_candidates demo_normal)
  have m: "aw_hmac demo_aw = demo_hmac" by (simp add: demo_aw_def)
  show ?thesis unfolding j joinRoom_in_def
    by (simp add: inTransaction_def act_bind_app l f s m demo_pg demo_seats_locked demo_seat_match join_decide_def n open_db_room(3)
        admit_def act_then_app require_app statement_def revoke_sessions_def insert_session_def randomUUID_def)
       (simp add: demo_aw_def demo_pg SESSION_DURATION_MS_def joined_db_def demo_session_def act_then_app require_app)
qed

lemma joined_reachable: "reachable joined_db"
  using reachable.step [OF demo_open_reachable room_step.join [of open_db demo_aw demo_hasher VNull]] by (simp add: demo_joins_open)

lemma joined_db_frame:
  "rooms joined_db = [open_row]" "members joined_db = demo_seats" "deletions joined_db = []" "outbox joined_db = outbox open_db"
  "find_room joined_db (demo_id CHR ''0'') = Some open_row" "ledger_log joined_db (demo_id CHR ''0'') = [opened_event]"
  using open_db_log
  by (simp_all add: joined_db_def open_db_room open_db_members find_room_def demo_pg ledger_log_def)
     (simp add: open_db_def demo_db_def policy_db_def empty_db_def)

definition demo_access :: access_world where
  "demo_access = \<lparr>xw_now = 3000, xw_tokenHash = map of_char, xw_uuid = Some, xw_session_ok = (\<lambda>_ _ _. True)\<rparr>"

lemma joined_seat: "session_members demo_session joined_db = [Some (demo_seats ! 2)]"
  by (simp add: session_members_def joined_db_frame) (simp add: demo_session_def demo_seats_def)

lemma joined_rows:
  "P demo_session \<Longrightarrow> room_rows demo_access P (demo_id CHR ''0'') joined_db = [(demo_session, Some (demo_seats ! 2), open_row)]"
proof -
  assume p: "P demo_session"
  have f: "m_room (demo_seats ! 2) = demo_id CHR ''0''" "s_kind demo_session = StudentKind" "live_session demo_access demo_session"
    "sessions joined_db = [demo_session]"
    by (simp_all add: demo_seats_def demo_session_def live_session_def demo_access_def joined_db_def)
  show ?thesis using p by (simp add: room_rows_def joined_db_frame(1) joined_seat f open_db_room(2))
qed

lemma pseudonym_text: "Room_Admission.STUDENT_PSEUDONYMS ! 2 \<noteq> []" "demo_id c \<noteq> []"
  by (simp_all add: Room_Admission.STUDENT_PSEUDONYMS_def demo_id_def)

lemma joined_grant:
  "row_grant demo_access (demo_id CHR ''0'') (demo_session, Some (demo_seats ! 2), open_row) =
     Inr (Granted (Student (demo_id CHR ''0'') (demo_id CHR ''6'') (demo_id CHR ''7'')) (demo_id CHR ''7''))"
  using pseudonym_text
  by (simp add: row_grant_def demo_session_def demo_seats_def open_row_def new_room_row_def demo_pg student_principal_def demo_access_def Let_def)

lemma joined_session:
  "authenticateToken demo_access (Some ''t'') (demo_id CHR ''0'') joined_db =
     Inr (TokenGranted (demo_id CHR ''0'') (Student (demo_id CHR ''0'') (demo_id CHR ''6'') (demo_id CHR ''7'')) (demo_id CHR ''7''))"
  "reauthorize demo_access (demo_id CHR ''0'') (demo_id CHR ''0'') joined_db =
     Inr (Granted (Student (demo_id CHR ''0'') (demo_id CHR ''6'') (demo_id CHR ''7'')) (demo_id CHR ''7''))"
proof -
  have f: "\<not> deletion_active joined_db (r_id open_row)" "xw_uuid demo_access = Some" "s_id demo_session = demo_id CHR ''0''"
    "s_token_hash demo_session = xw_tokenHash demo_access ''t''" "live_session demo_access demo_session" "sessions joined_db = [demo_session]"
    by (simp add: deletion_active_def joined_db_frame(3), simp_all add: demo_access_def demo_session_def live_session_def joined_db_def)
  show "authenticateToken demo_access (Some ''t'') (demo_id CHR ''0'') joined_db =
     Inr (TokenGranted (demo_id CHR ''0'') (Student (demo_id CHR ''0'') (demo_id CHR ''6'') (demo_id CHR ''7'')) (demo_id CHR ''7''))"
    by (simp add: authenticateToken_def authenticate_def unusable_def joined_rows joined_grant f)
  show "reauthorize demo_access (demo_id CHR ''0'') (demo_id CHR ''0'') joined_db =
     Inr (Granted (Student (demo_id CHR ''0'') (demo_id CHR ''6'') (demo_id CHR ''7'')) (demo_id CHR ''7''))"
    by (simp add: reauthorize_def joined_rows joined_grant f)
qed

lemma session_facts: "s_kind demo_session = StudentKind"
  by (simp add: demo_session_def)

lemma joined_admitted: "admitted demo_access (Some ''t'') (demo_id CHR ''0'') joined_db"
proof -
  have "token_sessions demo_access ''t'' joined_db = [demo_session]"
    by (simp add: token_sessions_def joined_db_def demo_session_def live_session_def demo_access_def)
  then have "session_get demo_access (Some ''t'') joined_db = Inr (Some (Student (demo_id CHR ''0'') (demo_id CHR ''6'') (demo_id CHR ''7'')))"
    using pseudonym_text
    by (simp add: session_get_def unusable_def joined_seat joined_db_frame(1) open_db_room(2) session_facts)
       (simp add: demo_seats_def open_row_def new_room_row_def demo_pg student_principal_def demo_access_def Let_def)
  then show ?thesis using joined_session by (auto simp: admitted_def)
qed

section \<open>A session in the browser\<close>

definition demo_contracts :: contracts where
  "demo_contracts = \<lparr>server_schema = (\<lambda>_. True), envelope_schema = (\<lambda>_. True),
     core_schema = (\<lambda>t p. t = ''room.opened'' \<longrightarrow>
       (case (jmember p ''startsAt'', jmember p ''closesAt'') of (Some (JTime _), Some (JTime _)) \<Rightarrow> True | _ \<Rightarrow> False)),
     command_schema = (\<lambda>_. True), client_schema = (\<lambda>_. True)\<rparr>"

definition demo_su :: surroundings where
  "demo_su = \<lparr>su_contracts = demo_contracts,
     su_schemas = \<lparr>echo_schema = (\<lambda>_. True), teacher_echo_schema = (\<lambda>_. True), student_echo_schema = (\<lambda>_. True), trace_schema = (\<lambda>_. True)\<rparr>,
     su_browser = \<lparr>sock_open = (\<lambda>_. True), send_throws = (\<lambda>_ _. False), close_throws = (\<lambda>_. False)\<rparr>,
     su_now = 3000, su_hasAgent = True, su_hasLatest = True, su_hasPatches = True, su_hasTimeline = True\<rparr>"

definition demo_nova :: nova_view where
  "demo_nova = \<lparr>nv_actorId = demo_id CHR ''1'', nv_kind = ''agent'', nv_role = ''socratic_facilitator'', nv_name = ''Nova Agent''\<rparr>"

definition demo_details :: RoomDetails where
  "demo_details = \<lparr>rd_roomId = demo_id CHR ''0'', rd_status = Open, rd_startsAt = Some (At 2000), rd_closesAt = Some (At 2702000),
     rd_participants = map (\<lambda>(a, i). \<lparr>pt_actorId = demo_id a, pt_pseudonym = STUDENT_PSEUDONYMS ! i, pt_kind = ''human'', pt_role = ''student''\<rparr>)
       [(CHR ''3'', 0), (CHR ''5'', 1), (CHR ''7'', 2), (CHR ''9'', 3)],
     rd_nova = demo_nova\<rparr>"

definition demo_op :: HydratedSessionOptions where
  "demo_op = \<lparr>op_session = StudentSession (demo_id CHR ''7'') (demo_id CHR ''0'') (STUDENT_PSEUDONYMS ! 2) demo_nova, op_room = demo_details,
     op_pageLimit = None, op_retryDelays = None, op_agentCurrent = None, op_agentUnavailable = False, op_agentTimeout = None, op_clientId = ''c''\<rparr>"

lemma demo_roster: "rosterIntegrity demo_details"
  unfolding rosterIntegrity_def
  by (simp add: demo_details_def demo_nova_def STUDENT_PSEUDONYMS_def)

definition demo_client :: "hydrated client" where
  "demo_client = \<lparr>sock = new_socket (demo_id CHR ''0'') [] None ''c'', wire = [], next_socket = 0, host = blank_state demo_op\<rparr>"

lemma demo_constructs: "construct demo_su demo_op = Inr demo_client"
proof -
  have "options_error demo_op = None"
    using demo_roster
    by (simp add: options_error_def Let_def demo_op_def assertRoomRosterIntegrity_def assertStudentRoomIdentity_def max_safe_integer_def)
       (simp add: demo_details_def)
  then show ?thesis by (simp add: construct_def demo_client_def) (simp add: demo_op_def demo_details_def blank_state_def)
qed

lemma demo_schema: "opening_schema demo_contracts"
  by (auto simp: opening_schema_def demo_contracts_def split: option.splits json.splits)

lemma demo_accepts: "event_accepted demo_contracts opened_event"
  by (simp add: event_accepted_def demo_contracts_def opened_event_def jmember_def)

lemma demo_feedable: "feedable demo_contracts (demo_id CHR ''0'') [opened_event]"
  using demo_accepts by (simp add: feedable_def numbered_def opened_event_def)

end
