(* ===== verification/Session_Properties.thy ===== *)
theory Session_Properties
  imports Demo_Client
begin

text \<open>
  What the browser's session promises, alone and together with the server: the properties
  of \<^verbatim>\<open>HydratedSessionState\<close>, its event ledger, its socket and the event route, each with an
  application to the concrete school.
\<close>

section \<open>Both ends of a room\<close>

text \<open>
  C2: a session that an admitted user opens on a room of any reachable server state ends its
  first recovery, with exactly the server's committed log of that room in its ledger and
  the server's status of the room, whatever the length of the log and the page size, as
  long as it fits the thousand pages of the recovery. The stored events must be readable,
  the two sides' event schemas agree on them, and the opening event's schema requires its
  two times.
\<close>

theorem session_opens_with_server_log:
  assumes "reachable d" "find_room d rid = Some r" "r_id r = rid" "uuid_ok rid" "admitted x token rid d"
    and "dp_sessions dp" "dp_realtime dp" "dp_lifecycle dp"
    and "construct su op = Inr c0" "rd_roomId (op_room op) = rid" "rd_status (op_room op) = r_status r"
    and "list_all (readable w) (ledger_log d rid)" "list_all (event_accepted (su_contracts su)) (ledger_log d rid)"
    and "opening_schema (su_contracts su)" "\<And>n l. hc_page hc (log_page (ledger_log d rid) l (int n))"
    and "int (length (ledger_log d rid)) < 1000 * whole (page_limit op)"
  shows "\<exists>c. create_session su (server_gateway dp w x hc token op d) op = Inr c \<and>
     ledger_events (hy_ledger (host c)) = ledger_log d rid \<and> st_status (hy_state (host c)) = r_status r"
  using session_opens_at_server [OF _ assms(2-16)] reachable_invs [OF assms(1)] by blast

theorem session_opens_with_server_log_witness:
  "\<exists>c. create_session demo_su (server_gateway \<lparr>dp_sessions = True, dp_realtime = True, dp_lifecycle = True\<rparr> (demo_world CHR ''a'')
       demo_access \<lparr>hc_page = (\<lambda>_. True), hc_code = (\<lambda>_. True)\<rparr> (Some ''t'') demo_op joined_db) demo_op = Inr c \<and>
     ledger_events (hy_ledger (host c)) = [opened_event] \<and> st_status (hy_state (host c)) = Open"
proof -
  have k: "su_contracts demo_su = demo_contracts" "rd_roomId (op_room demo_op) = demo_id CHR ''0''" "rd_status (op_room demo_op) = r_status open_row"
    "page_limit demo_op = Whole 500"
    by (simp_all add: demo_su_def demo_op_def demo_details_def open_db_room(3) page_limit_def)
  show ?thesis
    using session_opens_with_server_log [OF joined_reachable joined_db_frame(5) open_db_room(2) demo_pg(2) joined_admitted _ _ _ demo_constructs k(2,3),
        of "\<lparr>dp_sessions = True, dp_realtime = True, dp_lifecycle = True\<rparr>" "demo_world CHR ''a''" "\<lparr>hc_page = (\<lambda>_. True), hc_code = (\<lambda>_. True)\<rparr>"]
    by (simp add: joined_db_frame(6) open_readable k demo_accepts demo_schema open_db_room(3))
qed

text \<open>
  C4: whatever a session does and whatever reaches it, frames and pages in any order, lost,
  repeated or malformed, requests failing, the socket closing and reopening: as long as
  the events themselves come from the room's log, the ledger shows a prefix of that log
  and the visible cursor is its length.
\<close>

theorem session_shows_prefix:
  assumes "session_reach k rid lg c" "feedable k rid lg"
  shows "\<exists>n \<le> length lg. ledger_events (hy_ledger (host c)) = take n lg \<and> st_lastRoomSeq (hy_state (host c)) = int n"
proof -
  have "follows_log rid lg (host c)" using session_reach_ok [OF assms] by (simp add: client_ok_def session_ok_def)
  then obtain n where "n \<le> length lg" "ledger_of (take n lg) (hy_ledger (host c))" "st_lastRoomSeq (hy_state (host c)) = l_lastSeq (hy_ledger (host c))"
    by (auto simp: follows_log_def)
  then show ?thesis using ledger_events_of by (intro exI [of _ n]) (auto simp: ledger_of_def)
qed

definition fed_client :: "hydrated client" where
  "fed_client = snd (run_op demo_su (ReceiveFrame (Shaped (EventFrame opened_event))) demo_client)"

lemma fed_reach: "session_reach demo_contracts (demo_id CHR ''0'') [opened_event] fed_client"
proof -
  have "session_reach demo_contracts (demo_id CHR ''0'') [opened_event] demo_client"
    by (rule session_reach.constructed [OF demo_constructs]) (simp add: demo_op_def demo_details_def)
  then show ?thesis unfolding fed_client_def
    by (rule session_reach.operated) (simp_all add: demo_su_def op_fed_def frame_fed_def)
qed

theorem session_shows_prefix_witness:
  "\<exists>n. n \<le> length [opened_event] \<and> ledger_events (hy_ledger (host fed_client)) = take n [opened_event] \<and>
     st_lastRoomSeq (hy_state (host fed_client)) = int n"
  using session_shows_prefix [OF fed_reach demo_feedable] by auto

text \<open>
  C19: in every state a session can reach, the histories it keeps are bounded: 500
  acknowledgements, 100 rejections, 500 media states and 100 commands waiting for the
  server.
\<close>

theorem session_histories_bounded:
  assumes "session_reach k rid lg c" "feedable k rid lg"
  shows "length (hy_acks (host c)) \<le> 500 \<and> length (hy_rejects (host c)) \<le> 100 \<and> length (hy_media (host c)) \<le> 500 \<and>
     length (rs_pending (sock c)) \<le> 100"
  using session_reach_ok [OF assms]
  by (auto simp: client_ok_def session_ok_def history_bounds_def client_queue_ok_def queue_ok_def
      MAX_ACK_HISTORY_def MAX_REJECT_HISTORY_def MAX_MEDIA_STATUS_HISTORY_def MAX_PENDING_COMMANDS_def)

theorem session_histories_bounded_witness:
  "length (hy_acks (host fed_client)) \<le> 500 \<and> length (hy_rejects (host fed_client)) \<le> 100 \<and> length (hy_media (host fed_client)) \<le> 500 \<and>
     length (rs_pending (sock fed_client)) \<le> 100"
  by (rule session_histories_bounded [OF fed_reach demo_feedable])

text \<open>
  C18: in every state a session can reach, the analytics projections it holds are those of
  its role: a snapshot lies under a key of the role, under its own key, and belongs to the
  room. Once the authority is cleared nothing is held.
\<close>

theorem session_projections_confined:
  assumes "session_reach k rid lg c" "feedable k rid lg" "held_snapshot key (hy_projections (host c)) = Some s"
  shows "\<exists>r. py_role (hy_projections (host c)) = Some r \<and> key \<in> set (role_keys r) \<and> ps_key s = key \<and>
     ps_roomId s = py_roomId (hy_projections (host c)) \<and> \<not> ps_stale s"
proof -
  let ?p = "hy_projections (host c)"
  have inv: "projections_inv ?p" using session_reach_ok [OF assms(1,2)] by (simp add: client_ok_def session_ok_def)
  obtain sl where sl: "jm_get (py_slots ?p) key = Some sl" "sl_snapshot sl = Some s"
    using assms(3) by (auto simp: held_snapshot_def Option.bind_eq_Some_conv)
  then obtain r where r: "py_role ?p = Some r" using inv by (cases "py_role ?p") (auto simp: projections_inv_def jm_get_def)
  then have "key \<in> set (role_keys r)" using inv sl by (auto simp: projections_inv_def)
  then show ?thesis using r held_snapshot_inv [OF inv assms(3)] by blast
qed

definition demo_map :: ConceptMapSnapshot where
  "demo_map = \<lparr>sn_roomId = demo_id CHR ''0'', sn_key = EchoStudentApproved, sn_epoch = ''e'', sn_algorithm = ''a'', sn_parameters = ''p'',
     sn_version = 1, sn_base = 0, sn_through = 1, sn_replay = False, sn_evidence = ''active'', sn_review = ''unreviewed'',
     sn_display = ''student_approved'', sn_warnings = [], sn_refs = None, sn_nodes = [], sn_edges = [], sn_rest = JNull\<rparr>"

definition map_client :: "hydrated client" where
  "map_client = snd (run_op demo_su (TaskResumes \<lparr>tk_id = 0, tk_key = EchoStudentApproved, tk_generation = 1, tk_work = AwaitLatest None\<rparr>
     (LatestResponse (ConceptSnapshot demo_map))) demo_client)"

lemma map_reach: "session_reach demo_contracts (demo_id CHR ''0'') [opened_event] map_client"
  unfolding map_client_def
  by (rule session_reach.operated [OF session_reach.constructed [OF demo_constructs]])
     (simp_all add: demo_su_def op_fed_def demo_op_def demo_details_def)

lemma map_parsed: "parse_projection (su_schemas demo_su) (ConceptSnapshot demo_map) = Inr (ConceptSnapshot demo_map)"
  by (simp add: parse_projection_def demo_map_def parseStudentEchoSnapshot_def parse_snapshot_def assertEchoSpans_snapshot_def spans_ok_def
      check_def assertEchoSnapshotSemantics_def Let_def demo_su_def)

lemma map_fields: "sn_key demo_map = EchoStudentApproved" "sn_roomId demo_map = demo_id CHR ''0''" "\<not> sn_replay demo_map" "sn_evidence demo_map = ''active''"
  "rd_roomId demo_details = demo_id CHR ''0''"
  by (simp_all add: demo_map_def demo_details_def)

lemma map_held: "held_snapshot EchoStudentApproved (hy_projections (host map_client)) = Some (ConceptSnapshot demo_map)"
  by (simp add: map_fields held_snapshot_def loading_slots_def task_superseded_def task_current_def task_finished_def jm_get_def map_client_def projection_task_resumes_def work_resumes_def replaceSnapshot_def assertAllowed_def map_parsed lift_result_def
      on_projections_def upd_host_def gethost_def act_bind_app act_then_app act_catch_app require_app set_reference_def set_slot_def
      demo_client_def blank_state_def demo_op_def new_projections_def Let_def)

theorem session_projections_confined_witness:
  "py_role (hy_projections (host map_client)) = Some RoleStudent \<and> sn_roomId demo_map = py_roomId (hy_projections (host map_client))"
proof -
  obtain r where "py_role (hy_projections (host map_client)) = Some r" "EchoStudentApproved \<in> set (role_keys r)"
    "sn_roomId demo_map = py_roomId (hy_projections (host map_client))"
    using session_projections_confined [OF map_reach demo_feedable map_held] by auto
  then show ?thesis by (cases r) simp_all
qed

end
