(* ===== verification/Room_Hub.thy ===== *)
theory Room_Hub
  imports Delivery_Access Wire_Frames
begin

text \<open>
  The server's side of the room feed: \<^verbatim>\<open>RealtimeConnection\<close> (\<^verbatim>\<open>connection.ts\<close>), \<^verbatim>\<open>RoomHub\<close>
  (\<^verbatim>\<open>room-hub.ts\<close>), \<^verbatim>\<open>EphemeralSignals\<close> and the send-buffer policy of
  \<^verbatim>\<open>apps/server/src/modules/realtime\<close>. Connections are numbers in the hub's state; the frames
  written to a socket and the codes it was closed with are traces. An asynchronous method
  is split where it awaits the database; what the database answered is an argument.
\<close>

section \<open>Signals and the send buffer\<close>

record EphemeralSignals =
  es_presence :: "(string, int \<times> int) jsmap"
  es_typing :: "(string, int \<times> int) jsmap"

definition no_signals :: EphemeralSignals where
  "no_signals = \<lparr>es_presence = [], es_typing = []\<rparr>"

definition seq_stale :: "(string, int \<times> int) jsmap \<Rightarrow> string \<Rightarrow> int \<Rightarrow> bool" where
  "seq_stale m actor n = (case jm_get m actor of None \<Rightarrow> False | Some (old, _) \<Rightarrow> n \<le> old)"

definition acceptPresence :: "string \<Rightarrow> seat_state \<Rightarrow> int \<Rightarrow> int \<Rightarrow> EphemeralSignals \<Rightarrow> ServerFrame option \<times> EphemeralSignals" where
  "acceptPresence actor st n now s = (if seq_stale (es_presence s) actor n then (None, s)
     else (Some (PresenceFrame actor st (At (now + 30000))), s\<lparr>es_presence := jm_set actor (n, now + 30000) (es_presence s)\<rparr>))"

definition acceptTyping :: "string \<Rightarrow> bool \<Rightarrow> int \<Rightarrow> int \<Rightarrow> EphemeralSignals \<Rightarrow> ServerFrame option \<times> EphemeralSignals" where
  "acceptTyping actor active n now s = (if seq_stale (es_typing s) actor n then (None, s)
     else (Some (TypingFrame actor active (At (now + 5000))), s\<lparr>es_typing := jm_set actor (n, now + 5000) (es_typing s)\<rparr>))"

definition expire :: "int \<Rightarrow> EphemeralSignals \<Rightarrow> ServerFrame list \<times> EphemeralSignals" where
  "expire now s =
     (map (\<lambda>(a, _). PresenceFrame a Away (At now)) (filter (\<lambda>(_, _, t). t \<le> now) (es_presence s)) @
      map (\<lambda>(a, _). TypingFrame a False (At now)) (filter (\<lambda>(_, _, t). t \<le> now) (es_typing s)),
      s\<lparr>es_presence := filter (\<lambda>(_, _, t). \<not> t \<le> now) (es_presence s), es_typing := filter (\<lambda>(_, _, t). \<not> t \<le> now) (es_typing s)\<rparr>)"

definition remove_signals :: "string \<Rightarrow> int \<Rightarrow> EphemeralSignals \<Rightarrow> ServerFrame list \<times> EphemeralSignals" where
  "remove_signals actor now s =
     ([PresenceFrame actor Away (At now), TypingFrame actor False (At now)],
      s\<lparr>es_presence := jm_delete actor (es_presence s), es_typing := jm_delete actor (es_typing s)\<rparr>)"

datatype BackpressureState = BufferOk | BufferWarn | BufferClose

text \<open>The state, and whether the policy itself closed the socket with 1013.\<close>

definition enforceBackpressure :: "js_number \<Rightarrow> js_number \<Rightarrow> js_number \<Rightarrow> BackpressureState \<times> bool" where
  "enforceBackpressure buffered warn close =
     (if \<not> safe_natural buffered then (BufferClose, False)
      else if \<not> safe_natural warn \<or> \<not> safe_natural close \<or> whole close \<le> whole warn then (BufferClose, False)
      else if whole buffered \<ge> whole close then (BufferClose, True)
      else (if whole buffered \<ge> whole warn then BufferWarn else BufferOk, False))"

section \<open>State\<close>

record connection =
  cx_session :: string
  cx_room :: string
  cx_actor :: string
  cx_hello :: bool
  cx_closed :: bool
  cx_replaying :: bool
  cx_resumeFrom :: int
  cx_replayThrough :: int
  cx_buffer :: "envelope list"
  cx_lastPresence :: int
  cx_lastTyping :: int
  cx_lastClientSeq :: int
  cx_signals :: EphemeralSignals
  cx_sent :: "ServerFrame list"
  cx_codes :: "int list"

text \<open>A broadcast under way: its frame, an optional role, and the connections still to visit.\<close>

record broadcast =
  bc_room :: string
  bc_frame :: ServerFrame
  bc_students :: bool
  bc_left :: "nat list"

record hub =
  hb_rooms :: "(string, nat list) jsmap"
  hb_conns :: "(nat, connection) jsmap"
  hb_next :: nat
  hb_tasks :: "broadcast list"

type_synonym 'a hub_act = "(hub, failure, 'a) act"

text \<open>The surroundings of a step: the clock and the socket's \<^verbatim>\<open>bufferedAmount\<close>, absent in a test double.\<close>

record server_world =
  sw_now :: int
  sw_buffered :: "nat \<Rightarrow> js_number option"

definition new_connection :: "string \<Rightarrow> string \<Rightarrow> string \<Rightarrow> connection" where
  "new_connection sid rid actor =
     \<lparr>cx_session = sid, cx_room = rid, cx_actor = actor, cx_hello = False, cx_closed = False, cx_replaying = True,
      cx_resumeFrom = 0, cx_replayThrough = 0, cx_buffer = [], cx_lastPresence = 0, cx_lastTyping = 0, cx_lastClientSeq = - 1,
      cx_signals = no_signals, cx_sent = [], cx_codes = []\<rparr>"

definition members_of :: "string \<Rightarrow> hub \<Rightarrow> nat list" where
  "members_of rid h = (case jm_get (hb_rooms h) rid of None \<Rightarrow> [] | Some is \<Rightarrow> is)"

definition conn :: "nat \<Rightarrow> hub \<Rightarrow> connection" where
  "conn i h = (case jm_get (hb_conns h) i of Some c \<Rightarrow> c | None \<Rightarrow> new_connection '''' '''' '''')"

definition upd_conn :: "nat \<Rightarrow> (connection \<Rightarrow> connection) \<Rightarrow> hub \<Rightarrow> hub" where
  "upd_conn i f h = (case jm_get (hb_conns h) i of None \<Rightarrow> h | Some c \<Rightarrow> h\<lparr>hb_conns := jm_set i (f c) (hb_conns h)\<rparr>)"

section \<open>Membership and closing\<close>

definition hub_connect :: "string \<Rightarrow> string \<Rightarrow> string \<Rightarrow> hub \<Rightarrow> nat \<times> hub" where
  "hub_connect sid rid actor h =
     (let i = hb_next h in
      (i, h\<lparr>hb_next := i + 1, hb_conns := jm_set i (new_connection sid rid actor) (hb_conns h),
         hb_rooms := jm_set rid (members_of rid h @ [i]) (hb_rooms h)\<rparr>))"

text \<open>\<^verbatim>\<open>broadcastEphemeral\<close> takes its snapshot of the room at once and then visits it.\<close>

definition start_broadcast :: "string \<Rightarrow> ServerFrame \<Rightarrow> bool \<Rightarrow> hub \<Rightarrow> hub" where
  "start_broadcast rid f students h =
     h\<lparr>hb_tasks := hb_tasks h @ [\<lparr>bc_room = rid, bc_frame = f, bc_students = students, bc_left = members_of rid h\<rparr>]\<rparr>"

definition leave :: "server_world \<Rightarrow> nat \<Rightarrow> hub \<Rightarrow> hub" where
  "leave sw i h =
     (let c = conn i h; rid = cx_room c in
      case jm_get (hb_rooms h) rid of
        None \<Rightarrow> h
      | Some is \<Rightarrow>
          let rest = removeAll i is;
              h1 = h\<lparr>hb_rooms := (if rest = [] then jm_delete rid (hb_rooms h) else jm_set rid rest (hb_rooms h))\<rparr> in
          if i \<notin> set is \<or> \<not> cx_hello c then h1
          else if list_ex (\<lambda>j. cx_hello (conn j h1) \<and> cx_actor (conn j h1) = cx_actor c) (members_of rid h1) then h1
          else (case remove_signals (cx_actor c) (sw_now sw) (cx_signals c) of (frames, s) \<Rightarrow>
            fold (\<lambda>f. start_broadcast rid f False) frames (upd_conn i (\<lambda>c. c\<lparr>cx_signals := s\<rparr>) h1)))"

definition close_conn :: "server_world \<Rightarrow> nat \<Rightarrow> int \<Rightarrow> hub \<Rightarrow> hub" where
  "close_conn sw i cl h =
     (if cx_closed (conn i h) then h
      else leave sw i (upd_conn i (\<lambda>c. c\<lparr>cx_closed := True, cx_buffer := [], cx_codes := cx_codes c @ [cl]\<rparr>) h))"

section \<open>Sending\<close>

definition send_frame :: "server_world \<Rightarrow> nat \<Rightarrow> ServerFrame \<Rightarrow> hub \<Rightarrow> hub" where
  "send_frame sw i f h =
     (if cx_closed (conn i h) then h
      else
        let write = upd_conn i (\<lambda>c. c\<lparr>cx_sent := cx_sent c @ [f]\<rparr>) h in
        case sw_buffered sw i of
          None \<Rightarrow> write
        | Some b \<Rightarrow>
            (case enforceBackpressure b (Whole 256000) (Whole 1000000) of
               (BufferClose, by_policy) \<Rightarrow>
                 close_conn sw i 1013 (if by_policy then upd_conn i (\<lambda>c. c\<lparr>cx_codes := cx_codes c @ [1013]\<rparr>) h else h)
             | _ \<Rightarrow> write))"

definition MAX_LIVE_BUFFER_EVENTS :: nat where "MAX_LIVE_BUFFER_EVENTS = 512"

definition sendDurable :: "server_world \<Rightarrow> nat \<Rightarrow> envelope \<Rightarrow> hub \<Rightarrow> hub" where
  "sendDurable sw i e h =
     (let c = conn i h in
      if cx_closed c then h
      else if \<not> cx_hello c \<or> cx_replaying c then
        (if length (cx_buffer c) \<ge> MAX_LIVE_BUFFER_EVENTS then
           close_conn sw i 4409 (send_frame sw i (SnapshotRequired (cx_resumeFrom c) (max (cx_resumeFrom c) (cx_replayThrough c))) h)
         else upd_conn i (\<lambda>c. c\<lparr>cx_buffer := cx_buffer c @ [e]\<rparr>) h)
      else send_frame sw i (EventFrame e) h)"

text \<open>The loop over the sorted buffer: an event is written when it is beyond what was replayed.\<close>

fun flush :: "server_world \<Rightarrow> nat \<Rightarrow> envelope list \<Rightarrow> hub \<Rightarrow> hub" where
  "flush sw i [] h = h"
| "flush sw i (e # es) h = flush sw i es
     (if roomSeq e > cx_replayThrough (conn i h)
      then upd_conn i (\<lambda>c. c\<lparr>cx_replayThrough := roomSeq e\<rparr>) (send_frame sw i (EventFrame e) h) else h)"

definition finishReplay :: "server_world \<Rightarrow> nat \<Rightarrow> int \<Rightarrow> hub \<Rightarrow> hub" where
  "finishReplay sw i through h =
     (let c = conn i h in
      if cx_closed c then h
      else flush sw i (sort_key roomSeq (cx_buffer c))
        (upd_conn i (\<lambda>c. c\<lparr>cx_replayThrough := max (cx_replayThrough c) through, cx_replaying := False, cx_buffer := []\<rparr>) h))"

section \<open>Resuming\<close>

definition roomState :: "string \<Rightarrow> db \<Rightarrow> failure + int \<times> room_status" where
  "roomState rid d = (case find_room d rid of
     None \<Rightarrow> Inl (Failure ''ROOM_NOT_FOUND'') | Some r \<Rightarrow> Inr (max 0 (r_next r - 1), r_status r))"

text \<open>The replay query: the next five hundred and one rows of the outbox.\<close>

definition resume_rows :: "string \<Rightarrow> int \<Rightarrow> db \<Rightarrow> (int \<times> envelope) list" where
  "resume_rows rid from d = take 501 (sort_key fst (map (\<lambda>x. (o_seq x, o_envelope x))
     (filter (\<lambda>x. o_room x = pg_uuid rid \<and> o_seq x > from) (outbox d))))"

text \<open>A replay under way: the rows left and the number reached.\<close>

record replay =
  rp_rows :: "(int \<times> envelope) list"
  rp_through :: int

definition refuse_replay :: "server_world \<Rightarrow> nat \<Rightarrow> int \<Rightarrow> hub \<Rightarrow> hub" where
  "refuse_replay sw i through h = close_conn sw i 4409 (send_frame sw i (SnapshotRequired (cx_resumeFrom (conn i h)) through) h)"

definition resume_start :: "server_world \<Rightarrow> nat \<Rightarrow> (int \<times> envelope) list \<Rightarrow> hub \<Rightarrow> replay option \<times> hub" where
  "resume_start sw i rows h =
     (if length rows > 500 then (None, refuse_replay sw i (fst (last rows)) h)
      else (Some \<lparr>rp_rows = rows, rp_through = cx_resumeFrom (conn i h)\<rparr>, h))"

text \<open>
  One turn of the loop, with the authorizer's answer for its row; the end of the loop
  announces the number reached and opens the gate for live events.
\<close>

definition resume_turn ::
  "contracts \<Rightarrow> server_world \<Rightarrow> nat \<Rightarrow> DeliveryAuthorization \<Rightarrow> replay \<Rightarrow> hub \<Rightarrow> replay option \<times> hub" where
  "resume_turn k sw i auth rp h = (case rp_rows rp of
     [] \<Rightarrow> (None, finishReplay sw i (rp_through rp) (send_frame sw i (ResumeComplete (rp_through rp)) h))
   | (rowSeq, e) # rows \<Rightarrow>
       if \<bar>rowSeq\<bar> > max_safe_integer \<or> rowSeq \<noteq> rp_through rp + 1 then (None, refuse_replay sw i (rp_through rp) h)
       else (case auth of
           Refused cl \<Rightarrow> (None, close_conn sw i cl h)
         | Granted _ _ \<Rightarrow>
             if \<not> envelope_schema k e \<or> roomSeq e \<noteq> rowSeq then (None, refuse_replay sw i (rp_through rp) h)
             else (Some \<lparr>rp_rows = rows, rp_through = roomSeq e\<rparr>, send_frame sw i (EventFrame e) h)))"

section \<open>Broadcasts\<close>

definition sendDegraded :: "server_world \<Rightarrow> nat \<Rightarrow> ServerFrame \<Rightarrow> hub \<Rightarrow> hub" where
  "sendDegraded sw i f h = (if \<not> cx_hello (conn i h) then h else send_frame sw i f h)"

definition student_key :: "projection_key \<Rightarrow> bool" where
  "student_key key = (key = EchoStudentApproved \<or> key = TraceStudentBundle)"

definition broadcastDegraded :: "string \<Rightarrow> string \<Rightarrow> string \<Rightarrow> date \<Rightarrow> projection_key option \<Rightarrow> hub \<Rightarrow> hub" where
  "broadcastDegraded rid scope c t key = start_broadcast rid (DegradedFrame scope c t key) (case key of None \<Rightarrow> False | Some x \<Rightarrow> student_key x)"

fun is_student :: "AuthSession \<Rightarrow> bool" where
  "is_student (Student _ _ _) = True"
| "is_student (Teacher _ _) = False"

text \<open>One visit of an ephemeral broadcast, with the authorizer's answer for that connection.\<close>

definition ephemeral_visit :: "server_world \<Rightarrow> DeliveryAuthorization \<Rightarrow> broadcast \<Rightarrow> nat \<Rightarrow> hub \<Rightarrow> hub" where
  "ephemeral_visit sw auth b i h =
     (if \<not> cx_hello (conn i h) then h
      else case auth of
        Refused cl \<Rightarrow> close_conn sw i cl h
      | Granted p _ \<Rightarrow> if bc_students b \<and> \<not> is_student p then h else send_frame sw i (bc_frame b) h)"

definition broadcast_turn :: "server_world \<Rightarrow> DeliveryAuthorization \<Rightarrow> hub \<Rightarrow> hub" where
  "broadcast_turn sw auth h = (case hb_tasks h of
     [] \<Rightarrow> h
   | b # bs \<Rightarrow> (case bc_left b of
       [] \<Rightarrow> h\<lparr>hb_tasks := bs\<rparr>
     | i # is \<Rightarrow> ephemeral_visit sw auth b i (h\<lparr>hb_tasks := b\<lparr>bc_left := is\<rparr> # bs\<rparr>)))"

text \<open>
  One visit of a broadcast that counts, with the authorizer's answer for the connection or
  the failure of its query: whether the frame counts as sent.
\<close>

definition durable_visit :: "server_world \<Rightarrow> failure + DeliveryAuthorization \<Rightarrow> ServerFrame \<Rightarrow> nat \<Rightarrow> bool hub_act" where
  "durable_visit sw answer f i h = (case answer of
     Inl e \<Rightarrow> (Inl e, h)
   | Inr (Refused cl) \<Rightarrow> (Inr False, close_conn sw i cl h)
   | Inr (Granted _ _) \<Rightarrow> (Inr True, case f of EventFrame e \<Rightarrow> sendDurable sw i e h | _ \<Rightarrow> send_frame sw i f h))"

text \<open>The visits of such a broadcast, one after the other, and how many counted.\<close>

fun visit_all :: "(nat \<Rightarrow> bool hub_act) \<Rightarrow> nat list \<Rightarrow> nat hub_act" where
  "visit_all visit [] = ret 0"
| "visit_all visit (i # is) =
     act_bind (visit i) (\<lambda>counted. act_bind (visit_all visit is) (\<lambda>n. ret (if counted then n + 1 else n)))"

definition broadcastAuthorized :: "server_world \<Rightarrow> (nat \<Rightarrow> failure + DeliveryAuthorization) \<Rightarrow> string \<Rightarrow> ServerFrame \<Rightarrow> nat hub_act" where
  "broadcastAuthorized sw answers rid f =
     act_bind (gets (members_of rid)) (visit_all (\<lambda>i. durable_visit sw (answers i) f i))"

text \<open>One visit of a projection pointer; \<open>decision\<close> is what the policy answered, or that it threw.\<close>

definition projection_visit ::
  "server_world \<Rightarrow> failure + DeliveryAuthorization \<Rightarrow> failure + ProjectionDeliveryDecision \<Rightarrow> ProjectionFrame \<Rightarrow> nat \<Rightarrow> bool hub_act" where
  "projection_visit sw answer decision f i h =
     (if \<not> cx_hello (conn i h) then (Inr False, h)
      else case answer of
        Inl e \<Rightarrow> (Inl e, h)
      | Inr (Refused cl) \<Rightarrow> (Inr False, close_conn sw i cl h)
      | Inr (Granted _ _) \<Rightarrow> (case decision of
          Inl _ \<Rightarrow> (Inr False, sendDegraded sw i (DegradedFrame ''analytics'' ''ANALYTICS_UNAVAILABLE'' (At (sw_now sw)) None) h)
        | Inr (DenyDelivery (Some cl)) \<Rightarrow> (Inr False, close_conn sw i cl h)
        | Inr (DenyDelivery None) \<Rightarrow>
            (Inr False, if student_key (pf_key f)
               then sendDegraded sw i (DegradedFrame ''analytics'' ''STUDENT_ANALYTICS_NOT_PROMOTED'' (At (sw_now sw)) (Some (pf_key f))) h
               else h)
        | Inr AllowDelivery \<Rightarrow> (Inr True, send_frame sw i (Projection f) h)))"

definition broadcastProjectionAuthorized ::
  "server_world \<Rightarrow> (nat \<Rightarrow> failure + DeliveryAuthorization) \<Rightarrow> (nat \<Rightarrow> failure + ProjectionDeliveryDecision) \<Rightarrow> string \<Rightarrow> ProjectionFrame \<Rightarrow> nat hub_act" where
  "broadcastProjectionAuthorized sw answers decision rid f =
     (if pf_roomId f \<noteq> rid then ret 0
      else act_bind (gets (members_of rid)) (visit_all (\<lambda>i. projection_visit sw (answers i) (decision i) f i)))"

definition connectedRoomIds :: "hub \<Rightarrow> string list" where
  "connectedRoomIds h = jm_keys (hb_rooms h)"

definition evictRoom :: "server_world \<Rightarrow> string \<Rightarrow> int \<Rightarrow> hub \<Rightarrow> hub" where
  "evictRoom sw rid cl h = fold (\<lambda>i. close_conn sw i cl) (members_of rid h) h"

section \<open>Inbound frames\<close>

text \<open>What a socket delivers: too many bytes, something that is no JSON frame, or a frame.\<close>

datatype inbound = TooLarge | Unreadable | Inbound ClientFrame

definition COMMAND_REJECT_CODES :: "string list" where
  "COMMAND_REJECT_CODES = [''FORBIDDEN'', ''ROOM_DELETION_IN_PROGRESS'', ''ROOM_NOT_OPEN'', ''MESSAGE_NOT_FOUND'', ''REVISION_CONFLICT'', ''INVALID_COMMAND'']"

fun failure_message :: "failure \<Rightarrow> string" where
  "failure_message (RoomError FORBIDDEN _) = ''FORBIDDEN''"
| "failure_message (RoomError INVALID_COMMAND _) = ''INVALID_COMMAND''"
| "failure_message (RoomError ROOM_DELETION_IN_PROGRESS _) = ''ROOM_DELETION_IN_PROGRESS''"
| "failure_message (RoomError ROOM_NOT_OPEN _) = ''ROOM_NOT_OPEN''"
| "failure_message (RoomError MESSAGE_NOT_FOUND _) = ''MESSAGE_NOT_FOUND''"
| "failure_message (RoomError REVISION_CONFLICT _) = ''REVISION_CONFLICT''"
| "failure_message (Failure m) = m"

definition commandRejectCode :: "failure \<Rightarrow> string" where
  "commandRejectCode e = (if failure_message e \<in> set COMMAND_REJECT_CODES then failure_message e else ''INTERNAL'')"

text \<open>An awaited answer; an exception ends in the \<^verbatim>\<open>catch\<close> of \<^verbatim>\<open>receive\<close>.\<close>

definition awaited :: "server_world \<Rightarrow> nat \<Rightarrow> failure + 'a \<Rightarrow> ('a \<Rightarrow> hub \<Rightarrow> hub) \<Rightarrow> hub \<Rightarrow> hub" where
  "awaited sw i r f h = (case r of Inl _ \<Rightarrow> close_conn sw i 4400 h | Inr a \<Rightarrow> f a h)"

text \<open>The first frame: hello, up to its first \<^verbatim>\<open>await\<close>.\<close>

definition hello_frame :: "server_world \<Rightarrow> nat \<Rightarrow> ClientFrame \<Rightarrow> hub \<Rightarrow> hub" where
  "hello_frame sw i f h = (case f of
     ClientHello _ from \<Rightarrow> upd_conn i (\<lambda>c. c\<lparr>cx_hello := True, cx_resumeFrom := from\<rparr>) h
   | _ \<Rightarrow> close_conn sw i 4400 h)"

definition send_welcome :: "server_world \<Rightarrow> nat \<Rightarrow> int \<times> room_status \<Rightarrow> hub \<Rightarrow> hub" where
  "send_welcome sw i st h = send_frame sw i (Welcome (At (sw_now sw)) (cx_room (conn i h)) (fst st) (snd st)) h"

text \<open>After the first \<^verbatim>\<open>await\<close>: the authorizer's answer, then that of \<^verbatim>\<open>roomState\<close>; \<^verbatim>\<open>resume\<close> follows.\<close>

definition hello_authorized :: "server_world \<Rightarrow> nat \<Rightarrow> failure + DeliveryAuthorization \<Rightarrow> failure + int \<times> room_status \<Rightarrow> hub \<Rightarrow> hub" where
  "hello_authorized sw i answer state = awaited sw i answer (\<lambda>auth h. case auth of
     Refused cl \<Rightarrow> close_conn sw i cl h
   | Granted _ _ \<Rightarrow> awaited sw i state (send_welcome sw i) h)"

text \<open>\<open>auth\<close> is the authorizer's answer, \<open>outcome\<close> what the command service did with a command.\<close>

definition later_frame :: "server_world \<Rightarrow> nat \<Rightarrow> DeliveryAuthorization \<Rightarrow> failure + envelope \<Rightarrow> ClientFrame \<Rightarrow> hub \<Rightarrow> hub" where
  "later_frame sw i auth outcome f h = (case auth of
     Refused cl \<Rightarrow> close_conn sw i cl h
   | Granted _ actor \<Rightarrow>
       let c = conn i h; now = sw_now sw in
       (case f of
          ClientHeartbeat \<Rightarrow>
            (case expire now (cx_signals c) of (frames, s) \<Rightarrow>
              send_frame sw i (HeartbeatFrame (At now))
                (fold (\<lambda>g. start_broadcast (cx_room c) g False) frames (upd_conn i (\<lambda>c. c\<lparr>cx_signals := s\<rparr>) h)))
        | ClientCommand cmd \<Rightarrow>
            let cid = (case jmember cmd ''commandId'' of Some (JStr s) \<Rightarrow> s | _ \<Rightarrow> '''') in
            (case outcome of
               Inr v \<Rightarrow> send_frame sw i (Ack cid (roomSeq v) (revision v)) h
             | Inl e \<Rightarrow> send_frame sw i (Reject (Some cid) (commandRejectCode e) None) h)
        | ClientPresence st n \<Rightarrow>
            if now - cx_lastPresence c < 5000 \<or> n \<le> cx_lastClientSeq c then h
            else (case acceptPresence actor st n now (cx_signals c) of (g, s) \<Rightarrow>
              let h1 = upd_conn i (\<lambda>c. c\<lparr>cx_lastPresence := now, cx_lastClientSeq := n, cx_signals := s\<rparr>) h in
              (case g of None \<Rightarrow> h1 | Some x \<Rightarrow> start_broadcast (cx_room c) x False h1))
        | ClientTyping active n \<Rightarrow>
            if now - cx_lastTyping c < 500 \<or> n \<le> cx_lastClientSeq c then h
            else (case acceptTyping actor active n now (cx_signals c) of (g, s) \<Rightarrow>
              let h1 = upd_conn i (\<lambda>c. c\<lparr>cx_lastTyping := now, cx_lastClientSeq := n, cx_signals := s\<rparr>) h in
              (case g of None \<Rightarrow> h1 | Some x \<Rightarrow> start_broadcast (cx_room c) x False h1))
        | ClientHello _ _ \<Rightarrow> h))"

definition receive ::
  "contracts \<Rightarrow> server_world \<Rightarrow> nat \<Rightarrow> failure + DeliveryAuthorization \<Rightarrow> failure + envelope \<Rightarrow> inbound \<Rightarrow> hub \<Rightarrow> hub" where
  "receive k sw i answer outcome v h =
     (if cx_closed (conn i h) then h
      else case v of
        TooLarge \<Rightarrow> close_conn sw i 1009 h
      | Unreadable \<Rightarrow> close_conn sw i 4400 h
      | Inbound f \<Rightarrow>
          if \<not> client_schema k f then close_conn sw i 4400 h
          else if \<not> cx_hello (conn i h) then hello_frame sw i f h
          else awaited sw i answer (\<lambda>auth. later_frame sw i auth outcome f) h)"

text \<open>The timer of five seconds, and the socket's own close.\<close>

definition hello_timeout :: "server_world \<Rightarrow> nat \<Rightarrow> hub \<Rightarrow> hub" where
  "hello_timeout sw i h = (if \<not> cx_hello (conn i h) then close_conn sw i 4400 h else h)"

definition socket_gone :: "server_world \<Rightarrow> nat \<Rightarrow> hub \<Rightarrow> hub" where
  "socket_gone sw i = close_conn sw i 1000"

end
