(* ===== verification/Hub_Replay.thy ===== *)
theory Hub_Replay
  imports Room_Hub "HOL-Library.Sublist"
begin

text \<open>
  What a connection is written while it resumes: whatever else happens in the hub between
  the turns of its replay, it gets the rows after its cursor without a gap, then the number
  they reach, and live events only after that.
\<close>

section \<open>Steps that do not write a durable frame\<close>

definition durable :: "ServerFrame \<Rightarrow> bool" where
  "durable f \<longleftrightarrow> (case f of EventFrame _ \<Rightarrow> True | ResumeComplete _ \<Rightarrow> True | _ \<Rightarrow> False)"

definition durables :: "connection \<Rightarrow> ServerFrame list" where
  "durables c = filter durable (cx_sent c)"

definition known :: "nat \<Rightarrow> hub \<Rightarrow> bool" where
  "known i h \<longleftrightarrow> jm_get (hb_conns h) i \<noteq> None \<and> i < hb_next h"

definition quiet :: "nat \<Rightarrow> hub \<Rightarrow> hub \<Rightarrow> bool" where
  "quiet i h h' \<longleftrightarrow> (known i h \<and> cx_hello (conn i h) \<longrightarrow> known i h' \<and> cx_hello (conn i h') \<and>
     cx_resumeFrom (conn i h') = cx_resumeFrom (conn i h) \<and> (cx_closed (conn i h) \<longrightarrow> cx_closed (conn i h')) \<and>
     cx_replaying (conn i h') = cx_replaying (conn i h) \<and> durables (conn i h') = durables (conn i h))"

lemma quiet_refl [simp]: "quiet i h h"
  by (simp add: quiet_def)

lemma quiet_trans: "quiet i h h1 \<Longrightarrow> quiet i h1 h2 \<Longrightarrow> quiet i h h2"
  unfolding quiet_def by metis

lemma conn_upd: "conn j (upd_conn i f h) = (if j = i \<and> jm_get (hb_conns h) i \<noteq> None then f (conn i h) else conn j h)"
  by (auto simp: conn_def upd_conn_def split: option.split)

lemma known_upd [simp]: "known j (upd_conn i f h) = known j h"
  by (auto simp: known_def upd_conn_def split: option.split)

lemma quiet_upd:
  assumes "\<And>c. cx_hello (f c) = cx_hello c" "\<And>c. cx_resumeFrom (f c) = cx_resumeFrom c" "\<And>c. cx_closed c \<Longrightarrow> cx_closed (f c)"
    "\<And>c. cx_replaying (f c) = cx_replaying c" "\<And>c. durables (f c) = durables c"
  shows "quiet i h (upd_conn j f h)"
  using assms by (auto simp: quiet_def conn_upd)

lemma conn_tasks [simp]: "conn i (h\<lparr>hb_tasks := t\<rparr>) = conn i h" "known i (h\<lparr>hb_tasks := t\<rparr>) = known i h"
  "conn i (h\<lparr>hb_rooms := r\<rparr>) = conn i h" "known i (h\<lparr>hb_rooms := r\<rparr>) = known i h"
  by (simp_all add: conn_def known_def)

lemma quiet_other [simp]: "quiet i h (h\<lparr>hb_tasks := t\<rparr>)" "quiet i h (h\<lparr>hb_rooms := r\<rparr>)" "quiet i h (start_broadcast rid f s h)"
  by (simp_all add: quiet_def start_broadcast_def)

lemma quiet_broadcasts: "quiet i h (fold (\<lambda>f. start_broadcast rid f s) fs h)"
proof (induction fs arbitrary: h)
  case (Cons f fs)
  show ?case using quiet_trans [OF quiet_other(3) Cons.IH] by simp
qed simp

lemma quiet_leave: "quiet i h (leave sw j h)"
proof -
  have b: "quiet i h (fold (\<lambda>f. start_broadcast r f False) fs (upd_conn j (\<lambda>c. c\<lparr>cx_signals := s\<rparr>) (h\<lparr>hb_rooms := m\<rparr>)))" for r fs s m
    by (rule quiet_trans [OF quiet_other(2)], rule quiet_trans [OF quiet_upd quiet_broadcasts]) (simp_all add: durables_def)
  show ?thesis
    unfolding leave_def Let_def by (auto split: option.split prod.split intro: b)
qed

lemma quiet_close: "quiet i h (close_conn sw j cl h)"
proof -
  have "quiet i h (upd_conn j (\<lambda>c. c\<lparr>cx_closed := True, cx_buffer := [], cx_codes := cx_codes c @ [cl]\<rparr>) h)"
    by (rule quiet_upd) (simp_all add: durables_def)
  then show ?thesis unfolding close_conn_def using quiet_trans [OF _ quiet_leave] by simp
qed

lemma quiet_send: "\<not> durable f \<Longrightarrow> quiet i h (send_frame sw j f h)"
proof -
  assume f: "\<not> durable f"
  have w: "quiet i h (upd_conn j (\<lambda>c. c\<lparr>cx_sent := cx_sent c @ [f]\<rparr>) h)" by (rule quiet_upd) (simp_all add: f durables_def)
  have c: "quiet i h (close_conn sw j 1013 (upd_conn j (\<lambda>c. c\<lparr>cx_codes := cx_codes c @ [1013]\<rparr>) h))"
    by (rule quiet_trans [OF quiet_upd quiet_close]) (simp_all add: durables_def)
  show ?thesis using w c quiet_close
    by (auto simp: send_frame_def Let_def split: option.split prod.split BackpressureState.split)
qed

text \<open>Nothing written to another connection matters.\<close>

lemma quiet_elsewhere: "j \<noteq> i \<Longrightarrow> quiet i h (upd_conn j f h)" "j \<noteq> i \<Longrightarrow> quiet i h (send_frame sw j g h)"
proof -
  assume j: "j \<noteq> i"
  show u: "quiet i h (upd_conn j f h)" for f h using j by (simp add: quiet_def conn_upd)
  show "quiet i h (send_frame sw j g h)"
    using u quiet_close quiet_trans [OF u quiet_close]
    by (auto simp: send_frame_def Let_def split: option.split prod.split BackpressureState.split)
qed

lemma quiet_flush: "j \<noteq> i \<Longrightarrow> quiet i h (flush sw j q h)"
proof (induction q arbitrary: h)
  case (Cons e q)
  have "quiet i h (upd_conn j f (send_frame sw j g h))" for f g
    using quiet_trans [OF quiet_elsewhere(2) quiet_elsewhere(1)] Cons.prems by blast
  then show ?case using quiet_trans [OF _ Cons.IH [OF Cons.prems]] Cons.IH [OF Cons.prems] by simp
qed simp

lemma quiet_resume:
  assumes "j \<noteq> i"
  shows "quiet i h (snd (resume_turn k sw j auth r h))" "quiet i h (snd (resume_start sw j rows h))"
proof -
  have s: "quiet i h (send_frame sw j g h)" for g h using quiet_elsewhere(2) [OF assms] .
  have f: "quiet i h (finishReplay sw j n h)" for n h
    unfolding finishReplay_def Let_def using quiet_trans [OF quiet_elsewhere(1) quiet_flush] assms by simp
  have r: "quiet i h (refuse_replay sw j n h)" for n unfolding refuse_replay_def by (rule quiet_trans [OF s quiet_close])
  show "quiet i h (snd (resume_turn k sw j auth r h))"
    unfolding resume_turn_def using quiet_trans [OF s f] s r quiet_close
    by (auto split: list.split prod.split DeliveryAuthorization.split)
  show "quiet i h (snd (resume_start sw j rows h))" using r by (simp add: resume_start_def)
qed

lemma quiet_buffering: "cx_replaying (conn i h) \<or> j \<noteq> i \<Longrightarrow> quiet i h (sendDurable sw j e h)"
proof -
  assume r: "cx_replaying (conn i h) \<or> j \<noteq> i"
  have b: "quiet i h (upd_conn j (\<lambda>c. c\<lparr>cx_buffer := cx_buffer c @ [e]\<rparr>) h)" by (rule quiet_upd) (simp_all add: durables_def)
  have c: "quiet i h (close_conn sw j 4409 (send_frame sw j (SnapshotRequired a t) h))" for a t
    by (rule quiet_trans [OF quiet_send quiet_close]) (simp add: durable_def)
  have o: "quiet i h (send_frame sw j (EventFrame e) h)" if "j \<noteq> i" using quiet_elsewhere(2) [OF that] .
  show ?thesis using r b c o by (auto simp: sendDurable_def Let_def)
qed

lemma quiet_later: "quiet i h (later_frame sw j auth outcome f h)"
proof -
  have s: "quiet i h (upd_conn j (\<lambda>c. c\<lparr>cx_signals := s\<rparr>) h)" for s by (rule quiet_upd) (simp_all add: durables_def)
  have hb: "quiet i h (send_frame sw j (HeartbeatFrame t) (fold (\<lambda>g. start_broadcast r g False) fs (upd_conn j (\<lambda>c. c\<lparr>cx_signals := s\<rparr>) h)))"
    for t r fs s by (rule quiet_trans [OF s], rule quiet_trans [OF quiet_broadcasts quiet_send]) (simp add: durable_def)
  have p: "quiet i h (upd_conn j (\<lambda>c. c\<lparr>cx_lastPresence := x, cx_lastClientSeq := n, cx_signals := s\<rparr>) h)" for x n s
    by (rule quiet_upd) (simp_all add: durables_def)
  have t: "quiet i h (upd_conn j (\<lambda>c. c\<lparr>cx_lastTyping := x, cx_lastClientSeq := n, cx_signals := s\<rparr>) h)" for x n s
    by (rule quiet_upd) (simp_all add: durables_def)
  note sb = quiet_trans [OF p quiet_other(3)] quiet_trans [OF t quiet_other(3)]
  show ?thesis
    unfolding later_frame_def Let_def
    by (auto intro: quiet_close hb p t sb quiet_send simp: durable_def
        split: DeliveryAuthorization.split ClientFrame.split prod.split sum.split option.split)
qed

lemma quiet_receive:
  assumes "known i h" "cx_hello (conn i h)"
  shows "quiet i h (receive k sw j answer outcome v h)"
proof (cases "j = i")
  case True
  then show ?thesis using assms
    by (auto simp: receive_def awaited_def intro: quiet_close quiet_later split: inbound.split sum.split)
next
  case False
  have "quiet i h (upd_conn j f h)" for f using quiet_elsewhere(1) [OF False] .
  then show ?thesis
    by (auto simp: receive_def awaited_def hello_frame_def intro: quiet_close quiet_later split: inbound.split sum.split ClientFrame.split)
qed

lemma quiet_visit:
  assumes "\<And>b. b \<in> set (hb_tasks h) \<Longrightarrow> \<not> durable (bc_frame b)"
  shows "quiet i h (broadcast_turn sw auth h)"
proof -
  have v: "\<not> durable (bc_frame b) \<Longrightarrow> quiet i h' (ephemeral_visit sw auth b j h')" for b j h'
    by (auto simp: ephemeral_visit_def intro: quiet_close quiet_send split: DeliveryAuthorization.split)
  show ?thesis
    using assms unfolding broadcast_turn_def
    by (auto split: list.split intro: quiet_trans [OF quiet_other(1) v])
qed

lemma quiet_connect: "quiet i h (snd (hub_connect sid rid actor h))"
  by (auto simp: quiet_def known_def conn_def hub_connect_def Let_def)

section \<open>Replay\<close>

fun contiguous_from :: "int \<Rightarrow> envelope list \<Rightarrow> bool" where
  "contiguous_from a [] = True"
| "contiguous_from a (e # es) = (roomSeq e = a + 1 \<and> contiguous_from (a + 1) es)"

lemma contiguous_snoc: "contiguous_from a (es @ [e]) \<longleftrightarrow> contiguous_from a es \<and> roomSeq e = a + int (length es) + 1"
  by (induction es arbitrary: a) auto

text \<open>
  One connection among the hub's other work: live events and other frames for any
  connection, joining, closing, inbound frames, broadcasts, the replays of the others, and
  the turns of its own replay.
\<close>

inductive feed_step :: "contracts \<Rightarrow> nat \<Rightarrow> hub \<times> replay option \<Rightarrow> hub \<times> replay option \<Rightarrow> bool" for k i where
  live: "feed_step k i (h, rp) (sendDurable sw j e h, rp)"
| other: "\<not> durable f \<Longrightarrow> feed_step k i (h, rp) (send_frame sw j f h, rp)"
| shut: "feed_step k i (h, rp) (close_conn sw j cl h, rp)"
| joins: "feed_step k i (h, rp) (snd (hub_connect sid rid actor h), rp)"
| inbound: "feed_step k i (h, rp) (receive k sw j answer outcome v h, rp)"
| visit: "(\<And>b. b \<in> set (hb_tasks h) \<Longrightarrow> \<not> durable (bc_frame b)) \<Longrightarrow> feed_step k i (h, rp) (broadcast_turn sw auth h, rp)"
| elsewhere: "j \<noteq> i \<Longrightarrow> feed_step k i (h, rp) (snd (resume_turn k sw j auth r h), rp)"
| starts: "j \<noteq> i \<Longrightarrow> feed_step k i (h, rp) (snd (resume_start sw j rows h), rp)"
| turn: "resume_turn k sw i auth r h = (rp', h') \<Longrightarrow> feed_step k i (h, Some r) (h', rp')"

inductive_cases feed_stepE: "feed_step k i s s'"

text \<open>What a connection that asked for the rows after \<open>a\<close> may have been written.\<close>

definition written :: "int \<Rightarrow> ServerFrame list \<Rightarrow> bool" where
  "written a fs \<longleftrightarrow> (\<exists>es. contiguous_from a es \<and>
     (fs = map EventFrame es \<or> (\<exists>later. fs = map EventFrame es @ ResumeComplete (a + int (length es)) # map EventFrame later)))"

definition replay_ok :: "nat \<Rightarrow> int \<Rightarrow> hub \<times> replay option \<Rightarrow> bool" where
  "replay_ok i a s \<longleftrightarrow> (case s of (h, rp) \<Rightarrow> known i h \<and> cx_hello (conn i h) \<and> cx_resumeFrom (conn i h) = a \<and>
     written a (durables (conn i h)) \<and>
     (cx_closed (conn i h) \<or>
      (case rp of
         Some r \<Rightarrow> cx_replaying (conn i h) \<and>
           (\<exists>es. durables (conn i h) = map EventFrame es \<and> contiguous_from a es \<and> rp_through r = a + int (length es))
       | None \<Rightarrow> \<not> cx_replaying (conn i h) \<and>
           (\<exists>es later. durables (conn i h) = map EventFrame es @ ResumeComplete (a + int (length es)) # map EventFrame later \<and>
              contiguous_from a es))))"

lemma written_events: "contiguous_from a es \<Longrightarrow> written a (map EventFrame es)"
  by (auto simp: written_def)

lemma written_complete: "contiguous_from a es \<Longrightarrow> written a (map EventFrame es @ ResumeComplete (a + int (length es)) # map EventFrame later)"
  by (auto simp: written_def)

lemma written_live:
  "contiguous_from a es \<Longrightarrow>
     written a (map EventFrame es @ ResumeComplete (a + int (length es)) # map EventFrame later @ [EventFrame e])"
  using written_complete [of a es "later @ [e]"] by simp

lemma replay_quiet:
  assumes "replay_ok i a (h, rp)" "quiet i h h'"
  shows "replay_ok i a (h', rp)"
proof -
  have "cx_replaying (conn i h') = cx_replaying (conn i h)" "durables (conn i h') = durables (conn i h)"
    "cx_closed (conn i h) \<Longrightarrow> cx_closed (conn i h')" "known i h' \<and> cx_hello (conn i h')" "cx_resumeFrom (conn i h') = cx_resumeFrom (conn i h)"
    using assms by (simp_all add: replay_ok_def quiet_def)
  then show ?thesis using assms(1) unfolding replay_ok_def by (cases rp) auto
qed

lemma fold_broadcast_view: "conn i (fold (\<lambda>f. start_broadcast rid f s) fs h) = conn i h" "known i (fold (\<lambda>f. start_broadcast rid f s) fs h) = known i h"
  by (induction fs arbitrary: h) (simp_all add: start_broadcast_def)

lemma leave_view:
  "known i (leave sw j h) = known i h" "cx_hello (conn i (leave sw j h)) = cx_hello (conn i h)"
  "cx_resumeFrom (conn i (leave sw j h)) = cx_resumeFrom (conn i h)" "cx_closed (conn i (leave sw j h)) = cx_closed (conn i h)"
  by (auto simp: leave_def Let_def fold_broadcast_view conn_upd split: option.split prod.split)

lemma known_get: "known i h \<Longrightarrow> \<exists>c. jm_get (hb_conns h) i = Some c"
  by (simp add: known_def)

lemma conn_upd_same: "known i h \<Longrightarrow> conn i (upd_conn i f h) = f (conn i h)"
  by (drule known_get) (auto simp: conn_upd)

lemma close_view:
  assumes "known i h"
  shows "known i (close_conn sw i n h)" "cx_hello (conn i (close_conn sw i n h)) = cx_hello (conn i h)"
    "cx_resumeFrom (conn i (close_conn sw i n h)) = cx_resumeFrom (conn i h)" "cx_closed (conn i (close_conn sw i n h))"
  using assms by (simp_all add: close_conn_def leave_view conn_upd_same)

text \<open>Writing a durable frame appends it, unless the connection is or gets closed.\<close>

definition appended :: "nat \<Rightarrow> ServerFrame list \<Rightarrow> hub \<Rightarrow> hub \<Rightarrow> bool" where
  "appended i fs h h' \<longleftrightarrow> known i h' \<and> cx_hello (conn i h') = cx_hello (conn i h) \<and>
     cx_resumeFrom (conn i h') = cx_resumeFrom (conn i h) \<and>
     (cx_closed (conn i h) \<longrightarrow> cx_closed (conn i h') \<and> durables (conn i h') = durables (conn i h)) \<and>
     (\<exists>gs. prefix gs fs \<and> durables (conn i h') = durables (conn i h) @ gs \<and>
        (cx_closed (conn i h') \<or> gs = fs \<and> cx_replaying (conn i h') = cx_replaying (conn i h)))"

lemma appendedE:
  assumes "appended i fs h h'"
  obtains (closed) gs where "known i h'" "cx_hello (conn i h') = cx_hello (conn i h)" "cx_resumeFrom (conn i h') = cx_resumeFrom (conn i h)"
    "cx_closed (conn i h')" "prefix gs fs" "durables (conn i h') = durables (conn i h) @ gs" "cx_closed (conn i h) \<Longrightarrow> gs = []"
  | (sent) "known i h'" "cx_hello (conn i h') = cx_hello (conn i h)" "cx_resumeFrom (conn i h') = cx_resumeFrom (conn i h)"
    "\<not> cx_closed (conn i h')" "\<not> cx_closed (conn i h)" "durables (conn i h') = durables (conn i h) @ fs"
    "cx_replaying (conn i h') = cx_replaying (conn i h)"
  using assms unfolding appended_def by (cases "cx_closed (conn i h')") auto

lemma appended_closedI:
  "\<lbrakk>known i h'; cx_hello (conn i h') = cx_hello (conn i h); cx_resumeFrom (conn i h') = cx_resumeFrom (conn i h);
    cx_closed (conn i h'); prefix gs fs; durables (conn i h') = durables (conn i h) @ gs; cx_closed (conn i h) \<Longrightarrow> gs = []\<rbrakk>
   \<Longrightarrow> appended i fs h h'"
  unfolding appended_def by auto

lemma appended_sentI:
  "\<lbrakk>known i h'; cx_hello (conn i h') = cx_hello (conn i h); cx_resumeFrom (conn i h') = cx_resumeFrom (conn i h);
    \<not> cx_closed (conn i h); durables (conn i h') = durables (conn i h) @ fs; cx_replaying (conn i h') = cx_replaying (conn i h)\<rbrakk>
   \<Longrightarrow> appended i fs h h'"
  unfolding appended_def by auto

lemma appended_trans:
  assumes "appended i fs h h1" "appended i gs h1 h2"
  shows "appended i (fs @ gs) h h2"
  using assms(1)
proof (cases rule: appendedE)
  case a: (closed p)
  show ?thesis using assms(2)
  proof (cases rule: appendedE)
    case (closed q)
    then show ?thesis using a by (intro appended_closedI [of _ _ _ p]) auto
  qed (use a in auto)
next
  case a: sent
  show ?thesis using assms(2)
  proof (cases rule: appendedE)
    case (closed q)
    then show ?thesis using a by (intro appended_closedI [of _ _ _ "fs @ q"]) auto
  next
    case sent
    then show ?thesis using a by (intro appended_sentI) auto
  qed
qed

lemma appended_upd:
  assumes "known i h" "cx_hello (f (conn i h)) = cx_hello (conn i h)" "cx_resumeFrom (f (conn i h)) = cx_resumeFrom (conn i h)"
    "cx_closed (f (conn i h)) = cx_closed (conn i h)" "cx_replaying (f (conn i h)) = cx_replaying (conn i h)"
    "durables (f (conn i h)) = durables (conn i h) @ fs" "cx_closed (conn i h) \<Longrightarrow> fs = []"
  shows "appended i fs h (upd_conn i f h)"
  using assms by (auto simp: appended_def conn_upd_same)

lemma appended_closed:
  assumes "known i h" "cx_hello (conn i h)"
  shows "appended i fs h (close_conn sw i n h)"
proof -
  have "durables (conn i (close_conn sw i n h)) = durables (conn i h)" using quiet_close [of i h sw i n] assms by (simp add: quiet_def)
  then show ?thesis using assms close_view [OF assms(1)] by (intro appended_closedI [of _ _ _ "[]"]) auto
qed

lemma appended_send:
  assumes "known i h" "cx_hello (conn i h)" "durable f"
  shows "appended i [f] h (send_frame sw i f h)"
proof (cases "cx_closed (conn i h)")
  case True
  then show ?thesis using assms by (simp add: appended_def send_frame_def)
next
  case False
  have w: "appended i [f] h (upd_conn i (\<lambda>c. c\<lparr>cx_sent := cx_sent c @ [f]\<rparr>) h)"
    by (rule appended_upd) (simp_all add: assms False durables_def)
  have p: "appended i [] h (upd_conn i (\<lambda>c. c\<lparr>cx_codes := cx_codes c @ [1013]\<rparr>) h)"
    by (rule appended_upd) (simp_all add: assms durables_def)
  have c: "appended i [f] h (close_conn sw i 1013 (upd_conn i (\<lambda>c. c\<lparr>cx_codes := cx_codes c @ [1013]\<rparr>) h))"
    using appended_trans [OF p appended_closed [of i _ "[f]"]] assms by (simp add: conn_upd_same)
  show ?thesis unfolding send_frame_def Let_def using w c appended_closed [OF assms(1,2)] False
    by (auto split: option.split prod.split BackpressureState.split)
qed

lemma appended_hello: "appended i fs h h' \<Longrightarrow> cx_hello (conn i h) \<Longrightarrow> known i h' \<and> cx_hello (conn i h')"
  by (simp add: appended_def)

lemma flush_appended:
  "known i h \<Longrightarrow> cx_hello (conn i h) \<Longrightarrow> \<exists>es. appended i (map EventFrame es) h (flush sw i q h)"
proof (induction q arbitrary: h)
  case Nil
  then show ?case by (auto simp: appended_def intro: exI [of _ "[]"])
next
  case (Cons e q)
  show ?case
  proof (cases "roomSeq e > cx_replayThrough (conn i h)")
    case True
    let ?h = "send_frame sw i (EventFrame e) h" and ?f = "\<lambda>c. c\<lparr>cx_replayThrough := roomSeq e\<rparr>"
    have a: "appended i [EventFrame e] h ?h" using Cons.prems by (rule appended_send) (simp add: durable_def)
    then have k: "known i ?h" "cx_hello (conn i ?h)" using appended_hello Cons.prems(2) by auto
    have b: "appended i [] ?h (upd_conn i ?f ?h)" using k(1) by (rule appended_upd) (simp_all add: durables_def)
    obtain es where "appended i (map EventFrame es) (upd_conn i ?f ?h) (flush sw i q (upd_conn i ?f ?h))"
      using Cons.IH [of "upd_conn i ?f ?h"] k by (auto simp: conn_upd_same)
    then have "appended i (map EventFrame (e # es)) h (flush sw i (e # q) h)"
      using appended_trans [OF appended_trans [OF a b]] True by fastforce
    then show ?thesis by blast
  next
    case False
    then show ?thesis using Cons by simp
  qed
qed

lemma finish_appended:
  assumes "known i h" "cx_hello (conn i h)" "\<not> cx_closed (conn i h)"
  shows "\<exists>es. let h' = finishReplay sw i n h in known i h' \<and> cx_hello (conn i h') \<and>
     cx_resumeFrom (conn i h') = cx_resumeFrom (conn i h) \<and> durables (conn i h') = durables (conn i h) @ map EventFrame es \<and>
     (cx_closed (conn i h') \<or> \<not> cx_replaying (conn i h'))"
proof -
  let ?g = "upd_conn i (\<lambda>c. c\<lparr>cx_replayThrough := max (cx_replayThrough c) n, cx_replaying := False, cx_buffer := []\<rparr>) h"
  obtain es where "appended i (map EventFrame es) ?g (flush sw i (sort_key roomSeq (cx_buffer (conn i h))) ?g)"
    using flush_appended [of i ?g] assms by (auto simp: conn_upd_same)
  moreover have "finishReplay sw i n h = flush sw i (sort_key roomSeq (cx_buffer (conn i h))) ?g"
    using assms by (simp add: finishReplay_def)
  moreover have "durables (conn i ?g) = durables (conn i h)" "cx_hello (conn i ?g)" "cx_resumeFrom (conn i ?g) = cx_resumeFrom (conn i h)"
    "\<not> cx_replaying (conn i ?g)" using assms by (simp_all add: conn_upd_same durables_def)
  ultimately show ?thesis by (auto simp: Let_def elim!: appendedE dest!: prefix_map_rightE)
qed


section \<open>Every step keeps the order\<close>

lemma refuse_ok:
  assumes "replay_ok i a (h, Some r)"
  shows "replay_ok i a (refuse_replay sw i n h, rp)"
proof -
  have q: "quiet i h (refuse_replay sw i n h)"
    unfolding refuse_replay_def by (rule quiet_trans [OF quiet_send quiet_close]) (simp add: durable_def)
  have s: "known i (send_frame sw i (SnapshotRequired x y) h)" for x y
    using quiet_send [of "SnapshotRequired x y" i h sw i] assms by (simp add: quiet_def replay_ok_def durable_def)
  have "cx_closed (conn i (refuse_replay sw i n h))" unfolding refuse_replay_def by (rule close_view(4) [OF s])
  then show ?thesis using assms q by (simp add: replay_ok_def quiet_def)
qed

lemma finish_ok:
  assumes ok: "replay_ok i a (h, Some r)"
  shows "replay_ok i a (finishReplay sw i (rp_through r) (send_frame sw i (ResumeComplete (rp_through r)) h), None)"
proof -
  let ?g = "send_frame sw i (ResumeComplete (rp_through r)) h"
  have kn: "known i h" "cx_hello (conn i h)" "written a (durables (conn i h))" "cx_resumeFrom (conn i h) = a"
    using ok by (simp_all add: replay_ok_def)
  have "appended i [ResumeComplete (rp_through r)] h ?g" using kn(1,2) by (rule appended_send) (simp add: durable_def)
  then show ?thesis
  proof (cases rule: appendedE)
    case (closed gs)
    have "gs = [] \<or> \<not> cx_closed (conn i h) \<and> gs = [ResumeComplete (rp_through r)]" using closed by (cases gs) auto
    then have "written a (durables (conn i ?g))" using closed(6) kn(3) ok written_complete [of a _ "[]"] by (auto simp: replay_ok_def)
    then show ?thesis using closed kn by (simp add: replay_ok_def finishReplay_def)
  next
    case sent
    then obtain es where es: "durables (conn i h) = map EventFrame es" "contiguous_from a es" "rp_through r = a + int (length es)"
      using ok by (auto simp: replay_ok_def)
    then show ?thesis using finish_appended [of i ?g sw "rp_through r"] sent kn written_complete [OF es(2)]
      by (fastforce simp: replay_ok_def Let_def)
  qed
qed

lemma row_ok:
  assumes ok: "replay_ok i a (h, Some r)" and n: "roomSeq e = rp_through r + 1"
  shows "replay_ok i a (send_frame sw i (EventFrame e) h, Some \<lparr>rp_rows = rows, rp_through = roomSeq e\<rparr>)"
proof -
  let ?g = "send_frame sw i (EventFrame e) h"
  have kn: "known i h" "cx_hello (conn i h)" "written a (durables (conn i h))" "cx_resumeFrom (conn i h) = a"
    using ok by (simp_all add: replay_ok_def)
  have next_row: "contiguous_from a (es @ [e])" if "contiguous_from a es" "rp_through r = a + int (length es)" for es
    using that n by (simp add: contiguous_snoc)
  have "appended i [EventFrame e] h ?g" using kn(1,2) by (rule appended_send) (simp add: durable_def)
  then show ?thesis
  proof (cases rule: appendedE)
    case (closed gs)
    have "gs = [] \<or> \<not> cx_closed (conn i h) \<and> gs = [EventFrame e]" using closed by (cases gs) auto
    then have "written a (durables (conn i ?g))" using closed(6) kn(3) ok written_events [OF next_row] by (auto simp: replay_ok_def)
    then show ?thesis using closed kn by (simp add: replay_ok_def)
  next
    case sent
    then obtain es where es: "durables (conn i h) = map EventFrame es" "contiguous_from a es" "rp_through r = a + int (length es)"
      using ok by (auto simp: replay_ok_def)
    then show ?thesis using ok sent n kn written_events [OF next_row [OF es(2,3)]] next_row [OF es(2,3)]
      by (auto simp: replay_ok_def intro!: exI [of _ "es @ [e]"])
  qed
qed

lemma turn_ok:
  assumes ok: "replay_ok i a (h, Some r)" and t: "resume_turn k sw i auth r h = (rp', h')"
  shows "replay_ok i a (h', rp')"
proof -
  have kn: "known i h" using ok by (simp add: replay_ok_def)
  have "replay_ok i a (close_conn sw i c h, rp)" for c rp
    using replay_quiet [OF ok quiet_close] close_view [OF kn] by (simp add: replay_ok_def)
  then show ?thesis using t finish_ok [OF ok] row_ok [OF ok] refuse_ok [OF ok]
    by (auto simp: resume_turn_def split: if_splits DeliveryAuthorization.splits list.splits prod.splits)
qed

lemma live_ok:
  assumes ok: "replay_ok i a (h, rp)"
  shows "replay_ok i a (sendDurable sw j e h, rp)"
proof (cases "cx_replaying (conn i h) \<or> j \<noteq> i \<or> cx_closed (conn i h)")
  case True
  moreover have "cx_closed (conn i h) \<Longrightarrow> sendDurable sw i e h = h" by (simp add: sendDurable_def)
  ultimately have "quiet i h (sendDurable sw j e h)" using quiet_buffering [of i h j sw e] quiet_refl by (metis (no_types))
  then show ?thesis using ok by (rule replay_quiet [rotated])
next
  case False
  let ?g = "send_frame sw i (EventFrame e) h"
  have f: "sendDurable sw j e h = ?g" "known i h" "cx_hello (conn i h)" "rp = None" "\<not> cx_replaying (conn i h)" "cx_resumeFrom (conn i h) = a"
    using ok False by (auto simp: sendDurable_def Let_def replay_ok_def split: option.splits)
  obtain es later where es: "durables (conn i h) = map EventFrame es @ ResumeComplete (a + int (length es)) # map EventFrame later"
    "contiguous_from a es" using ok False f(4) by (auto simp: replay_ok_def)
  have "appended i [EventFrame e] h ?g" using f(2,3) by (rule appended_send) (simp add: durable_def)
  then show ?thesis
  proof (cases rule: appendedE)
    case (closed gs)
    then have "gs = [] \<or> gs = [EventFrame e]" by (cases gs) auto
    then have "written a (durables (conn i ?g))" using closed(6) es written_live [OF es(2)] written_complete [OF es(2)] by auto
    then show ?thesis using closed f by (simp add: replay_ok_def)
  next
    case sent
    then have "durables (conn i ?g) = map EventFrame es @ ResumeComplete (a + int (length es)) # map EventFrame (later @ [e])"
      using es by simp
    then show ?thesis using sent f es(2) written_complete [OF es(2), of "later @ [e]"] unfolding replay_ok_def f(1)
      by (simp del: map_append) blast
  qed
qed

lemma feed_step_ok: "feed_step k i s s' \<Longrightarrow> replay_ok i a s \<Longrightarrow> replay_ok i a s'"
proof (induction rule: feed_step.induct)
  case (inbound h rp sw j answer outcome v)
  then show ?case using replay_quiet quiet_receive by (metis (no_types, lifting) case_prod_conv replay_ok_def)
qed (auto intro: replay_quiet quiet_send quiet_close quiet_connect quiet_visit quiet_resume live_ok turn_ok)

lemma replay_ordered:
  assumes "(feed_step k i)\<^sup>*\<^sup>* s s'" "replay_ok i a s"
  shows "replay_ok i a s'"
  using assms by (induction rule: rtranclp_induct) (auto intro: feed_step_ok)

text \<open>A connection that said hello, and was perhaps welcomed, starts its replay with nothing durable written.\<close>

lemma resume_begins:
  assumes "known i h" "cx_hello (conn i h)" "cx_replaying (conn i h)" "durables (conn i h) = []"
    "resume_start sw i rows h = (Some r, h')"
  shows "replay_ok i (cx_resumeFrom (conn i h)) (h', Some r)"
  using assms by (auto simp: resume_start_def replay_ok_def written_def split: if_splits intro!: exI [of _ "[]"])

end
