(* ===== verification/Projection_Coordinator.thy ===== *)
theory Projection_Coordinator
  imports Js_Data
begin

text \<open>
  \<^verbatim>\<open>ProjectionCoordinator\<close> of \<^verbatim>\<open>apps/web/src/lib/session/projection-coordinator.ts\<close>: the
  panels of a room are published together, when every enabled surface has reached the same
  room sequence number. The callback \<^verbatim>\<open>publish\<close> is the list of the batches it was given.
\<close>

datatype ProjectionSurface = ChatLedger | ConceptPanel | SnaPanel

definition PROJECTION_SURFACES :: "ProjectionSurface list" where
  "PROJECTION_SURFACES = [ChatLedger, ConceptPanel, SnaPanel]"

datatype SurfaceAvailability = Enabled | Withheld

record StagedProjection =
  sp_version :: js_number
  sp_through :: js_number
  sp_value :: json

record CoherentBatch =
  cb_through :: int
  cb_versions :: "(ProjectionSurface \<times> int) list"
  cb_withheld :: "ProjectionSurface list"
  cb_values :: "(ProjectionSurface \<times> json) list"

record Coordinator =
  co_staged :: "(ProjectionSurface, StagedProjection) jsmap"
  co_availability :: "(ProjectionSurface, SurfaceAvailability) jsmap"
  co_last :: "int option"
  co_published :: "CoherentBatch list"

definition new_coordinator :: Coordinator where
  "new_coordinator = \<lparr>co_staged = [], co_availability = map (\<lambda>s. (s, Enabled)) PROJECTION_SURFACES,
     co_last = None, co_published = []\<rparr>"

definition enabled_surfaces :: "Coordinator \<Rightarrow> ProjectionSurface list" where
  "enabled_surfaces c = filter (\<lambda>s. jm_get (co_availability c) s = Some Enabled) PROJECTION_SURFACES"

definition coherentCursor :: "Coordinator \<Rightarrow> int option" where
  "coherentCursor c =
     (let en = enabled_surfaces c; staged = map (jm_get (co_staged c)) en in
      if en = [] then None
      else if list_ex (\<lambda>s. s = None) staged then None
      else (case remdups (map (\<lambda>s. whole (sp_through (the s))) staged) of [n] \<Rightarrow> Some n | _ \<Rightarrow> None))"

definition batch_of :: "Coordinator \<Rightarrow> int \<Rightarrow> CoherentBatch" where
  "batch_of c cursor =
     \<lparr>cb_through = cursor,
      cb_versions = concat (map (\<lambda>s. case jm_get (co_staged c) s of None \<Rightarrow> [] | Some p \<Rightarrow> [(s, whole (sp_version p))]) PROJECTION_SURFACES),
      cb_withheld = filter (\<lambda>s. jm_get (co_availability c) s = Some Withheld) PROJECTION_SURFACES,
      cb_values = map (\<lambda>s. (s, case jm_get (co_staged c) s of None \<Rightarrow> JNull | Some p \<Rightarrow> sp_value p)) PROJECTION_SURFACES\<rparr>"

definition publishWhenCoherent :: "Coordinator \<Rightarrow> Coordinator" where
  "publishWhenCoherent c = (case coherentCursor c of
     None \<Rightarrow> c
   | Some cursor \<Rightarrow>
       if co_last c = Some cursor then c
       else c\<lparr>co_last := Some cursor, co_published := co_published c @ [batch_of c cursor]\<rparr>)"

definition setAvailability :: "ProjectionSurface \<Rightarrow> SurfaceAvailability \<Rightarrow> Coordinator \<Rightarrow> Coordinator" where
  "setAvailability s a c =
     (let c1 = c\<lparr>co_availability := jm_set s a (co_availability c)\<rparr> in
      publishWhenCoherent (if a = Withheld then c1\<lparr>co_staged := jm_delete s (co_staged c1)\<rparr> else c1))"

definition stage :: "ProjectionSurface \<Rightarrow> StagedProjection \<Rightarrow> Coordinator \<Rightarrow> Coordinator" where
  "stage s p c =
     (if jm_get (co_availability c) s = Some Withheld then c
      else if \<not> safe_natural (sp_version p) then c
      else if \<not> safe_natural (sp_through p) then c
      else publishWhenCoherent (c\<lparr>co_staged := jm_set s p (co_staged c)\<rparr>))"

section \<open>Coherence\<close>

inductive coordinator_step :: "Coordinator \<Rightarrow> Coordinator \<Rightarrow> bool" where
  available: "coordinator_step c (setAvailability s a c)"
| staged: "coordinator_step c (stage s p c)"

inductive coordinator_reach :: "Coordinator \<Rightarrow> bool" where
  init: "coordinator_reach new_coordinator"
| step: "coordinator_reach c \<Longrightarrow> coordinator_step c c' \<Longrightarrow> coordinator_reach c'"

inductive_cases coordinator_stepE: "coordinator_step c c'"

definition surfaces_known :: "Coordinator \<Rightarrow> bool" where
  "surfaces_known c \<longleftrightarrow> (\<forall>s. jm_get (co_availability c) s \<noteq> None) \<and>
     (\<forall>s p. jm_get (co_staged c) s = Some p \<longrightarrow> jm_get (co_availability c) s = Some Enabled)"

text \<open>
  A batch shows a surface exactly when it is not withheld, with content that was complete
  through the batch's cursor.
\<close>

definition batch_coherent :: "CoherentBatch \<Rightarrow> bool" where
  "batch_coherent b \<longleftrightarrow> 0 \<le> cb_through b \<and> map fst (cb_versions b) = filter (\<lambda>s. s \<notin> set (cb_withheld b)) PROJECTION_SURFACES \<and>
     cb_versions b \<noteq> [] \<and> (\<forall>s \<in> set (cb_withheld b). map_of (cb_values b) s = Some JNull)"

fun alternating :: "'a list \<Rightarrow> bool" where
  "alternating (x # y # zs) = (x \<noteq> y \<and> alternating (y # zs))"
| "alternating _ = True"

definition coordinator_inv :: "Coordinator \<Rightarrow> bool" where
  "coordinator_inv c \<longleftrightarrow> surfaces_known c \<and>
     (\<forall>s p. jm_get (co_staged c) s = Some p \<longrightarrow> safe_natural (sp_through p)) \<and>
     list_all batch_coherent (co_published c) \<and> alternating (map cb_through (co_published c)) \<and>
     co_last c = (if co_published c = [] then None else Some (cb_through (last (co_published c))))"

lemma alternating_snoc: "alternating (xs @ [y]) \<longleftrightarrow> alternating xs \<and> (xs = [] \<or> last xs \<noteq> y)"
  by (induction xs rule: alternating.induct) auto

lemma coherentCursor_Some:
  assumes "coherentCursor c = Some n"
  shows "enabled_surfaces c \<noteq> []" "s \<in> set (enabled_surfaces c) \<Longrightarrow> \<exists>p. jm_get (co_staged c) s = Some p \<and> whole (sp_through p) = n"
proof -
  let ?xs = "map (\<lambda>s. whole (sp_through (the (jm_get (co_staged c) s)))) (enabled_surfaces c)"
  from assms have a: "enabled_surfaces c \<noteq> []" "\<not> list_ex (\<lambda>s. s = None) (map (jm_get (co_staged c)) (enabled_surfaces c))" "remdups ?xs = [n]"
    by (auto simp: coherentCursor_def Let_def comp_def split: if_splits list.splits)
  then have n: "enabled_surfaces c \<noteq> []" "\<forall>s \<in> set (enabled_surfaces c). jm_get (co_staged c) s \<noteq> None" "remdups ?xs = [n]"
    by (auto simp: list_ex_iff image_iff) (metis not_None_eq)
  have "set ?xs = {n}" using arg_cong [OF n(3), of set] by simp
  with n show "enabled_surfaces c \<noteq> []" "s \<in> set (enabled_surfaces c) \<Longrightarrow> \<exists>p. jm_get (co_staged c) s = Some p \<and> whole (sp_through p) = n"
    by force+
qed

lemma availability_cases: "surfaces_known c \<Longrightarrow> jm_get (co_availability c) s = Some Withheld \<or> jm_get (co_availability c) s = Some Enabled"
  unfolding surfaces_known_def by (metis SurfaceAvailability.exhaust not_Some_eq)

lemma staged_iff_enabled:
  assumes "surfaces_known c" "coherentCursor c = Some n"
  shows "(\<exists>p. jm_get (co_staged c) s = Some p) \<longleftrightarrow> jm_get (co_availability c) s = Some Enabled"
proof
  assume "jm_get (co_availability c) s = Some Enabled"
  then have "s \<in> set (enabled_surfaces c)" by (cases s) (simp_all add: enabled_surfaces_def PROJECTION_SURFACES_def)
  then show "\<exists>p. jm_get (co_staged c) s = Some p" using coherentCursor_Some(2) [OF assms(2)] by blast
qed (use assms(1) in \<open>auto simp: surfaces_known_def\<close>)

lemma batch_of_coherent:
  assumes "surfaces_known c" "\<And>s p. jm_get (co_staged c) s = Some p \<Longrightarrow> safe_natural (sp_through p)" "coherentCursor c = Some n"
  shows "batch_coherent (batch_of c n)"
proof -
  have fst: "map fst (concat (map (\<lambda>s. case f s of None \<Rightarrow> [] | Some p \<Rightarrow> [(s, g p)]) ss)) = filter (\<lambda>s. f s \<noteq> None) ss"
    for f :: "ProjectionSurface \<Rightarrow> StagedProjection option" and g :: "StagedProjection \<Rightarrow> int" and ss
    by (induction ss) (auto split: option.splits)
  have w: "s \<in> set (cb_withheld (batch_of c n)) \<longleftrightarrow> jm_get (co_staged c) s = None" for s
    using availability_cases [OF assms(1), of s] staged_iff_enabled [OF assms(1,3), of s]
    by (cases s) (auto simp: batch_of_def PROJECTION_SURFACES_def)
  obtain s where s: "s \<in> set (enabled_surfaces c)" using coherentCursor_Some(1) [OF assms(3)] by (cases "enabled_surfaces c") auto
  obtain p where p: "jm_get (co_staged c) s = Some p" "whole (sp_through p) = n" using coherentCursor_Some(2) [OF assms(3) s] by blast
  have "0 \<le> n" using assms(2) [OF p(1)] p(2) by (cases "sp_through p") auto
  moreover have "map fst (cb_versions (batch_of c n)) = filter (\<lambda>s. s \<notin> set (cb_withheld (batch_of c n))) PROJECTION_SURFACES"
    unfolding w by (simp add: batch_of_def fst)
  moreover have "s \<in> set (map fst (cb_versions (batch_of c n)))"
    unfolding calculation(2) w using p s by (auto simp: enabled_surfaces_def)
  moreover have "map_of (cb_values (batch_of c n)) x = Some JNull" if "x \<in> set (cb_withheld (batch_of c n))" for x
    using that unfolding w by (cases x) (simp_all add: batch_of_def PROJECTION_SURFACES_def)
  moreover have "cb_through (batch_of c n) = n" by (simp add: batch_of_def)
  moreover have "cb_versions (batch_of c n) \<noteq> []" using calculation(3) by auto
  ultimately show ?thesis unfolding batch_coherent_def by simp
qed

lemma publish_inv: "coordinator_inv c \<Longrightarrow> coordinator_inv (publishWhenCoherent c)"
proof (cases "coherentCursor c")
  case (Some n)
  assume I: "coordinator_inv c"
  then have "batch_coherent (batch_of c n)" using Some by (intro batch_of_coherent) (auto simp: coordinator_inv_def)
  moreover have "cb_through (batch_of c n) = n" by (simp add: batch_of_def)
  ultimately show ?thesis using I Some
    by (auto simp: coordinator_inv_def publishWhenCoherent_def alternating_snoc last_map surfaces_known_def split: if_splits)
qed (simp add: publishWhenCoherent_def)

lemma stage_inv: "coordinator_inv c \<Longrightarrow> coordinator_inv (stage s p c)"
proof -
  assume I: "coordinator_inv c"
  have "jm_get (co_availability c) s = Some Withheld \<or> jm_get (co_availability c) s = Some Enabled"
    using availability_cases I by (simp add: coordinator_inv_def)
  then have "coordinator_inv (c\<lparr>co_staged := jm_set s p (co_staged c)\<rparr>)"
    if "jm_get (co_availability c) s \<noteq> Some Withheld" "safe_natural (sp_through p)"
    using I that by (auto simp: coordinator_inv_def surfaces_known_def)
  then show ?thesis using I by (simp add: stage_def publish_inv)
qed

lemma setAvailability_inv: "coordinator_inv c \<Longrightarrow> coordinator_inv (setAvailability s a c)"
  unfolding setAvailability_def Let_def
  by (rule publish_inv, cases a) (auto simp: coordinator_inv_def surfaces_known_def)

lemma coordinator_reach_inv: "coordinator_reach c \<Longrightarrow> coordinator_inv c"
proof (induction rule: coordinator_reach.induct)
  case init
  have "jm_get (co_availability new_coordinator) s = Some Enabled" for s
    by (cases s) (simp_all add: new_coordinator_def PROJECTION_SURFACES_def jm_get_def)
  then show ?case by (simp add: coordinator_inv_def surfaces_known_def) (simp add: new_coordinator_def)
next
  case (step c c')
  then show ?case by (auto elim!: coordinator_stepE intro: stage_inv setAvailability_inv)
qed

text \<open>Nothing coherent is held back: after every operation the agreed cursor is the published one.\<close>

lemma coherentCursor_frame: "coherentCursor (c\<lparr>co_last := l, co_published := b\<rparr>) = coherentCursor c"
  by (simp add: coherentCursor_def enabled_surfaces_def Let_def)

lemma publish_up_to_date: "coherentCursor (publishWhenCoherent c) = Some n \<Longrightarrow> co_last (publishWhenCoherent c) = Some n"
  by (auto simp: publishWhenCoherent_def coherentCursor_frame split: option.splits if_splits)

lemma coordinator_up_to_date: "coordinator_reach c \<Longrightarrow> coherentCursor c = Some n \<Longrightarrow> co_last c = Some n"
proof (induction arbitrary: n rule: coordinator_reach.induct)
  case init
  then show ?case by (simp add: coherentCursor_def new_coordinator_def enabled_surfaces_def PROJECTION_SURFACES_def jm_get_def)
next
  case (step c c')
  from step.hyps(2) show ?case
  proof (cases rule: coordinator_step.cases)
    case (available s a)
    then show ?thesis using step.prems by (auto simp: setAvailability_def Let_def intro: publish_up_to_date)
  next
    case (staged s p)
    then show ?thesis using step by (auto simp: stage_def intro: publish_up_to_date split: if_splits)
  qed
qed

end
