(* ===== verification/Feed_Properties.thy ===== *)
theory Feed_Properties
  imports Session_Properties Hub_Replay Projection_Coordinator
begin

text \<open>
  Delivery: who is sent a room's events, in which order, how a refusal reaches the browser,
  and what the browser's ledger, socket and panels make of what arrives.
\<close>

section \<open>Delivery\<close>

text \<open>
  C7: a page of events is answered only to a live session that is the room's teacher or
  holds a seat in it, both when the request is authenticated and again after the events
  were read, as the same actor; the page is the one that was read in between. The
  database may change between the handler's queries.
\<close>

theorem pages_only_for_entitled:
  assumes "events_route dp w x valid token rid q ds = Inr (PageReply p)"
  shows "\<exists>s t role actor s' role' found. token = Some t \<and> s_token_hash s = xw_tokenHash x t \<and> entitled x (ds 1) s rid role actor \<and>
     s_id s' = s_id s \<and> entitled x (ds 3) s' rid role' actor \<and>
     fst (eventsAfter w rid (whole (orelse (pq_after q) (Whole 0))) (whole (orelse (pq_limit q) (Whole 500))) (ds 2)) = Inr found \<and>
     pg_events p = found"
proof -
  obtain sid role actor a n found where g: "authenticateToken x token rid (ds 1) = Inr (TokenGranted sid role actor)"
    "a = whole (orelse (pq_after q) (Whole 0))" "n = whole (orelse (pq_limit q) (Whole 500))"
    "fst (eventsAfter w rid a n (ds 2)) = Inr found" "send_page x valid sid actor rid a n found (ds 3) = Inr (PageReply p)"
    using events_route_PageReply [OF assms] by metis
  obtain s t where s: "token = Some t" "s_id s = sid" "s_token_hash s = xw_tokenHash x t" "entitled x (ds 1) s rid role actor"
    using authenticate_granted [OF g(1) [unfolded authenticateToken_def]] by blast
  obtain role' where "reauthorize x sid rid (ds 3) = Inr (Granted role' actor)" using send_page_PageReply(1) [OF g(5)] by blast
  then obtain s' where "s_id s' = sid" "entitled x (ds 3) s' rid role' actor" using reauthorize_granted by blast
  moreover have "pg_events p = found" using send_page_PageReply(2) [OF g(5)] by (simp add: event_page_def Let_def)
  ultimately show ?thesis using s g(2-4) by metis
qed

definition demo_query :: page_query where
  "demo_query = \<lparr>pq_other = False, pq_after = None, pq_limit = None\<rparr>"

lemma demo_page:
  "events_route \<lparr>dp_sessions = True, dp_realtime = True, dp_lifecycle = True\<rparr> (demo_world CHR ''a'') demo_access (\<lambda>_. True) (Some ''t'')
     (demo_id CHR ''0'') demo_query (\<lambda>_. joined_db) = Inr (PageReply \<lparr>pg_events = [opened_event], pg_through = 1, pg_next = None\<rparr>)"
proof -
  obtain i where i: "session_get demo_access (Some ''t'') joined_db = Inr (Some i)" using joined_admitted by (auto simp: admitted_def)
  have "room_inv joined_db" using reachable_invs [OF joined_reachable] by blast
  then have "ledger_inv joined_db" by (simp add: room_inv_def)
  then have "eventsAfter (demo_world CHR ''a'') (demo_id CHR ''0'') 0 500 joined_db = (Inr [opened_event], joined_db)"
    using eventsAfter_page [of joined_db "demo_id CHR ''0''" open_row 0 500 "demo_world CHR ''a''"]
    by (simp add: joined_db_frame demo_pg max_safe_integer_def page_def open_db_room(2) open_readable)
  then show ?thesis using i joined_session
    by (simp add: events_route_def demo_query_def roomEventHttpAccessFailure_def max_safe_integer_def send_page_def encodeRoomEventPage_def
        event_page_def opened_event_def)
qed

theorem pages_only_for_entitled_witness:
  "\<exists>s role actor. entitled demo_access joined_db s (demo_id CHR ''0'') role actor \<and> s_token_hash s = [116]"
  using pages_only_for_entitled [OF demo_page] by (auto simp: demo_access_def)

text \<open>
  C31: every refusal of the event route that is not an exception is one the browser's gateway
  understands: it reports exactly the server's code and never an invalid response. The
  error schema of the contract accepts the four codes.
\<close>

theorem route_refusals_understood:
  assumes "events_route dp w x valid token rid q ds = Inr (ErrorReply http c)"
    and "hc_code hc ''INVALID_QUERY''" "hc_code hc ''AUTH_REQUIRED''" "hc_code hc ''ROOM_NOT_FOUND''" "hc_code hc ''ROOM_SERVICE_UNAVAILABLE''"
  shows "getRoomEvents hc (delivered (events_route dp w x valid token rid q ds)) = Inl (GatewayError c)"
proof -
  have l: "http \<noteq> 200" "c \<in> set (page_allowlist http)" using events_route_listed [OF assms(1)] by (simp_all add: listed_def)
  then have "hc_code hc c" using assms(2-5) by (auto simp: page_allowlist_def split: if_splits)
  then show ?thesis using l assms(1) by (simp add: getRoomEvents_def legalError_def)
qed

theorem route_refusals_understood_witness:
  "getRoomEvents \<lparr>hc_page = (\<lambda>_. True), hc_code = (\<lambda>_. True)\<rparr> (delivered (events_route \<lparr>dp_sessions = True, dp_realtime = True, dp_lifecycle = True\<rparr>
     (demo_world CHR ''a'') demo_access (\<lambda>_. True) None (demo_id CHR ''0'') demo_query (\<lambda>_. joined_db))) = Inl (GatewayError ''AUTH_REQUIRED'')"
proof (rule route_refusals_understood)
  show "events_route \<lparr>dp_sessions = True, dp_realtime = True, dp_lifecycle = True\<rparr> (demo_world CHR ''a'') demo_access (\<lambda>_. True) None
     (demo_id CHR ''0'') demo_query (\<lambda>_. joined_db) = Inr (ErrorReply 401 ''AUTH_REQUIRED'')"
    by (simp add: events_route_def session_get_def unusable_def)
qed simp_all

text \<open>
  C23: after a logout the cookie opens nothing: neither an HTTP request nor a WebSocket is
  admitted with it, and the sockets that were opened with it are refused at their next
  delivery.
\<close>

theorem logout_ends_access:
  assumes "\<not> unusable (Some t)" "xw_uuid x rid = Some u"
    and "list_all (\<lambda>s. s_id s = sid \<longrightarrow> s_token_hash s = xw_tokenHash x t) (sessions d)"
  shows "session_get x (Some t) (session_revoke x (Some t) d) = Inr None \<and>
     authenticate x ws (Some t) rid (session_revoke x (Some t) d) = Inr (TokenRefused 4401) \<and>
     reauthorize x sid rid (session_revoke x (Some t) d) = Inr (Refused 4401)"
proof -
  note r = room_rows_dead [OF session_revoke_dead [OF assms(1), of x d]]
  have "reauthorize x sid rid (session_revoke x (Some t) d) = Inr (Refused 4401)"
    using assms(1,3) by (intro reauthorize_revoked) (auto simp: session_revoke_def list_all_iff split: if_splits)
  then show ?thesis
    using assms(1,2) r session_revoke_dead [OF assms(1), of x d] by (simp add: session_get_def authenticate_def)
qed

theorem logout_ends_access_witness:
  "reauthorize demo_access (demo_id CHR ''0'') (demo_id CHR ''0'') (session_revoke demo_access (Some ''t'') joined_db) = Inr (Refused 4401)"
  using logout_ends_access [of "''t''" demo_access "demo_id CHR ''0''" "demo_id CHR ''0''" "demo_id CHR ''0''" joined_db]
  by (simp add: unusable_def demo_access_def joined_db_def demo_session_def)


definition demo_sw :: server_world where
  "demo_sw = \<lparr>sw_now = 3000, sw_buffered = (\<lambda>_. Some (Whole 0))\<rparr>"

definition hello_hub :: hub where
  "hello_hub = receive demo_contracts demo_sw 0 (Inl (Failure '''')) (Inl (Failure '''')) (Inbound (ClientHello ''c'' 0))
     (snd (hub_connect (demo_id CHR ''0'') (demo_id CHR ''0'') (demo_id CHR ''7'') \<lparr>hb_rooms = [], hb_conns = [], hb_next = 0, hb_tasks = []\<rparr>))"


lemma hello_hub_conn:
  "known 0 hello_hub" "cx_hello (conn 0 hello_hub)" "cx_replaying (conn 0 hello_hub)" "durables (conn 0 hello_hub) = []"
  "cx_resumeFrom (conn 0 hello_hub) = 0" "\<not> cx_closed (conn 0 hello_hub)" "cx_codes (conn 0 hello_hub) = []"
  by (simp_all add: hello_hub_def hub_connect_def Let_def receive_def conn_def jm_get_def new_connection_def demo_contracts_def hello_frame_def
      upd_conn_def known_def durables_def)



section \<open>A failure that ends a session\<close>

text \<open>
  C38: when the authorization of an inbound frame fails with an exception, such as a lost
  database connection, the server closes the socket with 4400, the code of a protocol
  violation; the browser takes 4400 as final: it gives the session up with an error and
  has no reconnect armed.
\<close>

theorem database_failure_ends_session:
  assumes "known i h" "\<not> cx_closed (conn i h)" "cx_hello (conn i h)" "client_schema k f"
    and "\<not> rs_closed (sock c)" "\<not> hy_expired (host c)" "\<not> hy_unavailable (host c)" "hy_recoveryError (host c) = None"
  shows "cx_codes (conn i (receive k sw i (Inl e) outcome (Inbound f) h)) = cx_codes (conn i h) @ [4400] \<and>
     rs_closed (sock (snd (rs_onClose (hydrated_callbacks su) (Some 4400) c))) \<and>
     rs_retryTimer (sock (snd (rs_onClose (hydrated_callbacks su) (Some 4400) c))) = None \<and>
     hy_recoveryError (host (snd (rs_onClose (hydrated_callbacks su) (Some 4400) c))) = Some ''REALTIME_PROTOCOL_ERROR''"
proof -
  have "cx_codes (conn i (leave sw i g)) = cx_codes (conn i g)" for g
    by (auto simp: leave_def Let_def fold_broadcast_view conn_upd split: option.split prod.split)
  then have "cx_codes (conn i (receive k sw i (Inl e) outcome (Inbound f) h)) = cx_codes (conn i h) @ [4400]"
    using assms(1-4) by (simp add: receive_def awaited_def close_conn_def conn_upd_same)
  moreover have "rs_closed (sock (snd (rs_onClose (hydrated_callbacks su) (Some 4400) c))) \<and>
     rs_retryTimer (sock (snd (rs_onClose (hydrated_callbacks su) (Some 4400) c))) = None \<and>
     hy_recoveryError (host (snd (rs_onClose (hydrated_callbacks su) (Some 4400) c))) = Some ''REALTIME_PROTOCOL_ERROR''"
    using assms(5-8)
    by (simp add: rs_onClose_def hydrated_callbacks_def act_bind_app act_then_app connection_callback_def dispatch_state_def notify_def shut_down_def
        failRecovery_def close_socket_def socket_close_def teardown_callbacks_def)
  ultimately show ?thesis by blast
qed

theorem database_failure_ends_session_witness:
  "cx_codes (conn 0 (receive demo_contracts demo_sw 0 (Inl (Failure ''connection lost'')) (Inl (Failure '''')) (Inbound ClientHeartbeat) hello_hub)) = [4400] \<and>
   rs_retryTimer (sock (snd (rs_onClose (hydrated_callbacks demo_su) (Some 4400) demo_client))) = None"
proof -
  have c: "\<not> rs_closed (sock demo_client)" "\<not> hy_expired (host demo_client)" "\<not> hy_unavailable (host demo_client)" "hy_recoveryError (host demo_client) = None"
    by (simp_all add: demo_client_def new_socket_def blank_state_def Let_def)
  have k: "client_schema demo_contracts ClientHeartbeat" by (simp add: demo_contracts_def)
  show ?thesis using database_failure_ends_session [OF hello_hub_conn(1,6,2) k c] hello_hub_conn(7) by simp
qed

section \<open>Taking events in\<close>

text \<open>
  C12: at-least-once delivery makes an exact log. Whatever is delivered of a room's log,
  repeated, reordered or with holes, the ledger holds a prefix of the log that never
  shrinks; and it holds all of it as soon as the delivery contains the missing rest in
  order, with anything in between.
\<close>

theorem delivery_is_exactly_once:
  assumes "feedable k rid lg" "set ws \<subseteq> set lg" "n \<le> length lg" "ledger_of (take n lg) l" "l_roomId l \<in> {None, Some rid}"
  shows "\<exists>m. n \<le> m \<and> m \<le> length lg \<and> ledger_events (fold (ledger_offer k) ws l) = take m lg \<and> (subseq (drop n lg) ws \<longrightarrow> m = length lg)"
  using feed_prefix [OF assms] ledger_events_of by fast

theorem delivery_is_exactly_once_witness:
  "ledger_events (fold (ledger_offer demo_contracts) [opened_event, opened_event] (new_ledger (Some (demo_id CHR ''0'')))) = [opened_event]"
proof -
  have r: "l_roomId (new_ledger (Some (demo_id CHR ''0''))) \<in> {None, Some (demo_id CHR ''0'')}" by (simp add: new_ledger_def)
  from delivery_is_exactly_once [OF demo_feedable, of "[opened_event, opened_event]" 0, OF _ _ _ r] ledger_of_new
  obtain m where "m \<le> 1" "ledger_events (fold (ledger_offer demo_contracts) [opened_event, opened_event] (new_ledger (Some (demo_id CHR ''0'')))) = take m [opened_event]"
    "subseq [opened_event] [opened_event, opened_event] \<longrightarrow> m = 1" by auto
  then show ?thesis by simp
qed






text \<open>
  C30: the socket's cursor moves only by one and only to the number of the event being
  handled, whatever frame arrives and however the session's sinks answer.
\<close>

theorem cursor_never_jumps:
  "rs_lastRoomSeq (sock (snd (onFrame k b (hydrated_callbacks su) v s c))) = rs_lastRoomSeq (sock c) \<or>
   rs_lastRoomSeq (sock (snd (onFrame k b (hydrated_callbacks su) v s c))) = rs_lastRoomSeq (sock c) + 1 \<and>
   (\<exists>e. v = Shaped (EventFrame e) \<and> roomSeq e = rs_lastRoomSeq (sock c) + 1)"
  using sq.onFrame_cursor [of k b su v s c] by (auto simp: sq.frame_number_def split: raw_frame.splits ServerFrame.splits)

text \<open>
  C39: a revision cannot take a reply away in the browser: when the latest version of a
  message replies to nothing and an earlier one replied to \<open>q\<close>, the ledger still shows the
  reply to \<open>q\<close>.
\<close>

theorem cleared_reply_is_still_shown:
  assumes "ledger_of es l" "filter (concerns mid) es = [x, y]" "revision x \<le> revision y"
    and "ev_type x = ''message.added''" "opt_string (payload x) ''replyTo'' = Some q" "opt_string (payload y) ''replyTo'' = None"
  shows "\<exists>m. jm_get (l_messages l) mid = Some m \<and> lm_revision m = revision y \<and> lm_replyTo m = Some q"
proof -
  have "jm_get (l_messages l) mid = view_step y (view_step x None)"
    using ledger_message_view [OF assms(1)] assms(2) by (simp add: message_view_def)
  then show ?thesis using assms(3-6) by (simp add: view_step_def next_message_def Let_def)
qed

definition reply_event :: "int \<Rightarrow> json \<Rightarrow> string \<Rightarrow> envelope" where
  "reply_event n q t = message_event\<lparr>eventId := demo_ev CHR ''c'' (if n = 2 then CHR ''2'' else CHR ''3''), roomSeq := n, revision := n - 1, ev_type := t,
     payload := JObj [(''messageId'', JStr ''m''), (''text'', JStr ''hi''), (''replyTo'', q), (''mentions'', JArr []), (''mediaIds'', JArr [])]\<rparr>"

definition reply_log :: "envelope list" where
  "reply_log = [opened_event, reply_event 2 (JStr ''q'') ''message.added'', reply_event 3 JNull ''message.revised'']"

lemma reply_feedable: "feedable demo_contracts (demo_id CHR ''0'') reply_log"
  using demo_accepts
  by (simp add: feedable_def numbered_def reply_log_def)
     (simp add: event_accepted_def demo_contracts_def opened_event_def message_event_def reply_event_def)

theorem cleared_reply_is_still_shown_witness:
  "\<exists>m. jm_get (l_messages (fold (ledger_offer demo_contracts) reply_log (new_ledger (Some (demo_id CHR ''0''))))) ''m'' = Some m \<and>
     lm_revision m = 2 \<and> lm_replyTo m = Some ''q''"
proof -
  let ?x = "reply_event 2 (JStr ''q'') ''message.added''" and ?y = "reply_event 3 JNull ''message.revised''"
  have r: "l_roomId (new_ledger (Some (demo_id CHR ''0''))) \<in> {None, Some (demo_id CHR ''0'')}" by (simp add: new_ledger_def)
  have l: "ledger_of reply_log (fold (ledger_offer demo_contracts) reply_log (new_ledger (Some (demo_id CHR ''0''))))"
    using feed_prefix [OF reply_feedable, of reply_log 0, OF _ _ _ r] ledger_of_new by auto
  have c: "filter (concerns ''m'') reply_log = [?x, ?y]"
    by (simp add: reply_log_def concerns_def reply_event_def opened_event_def messageTypes_def payload_message_id_def opt_string_def jmember_def)
  show ?thesis using cleared_reply_is_still_shown [OF l c, of "''q''"] by (simp add: reply_event_def opt_string_def jmember_def)
qed

end
