(* ===== verification/Outbox_Publisher.thy ===== *)
theory Outbox_Publisher
  imports Hub_Replay "HOL-Library.Product_Lexorder" "HOL-Library.Multiset"
begin

text \<open>
  \<^verbatim>\<open>OutboxPublisher\<close> of \<^verbatim>\<open>apps/server/src/modules/realtime/outbox-publisher.ts\<close>, which hands
  committed outbox rows to the hub, and \<^verbatim>\<open>ProjectionOutboxRepository\<close> of
  \<^verbatim>\<open>apps/server/src/modules/analytics/projection-outbox-repository.ts\<close>, which does the same
  bookkeeping for analytics pointers. The rows carry the columns the publisher uses beside
  those of the ledger; what each query of a tick meets (its time, the rows other
  transactions hold, the order of \<^verbatim>\<open>RETURNING\<close>, its failure) is part of the tick's world.
\<close>

section \<open>Rows\<close>

record outbox_cell = outbox_row +
  x_id :: int
  x_created :: int
  x_available :: int
  x_locked_at :: "int option"
  x_locked_by :: "string option"
  x_attempts :: int
  x_published :: "int option"
  x_error :: "string option"

text \<open>The defaults with which the repository's \<^verbatim>\<open>INSERT\<close> leaves a row at time \<open>now\<close>.\<close>

definition fresh_cell :: "int \<Rightarrow> int \<Rightarrow> outbox_row \<Rightarrow> outbox_cell" where
  "fresh_cell n now r = outbox_row.extend r
     \<lparr>x_id = n, x_created = now, x_available = now, x_locked_at = None, x_locked_by = None, x_attempts = 0,
      x_published = None, x_error = None\<rparr>"

record pointer_row =
  pj_id :: int
  pj_room :: string
  pj_key :: string
  pj_epoch :: string
  pj_version :: int
  pj_through :: int
  pj_url :: string
  pj_available :: int
  pj_locked_at :: "int option"
  pj_locked_by :: "string option"
  pj_attempts :: int
  pj_published :: "int option"
  pj_error :: "string option"

record publisher =
  pb_rows :: "outbox_cell list"
  pb_pointers :: "pointer_row list"
  pb_hub :: hub

type_synonym 'a pub_act = "(publisher, failure, 'a) act"

section \<open>Queries\<close>

text \<open>A statement that either throws or changes the state.\<close>

definition issue_update :: "failure option \<Rightarrow> (publisher \<Rightarrow> publisher) \<Rightarrow> unit pub_act" where
  "issue_update fails f = (case fails of Some e \<Rightarrow> raise e | None \<Rightarrow> modify f)"

definition on_hub :: "'a hub_act \<Rightarrow> 'a pub_act" where
  "on_hub m p = (case m (pb_hub p) of (r, h) \<Rightarrow> (r, p\<lparr>pb_hub := h\<rparr>))"

definition lock_free :: "int \<Rightarrow> int \<Rightarrow> int option \<Rightarrow> bool" where
  "lock_free now age l = (case l of None \<Rightarrow> True | Some t \<Rightarrow> t < now - age)"

definition claimable :: "int \<Rightarrow> outbox_cell \<Rightarrow> bool" where
  "claimable now x \<longleftrightarrow> x_published x = None \<and> x_available x \<le> now \<and> lock_free now 120000 (x_locked_at x)"

text \<open>\<^verbatim>\<open>ORDER BY \<dots> FOR UPDATE SKIP LOCKED LIMIT\<close>; \<open>held\<close> are the rows other transactions have locked.\<close>

definition picked :: "int \<Rightarrow> nat \<Rightarrow> int list \<Rightarrow> outbox_cell list \<Rightarrow> int list" where
  "picked now limit held xs = map x_id (take limit (sort_key (\<lambda>x. (x_available x, x_created x, x_id x))
     (filter (\<lambda>x. claimable now x \<and> x_id x \<notin> set held) xs)))"

definition claim_cell :: "int \<Rightarrow> string \<Rightarrow> outbox_cell \<Rightarrow> outbox_cell" where
  "claim_cell now w x = x\<lparr>x_locked_at := Some now, x_locked_by := Some w, x_attempts := x_attempts x + 1\<rparr>"

definition claim_cells :: "int \<Rightarrow> string \<Rightarrow> int list \<Rightarrow> outbox_cell list \<Rightarrow> outbox_cell list" where
  "claim_cells now w ids = map (\<lambda>x. if x_id x \<in> set ids then claim_cell now w x else x)"

definition update_cell :: "int \<Rightarrow> string \<Rightarrow> (outbox_cell \<Rightarrow> outbox_cell) \<Rightarrow> publisher \<Rightarrow> publisher" where
  "update_cell n w f p = p\<lparr>pb_rows := map (\<lambda>x. if x_id x = n \<and> x_locked_by x = Some w then f x else x) (pb_rows p)\<rparr>"

definition mark_cell :: "int \<Rightarrow> outbox_cell \<Rightarrow> outbox_cell" where
  "mark_cell now x = x\<lparr>x_published := Some now, x_locked_at := None, x_locked_by := None, x_error := None\<rparr>"

definition postpone_cell :: "int \<Rightarrow> outbox_cell \<Rightarrow> outbox_cell" where
  "postpone_cell now x = x\<lparr>x_available := now + 5000, x_locked_at := None, x_locked_by := None, x_error := Some ''PUBLISH_FAILED''\<rparr>"

section \<open>Publishing one event\<close>

text \<open>What one row meets: the clock, the authorizer's answers, and whether its two updates fail.\<close>

record row_world =
  rw_now :: int
  rw_server :: server_world
  rw_answers :: "nat \<Rightarrow> failure + DeliveryAuthorization"
  rw_mark :: "failure option"
  rw_release :: "failure option"

definition publish_event :: "contracts \<Rightarrow> string \<Rightarrow> row_world \<Rightarrow> outbox_cell \<Rightarrow> unit pub_act" where
  "publish_event k w rw x =
     act_then (require (envelope_schema k (o_envelope x)) (Failure ''INVALID_ROOM_EVENT''))
    (act_then (require (roomId (o_envelope x) = o_room x) (Failure ''OUTBOX_ROOM_MISMATCH''))
    (act_then (on_hub (broadcastAuthorized (rw_server rw) (rw_answers rw) (o_room x) (EventFrame (o_envelope x))))
       (issue_update (rw_mark rw) (update_cell (x_id x) w (mark_cell (rw_now rw))))))"

text \<open>The body of the loop: an exception postpones the row, and only that update can end the tick.\<close>

definition publish_row :: "contracts \<Rightarrow> string \<Rightarrow> row_world \<Rightarrow> outbox_cell \<Rightarrow> nat pub_act" where
  "publish_row k w rw x p = (case publish_event k w rw x p of
     (Inr _, p1) \<Rightarrow> (Inr 1, p1)
   | (Inl _, p1) \<Rightarrow> act_then (issue_update (rw_release rw) (update_cell (x_id x) w (postpone_cell (rw_now rw)))) (ret 0) p1)"

text \<open>A loop that adds what its turns count; turn \<open>n\<close> gets the surroundings with that index.\<close>

fun count_all :: "(nat \<Rightarrow> 'x \<Rightarrow> ('s, 'e, nat) act) \<Rightarrow> nat \<Rightarrow> 'x list \<Rightarrow> ('s, 'e, nat) act" where
  "count_all f n [] = ret 0"
| "count_all f n (x # xs) = act_bind (f n x) (\<lambda>a. act_bind (count_all f (Suc n) xs) (\<lambda>b. ret (a + b)))"

section \<open>Analytics pointers\<close>

definition projection_keys :: "projection_key list" where
  "projection_keys = [EchoTeacherShadow, EchoStudentApproved, TraceTeacherBundle, TraceStudentBundle]"

definition key_of :: "string \<Rightarrow> projection_key option" where
  "key_of s = find (\<lambda>key. key_text key = s) projection_keys"

definition safe_int :: "int \<Rightarrow> bool" where
  "safe_int n \<longleftrightarrow> \<bar>n\<bar> \<le> max_safe_integer"

text \<open>The checks of \<^verbatim>\<open>claim\<close> on a returned row, and the frame the publisher builds from it.\<close>

definition pointer_frame :: "pointer_row \<Rightarrow> ProjectionFrame option" where
  "pointer_frame r = (case key_of (pj_key r) of
     None \<Rightarrow> None
   | Some key \<Rightarrow>
       if safe_int (pj_id r) \<and> pj_id r \<ge> 1 \<and> uuid_ok (pj_room r) \<and> uuid_ok (pj_epoch r) \<and> safe_int (pj_version r) \<and> pj_version r \<ge> 1
          \<and> safe_int (pj_through r) \<and> pj_through r \<ge> 0 \<and> pj_url r = analytics_latest (pj_room r) key
       then Some \<lparr>pf_roomId = pj_room r, pf_key = key, pf_epoch = pj_epoch r, pf_version = pj_version r,
                  pf_through = pj_through r, pf_url = pj_url r\<rparr>
       else None)"

definition pointer_claimable :: "int \<Rightarrow> pointer_row \<Rightarrow> bool" where
  "pointer_claimable now r \<longleftrightarrow> pj_published r = None \<and> pj_available r \<le> now \<and> lock_free now 30000 (pj_locked_at r)"

definition picked_pointers :: "int \<Rightarrow> nat \<Rightarrow> int list \<Rightarrow> pointer_row list \<Rightarrow> int list" where
  "picked_pointers now limit held rs = take limit (sort (map pj_id (filter (\<lambda>r. pointer_claimable now r \<and> pj_id r \<notin> set held) rs)))"

definition claim_pointers :: "int \<Rightarrow> string \<Rightarrow> int list \<Rightarrow> pointer_row list \<Rightarrow> pointer_row list" where
  "claim_pointers now w ids = map (\<lambda>r. if pj_id r \<in> set ids
     then r\<lparr>pj_locked_at := Some now, pj_locked_by := Some w, pj_attempts := pj_attempts r + 1\<rparr> else r)"

text \<open>
  \<^verbatim>\<open>claim\<close>: the update is committed before the returned rows are checked, and one row that
  fails the checks throws away the whole result.
\<close>

definition projection_claim :: "int \<Rightarrow> js_number \<Rightarrow> string \<Rightarrow> int list \<Rightarrow> (pointer_row list \<Rightarrow> pointer_row list) \<Rightarrow> failure option
    \<Rightarrow> (int \<times> ProjectionFrame) list pub_act" where
  "projection_claim now limit w held order fails =
     act_then (require (safe_natural limit \<and> 1 \<le> whole limit \<and> whole limit \<le> 100) (Failure ''INVALID_OUTBOX_LIMIT''))
    (act_then (require (1 \<le> length w \<and> length w \<le> 128) (Failure ''INVALID_OUTBOX_WORKER''))
    (act_bind (gets (\<lambda>p. picked_pointers now (nat (whole limit)) held (pb_pointers p))) (\<lambda>ids.
     act_then (issue_update fails (\<lambda>p. p\<lparr>pb_pointers := claim_pointers now w ids (pb_pointers p)\<rparr>))
    (act_bind (gets (\<lambda>p. order (filter (\<lambda>r. pj_id r \<in> set ids) (pb_pointers p)))) (\<lambda>rows.
     if list_all (\<lambda>r. pointer_frame r \<noteq> None) rows
     then ret (map (\<lambda>r. (pj_id r, the (pointer_frame r))) rows)
     else raise (Failure ''ANALYTICS_OUTBOX_CORRUPT''))))))"

definition update_pointer :: "int \<Rightarrow> string \<Rightarrow> (pointer_row \<Rightarrow> pointer_row) \<Rightarrow> publisher \<Rightarrow> publisher" where
  "update_pointer n w f p =
     p\<lparr>pb_pointers := map (\<lambda>r. if pj_id r = n \<and> pj_locked_by r = Some w then f r else r) (pb_pointers p)\<rparr>"

definition mark_pointer :: "int \<Rightarrow> pointer_row \<Rightarrow> pointer_row" where
  "mark_pointer now r = r\<lparr>pj_published := Some now, pj_locked_at := None, pj_locked_by := None\<rparr>"

definition release_pointer :: "int \<Rightarrow> pointer_row \<Rightarrow> pointer_row" where
  "release_pointer now r =
     r\<lparr>pj_available := now + 5000, pj_locked_at := None, pj_locked_by := None, pj_error := Some ''PROJECTION_PUBLISH_FAILED''\<rparr>"

definition markPublished :: "int \<Rightarrow> int \<Rightarrow> string \<Rightarrow> failure option \<Rightarrow> unit pub_act" where
  "markPublished now n w fails =
     act_bind (gets (\<lambda>p. list_ex (\<lambda>r. pj_id r = n \<and> pj_locked_by r = Some w) (pb_pointers p))) (\<lambda>current.
     act_then (issue_update fails (update_pointer n w (mark_pointer now)))
       (require current (Failure ''ANALYTICS_OUTBOX_CLAIM_STALE'')))"

record pointer_world = row_world +
  pw_valid :: "ProjectionFrame \<Rightarrow> bool"
  pw_decisions :: "nat \<Rightarrow> failure + ProjectionDeliveryDecision"

definition publish_pointer :: "string \<Rightarrow> pointer_world \<Rightarrow> int \<times> ProjectionFrame \<Rightarrow> nat pub_act" where
  "publish_pointer w pw x p = (case
     act_then (require (pw_valid pw (snd x) \<and> projectionUrlHolds (snd x)) (Failure ''INVALID_REALTIME_FRAME''))
    (act_then (on_hub (broadcastProjectionAuthorized (rw_server pw) (rw_answers pw) (pw_decisions pw) (pf_roomId (snd x)) (snd x)))
       (markPublished (rw_now pw) (fst x) w (rw_mark pw))) p of
     (Inr _, p1) \<Rightarrow> (Inr 1, p1)
   | (Inl _, p1) \<Rightarrow> act_then (issue_update (rw_release pw) (update_pointer (fst x) w (release_pointer (rw_now pw)))) (ret 0) p1)"

section \<open>The tick\<close>

record tick_world =
  tw_limit :: js_number
  tw_worker :: string
  tw_paused :: bool
  tw_now :: int
  tw_claim :: "failure option"
  tw_held :: "int list"
  tw_order :: "outbox_cell list \<Rightarrow> outbox_cell list"
  tw_rows :: "nat \<Rightarrow> row_world"
  tw_projections :: bool
  tw_pnow :: int
  tw_pclaim :: "failure option"
  tw_pheld :: "int list"
  tw_porder :: "pointer_row list \<Rightarrow> pointer_row list"
  tw_pointers :: "nat \<Rightarrow> pointer_world"

definition claim_rows :: "tick_world \<Rightarrow> outbox_cell list pub_act" where
  "claim_rows tw =
     act_bind (gets (\<lambda>p. picked (tw_now tw) (nat (whole (tw_limit tw))) (tw_held tw) (pb_rows p))) (\<lambda>ids.
     act_then (issue_update (tw_claim tw) (\<lambda>p. p\<lparr>pb_rows := claim_cells (tw_now tw) (tw_worker tw) ids (pb_rows p)\<rparr>))
       (gets (\<lambda>p. tw_order tw (filter (\<lambda>x. x_id x \<in> set ids) (pb_rows p)))))"

definition projection_part :: "tick_world \<Rightarrow> nat pub_act" where
  "projection_part tw =
     (if \<not> tw_projections tw then ret 0
      else act_bind (projection_claim (tw_pnow tw) (tw_limit tw) (tw_worker tw) (tw_pheld tw) (tw_porder tw) (tw_pclaim tw))
        (count_all (\<lambda>n. publish_pointer (tw_worker tw) (tw_pointers tw n)) 0))"

definition tick :: "contracts \<Rightarrow> tick_world \<Rightarrow> nat pub_act" where
  "tick k tw =
     act_then (require (safe_natural (tw_limit tw) \<and> 1 \<le> whole (tw_limit tw) \<and> whole (tw_limit tw) \<le> 100) (Failure ''INVALID_OUTBOX_LIMIT''))
       (if tw_paused tw then ret 0
        else act_bind (claim_rows tw) (\<lambda>rows.
             act_bind (count_all (\<lambda>n. publish_row k (tw_worker tw) (tw_rows tw n)) 0 rows) (\<lambda>a.
             act_bind (projection_part tw) (\<lambda>b. ret (a + b)))))"

end
