(* ===== verification/Outbox_Delivery.thy ===== *)
theory Outbox_Delivery
  imports Outbox_Publisher
begin

text \<open>
  What a tick of the publisher guarantees: whatever fails in it, a row is marked published
  only after its event was offered to every connection of its room, no row is lost, and a
  sequence of ticks that meet no failure publishes every row that is due.
\<close>

section \<open>The hub during a broadcast\<close>

definition offered :: "nat \<Rightarrow> envelope \<Rightarrow> hub \<Rightarrow> bool" where
  "offered i e h \<longleftrightarrow> cx_closed (conn i h) \<or> e \<in> set (cx_buffer (conn i h)) \<or> EventFrame e \<in> set (cx_sent (conn i h))"

text \<open>Open connections keep their membership, what they buffer and what was written to them.\<close>

definition kept :: "nat \<Rightarrow> hub \<Rightarrow> hub \<Rightarrow> bool" where
  "kept i h h' \<longleftrightarrow> \<not> cx_closed (conn i h) \<and> set (cx_buffer (conn i h)) \<subseteq> set (cx_buffer (conn i h')) \<and>
     set (cx_sent (conn i h)) \<subseteq> set (cx_sent (conn i h')) \<and> (\<forall>rid. i \<in> set (members_of rid h) \<longrightarrow> i \<in> set (members_of rid h'))"

definition grows :: "hub \<Rightarrow> hub \<Rightarrow> bool" where
  "grows h h' \<longleftrightarrow> (\<forall>i. known i h \<longrightarrow> known i h' \<and> (cx_closed (conn i h') \<or> kept i h h'))"

lemma kept_trans: "kept i h h1 \<Longrightarrow> kept i h1 h2 \<Longrightarrow> kept i h h2"
  unfolding kept_def by (meson subset_trans)

lemma grows_refl [simp]: "grows h h"
  by (auto simp: grows_def kept_def)

lemma grows_trans: "grows h h1 \<Longrightarrow> grows h1 h2 \<Longrightarrow> grows h h2"
  unfolding grows_def using kept_trans by (metis kept_def)

lemma grows_known: "grows h h' \<Longrightarrow> known i h \<Longrightarrow> known i h'"
  by (simp add: grows_def)

lemma grows_offered: "grows h h' \<Longrightarrow> known i h \<Longrightarrow> offered i e h \<Longrightarrow> offered i e h'"
  unfolding grows_def kept_def offered_def by blast

lemma grows_member:
  "grows h h' \<Longrightarrow> known i h \<Longrightarrow> i \<in> set (members_of rid h) \<Longrightarrow> cx_closed (conn i h') \<or> i \<in> set (members_of rid h')"
  unfolding grows_def kept_def by blast

lemma rooms_upd [simp]: "hb_rooms (upd_conn i f h) = hb_rooms h"
  by (simp add: upd_conn_def split: option.split)

lemma rooms_broadcasts [simp]: "hb_rooms (fold (\<lambda>f. start_broadcast r f s) fs h) = hb_rooms h"
  by (induction fs arbitrary: h) (simp_all add: start_broadcast_def)

lemma rooms_leave:
  "hb_rooms (leave sw j h) = (case jm_get (hb_rooms h) (cx_room (conn j h)) of
     None \<Rightarrow> hb_rooms h
   | Some is \<Rightarrow> if removeAll j is = [] then jm_delete (cx_room (conn j h)) (hb_rooms h)
       else jm_set (cx_room (conn j h)) (removeAll j is) (hb_rooms h))"
  by (simp add: leave_def Let_def split: option.split prod.split)

lemma members_leave:
  assumes "i \<noteq> j" "i \<in> set (members_of rid h)"
  shows "i \<in> set (members_of rid (leave sw j h))"
proof -
  have "removeAll j is \<noteq> []" if "i \<in> set is" for "is" using that assms(1) by (induction "is") auto
  then show ?thesis using assms by (auto simp: members_of_def rooms_leave split: option.splits)
qed

lemma grows_upd:
  assumes "\<And>c. cx_closed (f c) = cx_closed c" "\<And>c. set (cx_buffer c) \<subseteq> set (cx_buffer (f c))" "\<And>c. set (cx_sent c) \<subseteq> set (cx_sent (f c))"
  shows "grows h (upd_conn j f h)"
  using assms by (auto simp: grows_def kept_def conn_upd members_of_def)

lemma leave_keeps:
  "cx_buffer (conn i (leave sw j h)) = cx_buffer (conn i h)" "cx_sent (conn i (leave sw j h)) = cx_sent (conn i h)"
  by (auto simp: leave_def Let_def fold_broadcast_view conn_upd split: option.split prod.split)

lemma grows_leave:
  assumes "known j h \<Longrightarrow> cx_closed (conn j h)"
  shows "grows h (leave sw j h)"
  unfolding grows_def
proof (intro allI impI)
  fix i assume "known i h"
  then show "known i (leave sw j h) \<and> (cx_closed (conn i (leave sw j h)) \<or> kept i h (leave sw j h))"
    using assms members_leave [of i j _ h sw] by (cases "i = j") (auto simp: kept_def leave_view leave_keeps)
qed

lemma grows_close: "grows h (close_conn sw j cl h)"
proof (cases "cx_closed (conn j h)")
  case False
  let ?h = "upd_conn j (\<lambda>c. c\<lparr>cx_closed := True, cx_buffer := [], cx_codes := cx_codes c @ [cl]\<rparr>) h"
  have "grows h ?h" by (auto simp: grows_def kept_def conn_upd members_of_def)
  moreover have "grows ?h (leave sw j ?h)" by (rule grows_leave) (simp add: conn_upd_same)
  ultimately show ?thesis using False by (simp add: close_conn_def grows_trans)
qed (simp add: close_conn_def)

lemma grows_send: "grows h (send_frame sw j f h)"
proof -
  have w: "grows h (upd_conn j (\<lambda>c. c\<lparr>cx_sent := cx_sent c @ [f]\<rparr>) h)" by (rule grows_upd) auto
  have c: "grows h (close_conn sw j 1013 (upd_conn j (\<lambda>c. c\<lparr>cx_codes := cx_codes c @ [1013]\<rparr>) h))"
    by (rule grows_trans [OF grows_upd grows_close]) auto
  show ?thesis using w c grows_close by (auto simp: send_frame_def Let_def split: option.split prod.split BackpressureState.split)
qed

lemma close_offers: "known j h \<Longrightarrow> offered j e (close_conn sw j cl h)"
  by (simp add: offered_def close_view)

lemma send_offers: "known j h \<Longrightarrow> offered j e (send_frame sw j (EventFrame e) h)"
  using close_offers [of j h] close_offers [of j "upd_conn j (\<lambda>c. c\<lparr>cx_codes := cx_codes c @ [1013]\<rparr>) h"]
  by (auto simp: send_frame_def Let_def offered_def conn_upd_same split: option.split prod.split BackpressureState.split)

lemma grows_durable: "grows h (sendDurable sw j e h)"
proof -
  have "grows h (upd_conn j (\<lambda>c. c\<lparr>cx_buffer := cx_buffer c @ [e]\<rparr>) h)" by (rule grows_upd) auto
  then show ?thesis using grows_send grows_trans [OF grows_send grows_close] by (auto simp: sendDurable_def Let_def)
qed

lemma durable_offers: "known j h \<Longrightarrow> offered j e (sendDurable sw j e h)"
  using send_offers close_offers [OF grows_known [OF grows_send]]
  by (auto simp: sendDurable_def Let_def offered_def conn_upd_same)

lemma durable_visit_grows: "grows h (snd (durable_visit sw answer (EventFrame e) j h))"
  by (auto simp: durable_visit_def grows_close grows_durable split: sum.split DeliveryAuthorization.split)

lemma durable_visit_offers:
  "durable_visit sw answer (EventFrame e) j h = (Inr r, h') \<Longrightarrow> known j h \<Longrightarrow> offered j e h'"
  by (auto simp: durable_visit_def close_offers durable_offers split: sum.splits DeliveryAuthorization.splits)

lemma projection_visit_grows: "grows h (snd (projection_visit sw answer decision f j h))"
  by (auto simp: projection_visit_def sendDegraded_def grows_close grows_send
      split: sum.split DeliveryAuthorization.split ProjectionDeliveryDecision.split option.split)

lemma visit_all_grows:
  assumes "\<And>i h. grows h (snd (visit i h))"
  shows "grows h (snd (visit_all visit is h))"
proof (induction "is" arbitrary: h)
  case (Cons i "is")
  show ?case using assms [of h i] Cons.IH [of "snd (visit i h)"]
    by (auto simp: act_simps split: prod.splits sum.splits intro: grows_trans)
qed simp

lemma broadcast_grows: "grows h (snd (broadcastAuthorized sw answers rid (EventFrame e) h))"
  by (simp add: broadcastAuthorized_def act_simps visit_all_grows durable_visit_grows)

lemma projection_broadcast_grows: "grows h (snd (broadcastProjectionAuthorized sw answers decisions rid f h))"
  by (simp add: broadcastProjectionAuthorized_def act_simps visit_all_grows projection_visit_grows)

lemma visit_all_offers:
  assumes "visit_all (\<lambda>i. durable_visit sw (answers i) (EventFrame e) i) is h = (Inr n, h')" "i \<in> set is" "known i h"
  shows "offered i e h'"
  using assms
proof (induction "is" arbitrary: h n)
  case (Cons j "is")
  obtain r h1 m where v: "durable_visit sw (answers j) (EventFrame e) j h = (Inr r, h1)"
    and rest: "visit_all (\<lambda>i. durable_visit sw (answers i) (EventFrame e) i) is h1 = (Inr m, h')"
    using Cons.prems(1) by (auto simp: act_iffs)
  have g: "grows h h1" "grows h1 h'"
    using durable_visit_grows [of h sw "answers j" e j] v
      visit_all_grows [of "\<lambda>i. durable_visit sw (answers i) (EventFrame e) i" h1 "is", OF durable_visit_grows] rest by simp_all
  show ?case
  proof (cases "i = j")
    case True
    then show ?thesis using durable_visit_offers [OF v] grows_offered [OF g(2)] grows_known [OF g(1)] Cons.prems(3) by simp
  next
    case False
    then show ?thesis using Cons.IH [OF rest _ grows_known [OF g(1) Cons.prems(3)]] Cons.prems(2) by simp
  qed
qed simp

lemma broadcast_offers:
  "broadcastAuthorized sw answers rid (EventFrame e) h = (Inr n, h') \<Longrightarrow> i \<in> set (members_of rid h) \<Longrightarrow> known i h \<Longrightarrow> offered i e h'"
  by (auto simp: broadcastAuthorized_def act_simps intro: visit_all_offers)

section \<open>Any tick: published means offered\<close>

text \<open>
  How a row may change while the hub goes from \<open>h\<close> to \<open>h'\<close>: it stays the same event, stays
  published, and becomes published only when the connections of its room have the event.
\<close>

definition cell_step :: "hub \<Rightarrow> hub \<Rightarrow> outbox_cell \<Rightarrow> outbox_cell \<Rightarrow> bool" where
  "cell_step h h' x y \<longleftrightarrow> x_id y = x_id x \<and> outbox_row.truncate y = outbox_row.truncate x \<and>
     (x_published x \<noteq> None \<longrightarrow> x_published y \<noteq> None) \<and>
     (x_published x = None \<and> x_published y \<noteq> None \<longrightarrow>
        (\<forall>i. known i h \<and> i \<in> set (members_of (o_room x) h) \<longrightarrow> offered i (o_envelope x) h'))"

definition outbox_progress :: "publisher \<Rightarrow> publisher \<Rightarrow> bool" where
  "outbox_progress p p' \<longleftrightarrow> grows (pb_hub p) (pb_hub p') \<and> list_all2 (cell_step (pb_hub p) (pb_hub p')) (pb_rows p) (pb_rows p')"

lemma truncate_fields:
  assumes "outbox_row.truncate y = outbox_row.truncate x"
  shows "o_room y = o_room x" "o_envelope y = o_envelope x"
  using assms by (simp_all add: outbox_row.truncate_def)

lemma cell_step_refl [simp]: "cell_step h h' x x"
  by (auto simp: cell_step_def)

lemma progress_hub: "grows (pb_hub p) (pb_hub p') \<Longrightarrow> pb_rows p' = pb_rows p \<Longrightarrow> outbox_progress p p'"
  by (simp add: outbox_progress_def list.rel_refl)

lemma cell_step_trans:
  assumes "grows h h1" "grows h1 h2" "cell_step h h1 x y" "cell_step h1 h2 y z"
  shows "cell_step h h2 x z"
proof -
  have "offered i (o_envelope x) h2"
    if i: "known i h" "i \<in> set (members_of (o_room x) h)" and x: "x_published x = None" "x_published z \<noteq> None" for i
  proof (cases "x_published y = None")
    case True
    have f: "o_room y = o_room x" "o_envelope y = o_envelope x" using assms(3) truncate_fields unfolding cell_step_def by blast+
    have k: "known i h1" using grows_known [OF assms(1) i(1)] .
    show ?thesis
    proof (cases "cx_closed (conn i h1)")
      case True
      then show ?thesis using grows_offered [OF assms(2) k] by (simp add: offered_def)
    next
      case False
      then have "i \<in> set (members_of (o_room y) h1)" using grows_member [OF assms(1) i] f by simp
      then have "offered i (o_envelope y) h2" using assms(4) True x(2) k unfolding cell_step_def by blast
      then show ?thesis using f by simp
    qed
  next
    case False
    then show ?thesis using i x assms(3) grows_offered [OF assms(2) grows_known [OF assms(1) i(1)]] by (auto simp: cell_step_def)
  qed
  then show ?thesis using assms(3,4) by (auto simp: cell_step_def)
qed

lemma progress_trans: "outbox_progress p p1 \<Longrightarrow> outbox_progress p1 p2 \<Longrightarrow> outbox_progress p p2"
  unfolding outbox_progress_def
  by (elim conjE, intro conjI, erule (1) grows_trans) (rule list_all2_trans [OF cell_step_trans], assumption+)

lemma progress_ids: "outbox_progress p p' \<Longrightarrow> map x_id (pb_rows p') = map x_id (pb_rows p)"
  by (auto simp: outbox_progress_def cell_step_def list_all2_conv_all_nth intro: nth_equalityI)

lemma list_all2_map_same: "list_all2 R xs (map f xs) \<longleftrightarrow> (\<forall>x\<in>set xs. R x (f x))"
  by (induction xs) auto

lemma list_all2_partner:
  "list_all2 R xs ys \<Longrightarrow> y \<in> set ys \<Longrightarrow> \<exists>x\<in>set xs. R x y" "list_all2 R xs ys \<Longrightarrow> x \<in> set xs \<Longrightarrow> \<exists>y\<in>set ys. R x y"
  by (induction rule: list_all2_induct) auto

text \<open>Updates that do not mark a row.\<close>

lemma progress_unmarked:
  assumes "grows (pb_hub p) (pb_hub p')" "pb_rows p' = map f (pb_rows p)"
    "\<And>x. x_id (f x) = x_id x" "\<And>x. outbox_row.truncate (f x) = outbox_row.truncate x" "\<And>x. x_published (f x) = x_published x"
  shows "outbox_progress p p'"
  using assms by (auto simp: outbox_progress_def list_all2_map_same cell_step_def)

lemma claimed_progress: "outbox_progress p (p\<lparr>pb_rows := claim_cells now w ids (pb_rows p)\<rparr>)"
  by (rule progress_unmarked [where f = "\<lambda>x. if x_id x \<in> set ids then claim_cell now w x else x"])
    (simp_all add: claim_cells_def claim_cell_def outbox_row.truncate_def)

lemma postponed_progress: "outbox_progress p (update_cell n w (postpone_cell now) p)"
  by (rule progress_unmarked [where f = "\<lambda>x. if x_id x = n \<and> x_locked_by x = Some w then postpone_cell now x else x"])
    (simp_all add: update_cell_def postpone_cell_def outbox_row.truncate_def)

lemma hub_progress: "(\<And>h. grows h (snd (m h))) \<Longrightarrow> outbox_progress p (snd (on_hub m p))"
  by (rule progress_hub) (simp_all add: on_hub_def split: prod.split, metis snd_conv)

text \<open>A claimed row is a copy of a row of the table.\<close>

definition copied :: "publisher \<Rightarrow> outbox_cell \<Rightarrow> bool" where
  "copied p x \<longleftrightarrow> (\<exists>y\<in>set (pb_rows p). x_id y = x_id x \<and> outbox_row.truncate y = outbox_row.truncate x)"

lemma progress_copied: "outbox_progress p p' \<Longrightarrow> copied p x \<Longrightarrow> copied p' x"
  by (fastforce simp: outbox_progress_def copied_def cell_step_def list_all2_conv_all_nth in_set_conv_nth)

lemma marked_progress:
  assumes g: "grows (pb_hub p) (pb_hub p1)" and same: "pb_rows p1 = pb_rows p" and keys: "distinct (map x_id (pb_rows p))" and x: "copied p x"
    and off: "\<And>i. known i (pb_hub p) \<Longrightarrow> i \<in> set (members_of (o_room x) (pb_hub p)) \<Longrightarrow> offered i (o_envelope x) (pb_hub p1)"
  shows "outbox_progress p (update_cell (x_id x) w (mark_cell now) p1)"
proof -
  obtain y where y: "y \<in> set (pb_rows p)" "x_id y = x_id x" "outbox_row.truncate y = outbox_row.truncate x"
    using x by (auto simp: copied_def)
  have only: "z = y" if "z \<in> set (pb_rows p)" "x_id z = x_id x" for z
    using that y keys by (auto simp: distinct_map inj_on_def)
  have "cell_step (pb_hub p) (pb_hub p1) z (if x_id z = x_id x \<and> x_locked_by z = Some w then mark_cell now z else z)"
    if "z \<in> set (pb_rows p)" for z
    using only [OF that] truncate_fields [OF y(3)] off by (auto simp: cell_step_def mark_cell_def outbox_row.truncate_def)
  then show ?thesis using g same by (simp add: outbox_progress_def update_cell_def list_all2_map_same)
qed

lemma publish_event_progress:
  assumes "distinct (map x_id (pb_rows p))" "copied p x"
  shows "outbox_progress p (snd (publish_event k w rw x p))"
proof -
  obtain r h where b: "broadcastAuthorized (rw_server rw) (rw_answers rw) (o_room x) (EventFrame (o_envelope x)) (pb_hub p) = (r, h)"
    by (cases "broadcastAuthorized (rw_server rw) (rw_answers rw) (o_room x) (EventFrame (o_envelope x)) (pb_hub p)")
  have g: "grows (pb_hub p) h" using broadcast_grows [of "pb_hub p" "rw_server rw" "rw_answers rw" "o_room x" "o_envelope x"] b by simp
  have stays: "outbox_progress p (p\<lparr>pb_hub := h\<rparr>)" by (rule progress_hub) (simp_all add: g)
  have marks: "outbox_progress p (update_cell (x_id x) w (mark_cell (rw_now rw)) (p\<lparr>pb_hub := h\<rparr>))" if "r = Inr n" for n
    using marked_progress [OF _ _ assms, of "p\<lparr>pb_hub := h\<rparr>" w "rw_now rw"] g broadcast_offers [of "rw_server rw" "rw_answers rw"] b that by simp
  show ?thesis
    using stays marks by (auto simp: publish_event_def act_simps on_hub_def b issue_update_def progress_hub split: sum.split option.split)
qed

lemma publish_row_progress:
  assumes "distinct (map x_id (pb_rows p))" "copied p x"
  shows "outbox_progress p (snd (publish_row k w rw x p))"
  using publish_event_progress [OF assms, of k w rw] progress_trans [OF _ postponed_progress]
  by (auto simp: publish_row_def act_simps issue_update_def split: prod.splits sum.splits option.split)

lemma publish_rows_progress:
  assumes "distinct (map x_id (pb_rows p))" "\<And>x. x \<in> set xs \<Longrightarrow> copied p x"
  shows "outbox_progress p (snd (count_all (\<lambda>n. publish_row k w (ws n)) n xs p))"
  using assms
proof (induction xs arbitrary: p n)
  case (Cons x xs)
  obtain r p1 where one: "publish_row k w (ws n) x p = (r, p1)" by (cases "publish_row k w (ws n) x p")
  have s: "outbox_progress p p1" using publish_row_progress [of p x k w "ws n"] Cons.prems one by simp
  have "outbox_progress p1 (snd (count_all (\<lambda>n. publish_row k w (ws n)) (Suc n) xs p1))"
    using Cons.IH [of p1] Cons.prems progress_ids [OF s] progress_copied [OF s] by simp
  then show ?case using s progress_trans [OF s] by (auto simp: act_simps one split: sum.split prod.splits)
qed (simp add: progress_hub)

text \<open>The second half of a tick works on pointers and on the hub.\<close>

definition pointer_frame_inv :: "outbox_cell list \<Rightarrow> hub \<Rightarrow> publisher \<Rightarrow> bool" where
  "pointer_frame_inv xs h p \<longleftrightarrow> pb_rows p = xs \<and> grows h (pb_hub p)"

lemma keeps_issue:
  "(\<And>p. pb_rows (f p) = pb_rows p \<and> pb_hub (f p) = pb_hub p) \<Longrightarrow> keeps (pointer_frame_inv xs h) (issue_update e f)"
  by (simp add: issue_update_def keeps_def pointer_frame_inv_def split: option.split)

lemma keeps_on_hub: "(\<And>h. grows h (snd (m h))) \<Longrightarrow> keeps (pointer_frame_inv xs h0) (on_hub m)"
  unfolding keeps_def pointer_frame_inv_def on_hub_def by (auto split: prod.split) (metis grows_trans snd_conv)

lemma keeps_projection_claim: "keeps (pointer_frame_inv xs h) (projection_claim now limit w held order e)"
  unfolding projection_claim_def by (intro keeps_intros keeps_issue) simp

lemma keeps_publish_pointer: "keeps (pointer_frame_inv xs h) (publish_pointer w pw x)"
proof -
  have u: "keeps (pointer_frame_inv xs h) (issue_update e (update_pointer n w f))" for e n f
    by (rule keeps_issue) (simp add: update_pointer_def)
  have "keeps (pointer_frame_inv xs h)
     (act_then (require (pw_valid pw (snd x) \<and> projectionUrlHolds (snd x)) (Failure ''INVALID_REALTIME_FRAME''))
    (act_then (on_hub (broadcastProjectionAuthorized (rw_server pw) (rw_answers pw) (pw_decisions pw) (pf_roomId (snd x)) (snd x)))
       (markPublished (rw_now pw) (fst x) w (rw_mark pw))))" (is "keeps _ ?body")
    unfolding markPublished_def by (intro keeps_intros keeps_on_hub projection_broadcast_grows u)
  moreover have "keeps (pointer_frame_inv xs h)
     (act_then (issue_update (rw_release pw) (update_pointer (fst x) w (release_pointer (rw_now pw)))) (ret 0))"
    by (intro keeps_intros u)
  ultimately show ?thesis unfolding keeps_def publish_pointer_def by (fastforce split: prod.splits sum.splits)
qed

lemma keeps_count_all: "(\<And>n x. keeps I (f n x)) \<Longrightarrow> keeps I (count_all f n xs)"
  by (induction xs arbitrary: n) (auto intro!: keeps_intros)

lemma keeps_projection_part: "keeps (pointer_frame_inv xs h) (projection_part tw)"
  unfolding projection_part_def by (intro keeps_intros keeps_projection_claim keeps_count_all keeps_publish_pointer)

lemma projection_part_frame:
  "pb_rows (snd (projection_part tw p)) = pb_rows p" "grows (pb_hub p) (pb_hub (snd (projection_part tw p)))"
  using keeps_projection_part [of "pb_rows p" "pb_hub p" tw] by (simp_all add: keeps_def pointer_frame_inv_def)

lemma projection_part_progress: "outbox_progress p (snd (projection_part tw p))"
  by (rule progress_hub) (simp_all add: projection_part_frame)

text \<open>\<^verbatim>\<open>RETURNING\<close> yields the updated rows in some order.\<close>

definition orderly :: "tick_world \<Rightarrow> bool" where
  "orderly tw \<longleftrightarrow> (\<forall>xs. mset (tw_order tw xs) = mset xs)"

lemma orderly_set: "orderly tw \<Longrightarrow> set (tw_order tw xs) = set xs"
  unfolding orderly_def by (metis set_mset_mset)

lemma tick_progress:
  assumes "orderly tw" "distinct (map x_id (pb_rows p))"
  shows "outbox_progress p (snd (tick k tw p))"
proof (cases "safe_natural (tw_limit tw) \<and> 1 \<le> whole (tw_limit tw) \<and> whole (tw_limit tw) \<le> 100 \<and> \<not> tw_paused tw \<and> tw_claim tw = None")
  case True
  let ?ids = "picked (tw_now tw) (nat (whole (tw_limit tw))) (tw_held tw) (pb_rows p)"
  let ?p = "p\<lparr>pb_rows := claim_cells (tw_now tw) (tw_worker tw) ?ids (pb_rows p)\<rparr>"
  let ?rows = "tw_order tw (filter (\<lambda>x. x_id x \<in> set ?ids) (pb_rows ?p))"
  have c: "outbox_progress p ?p" by (rule claimed_progress)
  have d: "distinct (map x_id (pb_rows ?p))" using progress_ids [OF c] assms(2) by simp
  have "outbox_progress ?p (snd (count_all (\<lambda>n. publish_row k (tw_worker tw) (tw_rows tw n)) 0 ?rows ?p))"
    by (rule publish_rows_progress [OF d]) (auto simp: orderly_set [OF assms(1)] copied_def)
  then have rows: "outbox_progress p (snd (count_all (\<lambda>n. publish_row k (tw_worker tw) (tw_rows tw n)) 0 ?rows ?p))"
    by (rule progress_trans [OF c])
  show ?thesis
    using True rows progress_trans [OF rows projection_part_progress [of _ tw]]
    by (auto simp: tick_def claim_rows_def issue_update_def act_simps split: prod.splits sum.splits)
qed (auto simp: tick_def claim_rows_def issue_update_def act_simps progress_hub split: option.split)

definition run_ticks :: "contracts \<Rightarrow> tick_world list \<Rightarrow> publisher \<Rightarrow> publisher" where
  "run_ticks k tws p = fold (\<lambda>tw p. snd (tick k tw p)) tws p"

lemma run_ticks_simps [simp]:
  "run_ticks k [] p = p" "run_ticks k (tw # tws) p = run_ticks k tws (snd (tick k tw p))"
  "run_ticks k (tws @ tws') p = run_ticks k tws' (run_ticks k tws p)"
  by (simp_all add: run_ticks_def)

lemma run_progress:
  assumes "\<And>tw. tw \<in> set tws \<Longrightarrow> orderly tw" "distinct (map x_id (pb_rows p))"
  shows "outbox_progress p (run_ticks k tws p)"
  using assms
proof (induction tws arbitrary: p)
  case (Cons tw tws)
  have t: "outbox_progress p (snd (tick k tw p))" using tick_progress Cons.prems by simp
  then show ?case using progress_trans [OF t Cons.IH] Cons.prems progress_ids [OF t] by simp
qed (simp add: progress_hub)

section \<open>No row is stuck\<close>

text \<open>From time \<open>T\<close> on, every row that is not published can be claimed.\<close>

definition all_ripe :: "int \<Rightarrow> publisher \<Rightarrow> bool" where
  "all_ripe T p \<longleftrightarrow> (\<forall>x\<in>set (pb_rows p). x_published x = None \<longrightarrow> claimable T x)"

definition timely :: "int \<Rightarrow> tick_world \<Rightarrow> bool" where
  "timely T tw \<longleftrightarrow> tw_now tw + 120000 < T \<and> (\<forall>n. rw_now (tw_rows tw n) + 5000 \<le> T)"

lemma keeps_ripe_issue:
  assumes "\<And>x. x_published x = None \<longrightarrow> claimable T x \<Longrightarrow> x_published (f x) = None \<longrightarrow> claimable T (f x)"
    "\<And>p. pb_rows (g p) = map f (pb_rows p)"
  shows "keeps (all_ripe T) (issue_update e g)"
  using assms by (simp add: issue_update_def keeps_def all_ripe_def split: option.split)

lemma keeps_ripe_claim:
  assumes "timely T tw"
  shows "keeps (all_ripe T) (claim_rows tw)"
  unfolding claim_rows_def
  by (intro keeps_intros, rule keeps_ripe_issue [where f = "\<lambda>x. if x_id x \<in> set ids then claim_cell (tw_now tw) (tw_worker tw) x else x" for ids])
    (use assms in \<open>auto simp: claim_cells_def claim_cell_def claimable_def lock_free_def timely_def\<close>)

lemma keeps_ripe_row:
  assumes "rw_now rw + 5000 \<le> T"
  shows "keeps (all_ripe T) (publish_row k w rw x)"
proof -
  have m: "keeps (all_ripe T) (issue_update e (update_cell n w (mark_cell t)))" for e n t
    by (rule keeps_ripe_issue [where f = "\<lambda>x. if x_id x = n \<and> x_locked_by x = Some w then mark_cell t x else x"])
      (auto simp: update_cell_def mark_cell_def)
  have r: "keeps (all_ripe T) (issue_update e (update_cell n w (postpone_cell (rw_now rw))))" for e n
    by (rule keeps_ripe_issue [where f = "\<lambda>x. if x_id x = n \<and> x_locked_by x = Some w then postpone_cell (rw_now rw) x else x"])
      (use assms in \<open>auto simp: update_cell_def postpone_cell_def claimable_def lock_free_def\<close>)
  have "keeps (all_ripe T) (on_hub f)" for f :: "nat hub_act"
    by (auto simp: keeps_def all_ripe_def on_hub_def split: prod.split)
  then have "keeps (all_ripe T) (publish_event k w rw x)"
    unfolding publish_event_def by (intro keeps_intros m)
  moreover have "keeps (all_ripe T) (act_then (issue_update (rw_release rw) (update_cell (x_id x) w (postpone_cell (rw_now rw)))) (ret 0))"
    by (intro keeps_intros r)
  ultimately show ?thesis unfolding keeps_def publish_row_def by (fastforce split: prod.splits sum.splits)
qed

lemma keeps_ripe_tick:
  assumes "timely T tw"
  shows "keeps (all_ripe T) (tick k tw)"
proof -
  have "keeps (all_ripe T) (projection_part tw)"
    by (rule keepsI) (simp add: all_ripe_def projection_part_frame)
  then show ?thesis
    unfolding tick_def using assms
    by (intro keeps_intros keeps_count_all keeps_ripe_claim keeps_ripe_row) (simp_all add: timely_def)
qed

lemma run_ripe: "(\<And>tw. tw \<in> set tws \<Longrightarrow> timely T tw) \<Longrightarrow> all_ripe T p \<Longrightarrow> all_ripe T (run_ticks k tws p)"
  using keeps_ripe_tick by (induction tws arbitrary: p) (auto simp: keeps_def)

section \<open>Ticks that meet no failure\<close>

definition smooth :: "tick_world \<Rightarrow> bool" where
  "smooth tw \<longleftrightarrow> safe_natural (tw_limit tw) \<and> 1 \<le> whole (tw_limit tw) \<and> whole (tw_limit tw) \<le> 100 \<and> \<not> tw_paused tw \<and>
     tw_claim tw = None \<and> tw_held tw = [] \<and> orderly tw \<and>
     (\<forall>n. rw_mark (tw_rows tw n) = None \<and> (\<forall>i. \<not> isl (rw_answers (tw_rows tw n) i)))"

definition sendable :: "contracts \<Rightarrow> outbox_cell \<Rightarrow> bool" where
  "sendable k x \<longleftrightarrow> envelope_schema k (o_envelope x) \<and> roomId (o_envelope x) = o_room x"

lemma visit_all_returns:
  assumes "\<And>i. \<not> isl (answers i)"
  shows "\<exists>n h'. visit_all (\<lambda>i. durable_visit sw (answers i) f i) is h = (Inr n, h')"
proof (induction "is" arbitrary: h)
  case (Cons i "is")
  obtain a where "answers i = Inr a" using assms [of i] by (cases "answers i") auto
  then obtain c h1 where "durable_visit sw (answers i) f i h = (Inr c, h1)"
    by (cases a) (auto simp: durable_visit_def)
  then show ?case using Cons.IH [of h1] by (auto simp: act_simps)
qed simp

lemma publish_row_smooth:
  assumes "sendable k x" "rw_mark rw = None" "\<And>i. \<not> isl (rw_answers rw i)"
  obtains h where "publish_row k w rw x p = (Inr 1, update_cell (x_id x) w (mark_cell (rw_now rw)) (p\<lparr>pb_hub := h\<rparr>))"
proof -
  obtain n h where "broadcastAuthorized (rw_server rw) (rw_answers rw) (o_room x) (EventFrame (o_envelope x)) (pb_hub p) = (Inr n, h)"
    using visit_all_returns [OF assms(3)] by (fastforce simp: broadcastAuthorized_def act_simps)
  then show thesis
    using assms(1,2) that by (simp add: publish_row_def publish_event_def sendable_def act_simps on_hub_def issue_update_def)
qed

definition cell_published :: "string \<Rightarrow> int set \<Rightarrow> outbox_cell \<Rightarrow> outbox_cell \<Rightarrow> bool" where
  "cell_published w ids x y \<longleftrightarrow> x_id y = x_id x \<and> outbox_row.truncate y = outbox_row.truncate x \<and>
     (if x_id x \<in> ids \<and> x_locked_by x = Some w then x_published y \<noteq> None else y = x)"

lemma cell_published_first:
  "cell_published w (insert n ids) x z" if "cell_published w ids (if x_id x = n \<and> x_locked_by x = Some w then mark_cell t x else x) z"
  using that by (auto simp: cell_published_def mark_cell_def outbox_row.truncate_def split: if_splits)

lemma publish_rows_smooth:
  assumes "\<And>x. x \<in> set xs \<Longrightarrow> sendable k x" "\<And>n. rw_mark (ws n) = None" "\<And>n i. \<not> isl (rw_answers (ws n) i)"
  shows "\<exists>p'. count_all (\<lambda>n. publish_row k w (ws n)) n xs p = (Inr (length xs), p') \<and>
    list_all2 (cell_published w (x_id ` set xs)) (pb_rows p) (pb_rows p')"
  using assms(1)
proof (induction xs arbitrary: p n)
  case Nil
  then show ?case by (simp add: list.rel_refl cell_published_def)
next
  case (Cons x xs)
  obtain h where one: "publish_row k w (ws n) x p = (Inr 1, update_cell (x_id x) w (mark_cell (rw_now (ws n))) (p\<lparr>pb_hub := h\<rparr>))"
    using publish_row_smooth assms Cons.prems by (metis list.set_intros(1))
  let ?p = "update_cell (x_id x) w (mark_cell (rw_now (ws n))) (p\<lparr>pb_hub := h\<rparr>)"
  obtain p' where rest: "count_all (\<lambda>n. publish_row k w (ws n)) (Suc n) xs ?p = (Inr (length xs), p')"
    "list_all2 (cell_published w (x_id ` set xs)) (pb_rows ?p) (pb_rows p')"
    using Cons.IH [of "Suc n" ?p] Cons.prems by auto
  have "list_all2 (cell_published w (insert (x_id x) (x_id ` set xs))) (pb_rows p) (pb_rows p')"
    using rest(2) by (auto simp: update_cell_def list_all2_conv_all_nth intro: cell_published_first)
  then show ?case by (simp add: act_simps one rest(1))
qed

definition unpublished_ids :: "publisher \<Rightarrow> int set" where
  "unpublished_ids p = x_id ` {x \<in> set (pb_rows p). x_published x = None}"

lemma picked_card:
  assumes "distinct (map x_id (pb_rows p))" "all_ripe T p" "T \<le> now"
  shows "set (picked now limit [] (pb_rows p)) \<subseteq> unpublished_ids p"
    "card (set (picked now limit [] (pb_rows p))) = min limit (card (unpublished_ids p))"
proof -
  let ?xs = "filter (claimable now) (pb_rows p)"
  have claim: "claimable now x \<longleftrightarrow> x_published x = None" if "x \<in> set (pb_rows p)" for x
    using assms(2,3) that by (auto simp: all_ripe_def claimable_def lock_free_def split: option.splits)
  have ids: "unpublished_ids p = x_id ` set ?xs" using claim by (auto simp: unpublished_ids_def)
  have picked: "picked now limit [] (pb_rows p) = take limit (map x_id (sort_key (\<lambda>x. (x_available x, x_created x, x_id x)) ?xs))"
    by (simp add: picked_def take_map)
  have d: "distinct (map x_id ?xs)" using assms(1) by (simp add: distinct_map_filter)
  then have s: "distinct (map x_id (sort_key (\<lambda>x. (x_available x, x_created x, x_id x)) ?xs))"
    by (simp add: distinct_map)
  show "set (picked now limit [] (pb_rows p)) \<subseteq> unpublished_ids p"
    unfolding picked ids using set_take_subset by fastforce
  have "card (unpublished_ids p) = length ?xs" unfolding ids using distinct_card [OF d] by simp
  then show "card (set (picked now limit [] (pb_rows p))) = min limit (card (unpublished_ids p))"
    unfolding picked using distinct_card [OF distinct_take [OF s, of limit]] by simp
qed

lemma tick_smooth_rows:
  assumes tw: "smooth tw" and keys: "distinct (map x_id (pb_rows p))" and send: "\<And>x. x \<in> set (pb_rows p) \<Longrightarrow> sendable k x"
  shows "list_all2 (\<lambda>x y. x_id y = x_id x \<and>
      (if x_id x \<in> set (picked (tw_now tw) (nat (whole (tw_limit tw))) [] (pb_rows p)) then x_published y \<noteq> None else y = x))
    (pb_rows p) (pb_rows (snd (tick k tw p)))"
proof -
  let ?ids = "picked (tw_now tw) (nat (whole (tw_limit tw))) [] (pb_rows p)"
  let ?p = "p\<lparr>pb_rows := claim_cells (tw_now tw) (tw_worker tw) ?ids (pb_rows p)\<rparr>"
  let ?rows = "tw_order tw (filter (\<lambda>x. x_id x \<in> set ?ids) (pb_rows ?p))"
  have o: "orderly tw" using tw by (simp add: smooth_def)
  have rows: "x \<in> set ?rows \<Longrightarrow> sendable k x" for x
    using send by (auto simp: orderly_set [OF o] claim_cells_def claim_cell_def sendable_def)
  have ids: "set ?ids \<subseteq> x_id ` set (pb_rows p)" by (auto simp: picked_def dest!: in_set_takeD)
  have got: "x_id ` set ?rows = set ?ids"
  proof -
    have "x_id ` set (pb_rows ?p) = x_id ` set (pb_rows p)" using arg_cong [OF progress_ids [OF claimed_progress], of set] by simp
    moreover have "x_id ` set ?rows = set ?ids \<inter> x_id ` set (pb_rows ?p)" unfolding orderly_set [OF o] by auto
    ultimately show ?thesis using ids by auto
  qed
  obtain p' where p': "count_all (\<lambda>n. publish_row k (tw_worker tw) (tw_rows tw n)) 0 ?rows ?p = (Inr (length ?rows), p')"
    "list_all2 (cell_published (tw_worker tw) (set ?ids)) (pb_rows ?p) (pb_rows p')"
    using publish_rows_smooth [of ?rows k "tw_rows tw" "tw_worker tw" 0 ?p] rows tw unfolding got smooth_def by blast
  have "pb_rows (snd (tick k tw p)) = pb_rows p'"
  proof -
    obtain r q where q: "projection_part tw p' = (r, q)" by (cases "projection_part tw p'")
    then show ?thesis using tw p'(1) projection_part_frame(1) [of tw p']
      by (cases r) (simp_all add: smooth_def tick_def claim_rows_def issue_update_def act_simps)
  qed
  then show ?thesis
    using p'(2) by (auto simp: list_all2_conv_all_nth claim_cells_def claim_cell_def cell_published_def split: if_splits)
qed

lemma tick_smooth:
  assumes tw: "smooth tw" "T \<le> tw_now tw" and keys: "distinct (map x_id (pb_rows p))"
    and send: "\<And>x. x \<in> set (pb_rows p) \<Longrightarrow> sendable k x" and ripe: "all_ripe T p"
  shows "card (unpublished_ids (snd (tick k tw p))) = card (unpublished_ids p) - nat (whole (tw_limit tw))"
    "all_ripe T (snd (tick k tw p))"
proof -
  let ?ids = "picked (tw_now tw) (nat (whole (tw_limit tw))) [] (pb_rows p)"
  note all2 = tick_smooth_rows [OF tw(1) keys send]
  have same: "{x \<in> set (pb_rows (snd (tick k tw p))). x_published x = None} =
      {x \<in> set (pb_rows p). x_published x = None \<and> x_id x \<notin> set ?ids}"
    (is "?L = ?R")
  proof
    show "?L \<subseteq> ?R"
    proof
      fix y assume "y \<in> ?L"
      then obtain x where "x \<in> set (pb_rows p)" "x_id y = x_id x \<and> (if x_id x \<in> set ?ids then x_published y \<noteq> None else y = x)"
        "x_published y = None" using list_all2_partner(1) [OF all2, of y] by blast
      then show "y \<in> ?R" by (auto split: if_splits)
    qed
    show "?R \<subseteq> ?L" using list_all2_partner(2) [OF all2] by fastforce
  qed
  then have "unpublished_ids (snd (tick k tw p)) = unpublished_ids p - set ?ids"
    by (auto simp: unpublished_ids_def)
  then show "card (unpublished_ids (snd (tick k tw p))) = card (unpublished_ids p) - nat (whole (tw_limit tw))"
    using picked_card [OF keys ripe tw(2)] by (simp add: card_Diff_subset)
  show "all_ripe T (snd (tick k tw p))" using same ripe by (auto simp: all_ripe_def)
qed

lemma progress_sendable:
  "outbox_progress p p' \<Longrightarrow> (\<And>x. x \<in> set (pb_rows p) \<Longrightarrow> sendable k x) \<Longrightarrow> y \<in> set (pb_rows p') \<Longrightarrow> sendable k y"
  unfolding outbox_progress_def using list_all2_partner(1) truncate_fields by (metis cell_step_def sendable_def)

lemma run_smooth:
  assumes "\<And>tw. tw \<in> set tws \<Longrightarrow> smooth tw \<and> T \<le> tw_now tw" "distinct (map x_id (pb_rows p))"
    "\<And>x. x \<in> set (pb_rows p) \<Longrightarrow> sendable k x" "all_ripe T p"
  shows "card (unpublished_ids (run_ticks k tws p)) = card (unpublished_ids p) - (\<Sum>tw\<leftarrow>tws. nat (whole (tw_limit tw)))"
  using assms
proof (induction tws arbitrary: p)
  case (Cons tw tws)
  have tw: "smooth tw" "T \<le> tw_now tw" using Cons.prems(1) by auto
  have pr: "outbox_progress p (snd (tick k tw p))" using tick_progress tw Cons.prems(2) by (simp add: smooth_def)
  have "card (unpublished_ids (run_ticks k tws (snd (tick k tw p)))) =
      card (unpublished_ids (snd (tick k tw p))) - (\<Sum>tw\<leftarrow>tws. nat (whole (tw_limit tw)))"
    using Cons.IH [of "snd (tick k tw p)"] Cons.prems progress_ids [OF pr] progress_sendable [OF pr Cons.prems(3)]
      tick_smooth(2) [OF tw Cons.prems(2-4)] by simp
  then show ?case using tick_smooth(1) [OF tw Cons.prems(2-4)] by simp
qed simp

lemma run_publishes:
  assumes keys: "distinct (map x_id (pb_rows p))" and send: "\<And>x. x \<in> set (pb_rows p) \<Longrightarrow> sendable k x" and ripe: "all_ripe T p"
    and failing: "\<forall>tw\<in>set failing. orderly tw \<and> timely T tw" and good: "\<forall>tw\<in>set good. smooth tw \<and> T \<le> tw_now tw"
    and n: "length (pb_rows p) \<le> (\<Sum>tw\<leftarrow>good. nat (whole (tw_limit tw)))"
  shows "\<forall>y\<in>set (pb_rows (run_ticks k (failing @ good) p)). x_published y \<noteq> None"
proof -
  let ?m = "run_ticks k failing p"
  have pr: "outbox_progress p ?m" using run_progress keys failing by blast
  have s: "\<And>x. x \<in> set (pb_rows ?m) \<Longrightarrow> sendable k x" using progress_sendable [OF pr] send by blast
  have l: "length (pb_rows ?m) = length (pb_rows p)" using progress_ids [OF pr] by (metis length_map)
  have "card (unpublished_ids ?m) \<le> length (pb_rows ?m)"
    unfolding unpublished_ids_def by (rule order_trans [OF card_image_le]) (auto intro: order_trans [OF card_mono card_length])
  then have "card (unpublished_ids (run_ticks k (failing @ good) p)) = 0"
    using run_smooth [of good T ?m k] good n l progress_ids [OF pr] keys s run_ripe [of failing T p k] failing ripe by simp
  then show ?thesis by (auto simp: unpublished_ids_def)
qed

end
