(* ===== verification/Outbox_Properties.thy ===== *)
theory Outbox_Properties
  imports Feed_Properties Outbox_Delivery
begin

text \<open>
  From the committed outbox to the sockets: what is published was offered to every
  connection of its room, and what was committed is offered once the failures end.
\<close>

section \<open>Published means offered\<close>

text \<open>
  C9: whatever fails during any number of ticks, the rows of the outbox stay the same
  events and stay published, and a row becomes published only if every connection that was
  in its room has got the event written to it or into its buffer, or was closed.
\<close>

theorem published_only_after_offer:
  assumes "\<forall>tw\<in>set tws. orderly tw" "distinct (map x_id (pb_rows p))"
  shows "list_all2 (\<lambda>x y. x_id y = x_id x \<and> outbox_row.truncate y = outbox_row.truncate x \<and>
       (x_published x \<noteq> None \<longrightarrow> x_published y \<noteq> None) \<and>
       (x_published x = None \<and> x_published y \<noteq> None \<longrightarrow>
          (\<forall>i. known i (pb_hub p) \<and> i \<in> set (members_of (o_room x) (pb_hub p)) \<longrightarrow>
             offered i (o_envelope x) (pb_hub (run_ticks k tws p)))))
     (pb_rows p) (pb_rows (run_ticks k tws p))"
  using run_progress [of tws p k] assms by (simp add: outbox_progress_def cell_step_def [abs_def])

definition outbox_start :: publisher where
  "outbox_start = \<lparr>pb_rows = [fresh_cell 1 2000 (outbox_row_of opened_event)], pb_pointers = [], pb_hub = hello_hub\<rparr>"

text \<open>A tick during which every query fails, and a tick in which none does.\<close>

definition demo_row_world :: "failure option \<Rightarrow> row_world" where
  "demo_row_world e = \<lparr>rw_now = 3000, rw_server = demo_sw,
     rw_answers = (\<lambda>_. case e of None \<Rightarrow> Inr (Granted (Teacher demo_teacher demo_teacher) demo_teacher) | Some f \<Rightarrow> Inl f),
     rw_mark = e, rw_release = None\<rparr>"

definition demo_tick :: "int \<Rightarrow> failure option \<Rightarrow> tick_world" where
  "demo_tick now e = \<lparr>tw_limit = Whole 100, tw_worker = ''w'', tw_paused = False, tw_now = now, tw_claim = None, tw_held = [],
     tw_order = id, tw_rows = (\<lambda>_. demo_row_world e), tw_projections = False, tw_pnow = now, tw_pclaim = None, tw_pheld = [],
     tw_porder = id, tw_pointers = (\<lambda>_. row_world.extend (demo_row_world e) \<lparr>pw_valid = (\<lambda>_. True), pw_decisions = (\<lambda>_. Inr AllowDelivery)\<rparr>)\<rparr>"

lemma demo_tick_ok: "orderly (demo_tick now e)" "smooth (demo_tick now None)" "tw_now (demo_tick now e) = now"
  by (simp_all add: orderly_def smooth_def demo_tick_def demo_row_world_def max_safe_integer_def)

lemma outbox_start_keys: "distinct (map x_id (pb_rows outbox_start))"
  by (simp add: outbox_start_def)

lemma open_outbox: "outbox open_db = [outbox_row_of opened_event]"
  by (simp add: open_db_def)

lemma demo_cell:
  "x_published (fresh_cell 1 2000 (outbox_row_of opened_event)) = None" "o_room (fresh_cell 1 2000 (outbox_row_of opened_event)) = demo_id CHR ''0''"
  "o_envelope (fresh_cell 1 2000 (outbox_row_of opened_event)) = opened_event"
  by (simp_all add: fresh_cell_def outbox_row.extend_def outbox_row_of_def) (simp add: opened_event_def demo_pg)

lemma demo_ripe: "all_ripe 150000 outbox_start"
  by (simp add: all_ripe_def outbox_start_def claimable_def lock_free_def fresh_cell_def outbox_row.extend_def outbox_row_of_def)

lemma demo_failing: "\<forall>tw\<in>set [demo_tick 3000 (Some (Failure ''down''))]. orderly tw \<and> timely 150000 tw"
  by (simp add: demo_tick_ok timely_def) (simp add: demo_tick_def demo_row_world_def)

lemma demo_good: "\<forall>tw\<in>set [demo_tick 200000 None]. smooth tw \<and> 150000 \<le> tw_now tw"
  "(\<Sum>tw\<leftarrow>[demo_tick 200000 None]. nat (whole (tw_limit tw))) = 100"
  by (simp_all add: demo_tick_ok) (simp add: demo_tick_def)

lemma hello_member: "0 \<in> set (members_of (demo_id CHR ''0'') hello_hub)"
  by (simp add: hello_hub_def hub_connect_def Let_def receive_def conn_def jm_get_def new_connection_def demo_contracts_def hello_frame_def
      upd_conn_def members_of_def)

theorem published_only_after_offer_witness:
  "offered 0 opened_event (pb_hub (run_ticks demo_contracts ([demo_tick 3000 (Some (Failure ''down''))] @ [demo_tick 200000 None]) outbox_start))"
proof -
  let ?tws = "[demo_tick 3000 (Some (Failure ''down''))] @ [demo_tick 200000 None]"
  have s: "sendable demo_contracts x" if "x \<in> set (pb_rows outbox_start)" for x
    using that demo_cell by (simp add: outbox_start_def sendable_def demo_contracts_def) (simp add: opened_event_def)
  have pub: "\<forall>y\<in>set (pb_rows (run_ticks demo_contracts ?tws outbox_start)). x_published y \<noteq> None"
    by (rule run_publishes [OF outbox_start_keys s demo_ripe demo_failing demo_good(1)])
      (simp_all only: demo_good(2), simp add: outbox_start_def)
  have ord: "\<forall>tw\<in>set ?tws. orderly tw" by (simp add: demo_tick_ok)
  note all = published_only_after_offer [OF ord outbox_start_keys, of demo_contracts]
  have "fresh_cell 1 2000 (outbox_row_of opened_event) \<in> set (pb_rows outbox_start)" by (simp add: outbox_start_def)
  from list_all2_partner(2) [OF all this] pub show ?thesis
    using demo_cell hello_member hello_hub_conn(1) by (auto simp: outbox_start_def)
qed

section \<open>Committed means offered, once the failures end\<close>

text \<open>
  C1: take the outbox of any reachable state of the server, in whatever state of delivery,
  and any sequence of failing ticks; then ticks without a failure, from the time at which
  the last lock and delay have run out, publish every row, and every connection that was
  in the room has got every event that was not yet published, or was closed.
\<close>

theorem committed_events_are_offered:
  assumes "reachable d" "map outbox_row.truncate (pb_rows p) = outbox d" "distinct (map x_id (pb_rows p))"
    and "\<forall>x\<in>set (outbox d). envelope_schema k (o_envelope x) \<and> canonical (roomId (o_envelope x))"
    and "all_ripe T p" "\<forall>tw\<in>set failing. orderly tw \<and> timely T tw"
    and "\<forall>tw\<in>set good. smooth tw \<and> T \<le> tw_now tw" "length (outbox d) \<le> (\<Sum>tw\<leftarrow>good. nat (whole (tw_limit tw)))"
  shows "(\<forall>y\<in>set (pb_rows (run_ticks k (failing @ good) p)). x_published y \<noteq> None) \<and>
     (\<forall>x\<in>set (pb_rows p). x_published x = None \<longrightarrow>
        (\<forall>i. known i (pb_hub p) \<and> i \<in> set (members_of (o_room x) (pb_hub p)) \<longrightarrow>
           offered i (o_envelope x) (pb_hub (run_ticks k (failing @ good) p))))"
proof -
  let ?q = "run_ticks k (failing @ good) p"
  have ord: "\<And>tw. tw \<in> set (failing @ good) \<Longrightarrow> orderly tw" using assms(6,7) by (auto simp: smooth_def)
  have all: "outbox_progress p ?q" using run_progress [OF ord assms(3)] .
  have send: "sendable k x" if "x \<in> set (pb_rows p)" for x
  proof -
    have x: "outbox_row.truncate x \<in> set (outbox d)" using that assms(2) by (metis image_eqI set_map)
    have "o_room (outbox_row.truncate x) = pg_uuid (roomId (o_envelope (outbox_row.truncate x)))"
      using outbox_mirrors(2) [OF _ x] reachable_invs [OF assms(1)] by (simp add: room_inv_def)
    then show ?thesis using x assms(4) by (auto simp: sendable_def canonical_def outbox_row.truncate_def)
  qed
  have "length (pb_rows p) = length (outbox d)" using assms(2) by (metis length_map)
  then have "\<forall>y\<in>set (pb_rows ?q). x_published y \<noteq> None"
    using run_publishes [OF assms(3) send assms(5-7)] assms(8) by simp
  moreover have "\<forall>x\<in>set (pb_rows p). \<exists>y\<in>set (pb_rows ?q). cell_step (pb_hub p) (pb_hub ?q) x y"
    using all list_all2_partner(2) unfolding outbox_progress_def by metis
  ultimately show ?thesis unfolding cell_step_def by blast
qed

theorem committed_events_are_offered_witness:
  "offered 0 opened_event (pb_hub (run_ticks demo_contracts ([demo_tick 3000 (Some (Failure ''down''))] @ [demo_tick 200000 None]) outbox_start)) \<and>
   list_all (\<lambda>y. x_published y \<noteq> None)
     (pb_rows (run_ticks demo_contracts ([demo_tick 3000 (Some (Failure ''down''))] @ [demo_tick 200000 None]) outbox_start))"
proof -
  have rows: "map outbox_row.truncate (pb_rows outbox_start) = outbox open_db"
    by (simp add: open_outbox outbox_start_def fresh_cell_def outbox_row_of_def outbox_row.truncate_def outbox_row.extend_def)
  have env: "\<forall>x\<in>set (outbox open_db). envelope_schema demo_contracts (o_envelope x) \<and> canonical (roomId (o_envelope x))"
    by (simp add: open_outbox outbox_row_of_def demo_contracts_def canonical_def) (simp add: opened_event_def demo_pg)
  have n: "length (outbox open_db) \<le> (\<Sum>tw\<leftarrow>[demo_tick 200000 None]. nat (whole (tw_limit tw)))"
    by (simp only: demo_good(2) open_outbox) simp
  show ?thesis
    using committed_events_are_offered [OF demo_open_reachable rows outbox_start_keys env demo_ripe demo_failing demo_good(1) n]
      demo_cell hello_member hello_hub_conn(1) by (simp add: outbox_start_def list_all_iff)
qed

end
