(* ===== verification/Panel_Properties.thy ===== *)
theory Panel_Properties
  imports Session_Properties Projection_Coordinator
begin

text \<open>
  What the browser derives and sends: concept maps from patches, panels that are published
  together, the agent's status, the roster, the commands a user's intents become, and the
  view kept in the address.
\<close>















text \<open>
  C36: the roster check of the browser accepts exactly the rooms with four distinct human
  students under exactly the four pseudonyms and a distinct agent with its fixed identity.
\<close>

theorem roster_check_is_exact:
  "assertRoomRosterIntegrity room = Inr () \<longleftrightarrow>
     distinct (map pt_actorId (rd_participants room)) \<and> nv_actorId (rd_nova room) \<notin> pt_actorId ` set (rd_participants room) \<and>
     distinct (map pt_pseudonym (rd_participants room)) \<and> pt_pseudonym ` set (rd_participants room) = set STUDENT_PSEUDONYMS \<and>
     list_all (\<lambda>p. pt_kind p = ''human'' \<and> pt_role p = ''student'') (rd_participants room) \<and>
     nv_kind (rd_nova room) = ''agent'' \<and> nv_role (rd_nova room) = ''socratic_facilitator'' \<and> nv_name (rd_nova room) = ''Nova Agent''"
  by (simp add: assertRoomRosterIntegrity_def rosterIntegrity_iff list_all_iff)



text \<open>
  C37: the view a user selects survives the address bar: writing the preferences into any
  query string and reading them back gives the same preferences.
\<close>

theorem view_preferences_survive:
  assumes "vp_window p \<in> set ROOM_VIEW_WINDOWS" "vp_view p \<in> set ROOM_VIEW_NAMES"
  shows "parseRoomViewPreferences (roomViewSearch p base) = p"
  by (rule view_roundtrip [OF assms])

theorem view_preferences_survive_witness:
  "parseRoomViewPreferences (roomViewSearch \<lparr>vp_window = ''session_45m'', vp_view = ''observed''\<rparr> [(''view'', ''human_only''), (''x'', ''1'')]) =
     \<lparr>vp_window = ''session_45m'', vp_view = ''observed''\<rparr>"
  by (rule view_preferences_survive) (simp_all add: ROOM_VIEW_WINDOWS_def ROOM_VIEW_NAMES_def)

end
