(* ===== verification/Spec2Isabelle.thy ===== *)
theory Spec2Isabelle
  imports Room_Properties Session_Properties Feed_Properties Outbox_Properties Panel_Properties
begin

text \<open>
  Learning Orbit is a classroom pilot. A teacher opens a timed room, four students under
  fixed pseudonyms talk in it, an agent may answer, and every participant follows the
  room's event ledger in the browser. The program is a Fastify server over PostgreSQL
  (\<^verbatim>\<open>src/apps/server\<close>), a Next.js client (\<^verbatim>\<open>src/apps/web\<close>) and the contract package both use
  (\<^verbatim>\<open>src/packages/contracts\<close>). This development models the path of an event through all
  three: from a command at the server, through the stored ledger, the event page and the
  socket, into the ledger, socket, panels and command queue of a browser.

  \<^bold>\<open>How the parts interact.\<close> Commands reach \<^verbatim>\<open>CommandService.dispatch\<close>, which routes them to
  the lifecycle or the message service; both write only through
  \<^verbatim>\<open>RoomEventRepository.transact\<close>, which appends to \<^verbatim>\<open>room_event\<close>, \<^verbatim>\<open>outbox_event\<close> and
  \<^verbatim>\<open>analytics_event_queue\<close> in one transaction. \<^verbatim>\<open>RoomService\<close> creates rooms and seats and
  exchanges seat codes for sessions. A browser loads the ledger in pages over
  \<^verbatim>\<open>GET /v1/rooms/:roomId/events\<close> and follows it over a socket that the \<^verbatim>\<open>RoomHub\<close> feeds;
  each delivery asks the database again whether the session may still read the room. In
  the browser \<^verbatim>\<open>HydratedSessionState\<close> owns the ledger, the store, the projections and the
  socket.

  \<^bold>\<open>Shared theories.\<close>
  \<^item> \<^verbatim>\<open>Orbit_Prelude\<close>: the actions \<open>('s, 'e, 'a) act\<close> in which asynchronous methods that read
    and write a state and may throw are written, their invariant rules (\<open>keeps\<close>, \<open>valid\<close>),
    JavaScript maps as association lists (locale \<open>keyed_store\<close>), list and option lemmas.
  \<^item> \<^verbatim>\<open>Js_Data\<close>: JSON, JavaScript values, dates, UUID text and \<^verbatim>\<open>clonePlainJsonData\<close> with its
    depth and size budget (\<^verbatim>\<open>room-event-repository.ts\<close>).

  \<^bold>\<open>The server's rooms\<close> (\<^verbatim>\<open>apps/server/src/modules/rooms\<close>).
  \<^item> \<^verbatim>\<open>Seat_Codes\<close>: \<^verbatim>\<open>seat-codes.ts\<close>. HMAC-SHA256 and the random source are parameters.
  \<^item> \<^verbatim>\<open>Room_Store\<close>: the tables as lists of rows, with the statements the services issue and
    the uniqueness constraints of the migrations.
  \<^item> \<^verbatim>\<open>Room_Ledger\<close>, \<^verbatim>\<open>Ledger_Invariant\<close>: \<^verbatim>\<open>room-event-repository.ts\<close>, and the invariant
    that events are numbered 1, 2, 3, \<open>\<dots>\<close> with outbox and analytics queue in step.
  \<^item> \<^verbatim>\<open>Room_Lifecycle\<close>, \<^verbatim>\<open>Room_Status\<close>: \<^verbatim>\<open>lifecycle-service.ts\<close>, and the automaton over the
    ledger that the stored status follows.
  \<^item> \<^verbatim>\<open>Room_Messages\<close>, \<^verbatim>\<open>Message_History\<close>: \<^verbatim>\<open>message-service.ts\<close>, both attachment validators
    (locale \<open>attachment_validator\<close>), and the shape of a message's history.
  \<^item> \<^verbatim>\<open>Room_Commands\<close>: \<^verbatim>\<open>command-service.ts\<close>; the locale \<open>command_frame\<close> carries a property
    of the database through every command.
  \<^item> \<^verbatim>\<open>Room_Admission\<close>, \<^verbatim>\<open>Seat_Allocation\<close>: \<^verbatim>\<open>room-service.ts\<close>, its generator loops, the
    roster invariant and the round trip from creation to joining.
  \<^item> \<^verbatim>\<open>Reachable_Rooms\<close>: \<open>room_step\<close> and \<open>reachable\<close>, every interleaving of the services'
    transactions with other writers of the tables the services only read.
  \<^item> \<^verbatim>\<open>Room_Guarantees\<close>, \<^verbatim>\<open>Demo_School\<close>, \<^verbatim>\<open>Room_Properties\<close>: lemmas, a concrete school, and
    the guarantees of the room services.

  \<^bold>\<open>The server's feed\<close> (\<^verbatim>\<open>modules/auth\<close>, \<^verbatim>\<open>modules/realtime\<close>, \<^verbatim>\<open>routes.ts\<close>).
  \<^item> \<^verbatim>\<open>Delivery_Access\<close>: \<^verbatim>\<open>session-service.ts\<close>, \<^verbatim>\<open>realtime-delivery-authorizer.ts\<close>,
    \<^verbatim>\<open>room-event-http-access.ts\<close>, \<^verbatim>\<open>projection-delivery-decision.ts\<close>.
  \<^item> \<^verbatim>\<open>Room_Hub\<close>, \<^verbatim>\<open>Hub_Replay\<close>: \<^verbatim>\<open>connection.ts\<close>, \<^verbatim>\<open>room-hub.ts\<close>, \<^verbatim>\<open>backpressure.ts\<close>,
    \<^verbatim>\<open>ephemeral-signals.ts\<close>; the step relation \<open>feed_step\<close> of one connection among others.
  \<^item> \<^verbatim>\<open>Outbox_Publisher\<close>, \<^verbatim>\<open>Outbox_Delivery\<close>, \<^verbatim>\<open>Outbox_Properties\<close>: \<^verbatim>\<open>outbox-publisher.ts\<close> and
    \<^verbatim>\<open>projection-outbox-repository.ts\<close>; a tick claims due rows, broadcasts them and marks or
    postpones them, whatever of it fails.
  \<^item> \<^verbatim>\<open>Event_Feed\<close>: the event route, and \<^verbatim>\<open>getRoomEvents\<close> of the browser's
    \<^verbatim>\<open>session-gateway.ts\<close> with the error codes it accepts.

  \<^bold>\<open>The browser\<close> (\<^verbatim>\<open>apps/web/src/lib\<close>).
  \<^item> \<^verbatim>\<open>Wire_Frames\<close>: the frames and events of \<^verbatim>\<open>packages/contracts/src/realtime.ts\<close> and
    \<^verbatim>\<open>core-room-event.ts\<close>; compiled JSON schemas are the record \<open>contracts\<close>.
  \<^item> \<^verbatim>\<open>Client_Ledger\<close>, \<^verbatim>\<open>Ledger_Replay\<close>: \<^verbatim>\<open>event-ledger.ts\<close>; the locale \<open>contiguous_cursor\<close>
    says what a cursor that advances by one at a time guarantees.
  \<^item> \<^verbatim>\<open>Session_Store\<close>: \<^verbatim>\<open>session-store.ts\<close>, \<^verbatim>\<open>room-identity.ts\<close>, \<^verbatim>\<open>room-route.ts\<close>.
  \<^item> \<^verbatim>\<open>Concept_Contract\<close>, \<^verbatim>\<open>Concept_Reducer\<close>, \<^verbatim>\<open>Projection_Sync\<close>,
    \<^verbatim>\<open>Projection_Coordinator\<close>: the analytics contract and the browser's panels.
  \<^item> \<^verbatim>\<open>Room_Socket\<close>, \<^verbatim>\<open>Socket_Cursor\<close>: \<^verbatim>\<open>room-socket.ts\<close>; the locales \<open>socket_frame\<close>,
    \<open>quiet_host\<close> and \<open>orderly_host\<close> state what its callbacks may do.
  \<^item> \<^verbatim>\<open>Command_Bus\<close>, \<^verbatim>\<open>Agent_Status\<close>: \<^verbatim>\<open>session-command-bus.ts\<close> and the merging of the
    agent's status.
  \<^item> \<^verbatim>\<open>Hydrated_State\<close>, \<^verbatim>\<open>Hydrated_Session\<close>, \<^verbatim>\<open>Session_Invariants\<close>, \<^verbatim>\<open>Session_Safety\<close>,
    \<^verbatim>\<open>Session_Reach\<close>, \<^verbatim>\<open>Session_Recovery\<close>: \<^verbatim>\<open>hydrated-session-state.ts\<close> as the host of the
    socket, the states reachable by any interleaving of its inputs and their invariant, and
    the progress of recovery.
  \<^item> \<^verbatim>\<open>Shared_Log\<close>: client and server together. \<^verbatim>\<open>Demo_Client\<close> is a student of the concrete
    school; \<^verbatim>\<open>Session_Properties\<close>, \<^verbatim>\<open>Feed_Properties\<close> and \<^verbatim>\<open>Panel_Properties\<close> hold the
    theorems.

  \<^bold>\<open>How code becomes definitions.\<close> A class is a record of its private fields, a method a
  function from that record to its result and the new record. A transaction runs as one
  step, as the room's advisory lock makes it; its failure restores the tables. An
  asynchronous method of the socket, the hub or the session is split at its awaits, and
  what the awaited call answered is an argument of the second half, so that every
  interleaving is a sequence of steps. Thrown errors are the left of a sum. Identifiers
  are strings, times are milliseconds as integers. Code outside the repository (Ajv
  validators, HMAC, SHA-256, random generators, clocks, the browser's WebSocket) is an
  argument. Numbers of events are unbounded naturals; \<^verbatim>\<open>bigint\<close> columns and JavaScript's safe
  integers are limits no room approaches, and the checks the code makes for them are kept.

  \<^bold>\<open>What the theorems show.\<close>
  \<^item> Of the stored ledger: it is gapless and append-only, mirrored by the outbox, pages of it
    are what was asked for, its messages have proper histories and its lifecycle is an
    automaton whose final state is closed.
  \<^item> Of commands: repeats are answered from the ledger, failures leave nothing, stale
    revisions conflict, only a seated student adds a message, closing cancels the room's work.
  \<^item> Of admission: rooms have four seats, every returned code joins its seat and no other,
    a join replaces the seat's sessions, creation ends.
  \<^item> Of the outbox: a row is marked published only after its event was offered to every
    connection of its room, and once failures end every committed event is offered.
  \<^item> Of delivery: events go only to whoever may read them at that moment, a resumed
    connection has no gap, a logout ends access, refusals arrive as what they are.
  \<^item> Of the browser: in every reachable state it shows a prefix of the log, its histories
    are bounded, its projections are those of its role; its recovery reaches the end of the
    server's log, its panels are published together, its commands are valid.
  \<^item> Three theorems are about defects: an upper-case command id makes pages unreadable, a
    revision that clears a reply is shown with the old one, and a database failure closes
    the socket with a code the browser takes as final.

  \<^bold>\<open>Bounds and fuel.\<close> Recovery asks for at most 1000 pages (\<open>MAX_RECOVERY_PAGES\<close> of the code);
  the theorem about it has the length of the log within that many full pages as its
  hypothesis. The generator loops of \<^verbatim>\<open>room-service.ts\<close> are a \<^verbatim>\<open>partial_function (option)\<close> and
  proved to return for every generator that produces an unused value. All other loops are
  structural. The publisher's progress theorem asks for as many failure-free ticks as their
  limits need to cover the outbox.

  \<^bold>\<open>Not modelled.\<close> Advisory locks and the queueing of concurrent transactions (a transaction
  is one step, and so is a tick of the publisher); telemetry spans; the timers of the socket and the connection, whose
  expiry is an input; the analytics, agent, media, governance and job services, whose
  writes to shared tables are the \<open>room_step\<close> of other writers; request signing, rate
  limits and the wiring of the server, which hold no state of a room; React components,
  which render the modelled state; the Python worker, containers and scripts.
\<close>

end
